(* ===== verification/Bpf_Prelude.thy ===== *)
theory Bpf_Prelude
  imports Main "HOL-Library.Word" "HOL-Library.AList"
begin

unbundle bit_operations_syntax

text \<open>
  Shared vocabulary of the development: the fixed-width integers of the C sources, the
  little-endian byte encodings the helpers of \<open>src/bpf\<close> rely on, and BPF hash maps
  with their capacity. The interface of a BPF hash map is the locale \<open>bpf_hash\<close>; it
  is interpreted on \<open>bpf_map\<close> at the end of the theory.
\<close>

named_theorems bpf_defs \<open>definitions of the helper layer, unfolded by component proofs\<close>
named_theorems wf_intros \<open>preservation of map well-formedness by the map operations\<close>

section \<open>Machine integers and bytes\<close>

type_synonym u8 = "8 word"
type_synonym u16 = "16 word"
type_synonym u32 = "32 word"
type_synonym u64 = "64 word"

text \<open>
  All targets of \<open>src/bpf/gen.go\<close> are little-endian. \<open>le_nat\<close> is the number a
  byte sequence stands for, least significant byte first, and \<open>nat_bytes n\<close> writes a
  number into \<open>n\<close> bytes.
\<close>

fun le_nat :: "u8 list \<Rightarrow> nat" where
  "le_nat [] = 0"
| "le_nat (b # bs) = unat b + 256 * le_nat bs"

fun nat_bytes :: "nat \<Rightarrow> nat \<Rightarrow> u8 list" where
  "nat_bytes 0 x = []"
| "nat_bytes (Suc n) x = word_of_nat (x mod 256) # nat_bytes n (x div 256)"

definition le_word :: "u8 list \<Rightarrow> 'a::len word" where
  "le_word bs = word_of_nat (le_nat bs)"

text \<open>The byte swaps behind \<open>bpf_ntohs\<close>/\<open>bpf_htons\<close> and \<open>bpf_ntohl\<close>/\<open>bpf_htonl\<close>.\<close>

definition bpf_ntohs :: "u16 \<Rightarrow> u16" where
  "bpf_ntohs w = le_word (rev (nat_bytes 2 (unat w)))"

definition bpf_ntohl :: "u32 \<Rightarrow> u32" where
  "bpf_ntohl w = le_word (rev (nat_bytes 4 (unat w)))"

text \<open>A 64-bit word from its high and low halves: \<open>((uint64_t)hi << 32) | lo\<close>.\<close>

definition join32 :: "u32 \<Rightarrow> u32 \<Rightarrow> u64" where
  "join32 hi lo = push_bit 32 (ucast hi) OR ucast lo"

text \<open>
  A zero-initialised buffer of \<open>n\<close> bytes after a helper has stored \<open>bs\<close> at its
  start: it always has exactly \<open>n\<close> bytes.
\<close>

definition fill_buf :: "nat \<Rightarrow> u8 list \<Rightarrow> u8 list" where
  "fill_buf n bs = take n (bs @ replicate n 0)"

text \<open>Overwriting the first bytes of a buffer, the rest is left as it was.\<close>

definition write_prefix :: "u8 list \<Rightarrow> u8 list \<Rightarrow> u8 list" where
  "write_prefix new old = new @ drop (length new) old"

section \<open>BPF hash maps\<close>

text \<open>
  A BPF hash map is created with a fixed number of slots (\<open>max_entries\<close>); an update
  with a new key fails with \<open>-E2BIG\<close> once they are used, an update with
  \<open>BPF_NOEXIST\<close> fails with \<open>-EEXIST\<close> on a present key. No program of the
  sources looks at these return codes, so a failed update is the unchanged map.
  \<open>bpf_map_store\<close> is a write through the pointer a lookup returned.
\<close>

record ('k, 'v) bpf_map =
  entries :: "('k \<times> 'v) list"
  max_entries :: nat

datatype bpf_update_flag = BPF_ANY | BPF_NOEXIST

definition bpf_map_create :: "nat \<Rightarrow> ('k, 'v) bpf_map" where
  "bpf_map_create n = \<lparr>entries = [], max_entries = n\<rparr>"

definition bpf_map_lookup_elem :: "('k, 'v) bpf_map \<Rightarrow> 'k \<Rightarrow> 'v option" where
  "bpf_map_lookup_elem m k = map_of (entries m) k"

definition bpf_map_update_elem ::
    "('k, 'v) bpf_map \<Rightarrow> 'k \<Rightarrow> 'v \<Rightarrow> bpf_update_flag \<Rightarrow> ('k, 'v) bpf_map" where
  "bpf_map_update_elem m k v fl =
     (case map_of (entries m) k of
        Some _ \<Rightarrow> (case fl of
            BPF_NOEXIST \<Rightarrow> m
          | BPF_ANY \<Rightarrow> m\<lparr>entries := AList.update k v (entries m)\<rparr>)
      | None \<Rightarrow>
          (if length (entries m) < max_entries m
           then m\<lparr>entries := (k, v) # entries m\<rparr> else m))"

definition bpf_map_delete_elem :: "('k, 'v) bpf_map \<Rightarrow> 'k \<Rightarrow> ('k, 'v) bpf_map" where
  "bpf_map_delete_elem m k = m\<lparr>entries := AList.delete k (entries m)\<rparr>"

definition bpf_map_store :: "('k, 'v) bpf_map \<Rightarrow> 'k \<Rightarrow> 'v \<Rightarrow> ('k, 'v) bpf_map" where
  "bpf_map_store m k v = m\<lparr>entries := AList.map_entry k (\<lambda>_. v) (entries m)\<rparr>"

definition wf_bpf_map :: "('k, 'v) bpf_map \<Rightarrow> bool" where
  "wf_bpf_map m \<longleftrightarrow>
     distinct (map fst (entries m)) \<and> length (entries m) \<le> max_entries m"

definition bpf_map_full :: "('k, 'v) bpf_map \<Rightarrow> bool" where
  "bpf_map_full m \<longleftrightarrow> max_entries m \<le> length (entries m)"

definition bpf_map_room :: "nat \<Rightarrow> ('k, 'v) bpf_map \<Rightarrow> bool" where
  "bpf_map_room n m \<longleftrightarrow> length (entries m) + n \<le> max_entries m"

section \<open>Lemmas on bytes and words\<close>

lemma nat_bytes_numeral:
  "nat_bytes (numeral k) x =
     word_of_nat (x mod 256) # nat_bytes (pred_numeral k) (x div 256)"
  by (simp only: numeral_eq_Suc [of k] nat_bytes.simps)

lemma length_nat_bytes [simp]: "length (nat_bytes n x) = n"
  by (induction n arbitrary: x) auto

lemma unat_word_of_nat_byte [simp]: "unat (word_of_nat (x mod 256) :: u8) = x mod 256"
  by (simp add: unat_of_nat)

lemma le_nat_nat_bytes: "le_nat (nat_bytes n x) = x mod 256 ^ n"
  by (induction n arbitrary: x) (auto simp: mod_mult2_eq)

lemma le_nat_bound: "le_nat bs < 256 ^ length bs"
proof (induction bs)
  case (Cons b bs)
  have "unat b < 256"
    using unsigned_less [of b] by simp
  with Cons show ?case by simp
qed simp

lemma nat_bytes_le_nat: "length bs = n \<Longrightarrow> nat_bytes n (le_nat bs) = bs"
proof (induction bs arbitrary: n)
  case (Cons b bs)
  have b: "unat b < 256"
    using unsigned_less [of b] by simp
  then have "word_of_nat ((unat b + 256 * le_nat bs) mod 256) = b"
    by simp
  moreover have "(unat b + 256 * le_nat bs) div 256 = le_nat bs"
    using b by simp
  ultimately show ?case
    using Cons by auto
qed simp

lemma le_nat_append: "le_nat (xs @ ys) = le_nat xs + 256 ^ length xs * le_nat ys"
  by (induction xs) (auto simp: algebra_simps)

lemma unat_le_word:
  "256 ^ length bs \<le> (2::nat) ^ LENGTH('a::len) \<Longrightarrow> unat (le_word bs :: 'a word) = le_nat bs"
  using le_nat_bound [of bs] by (simp add: le_word_def unat_of_nat)

lemma bpf_ntohs_le_word: "length bs = 2 \<Longrightarrow> bpf_ntohs (le_word bs) = le_word (rev bs)"
  by (simp only: bpf_ntohs_def unat_le_word nat_bytes_le_nat) (simp add: unat_le_word nat_bytes_le_nat)

lemma bpf_ntohl_le_word: "length bs = 4 \<Longrightarrow> bpf_ntohl (le_word bs) = le_word (rev bs)"
  by (simp only: bpf_ntohl_def unat_le_word nat_bytes_le_nat) (simp add: unat_le_word nat_bytes_le_nat)

lemma le_word_nat_bytes: "LENGTH('a::len) = 8 * n \<Longrightarrow> le_word (nat_bytes n (unat (w :: 'a word))) = w"
proof -
  assume n: "LENGTH('a) = 8 * n"
  have "unat w < 256 ^ n"
    using unsigned_less [of w] n by (simp add: power_mult)
  then show ?thesis
    by (simp add: le_word_def le_nat_nat_bytes)
qed

lemma bpf_ntohs_involution [simp]: "bpf_ntohs (bpf_ntohs w) = w"
  by (simp add: bpf_ntohs_def [of w] bpf_ntohs_le_word le_word_nat_bytes)

lemma bpf_ntohl_involution [simp]: "bpf_ntohl (bpf_ntohl w) = w"
  by (simp add: bpf_ntohl_def [of w] bpf_ntohl_le_word le_word_nat_bytes)

lemma join32_lo [simp]: "(ucast (join32 hi lo) :: u32) = lo"
  by (rule bit_word_eqI) (simp add: join32_def bit_simps)

lemma join32_hi [simp]: "(ucast (drop_bit 32 (join32 hi lo)) :: u32) = hi"
proof (rule bit_word_eqI)
  fix n assume "n < LENGTH(32)"
  moreover have "\<not> bit lo (32 + n)"
    using bit_imp_le_length [of lo "32 + n"] by auto
  ultimately show "bit (ucast (drop_bit 32 (join32 hi lo)) :: u32) n = bit hi n"
    by (simp add: join32_def bit_simps)
qed

lemma join32_halves [simp]: "join32 (ucast (drop_bit 32 w)) (ucast w) = w"
  by (rule bit_word_eqI) (auto simp: join32_def bit_simps)

lemma join32_inj [simp]: "join32 a b = join32 c d \<longleftrightarrow> a = c \<and> b = d"
  by (metis join32_hi join32_lo)

lemma sint_word_of_nat:
  "x < 2 ^ (LENGTH('a::len) - 1) \<Longrightarrow> sint (word_of_nat x :: 'a word) = int x"
proof -
  assume "x < 2 ^ (LENGTH('a) - 1)"
  then have "int x < 2 ^ (LENGTH('a) - Suc 0)"
    by (metis One_nat_def of_nat_less_iff of_nat_numeral of_nat_power)
  then have "signed_take_bit (LENGTH('a) - Suc 0) (int x) = int x"
    by (intro signed_take_bit_int_eq_self) (auto intro: order_trans [of _ 0])
  then show ?thesis
    by (simp add: signed_of_nat)
qed

lemma sint_small: "unat (w :: 'a::len word) < 2 ^ (LENGTH('a) - 1) \<Longrightarrow> sint w = int (unat w)"
  using sint_word_of_nat [of "unat w", where 'a = 'a] by simp

lemma scast_small: "unat (w :: u32) < 2 ^ 31 \<Longrightarrow> unat (scast w :: u64) = unat w"
  by (simp add: scast_eq sint_small unsigned_ucast_eq take_bit_eq_mod)

lemma length_fill_buf [simp]: "length (fill_buf n bs) = n"
  by (simp add: fill_buf_def)

lemma fill_buf_exact [simp]: "length bs = n \<Longrightarrow> fill_buf n bs = bs"
  by (simp add: fill_buf_def)

lemma length_write_prefix:
  "length (write_prefix new old) = max (length new) (length old)"
  by (simp add: write_prefix_def)

lemma take_write_prefix [simp]: "take (length new) (write_prefix new old) = new"
  by (simp add: write_prefix_def)

section \<open>The hash-map contract\<close>

text \<open>
  What the programs rely on: a lookup after an update, a delete or a store, and that every
  operation keeps the map well formed. The client lemmas are proved once here.
\<close>

locale bpf_hash =
  fixes lookup :: "'m \<Rightarrow> 'k \<Rightarrow> 'v option"
    and update :: "'m \<Rightarrow> 'k \<Rightarrow> 'v \<Rightarrow> bpf_update_flag \<Rightarrow> 'm"
    and delete :: "'m \<Rightarrow> 'k \<Rightarrow> 'm"
    and store :: "'m \<Rightarrow> 'k \<Rightarrow> 'v \<Rightarrow> 'm"
    and full :: "'m \<Rightarrow> bool"
    and invar :: "'m \<Rightarrow> bool"
  assumes lookup_update: "lookup (update m k v fl) k' =
      (if k' = k \<and> (lookup m k = None \<and> \<not> full m \<or> lookup m k \<noteq> None \<and> fl = BPF_ANY)
       then Some v else lookup m k')"
    and lookup_delete: "lookup (delete m k) k' = (if k' = k then None else lookup m k')"
    and lookup_store: "lookup (store m k v) k' =
      (if k' = k \<and> lookup m k \<noteq> None then Some v else lookup m k')"
    and invar_update: "invar m \<Longrightarrow> invar (update m k v fl)"
    and invar_delete: "invar m \<Longrightarrow> invar (delete m k)"
    and invar_store: "invar m \<Longrightarrow> invar (store m k v)"
begin

lemma update_other: "k' \<noteq> k \<Longrightarrow> lookup (update m k v fl) k' = lookup m k'"
  by (simp add: lookup_update)

lemma update_any_present: "lookup m k \<noteq> None \<Longrightarrow> lookup (update m k v BPF_ANY) k = Some v"
  by (simp add: lookup_update)

lemma update_new: "lookup m k = None \<Longrightarrow> \<not> full m \<Longrightarrow> lookup (update m k v fl) k = Some v"
  by (simp add: lookup_update)

lemma update_full_lost: "lookup m k = None \<Longrightarrow> full m \<Longrightarrow> lookup (update m k v fl) = lookup m"
  by (simp add: lookup_update fun_eq_iff)

lemma noexist_keeps: "lookup m k = Some w \<Longrightarrow> lookup (update m k v BPF_NOEXIST) = lookup m"
  by (simp add: lookup_update fun_eq_iff)

lemma lookup_after_delete: "lookup (delete m k) k = None"
  by (simp add: lookup_delete)

lemma delete_after_update: "lookup (delete (update m k v fl) k) k' = lookup (delete m k) k'"
  by (simp add: lookup_delete lookup_update)

lemma update_range:
  "lookup (update m k v fl) k' = Some w \<Longrightarrow> (k' = k \<and> w = v) \<or> lookup m k' = Some w"
  by (auto simp: lookup_update split: if_splits)

lemma store_range:
  "lookup (store m k v) k' = Some w \<Longrightarrow> (k' = k \<and> w = v) \<or> lookup m k' = Some w"
  by (auto simp: lookup_store split: if_splits)

lemma delete_range: "lookup (delete m k) k' = Some w \<Longrightarrow> lookup m k' = Some w"
  by (auto simp: lookup_delete split: if_splits)

end

lemma map_of_map_entry_const:
  "map_of (AList.map_entry k (\<lambda>_. v) al) k' =
     (if k' = k \<and> map_of al k \<noteq> None then Some v else map_of al k')"
  by (induction al) auto

lemma map_fst_map_entry: "map fst (AList.map_entry k f al) = map fst al"
  by (induction al) auto

lemma length_map_entry: "length (AList.map_entry k f al) = length al"
  by (induction al) auto

lemma length_update_present:
  "map_of al k \<noteq> None \<Longrightarrow> length (AList.update k v al) = length al"
  by (induction al) auto

lemma wf_bpf_map_update:
  assumes "wf_bpf_map m"
  shows "wf_bpf_map (bpf_map_update_elem m k v fl)"
proof (cases "map_of (entries m) k")
  case None
  then have "k \<notin> set (map fst (entries m))"
    by (simp add: map_of_eq_None_iff)
  with None assms show ?thesis
    by (simp add: wf_bpf_map_def bpf_map_update_elem_def)
next
  case (Some w)
  with assms show ?thesis
    by (cases fl) (simp_all add: wf_bpf_map_def bpf_map_update_elem_def distinct_update
        length_update_present)
qed

interpretation bm: bpf_hash bpf_map_lookup_elem bpf_map_update_elem bpf_map_delete_elem
  bpf_map_store bpf_map_full wf_bpf_map
proof
  fix m :: "('a, 'b) bpf_map" and k k' v fl
  show "bpf_map_lookup_elem (bpf_map_update_elem m k v fl) k' =
      (if k' = k \<and> (bpf_map_lookup_elem m k = None \<and> \<not> bpf_map_full m \<or>
          bpf_map_lookup_elem m k \<noteq> None \<and> fl = BPF_ANY)
       then Some v else bpf_map_lookup_elem m k')"
    by (auto simp: bpf_map_lookup_elem_def bpf_map_update_elem_def bpf_map_full_def update_conv'
        split: option.splits bpf_update_flag.splits)
  show "bpf_map_lookup_elem (bpf_map_delete_elem m k) k' =
      (if k' = k then None else bpf_map_lookup_elem m k')"
    by (simp add: bpf_map_lookup_elem_def bpf_map_delete_elem_def delete_conv')
  show "bpf_map_lookup_elem (bpf_map_store m k v) k' =
      (if k' = k \<and> bpf_map_lookup_elem m k \<noteq> None then Some v else bpf_map_lookup_elem m k')"
    by (simp add: bpf_map_lookup_elem_def bpf_map_store_def map_of_map_entry_const)
next
  fix m :: "('a, 'b) bpf_map" and k v fl
  assume wf: "wf_bpf_map m"
  then show "wf_bpf_map (bpf_map_update_elem m k v fl)"
    by (rule wf_bpf_map_update)
  show "wf_bpf_map (bpf_map_delete_elem m k)"
    using wf length_delete_le [of k "entries m"]
    by (auto simp: wf_bpf_map_def bpf_map_delete_elem_def distinct_delete)
  show "wf_bpf_map (bpf_map_store m k v)"
    using wf by (simp add: wf_bpf_map_def bpf_map_store_def map_fst_map_entry length_map_entry)
qed

lemmas bpf_lookup = bm.lookup_update bm.lookup_delete bm.lookup_store

declare bm.invar_update [wf_intros] bm.invar_delete [wf_intros] bm.invar_store [wf_intros]

text \<open>Room for \<open>n\<close> more keys: the next \<open>n\<close> updates are stored.\<close>

lemma bpf_map_room_not_full: "bpf_map_room n m \<Longrightarrow> 0 < n \<Longrightarrow> \<not> bpf_map_full m"
  by (simp add: bpf_map_room_def bpf_map_full_def)

lemma bpf_map_room_update:
  "bpf_map_room (Suc n) m \<Longrightarrow> bpf_map_room n (bpf_map_update_elem m k v fl)"
  by (auto simp: bpf_map_room_def bpf_map_update_elem_def length_update_present
      split: option.split bpf_update_flag.split)

lemma update_any_room:
  "bpf_map_room (Suc n) m \<Longrightarrow>
     bpf_map_lookup_elem (bpf_map_update_elem m k v BPF_ANY) k' =
       (if k' = k then Some v else bpf_map_lookup_elem m k')"
  by (cases "bpf_map_lookup_elem m k") (simp_all add: bpf_lookup bpf_map_room_not_full)

lemma lookup_create [simp]: "bpf_map_lookup_elem (bpf_map_create n) k = None"
  by (simp add: bpf_map_lookup_elem_def bpf_map_create_def)

lemma wf_bpf_map_create [wf_intros]: "wf_bpf_map (bpf_map_create n)"
  by (simp add: wf_bpf_map_def bpf_map_create_def)

lemma max_entries_ops [simp]:
  "max_entries (bpf_map_update_elem m k v fl) = max_entries m"
  "max_entries (bpf_map_delete_elem m k) = max_entries m"
  "max_entries (bpf_map_store m k v) = max_entries m"
  by (auto simp: bpf_map_update_elem_def bpf_map_delete_elem_def bpf_map_store_def
      split: option.split bpf_update_flag.split)

end
