(* ===== verification/Kern_Types.thy ===== *)
theory Kern_Types
  imports Bpf_Prelude
begin

text \<open>
  The data model of \<open>src/bpf/pktlatency.h\<close>, with the structs that
  \<open>data_common.h\<close>, \<open>go_common.h\<close> and \<open>gotls.bpf.c\<close> add: enums as datatypes
  (with the C value where the code uses it as a number), structs as records, the sizes of
  the structs sent to user space computed by the layout rules of C, and \<open>my_strcpy\<close>.
  Signed 32-bit fields are kept as \<open>32 word\<close> and read with \<open>sint\<close> where the code
  compares them. Pointers are addresses of type \<open>64 word\<close>, \<open>0\<close> is \<open>NULL\<close>.
\<close>

section \<open>Enums\<close>

datatype step_t =
    step_start | SSL_OUT | SYSCALL_OUT | TCP_OUT | IP_OUT | QDISC_OUT | DEV_OUT | NIC_OUT
  | NIC_IN | DEV_IN | IP_IN | TCP_IN | USER_COPY | SYSCALL_IN | SSL_IN | step_end

fun step_code :: "step_t \<Rightarrow> nat" where
  "step_code step_start = 0"
| "step_code SSL_OUT = 1"
| "step_code SYSCALL_OUT = 2"
| "step_code TCP_OUT = 3"
| "step_code IP_OUT = 4"
| "step_code QDISC_OUT = 5"
| "step_code DEV_OUT = 6"
| "step_code NIC_OUT = 7"
| "step_code NIC_IN = 8"
| "step_code DEV_IN = 9"
| "step_code IP_IN = 10"
| "step_code TCP_IN = 11"
| "step_code USER_COPY = 12"
| "step_code SYSCALL_IN = 13"
| "step_code SSL_IN = 14"
| "step_code step_end = 15"

datatype traffic_protocol_t =
    kProtocolUnset | kProtocolUnknown | kProtocolHTTP | kProtocolHTTP2 | kProtocolMySQL
  | kProtocolCQL | kProtocolPGSQL | kProtocolDNS | kProtocolRedis | kProtocolNATS
  | kProtocolMongo | kProtocolKafka | kProtocolMux | kProtocolAMQP | kProtocolRocketMQ
  | kNumProtocols

fun traffic_protocol_code :: "traffic_protocol_t \<Rightarrow> u32" where
  "traffic_protocol_code kProtocolUnset = 0"
| "traffic_protocol_code kProtocolUnknown = 1"
| "traffic_protocol_code kProtocolHTTP = 2"
| "traffic_protocol_code kProtocolHTTP2 = 3"
| "traffic_protocol_code kProtocolMySQL = 4"
| "traffic_protocol_code kProtocolCQL = 5"
| "traffic_protocol_code kProtocolPGSQL = 6"
| "traffic_protocol_code kProtocolDNS = 7"
| "traffic_protocol_code kProtocolRedis = 8"
| "traffic_protocol_code kProtocolNATS = 9"
| "traffic_protocol_code kProtocolMongo = 10"
| "traffic_protocol_code kProtocolKafka = 11"
| "traffic_protocol_code kProtocolMux = 12"
| "traffic_protocol_code kProtocolAMQP = 13"
| "traffic_protocol_code kProtocolRocketMQ = 14"
| "traffic_protocol_code kNumProtocols = 15"

datatype endpoint_role_t = kRoleClient | kRoleServer | kRoleUnknown

datatype source_function_t =
    kSourceFunctionUnknown
  | kSyscallAccept | kSyscallConnect | kSyscallClose | kSyscallWrite | kSyscallRead
  | kSyscallSend | kSyscallRecv | kSyscallSendTo | kSyscallRecvFrom | kSyscallSendMsg
  | kSyscallRecvMsg | kSyscallSendMMsg | kSyscallRecvMMsg | kSyscallWriteV | kSyscallReadV
  | kSyscallSendfile
  | kGoTLSConnWrite | kGoTLSConnRead
  | kSSLWrite | kSSLRead

fun source_function_code :: "source_function_t \<Rightarrow> nat" where
  "source_function_code kSourceFunctionUnknown = 0"
| "source_function_code kSyscallAccept = 1"
| "source_function_code kSyscallConnect = 2"
| "source_function_code kSyscallClose = 3"
| "source_function_code kSyscallWrite = 4"
| "source_function_code kSyscallRead = 5"
| "source_function_code kSyscallSend = 6"
| "source_function_code kSyscallRecv = 7"
| "source_function_code kSyscallSendTo = 8"
| "source_function_code kSyscallRecvFrom = 9"
| "source_function_code kSyscallSendMsg = 10"
| "source_function_code kSyscallRecvMsg = 11"
| "source_function_code kSyscallSendMMsg = 12"
| "source_function_code kSyscallRecvMMsg = 13"
| "source_function_code kSyscallWriteV = 14"
| "source_function_code kSyscallReadV = 15"
| "source_function_code kSyscallSendfile = 16"
| "source_function_code kGoTLSConnWrite = 17"
| "source_function_code kGoTLSConnRead = 18"
| "source_function_code kSSLWrite = 19"
| "source_function_code kSSLRead = 20"

datatype conn_trace_state_t =
    trace_unset | traceable | protocol_not_matched | protocol_unknown | trace_other

fun conn_trace_state_code :: "conn_trace_state_t \<Rightarrow> nat" where
  "conn_trace_state_code trace_unset = 0"
| "conn_trace_state_code traceable = 1"
| "conn_trace_state_code protocol_not_matched = 2"
| "conn_trace_state_code protocol_unknown = 3"
| "conn_trace_state_code trace_other = 4"

datatype control_value_index_t =
    kTargetTGIDIndex | kStirlingTGIDIndex | kEnabledXdpIndex | kEnableFilterByPid
  | kEnableFilterByLocalPort | kEnableFilterByRemotePort | kEnableFilterByRemoteHost
  | kSideFilter | kNumControlValues | kTraceProtocol

fun control_value_index :: "control_value_index_t \<Rightarrow> u32" where
  "control_value_index kTargetTGIDIndex = 0"
| "control_value_index kStirlingTGIDIndex = 1"
| "control_value_index kEnabledXdpIndex = 2"
| "control_value_index kEnableFilterByPid = 3"
| "control_value_index kEnableFilterByLocalPort = 4"
| "control_value_index kEnableFilterByRemotePort = 5"
| "control_value_index kEnableFilterByRemoteHost = 6"
| "control_value_index kSideFilter = 7"
| "control_value_index kNumControlValues = 8"
| "control_value_index kTraceProtocol = 9"

datatype message_type_t = kUnknown | kRequest | kResponse

datatype traffic_direction_t = kEgress | kIngress

datatype conn_type_t = kConnect | kClose | kProtocolInfer

section \<open>Structs\<close>

record protocol_message_t =
  pm_protocol :: traffic_protocol_t
  pm_type :: message_type_t

record sock_key =
  sip0 :: u64
  sip1 :: u64
  dip0 :: u64
  dip1 :: u64
  sport :: u16
  dport :: u16

record conn_id_t =
  ci_tgid :: u32
  ci_start_time_ticks :: u64
  ci_fd :: u32
  ci_tsid :: u64

record conn_id_s_t =
  cs_tgid_fd :: u64
  cs_no_trace :: conn_trace_state_t

record kern_evt =
  ke_func_name :: "u8 list"
  ke_ts :: u64
  ke_ts_delta :: u32
  ke_seq :: u32
  ke_len :: u32
  ke_flags :: u8
  ke_prepend_length_header :: bool
  ke_ifindex :: u32
  ke_conn_id_s :: conn_id_s_t
  ke_step :: step_t
  ke_length_header :: u32

record first_packet_evt =
  fp_ts :: u64
  fp_len :: u32
  fp_flags :: u8
  fp_ifindex :: u32
  fp_step :: step_t
  fp_key :: sock_key

record kern_evt_data =
  kd_ke :: kern_evt
  kd_buf_size :: u32
  kd_msg :: "u8 list"

record kern_evt_ssl_data =
  ks_ke :: kern_evt
  ks_syscall_seq :: u32
  ks_syscall_len :: u32
  ks_buf_size :: u32
  ks_msg :: "u8 list"

record data_args =
  da_source_fn :: source_function_t
  da_sock_event :: bool
  da_fd :: u32
  da_buf :: u64
  da_iov :: u64
  da_iovlen :: u64
  da_msg_len :: u64
  da_ssl_ex_len :: u64
  da_start_ts :: u64
  da_end_ts :: u64

record close_args =
  cl_fd :: u32

record sendfile_args =
  sf_out_fd :: u32
  sf_in_fd :: u32
  sf_count :: u64
  sf_start_ts :: u64
  sf_end_ts :: u64

record connect_args =
  co_addr :: u64
  co_fd :: u32
  co_start_ts :: u64

record accept_args =
  ac_addr :: u64
  ac_sock_alloc_socket :: u64

text \<open>
  The 16 bytes of an \<open>in6_addr\<close> as its four 32-bit words, and the union
  \<open>sockaddr_t\<close> by the fields of its largest member; \<open>sa.sa_family\<close> and
  \<open>in6.sin6_family\<close> are the same two bytes.
\<close>

record in6_addr =
  u6_addr32_0 :: u32
  u6_addr32_1 :: u32
  u6_addr32_2 :: u32
  u6_addr32_3 :: u32

record sockaddr_t =
  sa_family :: u16
  sin6_port :: u16
  sin6_flowinfo :: u32
  sin6_addr :: in6_addr
  sin6_scope_id :: u32

record conn_info_t =
  conn_id :: conn_id_t
  read_bytes :: u64
  write_bytes :: u64
  ssl_read_bytes :: u64
  ssl_write_bytes :: u64
  laddr :: sockaddr_t
  raddr :: sockaddr_t
  protocol :: traffic_protocol_t
  role :: endpoint_role_t
  prev_count :: u64
  prev_buf :: "u8 list"
  prepend_length_header :: bool
  no_trace :: conn_trace_state_t
  ssl :: bool

record conn_evt_t =
  ce_conn_info :: conn_info_t
  ce_conn_type :: conn_type_t
  ce_ts :: u64

record parse_kern_evt_body_t =
  kb_inital_seq :: u32
  kb_key :: sock_key
  kb_cur_seq :: u32
  kb_len :: u32
  kb_func_name :: u64
  kb_step :: step_t
  kb_tcp :: u64
  kb_ifindex :: u32

text \<open>\<open>data_common.h\<close> and \<open>go_common.h\<close>.\<close>

record nested_syscall_fd_t =
  ns_fd :: u32
  ns_mismatched_fds :: bool
  ns_syscall_len :: u32

record go_common_symaddrs_t =
  internal_syscallConn :: u64
  tls_Conn :: u64
  net_TCPConn :: u64
  FD_Sysfd_offset :: u32
  tlsConn_conn_offset :: u32
  syscallConn_conn_offset :: u32
  g_goid_offset :: u32
  g_addr_offset :: u32

record tgid_goid_t =
  tg_tgid :: u32
  tg_goid :: u64

section \<open>Constants and zero-initialised structs\<close>

definition AF_INET :: u16 where "AF_INET = 2"
definition AF_INET6 :: u16 where "AF_INET6 = 10"
definition PX_AF_UNKNOWN :: u16 where "PX_AF_UNKNOWN = 0xff"
definition MAX_MSG_SIZE :: nat where "MAX_MSG_SIZE = 30720"
definition FUNC_NAME_LIMIT :: nat where "FUNC_NAME_LIMIT = 16"
definition EINPROGRESS :: int where "EINPROGRESS = 115"
definition MSG_OOB :: u32 where "MSG_OOB = 1"
definition MSG_PEEK :: u32 where "MSG_PEEK = 2"
definition ETH_P_IP :: u16 where "ETH_P_IP = 0x0800"
definition ETH_P_IPV6 :: u16 where "ETH_P_IPV6 = 0x86DD"
definition ETH_HLEN :: u64 where "ETH_HLEN = 14"
definition IP_H_LEN :: u8 where "IP_H_LEN = 20"
definition PROTOCOL_VEC_LIMIT :: nat where "PROTOCOL_VEC_LIMIT = 1"
definition LOOP_LIMIT :: nat where "LOOP_LIMIT = 3"

definition kInvalidFD :: u32 where "kInvalidFD = -1"

definition sock_key_zero :: sock_key where
  "sock_key_zero = \<lparr>sip0 = 0, sip1 = 0, dip0 = 0, dip1 = 0, sport = 0, dport = 0\<rparr>"

definition in6_addr_zero :: in6_addr where
  "in6_addr_zero = \<lparr>u6_addr32_0 = 0, u6_addr32_1 = 0, u6_addr32_2 = 0, u6_addr32_3 = 0\<rparr>"

definition sockaddr_zero :: sockaddr_t where
  "sockaddr_zero = \<lparr>sa_family = 0, sin6_port = 0, sin6_flowinfo = 0,
     sin6_addr = in6_addr_zero, sin6_scope_id = 0\<rparr>"

text \<open>
  The zero bit pattern of \<open>role\<close> is no enumerator. Every zero-initialised
  \<open>conn_info_t\<close> passes through \<open>init_conn_info\<close>, which sets the field before
  anything reads it, so the value chosen here is never observed.
\<close>

definition conn_info_zero :: conn_info_t where
  "conn_info_zero = \<lparr>
     conn_id = \<lparr>ci_tgid = 0, ci_start_time_ticks = 0, ci_fd = 0, ci_tsid = 0\<rparr>,
     read_bytes = 0, write_bytes = 0, ssl_read_bytes = 0, ssl_write_bytes = 0,
     laddr = sockaddr_zero, raddr = sockaddr_zero,
     protocol = kProtocolUnset, role = kRoleUnknown, prev_count = 0,
     prev_buf = replicate 4 0, prepend_length_header = False,
     no_trace = trace_unset, ssl = False\<rparr>"

definition conn_id_s_zero :: conn_id_s_t where
  "conn_id_s_zero = \<lparr>cs_tgid_fd = 0, cs_no_trace = trace_unset\<rparr>"

definition data_args_zero :: data_args where
  "data_args_zero = \<lparr>da_source_fn = kSourceFunctionUnknown, da_sock_event = False,
     da_fd = 0, da_buf = 0, da_iov = 0, da_iovlen = 0, da_msg_len = 0, da_ssl_ex_len = 0,
     da_start_ts = 0, da_end_ts = 0\<rparr>"

definition kern_evt_zero :: kern_evt where
  "kern_evt_zero = \<lparr>ke_func_name = replicate FUNC_NAME_LIMIT 0, ke_ts = 0, ke_ts_delta = 0,
     ke_seq = 0, ke_len = 0, ke_flags = 0, ke_prepend_length_header = False, ke_ifindex = 0,
     ke_conn_id_s = conn_id_s_zero, ke_step = step_start, ke_length_header = 0\<rparr>"

section \<open>Struct layout\<close>

text \<open>
  Sizes by the layout rules of C on the 64-bit targets: a field starts at the next multiple
  of its alignment, the struct is padded to the largest alignment. A field is given as
  (size, alignment), in the order of the declaration.
\<close>

definition align_up :: "nat \<Rightarrow> nat \<Rightarrow> nat" where
  "align_up off a = (off + a - 1) div a * a"

fun layout_end :: "nat \<Rightarrow> (nat \<times> nat) list \<Rightarrow> nat" where
  "layout_end off [] = off"
| "layout_end off ((sz, a) # fs) = layout_end (align_up off a + sz) fs"

definition sizeof_struct :: "(nat \<times> nat) list \<Rightarrow> nat" where
  "sizeof_struct fs = align_up (layout_end 0 fs) (fold max (map snd fs) 1)"

definition conn_id_s_layout :: "(nat \<times> nat) list" where
  "conn_id_s_layout = [(8, 8), (4, 4)]"

definition kern_evt_layout :: "(nat \<times> nat) list" where
  "kern_evt_layout =
     [(FUNC_NAME_LIMIT, 1), (8, 8), (4, 4), (4, 4), (4, 4), (1, 1), (1, 1), (4, 4),
      (sizeof_struct conn_id_s_layout, 8), (4, 4), (4, 4)]"

definition sizeof_kern_evt :: nat where
  "sizeof_kern_evt = sizeof_struct kern_evt_layout"

definition kern_evt_data_layout :: "(nat \<times> nat) list" where
  "kern_evt_data_layout = [(sizeof_kern_evt, 8), (4, 4), (MAX_MSG_SIZE, 1)]"

definition kern_evt_ssl_data_layout :: "(nat \<times> nat) list" where
  "kern_evt_ssl_data_layout =
     [(sizeof_kern_evt, 8), (4, 4), (4, 4), (4, 4), (MAX_MSG_SIZE, 1)]"

section \<open>String copy\<close>

text \<open>
  \<open>my_strcpy(dest, src, n)\<close>: the two buffers as byte lists; a read or write outside its
  buffer is \<open>None\<close>. The loop leaves \<open>dest[i]\<close> as the terminator, stepping back by one
  when the limit was reached.
\<close>

definition buf_store :: "u8 list \<Rightarrow> nat \<Rightarrow> u8 \<Rightarrow> u8 list option" where
  "buf_store d i b = (if i < length d then Some (d[i := b]) else None)"

function my_strcpy_loop :: "u8 list \<Rightarrow> u8 list \<Rightarrow> int \<Rightarrow> nat \<Rightarrow> u8 list option" where
  "my_strcpy_loop dest src n i =
     (if length src \<le> i then None
      else if src ! i = 0 then buf_store dest i 0
      else case buf_store dest i (src ! i) of
          None \<Rightarrow> None
        | Some dest' \<Rightarrow>
            (if n \<le> int (i + 1) then buf_store dest' i 0
             else my_strcpy_loop dest' src n (i + 1)))"
  by pat_completeness auto
termination
  by (relation "measure (\<lambda>(dest, src, n, i). length src - i)") auto

definition my_strcpy :: "u8 list \<Rightarrow> u8 list \<Rightarrow> int \<Rightarrow> u8 list option" where
  "my_strcpy dest src n = my_strcpy_loop dest src n 0"

declare my_strcpy_loop.simps [simp del]

section \<open>Orders on the enums the code compares\<close>

lemma step_code_inj: "step_code a = step_code b \<longleftrightarrow> a = b"
  by (cases a; cases b) simp_all

lemma conn_trace_state_code_inj: "conn_trace_state_code a = conn_trace_state_code b \<longleftrightarrow> a = b"
  by (cases a; cases b) simp_all

lemma traffic_protocol_code_inj: "traffic_protocol_code a = traffic_protocol_code b \<longleftrightarrow> a = b"
  by (cases a; cases b) simp_all

instantiation step_t :: linorder
begin

definition less_eq_step_t :: "step_t \<Rightarrow> step_t \<Rightarrow> bool" where
  "less_eq_step_t a b \<longleftrightarrow> step_code a \<le> step_code b"

definition less_step_t :: "step_t \<Rightarrow> step_t \<Rightarrow> bool" where
  "less_step_t a b \<longleftrightarrow> step_code a < step_code b"

instance
  by standard (auto simp: less_eq_step_t_def less_step_t_def step_code_inj)

end

instantiation conn_trace_state_t :: linorder
begin

definition less_eq_conn_trace_state_t :: "conn_trace_state_t \<Rightarrow> conn_trace_state_t \<Rightarrow> bool" where
  "less_eq_conn_trace_state_t a b \<longleftrightarrow> conn_trace_state_code a \<le> conn_trace_state_code b"

definition less_conn_trace_state_t :: "conn_trace_state_t \<Rightarrow> conn_trace_state_t \<Rightarrow> bool" where
  "less_conn_trace_state_t a b \<longleftrightarrow> conn_trace_state_code a < conn_trace_state_code b"

instance
  by standard
    (auto simp: less_eq_conn_trace_state_t_def less_conn_trace_state_t_def
      conn_trace_state_code_inj)

end

lemmas enum_order_defs =
  less_eq_step_t_def less_step_t_def
  less_eq_conn_trace_state_t_def less_conn_trace_state_t_def

section \<open>Layout facts\<close>

lemma sizeof_kern_evt_eq: "sizeof_kern_evt = 72"
  by (simp add: sizeof_kern_evt_def sizeof_struct_def kern_evt_layout_def conn_id_s_layout_def
      align_up_def FUNC_NAME_LIMIT_def)

lemma sizeof_kern_evt_data_eq: "sizeof_struct kern_evt_data_layout = 30800"
  by (simp add: kern_evt_data_layout_def sizeof_struct_def sizeof_kern_evt_eq align_up_def
      MAX_MSG_SIZE_def)

lemma sizeof_kern_evt_ssl_data_eq: "sizeof_struct kern_evt_ssl_data_layout = 30808"
  by (simp add: kern_evt_ssl_data_layout_def sizeof_struct_def sizeof_kern_evt_eq align_up_def
      MAX_MSG_SIZE_def)

section \<open>Correctness of the string copy\<close>

lemma buf_store_Some: "i < length d \<Longrightarrow> buf_store d i b = Some (take i d @ b # drop (i + 1) d)"
  by (simp add: buf_store_def upd_conv_take_nth_drop)

lemma my_strcpy_loop_spec:
  assumes m: "m < length src" "m < length d" "int m < max n 1"
    and nz: "\<And>j. j < m \<Longrightarrow> src ! j \<noteq> 0"
    and stop: "src ! m = 0 \<or> n \<le> int (m + 1)"
    and i: "i \<le> m"
  shows "my_strcpy_loop d src n i =
    Some (take i d @ take (m - i) (drop i src) @ 0 # drop (m + 1) d)"
  using m(2) i
proof (induction "m - i" arbitrary: i d)
  case 0
  then have "i = m" by simp
  with 0 m stop show ?case
    by (auto simp: my_strcpy_loop.simps [of d src n m] buf_store_def
        upd_conv_take_nth_drop split: option.split)
next
  case (Suc k)
  then have im: "i < m" by simp
  let ?d = "d[i := src ! i]"
  have step: "my_strcpy_loop d src n i = my_strcpy_loop ?d src n (i + 1)"
    using im m nz [OF im] Suc.prems
    by (auto simp: my_strcpy_loop.simps [of d src n i] buf_store_def)
  have IH: "my_strcpy_loop ?d src n (i + 1) =
      Some (take (i + 1) ?d @ take (m - (i + 1)) (drop (i + 1) src) @ 0 # drop (m + 1) ?d)"
    by (rule Suc.hyps(1)) (use im Suc in auto)
  have "take (i + 1) ?d = take i d @ [src ! i]"
    using im Suc.prems by (simp add: take_Suc_conv_app_nth)
  moreover have "take (m - i) (drop i src) = src ! i # take (m - (i + 1)) (drop (i + 1) src)"
    using im m(1) by (simp add: Cons_nth_drop_Suc [symmetric] take_Cons' Suc_diff_Suc)
  moreover have "drop (m + 1) ?d = drop (m + 1) d"
    using im by simp
  ultimately show ?case
    using step IH by simp
qed

text \<open>
  C-style contract of \<open>my_strcpy\<close>: a source whose terminator is at \<open>k\<close> is copied up to
  the first \<open>n - 1\<close> characters, the copy is terminated, nothing after the terminator is
  written and no byte outside the two buffers is touched.
\<close>

lemma my_strcpy_copies:
  assumes "k < length src" "src ! k = 0" "0 \<notin> set (take k src)"
    and "0 < n" "n \<le> int (length dest)"
  shows "my_strcpy dest src n =
    Some (take (min k (nat n - 1)) src @ 0 # drop (min k (nat n - 1) + 1) dest)"
proof -
  let ?m = "min k (nat n - 1)"
  have nz: "src ! j \<noteq> 0" if "j < k" for j
    using assms(1,3) that by (auto simp: in_set_conv_nth)
  have "my_strcpy_loop dest src n 0 =
      Some (take 0 dest @ take (?m - 0) (drop 0 src) @ 0 # drop (?m + 1) dest)"
  proof (rule my_strcpy_loop_spec)
    show "src ! ?m = 0 \<or> n \<le> int (?m + 1)"
      using assms by (cases "k \<le> nat n - 1") auto
  qed (use assms nz in auto)
  then show ?thesis by (simp add: my_strcpy_def)
qed

lemma my_strcpy_copies_witness:
  "my_strcpy [9, 9, 9, 9] [65, 66, 67, 0] 3 = Some [65, 66, 0, 9]"
  using my_strcpy_copies [of 3 "[65, 66, 67, 0]" 3 "[9, 9, 9, 9]"]
  by simp

end
