(* ===== verification/Bpf_Env.thy ===== *)
theory Bpf_Env
  imports Kern_Types
begin

text \<open>
  What one run of a BPF program sees of the world outside \<open>src/bpf\<close>: the clock, the
  current task, user and kernel memory, and the kernel objects the programs read through
  CO-RE accesses. All of it is a parameter (a record \<open>bpf_env\<close>) of the programs; nothing
  is assumed of it here.
\<close>

section \<open>Kernel objects, as far as the programs read them\<close>

record sock_obj =
  skc_daddr :: u32
  skc_rcv_saddr :: u32
  skc_dport :: u16
  skc_num :: u16
  skc_family :: u16
  skc_state_flags :: u8
  skc_v6_daddr :: in6_addr
  skc_v6_rcv_saddr :: in6_addr
  inet_sport :: u16
  write_seq :: u32
  copied_seq :: u32

record sk_buff_obj =
  skb_sk :: u64
  network_header :: u16
  mac_header :: u16
  transport_header :: u16
  skb_head :: u64
  skb_data :: u64
  skb_protocol :: u16
  skb_len :: u32
  skb_dev :: u64
  skb_dev_ifindex :: u32
  skb_iif :: u32
  skb_next :: u64
  skb_cb_seq :: u32

record socket_obj =
  socket_sk :: u64
  socket_type :: u16
  socket_file :: u64

record conntrack_tuple =
  ct_src_u3 :: in6_addr
  ct_dst_u3 :: in6_addr
  ct_src_port :: u16
  ct_dst_port :: u16

text \<open>
  \<open>ct_tuplehash\<close> is \<open>None\<close> where \<open>bpf_core_field_exists\<close> fails; the second field is
  the layout of kernels older than 5.2. The pair is (original, reply).
\<close>

record nf_conn_obj =
  ct_tuplehash :: "(conntrack_tuple \<times> conntrack_tuple) option"
  ct_tuplehash_old :: "(conntrack_tuple \<times> conntrack_tuple) option"

text \<open>
  The registers a program sees in its context: the call parameters, the return value, the
  stack pointer, and the nine registers of the Go calling convention in its order.
\<close>

record pt_regs =
  parm1 :: u64
  parm2 :: u64
  parm3 :: u64
  parm4 :: u64
  parm5 :: u64
  pt_rc :: u64
  pt_sp :: u64
  pt_go_regs :: "u64 list"

section \<open>The environment of a run\<close>

text \<open>
  \<open>bpf_ktime_get_ns\<close> may return a different value at each call of a run; the clock is
  read per call site.
\<close>

datatype ktime_site =
    KT_report_conn_evt | KT_report_syscall_buf_without_data | KT_report_syscall_buf
  | KT_report_ssl_buf | KT_parse_kern_evt_body | KT_report_kern_evt | KT_init_conn_id
  | KT_enter | KT_exit

record bpf_env =
  cur_cpu :: nat
  ktime :: "ktime_site \<Rightarrow> u64"
  pid_tgid :: u64
  \<comment> \<open>the current task: parent pointer and tgid, namespaces, fs base\<close>
  task_ptr :: u64
  task_parent :: u64
  task_parent_tgid :: u32
  task_pidns :: u32
  task_mntns :: u32
  task_netns :: u32
  task_fs_base :: u64
  \<comment> \<open>memory, as the probe-read helpers deliver it\<close>
  probe_mem :: "u64 \<Rightarrow> nat \<Rightarrow> u8 list"
  \<comment> \<open>kernel objects behind a pointer\<close>
  sock_at :: "u64 \<Rightarrow> sock_obj"
  skb_at :: "u64 \<Rightarrow> sk_buff_obj"
  socket_at :: "u64 \<Rightarrow> socket_obj"
  ct_at :: "u64 \<Rightarrow> nf_conn_obj"
  fdtable :: "u32 \<Rightarrow> u64"
  file_private_data :: "u64 \<Rightarrow> u64"
  \<comment> \<open>build and kernel configuration\<close>
  legacy_kernel_310 :: bool
  v6_fields_exist :: bool
  \<comment> \<open>the value left in a stack slot that the code does not initialise\<close>
  stack_no_trace :: conn_trace_state_t
  \<comment> \<open>the memory behind the per-CPU register buffer\<close>
  heap_tail :: "u8 list"

text \<open>
  \<open>bpf_probe_read\<close>, \<open>bpf_probe_read_user\<close> and \<open>bpf_probe_read_kernel\<close> into a local
  buffer of \<open>n\<close> bytes, and the fixed-width reads built from it.
\<close>

definition probe_read :: "bpf_env \<Rightarrow> nat \<Rightarrow> u64 \<Rightarrow> u8 list" where
  "probe_read e n a = fill_buf n (probe_mem e a n)"

definition read_u8 :: "bpf_env \<Rightarrow> u64 \<Rightarrow> u8" where
  "read_u8 e a = le_word (probe_read e 1 a)"

definition read_u16 :: "bpf_env \<Rightarrow> u64 \<Rightarrow> u16" where
  "read_u16 e a = le_word (probe_read e 2 a)"

definition read_u32 :: "bpf_env \<Rightarrow> u64 \<Rightarrow> u32" where
  "read_u32 e a = le_word (probe_read e 4 a)"

definition read_u64 :: "bpf_env \<Rightarrow> u64 \<Rightarrow> u64" where
  "read_u64 e a = le_word (probe_read e 8 a)"

definition current_tgid :: "bpf_env \<Rightarrow> u32" where
  "current_tgid e = ucast (drop_bit 32 (pid_tgid e))"

lemma length_probe_read [simp]: "length (probe_read e n a) = n"
  by (simp add: probe_read_def)

text \<open>
  A memory that holds the bytes \<open>bs\<close> from address \<open>base\<close> on and zeros elsewhere, and
  an idle environment around it: concrete instances for evaluation.
\<close>

definition mem_of :: "u64 \<Rightarrow> u8 list \<Rightarrow> u64 \<Rightarrow> nat \<Rightarrow> u8 list" where
  "mem_of base bs a n =
     map (\<lambda>i. let j = unat (a - base) + i in if j < length bs then bs ! j else 0) [0..<n]"

definition sock_obj_zero :: sock_obj where
  "sock_obj_zero = \<lparr>skc_daddr = 0, skc_rcv_saddr = 0, skc_dport = 0, skc_num = 0,
     skc_family = 0, skc_state_flags = 0, skc_v6_daddr = in6_addr_zero,
     skc_v6_rcv_saddr = in6_addr_zero, inet_sport = 0, write_seq = 0, copied_seq = 0\<rparr>"

definition sk_buff_obj_zero :: sk_buff_obj where
  "sk_buff_obj_zero = \<lparr>skb_sk = 0, network_header = 0, mac_header = 0, transport_header = 0,
     skb_head = 0, skb_data = 0, skb_protocol = 0, skb_len = 0, skb_dev = 0,
     skb_dev_ifindex = 0, skb_iif = 0, skb_next = 0, skb_cb_seq = 0\<rparr>"

definition env_of :: "u64 \<Rightarrow> u8 list \<Rightarrow> bpf_env" where
  "env_of base bs = \<lparr>cur_cpu = 0, ktime = (\<lambda>_. 1000), pid_tgid = 0, task_ptr = 0,
     task_parent = 0, task_parent_tgid = 0, task_pidns = 0, task_mntns = 0, task_netns = 0,
     task_fs_base = 0, probe_mem = mem_of base bs, sock_at = (\<lambda>_. sock_obj_zero),
     skb_at = (\<lambda>_. sk_buff_obj_zero),
     socket_at = (\<lambda>_. \<lparr>socket_sk = 0, socket_type = 0, socket_file = 0\<rparr>),
     ct_at = (\<lambda>_. \<lparr>ct_tuplehash = None, ct_tuplehash_old = None\<rparr>),
     fdtable = (\<lambda>_. 0), file_private_data = (\<lambda>_. 0),
     legacy_kernel_310 = False, v6_fields_exist = True, stack_no_trace = trace_unset,
     heap_tail = []\<rparr>"

end
