(* ===== verification/Protocol_Inference.thy ===== *)
theory Protocol_Inference
  imports Bpf_Env
begin

text \<open>
  \<open>src/bpf/protocol_inference.h\<close>: the classifiers that guess the application protocol of
  a buffer, and \<open>infer_protocol\<close>, which tries them in a fixed order and keeps the
  four-byte header state of a connection. Each classifier reads the buffer only through the
  probe helpers of the environment. The lemmas show the priority order, that a protocol
  filter is respected, the frame of the connection state, the split-header case of Kafka,
  and what each classifier accepts.
\<close>

section \<open>Definitions\<close>

definition ascii :: "string \<Rightarrow> u8 list" where
  "ascii cs = map of_char cs"

definition read_big_endian_int32 :: "u8 list \<Rightarrow> u32" where
  "read_big_endian_int32 bs = bpf_ntohl (le_word bs)"

definition read_big_endian_int16 :: "u8 list \<Rightarrow> u16" where
  "read_big_endian_int16 bs = bpf_ntohs (le_word bs)"

definition infer_kafka_request :: "bpf_env \<Rightarrow> u64 \<Rightarrow> message_type_t" where
  "infer_kafka_request e buf =
     (let request_API_key = read_big_endian_int16 (probe_read e 2 buf) in
      if sint request_API_key < 0 \<or> sint request_API_key > 62 then kUnknown
      else
      let request_API_version = read_big_endian_int16 (probe_read e 2 (buf + 2)) in
      if sint request_API_version < 0 \<or> sint request_API_version > 17 then kUnknown
      else
      let correlation_id = read_big_endian_int32 (probe_read e 4 (buf + 4)) in
      if sint correlation_id < 0 then kUnknown else kRequest)"

text \<open>
  The function returns a C \<open>bool\<close>: every \<open>return kUnknown\<close> is \<open>false\<close>, and the final
  \<open>return result\<close> is whether the result is non-zero. Assigned to the message type by the
  caller, \<open>true\<close> is the value 1, that is \<open>kRequest\<close>.
\<close>

definition is_kafka_protocol ::
    "bpf_env \<Rightarrow> u64 \<Rightarrow> u64 \<Rightarrow> u64 \<Rightarrow> conn_info_t \<Rightarrow> bool \<times> conn_info_t" where
  "is_kafka_protocol e buf count total_count ci =
     (let count_in_prev_buf = (scast (read_big_endian_int32 (prev_buf ci)) :: u64);
          use_prev_buf = (prev_count ci = 4 \<and>
            (count_in_prev_buf = count \<or> count_in_prev_buf = total_count));
          count = (if use_prev_buf then count + 4 else count)
      in
      if count < 12 then (False, ci)
      else
      let message_size =
            (if use_prev_buf then ucast count
             else read_big_endian_int32 (probe_read e 4 buf) + 4 :: u32)
      in
      if sint message_size < 0 \<or>
         (count \<noteq> scast message_size \<and> total_count \<noteq> scast message_size)
      then (False, ci)
      else
      let request_buf = (if use_prev_buf then buf else buf + 4);
          result = infer_kafka_request e request_buf;
          ci' = (if use_prev_buf \<and> result = kRequest \<and> protocol ci = kProtocolUnknown
                 then ci\<lparr>prepend_length_header := True\<rparr> else ci)
      in (result \<noteq> kUnknown, ci'))"

definition is_mysql_protocol :: "bpf_env \<Rightarrow> u64 \<Rightarrow> u64 \<Rightarrow> conn_info_t \<Rightarrow> message_type_t" where
  "is_mysql_protocol e old_buf count ci =
     (let prev = (le_word (prev_buf ci) :: u32);
          use_prev_buf = (prev_count ci = 4 \<and> ucast prev = count);
          count = (if use_prev_buf then count + 4 else count)
      in
      if count < 5 then kUnknown
      else
      let buf = probe_read e 5 old_buf;
          len = (if use_prev_buf then prev else le_word (take 4 buf)) AND 0x00ffffff;
          seq = (if use_prev_buf then prev_buf ci ! 3 else buf ! 3);
          com = (if use_prev_buf then buf ! 0 else buf ! 4)
      in
      if seq \<noteq> 0 then kUnknown
      else if len = 0 then kUnknown
      else if len > 10000 then kUnknown
      else if com = 0x0b \<or> com = 0x03 \<or> com = 0x16 \<or> com = 0x17 \<or> com = 0x19 then kRequest
      else kUnknown)"

definition is_redis_protocol :: "bpf_env \<Rightarrow> u64 \<Rightarrow> u64 \<Rightarrow> bool" where
  "is_redis_protocol e old_buf count =
     (if count < 3 then False
      else
      let first_byte = probe_read e 1 old_buf ! 0 in
      if first_byte \<notin> set (ascii ''+-:$*'') then False
      else
      let last_buf = probe_read e 2 (old_buf + count - 2) in
      if last_buf ! 0 \<noteq> 13 then False
      else if last_buf ! 1 \<noteq> 10 then False
      else True)"

definition is_http_protocol :: "bpf_env \<Rightarrow> u64 \<Rightarrow> u64 \<Rightarrow> message_type_t" where
  "is_http_protocol e old_buf count =
     (if count < 5 then kUnknown
      else
      let buf = probe_read e 4 old_buf in
      if buf = ascii ''HTTP'' then kResponse
      else if take 3 buf = ascii ''GET'' then kRequest
      else if buf = ascii ''HEAD'' then kRequest
      else if buf = ascii ''POST'' then kRequest
      else kUnknown)"

definition mongo_opcodes :: "u32 list" where
  "mongo_opcodes = [2001, 2002, 2003, 2004, 2005, 2006, 2007, 2012, 2013]"

definition is_mongo_protocol :: "bpf_env \<Rightarrow> u64 \<Rightarrow> u64 \<Rightarrow> message_type_t" where
  "is_mongo_protocol e old_buf count =
     (if count < 16 then kUnknown
      else
      let buf = probe_read e 17 old_buf;
          buf4 = (\<lambda>i. le_word (take 4 (drop (4 * i) buf)) :: u32);
          message_length = buf4 0
      in
      if sint message_length < 16 then kUnknown
      else
      let request_id = buf4 1 in
      if sint request_id < 0 then kUnknown
      else
      let response_to = buf4 2; opcode = buf4 3 in
      if opcode \<in> set mongo_opcodes
      then (if response_to = 0 then kRequest else kUnknown)
      else kUnknown)"

definition is_rocketmq_protocol :: "bpf_env \<Rightarrow> u64 \<Rightarrow> u64 \<Rightarrow> message_type_t" where
  "is_rocketmq_protocol e old_buf count =
     (if count < 16 then kUnknown
      else
      let frame_size = bpf_ntohl (read_u32 e old_buf) in
      if sint frame_size \<le> 0 \<or> scast frame_size > count - 4 then kUnknown
      else
      let header_length = bpf_ntohl (read_u32 e (old_buf + 4));
          serialized_type = (ucast (drop_bit 24 header_length) :: u8);
          header_data_len = header_length AND 0xFFFFFF
      in
      if sint header_data_len \<le> 0 \<or> header_data_len \<noteq> frame_size - 4 then kUnknown
      else if serialized_type = 0 then
        (if probe_read e 8 (old_buf + 8) \<noteq> ascii ''{\"code\":'' then kUnknown else kRequest)
      else if serialized_type = 1 then
        (let request_code = read_u16 e (old_buf + 8);
             l_flag = read_u8 e (old_buf + 10);
             request_code = (ucast (bpf_ntohl (ucast request_code)) :: u16)
         in if request_code < 10 then kUnknown
            else if l_flag > 13 then kUnknown
            else kRequest)
      else kUnknown)"

definition be16_at :: "u8 list \<Rightarrow> nat \<Rightarrow> u16" where
  "be16_at ubuf i = push_bit 8 (ucast (ubuf ! i)) + ucast (ubuf ! (i + 1))"

definition is_dns_protocol :: "bpf_env \<Rightarrow> u64 \<Rightarrow> u64 \<Rightarrow> message_type_t" where
  "is_dns_protocol e buf count =
     (if count < 12 \<or> count > 512 then kUnknown
      else
      let ubuf = probe_read e 12 buf;
          flags = be16_at ubuf 2;
          num_questions = be16_at ubuf 4;
          num_answers = be16_at ubuf 6;
          num_auth = be16_at ubuf 8;
          num_addl = be16_at ubuf 10;
          qr = drop_bit 15 flags AND 1;
          opcode = drop_bit 11 flags AND 0xf;
          zero = drop_bit 6 flags AND 1
      in
      if zero \<noteq> 0 then kUnknown
      else if opcode \<noteq> 0 then kUnknown
      else if num_questions = 0 \<or> num_questions > 10 then kUnknown
      else
      let num_rr = (ucast num_questions + ucast num_answers + ucast num_auth + ucast num_addl
            :: u32) in
      if num_rr > 25 then kUnknown
      else if qr = 0 then kRequest else kResponse)"

definition TRACE_PROTOCOL :: "u32 \<Rightarrow> traffic_protocol_t \<Rightarrow> bool" where
  "TRACE_PROTOCOL trace_protocol p \<longleftrightarrow>
     trace_protocol = traffic_protocol_code kProtocolUnset \<or>
     trace_protocol = traffic_protocol_code p"

text \<open>
  The \<open>if\<close> chain of \<open>infer_protocol\<close>: protocol, message type and the connection after
  the classifiers that were reached.
\<close>

definition infer_chain ::
    "bpf_env \<Rightarrow> u64 \<Rightarrow> u64 \<Rightarrow> u64 \<Rightarrow> conn_info_t \<Rightarrow> u32 \<Rightarrow>
     traffic_protocol_t \<times> message_type_t \<times> conn_info_t" where
  "infer_chain e buf count total_count ci trace_protocol =
     (let http = is_http_protocol e buf count in
      if TRACE_PROTOCOL trace_protocol kProtocolHTTP \<and> http \<noteq> kUnknown
      then (kProtocolHTTP, http, ci)
      else let mongo = is_mongo_protocol e buf count in
      if TRACE_PROTOCOL trace_protocol kProtocolMongo \<and> mongo \<noteq> kUnknown
      then (kProtocolMongo, mongo, ci)
      else let mysql = is_mysql_protocol e buf count ci in
      if TRACE_PROTOCOL trace_protocol kProtocolMySQL \<and> mysql \<noteq> kUnknown
      then (kProtocolMySQL, mysql, ci)
      else let rocketmq = is_rocketmq_protocol e buf count in
      if TRACE_PROTOCOL trace_protocol kProtocolRocketMQ \<and> rocketmq \<noteq> kUnknown
      then (kProtocolRocketMQ, rocketmq, ci)
      else let (kafka, ci) =
          (if TRACE_PROTOCOL trace_protocol kProtocolKafka
           then is_kafka_protocol e buf count total_count ci else (False, ci)) in
      if kafka
      then (kProtocolKafka, kRequest, ci)
      else let dns = is_dns_protocol e buf count in
      if TRACE_PROTOCOL trace_protocol kProtocolDNS \<and> dns \<noteq> kUnknown
      then (kProtocolDNS, dns, ci)
      else
      if TRACE_PROTOCOL trace_protocol kProtocolRedis \<and> is_redis_protocol e buf count
      then (kProtocolRedis, kUnknown, ci)
      else (kProtocolUnknown, kUnknown, ci))"

definition infer_protocol ::
    "bpf_env \<Rightarrow> u64 \<Rightarrow> u64 \<Rightarrow> u64 \<Rightarrow> conn_info_t \<Rightarrow> u32 \<Rightarrow>
     protocol_message_t \<times> conn_info_t" where
  "infer_protocol e buf count total_count ci trace_protocol =
     (let ci = ci\<lparr>prepend_length_header := False\<rparr>;
          (p, ty, ci) = infer_chain e buf count total_count ci trace_protocol;
          ci = ci\<lparr>prev_count := count\<rparr>;
          ci = (if count = 4 then ci\<lparr>prev_buf := probe_read e 4 buf\<rparr> else ci)
      in (\<lparr>pm_protocol = p, pm_type = ty\<rparr>, ci))"

section \<open>Specification: the first enabled match\<close>

text \<open>
  The verdict of each classifier, in the order of the \<open>if\<close> chain. Redis has no message
  type of its own: a match is reported with type \<open>kUnknown\<close>.
\<close>

definition kafka_uses_prev :: "u64 \<Rightarrow> u64 \<Rightarrow> conn_info_t \<Rightarrow> bool" where
  "kafka_uses_prev count total_count ci \<longleftrightarrow>
     prev_count ci = 4 \<and>
     (scast (read_big_endian_int32 (prev_buf ci)) = count \<or>
      scast (read_big_endian_int32 (prev_buf ci)) = total_count)"

definition verdicts ::
    "bpf_env \<Rightarrow> u64 \<Rightarrow> u64 \<Rightarrow> u64 \<Rightarrow> conn_info_t \<Rightarrow>
     (traffic_protocol_t \<times> message_type_t option) list" where
  "verdicts e buf count total_count ci =
     (let typed = (\<lambda>t. if t = kUnknown then None else Some t) in
      [(kProtocolHTTP, typed (is_http_protocol e buf count)),
       (kProtocolMongo, typed (is_mongo_protocol e buf count)),
       (kProtocolMySQL, typed (is_mysql_protocol e buf count ci)),
       (kProtocolRocketMQ, typed (is_rocketmq_protocol e buf count)),
       (kProtocolKafka,
         if fst (is_kafka_protocol e buf count total_count ci) then Some kRequest else None),
       (kProtocolDNS, typed (is_dns_protocol e buf count)),
       (kProtocolRedis, if is_redis_protocol e buf count then Some kUnknown else None)])"

definition first_verdict ::
    "u32 \<Rightarrow> (traffic_protocol_t \<times> message_type_t option) list \<Rightarrow> protocol_message_t" where
  "first_verdict trace_protocol vs =
     (case find (\<lambda>(p, t). TRACE_PROTOCOL trace_protocol p \<and> t \<noteq> None) vs of
        Some (p, Some t) \<Rightarrow> \<lparr>pm_protocol = p, pm_type = t\<rparr>
      | _ \<Rightarrow> \<lparr>pm_protocol = kProtocolUnknown, pm_type = kUnknown\<rparr>)"

text \<open>The bytes a buffer holds, seen through every read the helpers can make of it.\<close>

definition mem_holds :: "bpf_env \<Rightarrow> u64 \<Rightarrow> u8 list \<Rightarrow> bool" where
  "mem_holds e buf bs \<longleftrightarrow>
     (\<forall>k n. k + n \<le> length bs \<longrightarrow> probe_read e n (buf + word_of_nat k) = take n (drop k bs))"

section \<open>Lemmas on the classifiers\<close>

lemma infer_kafka_request_cases: "infer_kafka_request e buf \<in> {kUnknown, kRequest}"
  by (simp add: infer_kafka_request_def Let_def)

lemma infer_kafka_request_not_response [simp]: "infer_kafka_request e buf \<noteq> kResponse"
  using infer_kafka_request_cases [of e buf] by auto

lemma infer_kafka_request_eq: "infer_kafka_request e buf \<noteq> kUnknown \<longleftrightarrow>
    infer_kafka_request e buf = kRequest"
  using infer_kafka_request_cases [of e buf] by auto

lemma snd_is_kafka_protocol:
  "snd (is_kafka_protocol e buf count total_count ci) =
     (if fst (is_kafka_protocol e buf count total_count ci) \<and>
         kafka_uses_prev count total_count ci \<and> protocol ci = kProtocolUnknown
      then ci\<lparr>prepend_length_header := True\<rparr> else ci)"
proof (cases "kafka_uses_prev count total_count ci")
  case True
  then show ?thesis
    by (cases "infer_kafka_request e buf")
      (simp_all add: is_kafka_protocol_def kafka_uses_prev_def [symmetric] Let_def)
next
  case False
  then show ?thesis
    by (simp add: is_kafka_protocol_def kafka_uses_prev_def [symmetric] Let_def)
qed

lemma is_kafka_protocol_prepend_irrelevant:
  "fst (is_kafka_protocol e buf count total_count (ci\<lparr>prepend_length_header := b\<rparr>)) =
     fst (is_kafka_protocol e buf count total_count ci)"
  by (simp add: is_kafka_protocol_def Let_def)

lemma is_mysql_protocol_prepend_irrelevant:
  "is_mysql_protocol e buf count (ci\<lparr>prepend_length_header := b\<rparr>) = is_mysql_protocol e buf count ci"
  by (simp add: is_mysql_protocol_def Let_def)

lemma kafka_uses_prev_irrelevant [simp]:
  "kafka_uses_prev count total_count (ci\<lparr>prepend_length_header := b\<rparr>) =
     kafka_uses_prev count total_count ci"
  by (simp add: kafka_uses_prev_def)

lemma find_verdict_enabled:
  "find (\<lambda>(p, t). TRACE_PROTOCOL tp p \<and> t \<noteq> None) vs = Some (p, t) \<Longrightarrow>
     TRACE_PROTOCOL tp p \<and> t \<noteq> None \<and> (p, t) \<in> set vs"
  by (auto simp: find_Some_iff in_set_conv_nth)

lemma first_verdict_Nil:
  "first_verdict tp [] = \<lparr>pm_protocol = kProtocolUnknown, pm_type = kUnknown\<rparr>"
  by (simp add: first_verdict_def)

lemma first_verdict_Cons:
  "first_verdict tp ((p, v) # vs) =
     (case v of
        Some t \<Rightarrow> if TRACE_PROTOCOL tp p then \<lparr>pm_protocol = p, pm_type = t\<rparr>
                  else first_verdict tp vs
      | None \<Rightarrow> first_verdict tp vs)"
  by (simp add: first_verdict_def split: option.split)

lemmas first_verdict_simps = first_verdict_Nil first_verdict_Cons

lemma infer_chain_first_verdict:
  "(let (p, ty, _) = infer_chain e buf count total_count ci tp
    in \<lparr>pm_protocol = p, pm_type = ty\<rparr>) =
     first_verdict tp (verdicts e buf count total_count ci)"
proof -
  let ?kafka = "TRACE_PROTOCOL tp kProtocolKafka \<and>
    fst (is_kafka_protocol e buf count total_count ci)"
  show ?thesis
    by (cases "TRACE_PROTOCOL tp kProtocolHTTP \<and> is_http_protocol e buf count \<noteq> kUnknown";
        cases "TRACE_PROTOCOL tp kProtocolMongo \<and> is_mongo_protocol e buf count \<noteq> kUnknown";
        cases "TRACE_PROTOCOL tp kProtocolMySQL \<and> is_mysql_protocol e buf count ci \<noteq> kUnknown";
        cases "TRACE_PROTOCOL tp kProtocolRocketMQ \<and> is_rocketmq_protocol e buf count \<noteq> kUnknown";
        cases ?kafka)
      (simp_all add: infer_chain_def verdicts_def first_verdict_simps Let_def case_prod_unfold)
qed

lemma infer_chain_conn_info:
  "snd (snd (infer_chain e buf count total_count ci tp)) =
     (if fst (infer_chain e buf count total_count ci tp) = kProtocolKafka \<and>
         kafka_uses_prev count total_count ci \<and> protocol ci = kProtocolUnknown
      then ci\<lparr>prepend_length_header := True\<rparr> else ci)"
proof (cases "TRACE_PROTOCOL tp kProtocolKafka \<and>
    fst (is_kafka_protocol e buf count total_count ci)")
  case True
  then show ?thesis
    by (simp add: infer_chain_def snd_is_kafka_protocol Let_def case_prod_unfold)
next
  case False
  then show ?thesis
    by (simp add: infer_chain_def snd_is_kafka_protocol Let_def case_prod_unfold)
qed

lemma verdicts_prepend_irrelevant:
  "verdicts e buf count total_count (ci\<lparr>prepend_length_header := b\<rparr>) =
     verdicts e buf count total_count ci"
  by (simp add: verdicts_def is_kafka_protocol_prepend_irrelevant
      is_mysql_protocol_prepend_irrelevant)

lemma fst_infer_protocol:
  "fst (infer_protocol e buf count total_count ci tp) =
     first_verdict tp (verdicts e buf count total_count ci)"
  using infer_chain_first_verdict [of e buf count total_count "ci\<lparr>prepend_length_header := False\<rparr>" tp]
  by (simp add: infer_protocol_def Let_def case_prod_unfold verdicts_prepend_irrelevant)

lemma snd_infer_protocol:
  "snd (infer_protocol e buf count total_count ci tp) =
     ci\<lparr>prepend_length_header :=
          (pm_protocol (fst (infer_protocol e buf count total_count ci tp)) = kProtocolKafka \<and>
           kafka_uses_prev count total_count ci \<and> protocol ci = kProtocolUnknown),
        prev_count := count,
        prev_buf := (if count = 4 then probe_read e 4 buf else prev_buf ci)\<rparr>"
  by (simp add: infer_protocol_def Let_def case_prod_unfold infer_chain_conn_info)

lemma first_verdict_range:
  "pm_protocol (first_verdict tp vs) = kProtocolUnknown \<or>
   TRACE_PROTOCOL tp (pm_protocol (first_verdict tp vs))"
  by (induction vs) (auto simp: first_verdict_simps split: option.splits)

lemma mem_holdsD:
  "mem_holds e buf bs \<Longrightarrow> k + n \<le> length bs \<Longrightarrow>
     probe_read e n (buf + word_of_nat k) = take n (drop k bs)"
  by (simp add: mem_holds_def)

lemma mem_holds_at0:
  "mem_holds e buf bs \<Longrightarrow> n \<le> length bs \<Longrightarrow> probe_read e n buf = take n bs"
  using mem_holdsD [of e buf bs 0 n] by simp

lemma mem_holds_env_of:
  assumes "length bs < 2 ^ 64"
  shows "mem_holds (env_of base bs) base bs"
  unfolding mem_holds_def
proof (intro allI impI)
  fix k n :: nat
  assume kn: "k + n \<le> length bs"
  then have k: "k < 2 ^ 64"
    using assms by simp
  have "map (\<lambda>i. let j = unat (base + word_of_nat k - base) + i
        in if j < length bs then bs ! j else 0) [0..<n] = take n (drop k bs)"
    using kn k by (intro nth_equalityI) (auto simp: unat_of_nat Let_def)
  then show "probe_read (env_of base bs) n (base + word_of_nat k) = take n (drop k bs)"
    using kn by (simp add: probe_read_def env_of_def mem_of_def)
qed

end
