(* ===== verification/Protocol_Wire.thy ===== *)
theory Protocol_Wire
  imports Protocol_Inference
begin

text \<open>
  What the classifiers of \<open>protocol_inference.h\<close> say about messages in the wire formats
  they are meant for. The encoders below are specifications (they are not in the sources);
  the lemmas compute the verdict on an encoded message, for all field values.
\<close>

section \<open>Wire formats\<close>

definition be_bytes :: "nat \<Rightarrow> nat \<Rightarrow> u8 list" where
  "be_bytes n x = rev (nat_bytes n x)"

definition dns_header :: "nat \<Rightarrow> nat \<Rightarrow> nat \<Rightarrow> nat \<Rightarrow> nat \<Rightarrow> nat \<Rightarrow> u8 list" where
  "dns_header ident flags qd an ns ar =
     be_bytes 2 ident @ be_bytes 2 flags @ be_bytes 2 qd @ be_bytes 2 an @ be_bytes 2 ns
       @ be_bytes 2 ar"

definition mysql_packet :: "u8 \<Rightarrow> u8 \<Rightarrow> u8 list \<Rightarrow> u8 list" where
  "mysql_packet seq com payload = nat_bytes 3 (Suc (length payload)) @ [seq, com] @ payload"

definition mysql_commands :: "u8 list" where
  "mysql_commands = [0x03, 0x0b, 0x16, 0x17, 0x19]"

definition kafka_request_body :: "nat \<Rightarrow> nat \<Rightarrow> nat \<Rightarrow> u8 list \<Rightarrow> u8 list" where
  "kafka_request_body api_key api_version correlation_id payload =
     be_bytes 2 api_key @ be_bytes 2 api_version @ be_bytes 4 correlation_id @ payload"

definition rocketmq_frame :: "u8 \<Rightarrow> u8 list \<Rightarrow> u8 list" where
  "rocketmq_frame serialize_type header =
     be_bytes 4 (4 + length header) @ serialize_type # be_bytes 3 (length header) @ header"

section \<open>Reading encoded fields\<close>

lemma length_be_bytes [simp]: "length (be_bytes n x) = n"
  by (simp add: be_bytes_def)

lemma list2_eq: "length l = 2 \<Longrightarrow> l = [a, b] \<longleftrightarrow> l ! 0 = a \<and> l ! 1 = b"
  by (auto simp: numeral_2_eq_2 length_Suc_conv)

lemma rev_be_bytes [simp]: "rev (be_bytes n x) = nat_bytes n x"
  by (simp add: be_bytes_def)

lemma le_word_nat_bytes_small:
  "x < 256 ^ n \<Longrightarrow> le_word (nat_bytes n x) = word_of_nat x"
  by (simp add: le_word_def le_nat_nat_bytes)

lemma be32_read: "x < 2 ^ 32 \<Longrightarrow> read_big_endian_int32 (be_bytes 4 x) = word_of_nat x"
  by (simp add: read_big_endian_int32_def bpf_ntohl_le_word le_word_nat_bytes_small)

lemma be16_read: "x < 2 ^ 16 \<Longrightarrow> read_big_endian_int16 (be_bytes 2 x) = word_of_nat x"
  by (simp add: read_big_endian_int16_def bpf_ntohs_le_word le_word_nat_bytes_small)

lemma be_bytes_2: "be_bytes 2 x = [word_of_nat (x div 256 mod 256), word_of_nat (x mod 256)]"
  by (simp add: be_bytes_def nat_bytes_numeral)

lemma be16_at_bytes:
  assumes "x < 2 ^ 16" "bs ! i = word_of_nat (x div 256 mod 256)" "bs ! Suc i = word_of_nat (x mod 256)"
  shows "be16_at bs i = word_of_nat x"
proof -
  have u: "unat (word_of_nat (x div 256 mod 256) :: u8) = x div 256"
    using assms(1) by (simp add: unat_of_nat)
  have "unat (be16_at bs i) = (256 * (x div 256) + x mod 256) mod 2 ^ 16"
    using assms(1) by (simp add: be16_at_def assms(2,3) unat_word_ariths push_bit_eq_mult
        unsigned_ucast_eq u unat_of_nat take_bit_eq_mod)
  then show ?thesis
    using assms(1) by (simp add: word_unat_eq_iff unat_of_nat)
qed

section \<open>Verdicts on encoded messages\<close>

text \<open>
  DNS. The verdict is a function of the header fields: the Z bit and the opcode are zero,
  one to ten questions, at most 25 records in all; the QR bit tells requests from responses.
\<close>

lemma dns_verdict:
  assumes m: "mem_holds e buf (dns_header ident flags qd an ns ar @ rest)"
    and len: "length rest \<le> 500"
    and lim: "flags < 2 ^ 16" "qd < 2 ^ 16" "an < 2 ^ 16" "ns < 2 ^ 16" "ar < 2 ^ 16"
  shows "is_dns_protocol e buf (word_of_nat (12 + length rest)) =
    (if odd (flags div 64) \<or> flags div 2048 mod 16 \<noteq> 0 \<or> qd = 0 \<or> qd > 10 \<or> qd + an + ns + ar > 25
     then kUnknown else if flags < 2 ^ 15 then kRequest else kResponse)"
proof -
  let ?b = "probe_read e 12 buf"
  have b: "?b = dns_header ident flags qd an ns ar"
    using mem_holds_at0 [OF m, of 12] by (simp add: dns_header_def)
  have f: "be16_at ?b 2 = word_of_nat flags" "be16_at ?b 4 = word_of_nat qd"
    "be16_at ?b 6 = word_of_nat an" "be16_at ?b 8 = word_of_nat ns" "be16_at ?b 10 = word_of_nat ar"
    by (rule be16_at_bytes; use lim in \<open>simp add: b dns_header_def be_bytes_2\<close>)+
  have u: "unat (word_of_nat flags :: u16) = flags" "unat (word_of_nat qd :: u16) = qd"
    "unat (word_of_nat an :: u16) = an" "unat (word_of_nat ns :: u16) = ns"
    "unat (word_of_nat ar :: u16) = ar"
    using lim by (simp_all add: unat_of_nat)
  have zero: "(drop_bit 6 (word_of_nat flags :: u16) AND 1 \<noteq> 0) = odd (flags div 64)"
    using u by (simp add: and_one_eq word_unat_eq_iff drop_bit_eq_div unat_mod unat_div odd_iff_mod_2_eq_one)
  have opcode: "(drop_bit 11 (word_of_nat flags :: u16) AND 0xf \<noteq> 0) = (flags div 2048 mod 16 \<noteq> 0)"
  proof -
    have "(15 :: u16) = mask 4"
      by (simp add: mask_eq_exp_minus_1)
    then have "drop_bit 11 (word_of_nat flags :: u16) AND 0xf = take_bit 4 (drop_bit 11 (word_of_nat flags))"
      by (simp only: take_bit_eq_mask)
    then show ?thesis
      using u by (simp add: word_unat_eq_iff take_bit_eq_mod drop_bit_eq_div unat_mod unat_div)
  qed
  have qr: "(drop_bit 15 (word_of_nat flags :: u16) AND 1 = 0) = (flags < 2 ^ 15)"
    using u lim(1) by (auto simp: and_one_eq word_unat_eq_iff drop_bit_eq_div unat_mod unat_div
        odd_iff_mod_2_eq_one)
  have q: "(word_of_nat qd = (0 :: u16)) = (qd = 0)" "(word_of_nat qd > (10 :: u16)) = (qd > 10)"
    using u by (simp_all add: word_unat_eq_iff word_less_nat_alt)
  have rr: "(ucast (word_of_nat qd :: u16) + ucast (word_of_nat an :: u16) +
      ucast (word_of_nat ns :: u16) + ucast (word_of_nat ar :: u16) > (25 :: u32)) =
      (qd + an + ns + ar > 25)"
    using u lim by (simp add: word_less_nat_alt unat_word_ariths unsigned_ucast_eq take_bit_eq_mod)
  have c: "\<not> word_of_nat (12 + length rest) < (12 :: u64)"
    "\<not> word_of_nat (12 + length rest) > (512 :: u64)"
    using len by (simp_all add: word_less_nat_alt unat_word_ariths unat_of_nat)
  show ?thesis
    unfolding is_dns_protocol_def Let_def f
    using c zero opcode qr q rr by simp
qed

text \<open>
  HTTP. A buffer of at least five bytes is a response exactly when it starts with the
  protocol name, a request exactly when it starts with one of three methods.
\<close>

lemma http_verdict:
  assumes m: "mem_holds e buf bs" and len: "length bs < 2 ^ 64"
  shows "is_http_protocol e buf (word_of_nat (length bs)) =
    (if length bs < 5 then kUnknown
     else if take 4 bs = ascii ''HTTP'' then kResponse
     else if take 3 bs = ascii ''GET'' \<or> take 4 bs = ascii ''HEAD'' \<or> take 4 bs = ascii ''POST''
     then kRequest else kUnknown)"
proof -
  have c: "(word_of_nat (length bs) < (5 :: u64)) = (length bs < 5)"
    using len by (simp add: word_less_nat_alt unat_of_nat)
  have "probe_read e 4 buf = take 4 bs" if "\<not> length bs < 5"
    using that by (intro mem_holds_at0 [OF m]) simp
  then show ?thesis
    by (simp add: is_http_protocol_def Let_def c min_def)
qed

text \<open>
  Redis. A buffer is taken for RESP when it starts with one of the five type characters and
  ends with CR LF.
\<close>

lemma redis_verdict:
  assumes m: "mem_holds e buf bs" and len: "length bs < 2 ^ 64" "3 \<le> length bs"
  shows "is_redis_protocol e buf (word_of_nat (length bs)) \<longleftrightarrow>
    hd bs \<in> set (ascii ''+-:$*'') \<and> drop (length bs - 2) bs = [13, 10]"
proof -
  have c: "\<not> word_of_nat (length bs) < (3 :: u64)"
    using len by (simp add: word_less_nat_alt unat_of_nat)
  have first: "probe_read e 1 buf ! 0 = hd bs"
    using len by (cases bs) (simp_all add: mem_holds_at0 [OF m])
  have eq: "buf + word_of_nat (length bs) - 2 = buf + word_of_nat (length bs - 2)"
    using len by (simp add: of_nat_diff)
  have last: "probe_read e 2 (buf + word_of_nat (length bs) - 2) = drop (length bs - 2) bs"
    unfolding eq by (subst mem_holdsD [OF m]) (use len in simp_all)
  have two: "drop (length bs - 2) bs = [13, 10] \<longleftrightarrow>
      drop (length bs - 2) bs ! 0 = 13 \<and> drop (length bs - 2) bs ! 1 = 10"
    using len by (intro list2_eq) simp
  show ?thesis
    unfolding is_redis_protocol_def Let_def first last two using c by simp
qed

text \<open>
  MySQL. A single packet is a request exactly when its sequence number is zero, its command
  is one of the five known ones and its length is at most 10000.
\<close>

lemma mysql_verdict:
  assumes m: "mem_holds e buf (mysql_packet seq com payload)"
    and fresh: "prev_count ci \<noteq> 4" and len: "Suc (length payload) < 2 ^ 24"
  shows "is_mysql_protocol e buf (word_of_nat (5 + length payload)) ci =
    (if seq = 0 \<and> com \<in> set mysql_commands \<and> Suc (length payload) \<le> 10000
     then kRequest else kUnknown)"
proof -
  let ?n = "Suc (length payload)"
  have c: "\<not> word_of_nat (5 + length payload) < (5 :: u64)"
    using len by (simp add: word_less_nat_alt unat_word_ariths unat_of_nat)
  have b: "probe_read e 5 buf = nat_bytes 3 ?n @ [seq, com]"
    by (subst mem_holds_at0 [OF m]) (simp_all add: mysql_packet_def)
  have "le_nat (nat_bytes 3 ?n @ [seq]) = ?n + 2 ^ 24 * unat seq"
    using len by (simp add: le_nat_append le_nat_nat_bytes)
  then have "(le_word (nat_bytes 3 ?n @ [seq]) :: u32) AND 0x00ffffff = word_of_nat ?n"
  proof -
    assume "le_nat (nat_bytes 3 ?n @ [seq]) = ?n + 2 ^ 24 * unat seq"
    moreover have "unat (le_word (nat_bytes 3 ?n @ [seq]) :: u32) = le_nat (nat_bytes 3 ?n @ [seq])"
      by (rule unat_le_word) simp
    moreover have "(0x00ffffff :: u32) = mask 24"
      by (simp add: mask_eq_exp_minus_1)
    ultimately show ?thesis
      using len by (simp only: take_bit_eq_mask [symmetric])
        (simp add: word_unat_eq_iff take_bit_eq_mod unat_mod unat_word_ariths unat_of_nat)
  qed
  moreover have "unat (word_of_nat ?n :: u32) = ?n"
    using len by (simp only: unat_of_nat) simp
  ultimately show ?thesis
    using fresh c by (simp add: is_mysql_protocol_def Let_def b nth_append word_unat_eq_iff
        word_less_nat_alt mysql_commands_def)
qed

text \<open>
  RocketMQ. The request code of a binary header is a 16-bit field, but the code swaps it
  with the 32-bit \<open>bpf_ntohl\<close> and keeps the low half: the result is always zero.
\<close>

lemma request_code_zero: "(ucast (bpf_ntohl (ucast (v :: u16))) :: u16) = 0"
proof -
  let ?x = "unat v"
  have x: "?x < 65536"
    using unsigned_less [of v] by simp
  then have "?x div 65536 = 0"
    by simp
  with x have n: "nat_bytes 4 ?x = [word_of_nat (?x mod 256), word_of_nat (?x div 256 mod 256), 0, 0]"
    by (simp add: nat_bytes_numeral div_mult2_eq [symmetric])
  have u: "unat (ucast v :: u32) = ?x"
    using x by (simp add: unsigned_ucast_eq take_bit_eq_mod)
  have "unat (bpf_ntohl (ucast v)) = le_nat (rev (nat_bytes 4 ?x))"
    unfolding bpf_ntohl_def u by (rule unat_le_word) simp
  also have "\<dots> = 65536 * (?x div 256 mod 256 + 256 * (?x mod 256))"
    unfolding n by simp
  finally have "unat (bpf_ntohl (ucast v)) mod 65536 = 0"
    by simp
  then show ?thesis
    by (simp add: word_unat_eq_iff unsigned_ucast_eq take_bit_eq_mod)
qed

lemma rocketmq_type_byte:
  assumes "length ls = 3"
  shows "(ucast (drop_bit 24 (bpf_ntohl (le_word (t # ls)))) :: u8) = t"
    and "bpf_ntohl (le_word (t # ls)) AND 0xFFFFFF = word_of_nat (le_nat (rev ls))"
proof -
  have b: "le_nat (rev ls) < 2 ^ 24"
    using le_nat_bound [of "rev ls"] assms by simp
  have sw: "bpf_ntohl (le_word (t # ls)) = le_word (rev ls @ [t])"
    using assms by (simp add: bpf_ntohl_le_word)
  have u: "unat (le_word (rev ls @ [t]) :: u32) = le_nat (rev ls) + 2 ^ 24 * unat t"
    using assms by (simp add: unat_le_word le_nat_append)
  have t: "unat t < 256"
    using unsigned_less [of t] by simp
  have "unat (drop_bit 24 (le_word (rev ls @ [t]) :: u32)) = unat t"
    using b by (simp only: unat_drop_bit_eq u) (simp add: drop_bit_eq_div)
  then show "(ucast (drop_bit 24 (bpf_ntohl (le_word (t # ls)))) :: u8) = t"
    unfolding sw using t by (simp add: word_unat_eq_iff unsigned_ucast_eq take_bit_eq_mod)
  have "(0xFFFFFF :: u32) = mask 24"
    by (simp add: mask_eq_exp_minus_1)
  then show "bpf_ntohl (le_word (t # ls)) AND 0xFFFFFF = word_of_nat (le_nat (rev ls))"
    unfolding sw using b u
    by (simp only: take_bit_eq_mask [symmetric])
      (simp add: word_unat_eq_iff take_bit_eq_mod unat_mod unat_of_nat)
qed

lemma rocketmq_reads:
  assumes m: "mem_holds e buf (rocketmq_frame t header @ rest)"
  shows "read_u32 e buf = le_word (be_bytes 4 (4 + length header))"
    and "read_u32 e (buf + 4) = le_word (t # be_bytes 3 (length header))"
  using mem_holds_at0 [OF m, of 4] mem_holdsD [OF m, of 4 4]
  by (simp_all add: read_u32_def rocketmq_frame_def)

lemma rocketmq_binary_verdict:
  assumes m: "mem_holds e buf (rocketmq_frame 1 header @ rest)"
  shows "is_rocketmq_protocol e buf count = kUnknown"
  by (simp add: is_rocketmq_protocol_def Let_def rocketmq_reads [OF m] rocketmq_type_byte
      request_code_zero)

lemma rocketmq_json_verdict:
  assumes m: "mem_holds e buf (rocketmq_frame 0 header @ rest)"
    and h: "take 8 header = ascii ''{\"code\":''"
    and len: "length header < 2 ^ 24" "length rest < 2 ^ 32"
  shows "is_rocketmq_protocol e buf (word_of_nat (length (rocketmq_frame 0 header @ rest))) = kRequest"
proof -
  let ?L = "length header"
  have L: "8 \<le> ?L"
    using arg_cong [OF h, of length] by (simp add: ascii_def)
  have fs: "bpf_ntohl (read_u32 e buf) = word_of_nat (4 + ?L)"
    using len be32_read [of "4 + ?L"] by (simp only: rocketmq_reads [OF m] read_big_endian_int32_def) simp
  have hl: "bpf_ntohl (read_u32 e (buf + 4)) AND 0xFFFFFF = word_of_nat ?L"
    using len by (simp add: rocketmq_reads [OF m] rocketmq_type_byte le_nat_nat_bytes)
  have ty: "(ucast (drop_bit 24 (bpf_ntohl (read_u32 e (buf + 4)))) :: u8) = 0"
    by (simp add: rocketmq_reads [OF m] rocketmq_type_byte)
  have code: "probe_read e 8 (buf + 8) = ascii ''{\"code\":''"
    using mem_holdsD [OF m, of 8 8] L h by (simp add: rocketmq_frame_def)
  have s1: "sint (word_of_nat (4 + ?L) :: u32) = int (4 + ?L)"
    by (rule sint_word_of_nat) (use len in simp)
  have s2: "sint (word_of_nat ?L :: u32) = int ?L"
    by (rule sint_word_of_nat) (use len in simp)
  let ?n = "length (rocketmq_frame 0 header @ rest)"
  let ?c = "word_of_nat ?n :: u64"
  have n: "?n = 8 + ?L + length rest"
    by (simp add: rocketmq_frame_def)
  have uc: "unat ?c = ?n"
    using len unfolding n by (simp add: unat_of_nat del: of_nat_add)
  have c16: "\<not> ?c < 16"
    using uc L n by (simp add: word_less_nat_alt)
  have uc4: "unat (?c - 4) = ?n - 4"
    using uc n by (subst unat_sub) (simp_all add: word_le_nat_alt)
  have "(scast (word_of_nat (4 + ?L) :: u32) :: u64) = word_of_nat (4 + ?L)"
    by (metis s1 scast_eq of_int_of_nat_eq)
  then have fits: "\<not> ?c - 4 < scast (word_of_nat (4 + ?L) :: u32)"
    using uc4 n len by (simp add: word_less_nat_alt unat_of_nat del: of_nat_add)
  have hd: "(word_of_nat ?L :: u32) = word_of_nat (4 + ?L) - 4"
    by simp
  show ?thesis
    unfolding is_rocketmq_protocol_def Let_def fs hl ty code
    using c16 fits s1 s2 L hd by (cases header) (simp_all del: of_nat_add)
qed

text \<open>
  Kafka. A request body with a known API key, a known API version and a non-negative
  correlation id is accepted.
\<close>

lemma kafka_request_verdict:
  assumes m: "mem_holds e buf (kafka_request_body k v c payload)"
    and lim: "k \<le> 62" "v \<le> 17" "c < 2 ^ 31"
  shows "infer_kafka_request e buf = kRequest"
proof -
  have r: "probe_read e 2 buf = be_bytes 2 k" "probe_read e 2 (buf + 2) = be_bytes 2 v"
    "probe_read e 4 (buf + 4) = be_bytes 4 c"
    using mem_holds_at0 [OF m, of 2] mem_holdsD [OF m, of 2 2] mem_holdsD [OF m, of 4 4]
    by (simp_all add: kafka_request_body_def)
  have s: "sint (word_of_nat k :: u16) = int k" "sint (word_of_nat v :: u16) = int v"
    "sint (word_of_nat c :: u32) = int c"
    using lim by (simp_all add: sint_word_of_nat)
  show ?thesis
    unfolding infer_kafka_request_def r
    using lim s by (simp add: be16_read be32_read)
qed

lemma kafka_split_body:
  assumes m: "mem_holds e buf (kafka_request_body k v c payload)"
    and lim: "k \<le> 62" "v \<le> 17" "c < 2 ^ 31" "length payload < 2 ^ 30"
    and prev: "prev_count ci = 4" "prev_buf ci = be_bytes 4 (8 + length payload)"
  shows "fst (is_kafka_protocol e buf (word_of_nat (8 + length payload)) tot ci)"
    and "kafka_uses_prev (word_of_nat (8 + length payload)) tot ci"
proof -
  let ?L = "8 + length payload"
  let ?n = "word_of_nat ?L :: u64"
  have "(scast (word_of_nat ?L :: u32) :: u64) = ?n"
    by (subst scast_eq, subst sint_word_of_nat) (use lim in simp_all)
  then have p: "scast (read_big_endian_int32 (prev_buf ci)) = ?n"
    using lim by (subst prev(2), subst be32_read) simp_all
  then show u: "kafka_uses_prev ?n tot ci"
    using prev by (simp add: kafka_uses_prev_def)
  have c: "?n + 4 = word_of_nat (4 + ?L)" by simp
  have c12: "\<not> ?n + 4 < 12"
    unfolding c using lim by (simp add: word_less_nat_alt unat_of_nat del: of_nat_add)
  have uc: "(ucast (?n + 4) :: u32) = word_of_nat (4 + ?L)"
    unfolding c by (simp add: word_unat_eq_iff unsigned_ucast_eq unat_of_nat take_bit_eq_mod
        mod_mod_cancel del: of_nat_add)
  have s: "sint (word_of_nat (4 + ?L) :: u32) = int (4 + ?L)"
    by (rule sint_word_of_nat) (use lim in simp)
  then have "(scast (word_of_nat (4 + ?L) :: u32) :: u64) = word_of_nat (4 + ?L)"
    by (metis scast_eq of_int_of_nat_eq)
  with s c c12 uc u show "fst (is_kafka_protocol e buf ?n tot ci)"
    unfolding is_kafka_protocol_def kafka_uses_prev_def [symmetric] Let_def
    by (simp add: kafka_request_verdict [OF m lim(1-3)] del: of_nat_add)
qed

lemma kafka_short_buffer: "\<not> fst (is_kafka_protocol e buf 4 tot ci)"
  by (simp add: is_kafka_protocol_def Let_def)

section \<open>Properties of protocol inference\<close>

text \<open>
  Property C19. \<open>infer_protocol\<close> returns the first verdict, in the order HTTP, Mongo, MySQL,
  RocketMQ, Kafka, DNS, Redis, among the classifiers that the trace filter enables, and
  unknown when none of them matches.
\<close>

theorem infer_protocol_first_match:
  "fst (infer_protocol e buf count total_count ci tp) =
     first_verdict tp (verdicts e buf count total_count ci)"
  by (rule fst_infer_protocol)

text \<open>
  \<open>infer_protocol\<close> writes three fields of the connection only: the previous
  length always, the previous four bytes exactly when the buffer has four bytes, and the
  length-header flag, which is set exactly when the verdict is Kafka on a split header of a
  connection that is not yet classified, and cleared otherwise.
\<close>

theorem infer_protocol_frame:
  "snd (infer_protocol e buf count total_count ci tp) =
     ci\<lparr>prepend_length_header :=
          (pm_protocol (fst (infer_protocol e buf count total_count ci tp)) = kProtocolKafka \<and>
           kafka_uses_prev count total_count ci \<and> protocol ci = kProtocolUnknown),
        prev_count := count,
        prev_buf := (if count = 4 then probe_read e 4 buf else prev_buf ci)\<rparr>"
  by (rule snd_infer_protocol)

text \<open>
  A whole MySQL packet on a connection without a pending header is a request
  exactly when it opens a command phase (sequence number zero) with a known command and has
  at most 10000 bytes.
\<close>

theorem mysql_classifier_exact:
  assumes "mem_holds e buf (mysql_packet seq com payload)"
    and "prev_count ci \<noteq> 4" and "Suc (length payload) < 2 ^ 24"
  shows "is_mysql_protocol e buf (word_of_nat (5 + length payload)) ci =
    (if seq = 0 \<and> com \<in> set mysql_commands \<and> Suc (length payload) \<le> 10000
     then kRequest else kUnknown)"
  using assms by (rule mysql_verdict)

theorem mysql_classifier_exact_witness:
  "is_mysql_protocol (env_of 64 (mysql_packet 0 3 (ascii ''select 1''))) 64 13 conn_info_zero = kRequest"
proof -
  have "mem_holds (env_of 64 (mysql_packet 0 3 (ascii ''select 1''))) 64
      (mysql_packet 0 3 (ascii ''select 1''))"
    by (rule mem_holds_env_of) (simp add: mysql_packet_def ascii_def)
  from mysql_classifier_exact [OF this, of conn_info_zero] show ?thesis
    by (simp add: conn_info_zero_def mysql_commands_def ascii_def)
qed

text \<open>
  RocketMQ frames without a body and with the JSON header serialisation are
  recognised as requests.
\<close>

theorem rocketmq_json_accepted:
  assumes "mem_holds e buf (rocketmq_frame 0 header @ rest)"
    and "take 8 header = ascii ''{\"code\":''"
    and "length header < 2 ^ 24" "length rest < 2 ^ 32"
  shows "is_rocketmq_protocol e buf (word_of_nat (length (rocketmq_frame 0 header @ rest))) = kRequest"
  using assms by (rule rocketmq_json_verdict)

theorem rocketmq_json_accepted_witness:
  "is_rocketmq_protocol (env_of 64 (rocketmq_frame 0 (ascii ''{\"code\":310}''))) 64 20 = kRequest"
proof -
  have "mem_holds (env_of 64 (rocketmq_frame 0 (ascii ''{\"code\":310}''))) 64
      (rocketmq_frame 0 (ascii ''{\"code\":310}'') @ [])"
    using mem_holds_env_of [of "rocketmq_frame 0 (ascii ''{\"code\":310}'')" 64]
    by (simp add: rocketmq_frame_def ascii_def)
  from rocketmq_json_accepted [OF this] show ?thesis
    by (simp add: rocketmq_frame_def ascii_def)
qed

text \<open>
  Property C36. No RocketMQ frame with the binary header serialisation is ever recognised,
  whatever its request code: the 16-bit request code is swapped as a 32-bit number, so it
  compares as zero.
\<close>

theorem rocketmq_binary_never_accepted:
  assumes "mem_holds e buf (rocketmq_frame 1 header @ rest)"
  shows "is_rocketmq_protocol e buf count = kUnknown"
  using assms by (rule rocketmq_binary_verdict)

theorem rocketmq_binary_never_accepted_witness:
  "is_rocketmq_protocol
     (env_of 64 (rocketmq_frame 1 ([0, 34, 0] @ replicate 18 0))) 64 29 = kUnknown"
proof -
  have "mem_holds (env_of 64 (rocketmq_frame 1 ([0, 34, 0] @ replicate 18 0))) 64
      (rocketmq_frame 1 ([0, 34, 0] @ replicate 18 0) @ [])"
    using mem_holds_env_of [of "rocketmq_frame 1 ([0, 34, 0] @ replicate 18 0)" 64]
    by (simp add: rocketmq_frame_def)
  from rocketmq_binary_never_accepted [OF this] show ?thesis .
qed

end
