(* ===== verification/Wire_Messages.thy ===== *)
theory Wire_Messages
  imports Protocol_Wire
begin

text \<open>
  Whole messages of the seven protocols and the complete \<open>if\<close> chain of \<open>infer_protocol\<close>: the
  messages that the code can recognise are recognised although the classifiers of other protocols see
  them first. The conditions on the messages are those of their own classifier and those under which
  no earlier classifier takes the message for its own.
\<close>

section \<open>Messages\<close>

datatype wire_message =
    HttpResponse "u8 list"
  | HttpRequest string "u8 list"
  | MongoRequest nat u32 "u8 list"
  | MysqlCommand u8 "u8 list"
  | RocketmqRequest "u8 list" "u8 list"
  | KafkaRequest nat nat nat "u8 list"
  | DnsMessage nat nat nat nat nat nat "u8 list"
  | RedisMessage u8 "u8 list"

fun wire_bytes :: "wire_message \<Rightarrow> u8 list" where
  "wire_bytes (HttpResponse rest) = ascii ''HTTP'' @ rest"
| "wire_bytes (HttpRequest meth rest) = ascii meth @ rest"
| "wire_bytes (MongoRequest request_id opcode body) =
     nat_bytes 4 (16 + length body) @ nat_bytes 4 request_id @ nat_bytes 4 0 @ nat_bytes 4 (unat opcode) @ body"
| "wire_bytes (MysqlCommand com payload) = mysql_packet 0 com payload"
| "wire_bytes (RocketmqRequest header rest) = rocketmq_frame 0 header @ rest"
| "wire_bytes (KafkaRequest api_key api_version correlation_id payload) =
     be_bytes 4 (8 + length payload) @ kafka_request_body api_key api_version correlation_id payload"
| "wire_bytes (DnsMessage ident flags qd an ns ar records) = dns_header ident flags qd an ns ar @ records"
| "wire_bytes (RedisMessage type_char text) = type_char # text @ [13, 10]"

fun wire_verdict :: "wire_message \<Rightarrow> protocol_message_t" where
  "wire_verdict (HttpResponse _) = \<lparr>pm_protocol = kProtocolHTTP, pm_type = kResponse\<rparr>"
| "wire_verdict (HttpRequest _ _) = \<lparr>pm_protocol = kProtocolHTTP, pm_type = kRequest\<rparr>"
| "wire_verdict (MongoRequest _ _ _) = \<lparr>pm_protocol = kProtocolMongo, pm_type = kRequest\<rparr>"
| "wire_verdict (MysqlCommand _ _) = \<lparr>pm_protocol = kProtocolMySQL, pm_type = kRequest\<rparr>"
| "wire_verdict (RocketmqRequest _ _) = \<lparr>pm_protocol = kProtocolRocketMQ, pm_type = kRequest\<rparr>"
| "wire_verdict (KafkaRequest _ _ _ _) = \<lparr>pm_protocol = kProtocolKafka, pm_type = kRequest\<rparr>"
| "wire_verdict (DnsMessage _ flags _ _ _ _ _) =
     \<lparr>pm_protocol = kProtocolDNS, pm_type = if flags < 2 ^ 15 then kRequest else kResponse\<rparr>"
| "wire_verdict (RedisMessage _ _) = \<lparr>pm_protocol = kProtocolRedis, pm_type = kUnknown\<rparr>"

text \<open>
  The messages considered, with the number of bytes of the whole call: the fields are in the range
  that the classifier of the protocol accepts; a Mongo message has not the length that spells \<open>GET\<close>; the eighth byte of
  a MySQL statement is ASCII; the client name of a Kafka request is absent or shorter than 256 bytes
  and its correlation id does not spell the start of a JSON header; the identifier of a DNS message is
  not zero and its first label not longer than 63 bytes; a Redis message starts with text.
\<close>

fun wire_ok :: "nat \<Rightarrow> wire_message \<Rightarrow> bool" where
  "wire_ok tot (HttpResponse rest) \<longleftrightarrow> rest \<noteq> []"
| "wire_ok tot (HttpRequest meth rest) \<longleftrightarrow>
     meth \<in> {''GET'', ''HEAD'', ''POST''} \<and> 2 \<le> length rest"
| "wire_ok tot (MongoRequest request_id opcode body) \<longleftrightarrow>
     request_id < 2 ^ 31 \<and> opcode \<in> set mongo_opcodes \<and> 16 + length body < 2 ^ 24 \<and> 16 + length body \<noteq> 0x544547"
| "wire_ok tot (MysqlCommand com payload) \<longleftrightarrow>
     com \<in> set mysql_commands \<and> Suc (length payload) \<le> 10000 \<and> (length payload < 11 \<or> payload ! 7 < 128)"
| "wire_ok tot (RocketmqRequest header rest) \<longleftrightarrow>
     take 8 header = ascii ''{\"code\":'' \<and> length header < 2 ^ 24 - 4"
| "wire_ok tot (KafkaRequest api_key api_version correlation_id payload) \<longleftrightarrow>
     api_key \<le> 62 \<and> api_version \<le> 17 \<and> correlation_id < 2 ^ 31 \<and> correlation_id \<noteq> 0x7B22636F \<and>
     length payload < 2 ^ 24 - 8 \<and> (payload = [] \<or> hd payload \<in> {0, 0xFF})"
| "wire_ok tot (DnsMessage ident flags qd an ns ar records) \<longleftrightarrow>
     0 < ident \<and> ident < 2 ^ 16 \<and> flags < 2 ^ 16 \<and> even (flags div 64) \<and> flags div 2048 mod 16 = 0 \<and>
     0 < qd \<and> qd \<le> 10 \<and> qd + an + ns + ar \<le> 25 \<and> length records \<le> 500 \<and> tot < 2 ^ 16 \<and>
     (records = [] \<or> hd records \<le> 63)"
| "wire_ok tot (RedisMessage type_char text) \<longleftrightarrow>
     type_char \<in> set (ascii ''+-:$*'') \<and> 0 \<notin> set (take 15 text) \<and> tot < 2 ^ 29"

section \<open>Classifiers that reject\<close>

text \<open>
  The buffer holds the message and possibly bytes behind it. The Mongo classifier reads 17 bytes as soon
  as there are 16, so a message of exactly 16 bytes needs one more byte that can be read.
\<close>

lemma mem_holds_append: "mem_holds e buf (bs @ tail) \<Longrightarrow> mem_holds e buf bs"
  by (auto simp: mem_holds_def)

lemma length_word: "length bs < 2 ^ 64 \<Longrightarrow> unat (word_of_nat (length bs) :: u64) = length bs"
  by (simp add: unat_of_nat)

lemma count_less: "length bs < 2 ^ 64 \<Longrightarrow> word_of_nat (length bs) < (numeral k :: u64) \<longleftrightarrow> length bs < unat (numeral k :: u64)"
  by (simp add: word_less_nat_alt unat_of_nat)

lemma http_reject:
  assumes "mem_holds e buf bs" "length bs < 2 ^ 64"
    and "5 \<le> length bs \<Longrightarrow> take 4 bs \<notin> {ascii ''HTTP'', ascii ''HEAD'', ascii ''POST''} \<and> take 3 bs \<noteq> ascii ''GET''"
  shows "is_http_protocol e buf (word_of_nat (length bs)) = kUnknown"
  using assms(3) by (auto simp: http_verdict [OF assms(1,2)])

lemma list4: "4 \<le> length bs \<Longrightarrow> take 4 bs = [bs ! 0, bs ! 1, bs ! 2, bs ! 3]"
  by (intro nth_equalityI) (auto simp: less_Suc_eq nth_Cons' numeral_eq_Suc)

lemma mongo_opcode_bytes:
  assumes "(le_word [a, b, c, d] :: u32) \<in> set mongo_opcodes"
  shows "0xD1 \<le> unat a \<and> unat a \<le> 0xDD \<and> unat c = 0"
proof -
  let ?n = "unat (le_word [a, b, c, d] :: u32)" and ?x = "unat b + 256 * (unat c + 256 * unat d)"
  have n: "?n = unat a + 256 * ?x"
    by (subst unat_le_word) simp_all
  have a: "unat a < 256"
    using unsigned_less [of a] by simp
  have "?n \<in> {2001, 2002, 2003, 2004, 2005, 2006, 2007, 2012, 2013}"
    using assms by (auto simp: mongo_opcodes_def)
  then have "0xD1 \<le> ?n mod 256" "?n mod 256 \<le> 0xDD" "?n div 256 = 7"
    by auto
  moreover have "?n mod 256 = unat a" "?n div 256 = ?x"
    using a unfolding n by (simp_all del: distrib_left_numeral)
  ultimately show ?thesis
    by simp
qed

lemma mongo_reads:
  assumes "mem_holds e buf (bs @ tail)" "length bs = 16 \<longrightarrow> tail \<noteq> []" "16 \<le> length bs" "i < 4"
  shows "take 4 (drop (4 * i) (probe_read e 17 buf)) = take 4 (drop (4 * i) bs)"
proof -
  have "probe_read e 17 buf = take 17 (bs @ tail)"
    using assms(2,3) by (intro mem_holds_at0 [OF assms(1)]) (cases tail; auto)
  moreover have "take 4 (drop (4 * i) (take 17 (bs @ tail))) = take 4 (drop (4 * i) bs)"
    using assms(3,4) by (auto simp: drop_take take_append)
  ultimately show ?thesis by simp
qed

lemma mongo_reject:
  assumes "mem_holds e buf (bs @ tail)" "length bs = 16 \<longrightarrow> tail \<noteq> []" "length bs < 2 ^ 64"
    and "16 \<le> length bs \<Longrightarrow> unat (bs ! 12) < 0xD1 \<or> 0xDD < unat (bs ! 12) \<or> bs ! 14 \<noteq> 0"
  shows "is_mongo_protocol e buf (word_of_nat (length bs)) = kUnknown"
proof (cases "16 \<le> length bs")
  case True
  have "take 4 (drop 12 (probe_read e 17 buf)) = [bs ! 12, bs ! 13, bs ! 14, bs ! 15]"
    using mongo_reads [OF assms(1,2) True, of 3] list4 [of "drop 12 bs"] True by simp
  then have "(le_word (take 4 (drop 12 (probe_read e 17 buf))) :: u32) \<notin> set mongo_opcodes"
    using mongo_opcode_bytes [of "bs ! 12" "bs ! 13" "bs ! 14" "bs ! 15"] assms(4) [OF True]
    by (auto simp: unat_eq_zero)
  then show ?thesis
    by (simp add: is_mongo_protocol_def Let_def)
qed (use assms(3) in \<open>simp add: is_mongo_protocol_def count_less\<close>)

lemma mysql_reject:
  assumes "mem_holds e buf bs" "length bs < 2 ^ 64" "prev_count ci \<noteq> 4"
    and "5 \<le> length bs \<Longrightarrow> bs ! 3 \<noteq> 0 \<or> bs ! 4 \<notin> set mysql_commands"
  shows "is_mysql_protocol e buf (word_of_nat (length bs)) ci = kUnknown"
proof (cases "5 \<le> length bs")
  case True
  then have "probe_read e 5 buf ! 3 = bs ! 3" "probe_read e 5 buf ! 4 = bs ! 4"
    by (simp_all add: mem_holds_at0 [OF assms(1)])
  then show ?thesis
    using assms(3) assms(4) [OF True] by (auto simp: is_mysql_protocol_def Let_def mysql_commands_def)
qed (use assms(2,3) in \<open>simp add: is_mysql_protocol_def Let_def count_less\<close>)

text \<open>The number that a big-endian field stands for.\<close>

lemma bpf_ntohl_be: "length bs = 4 \<Longrightarrow> bpf_ntohl (le_word bs) = word_of_nat (le_nat (rev bs))"
  by (simp only: bpf_ntohl_le_word le_word_def [symmetric])

lemma be_bound: "length bs = 4 \<Longrightarrow> le_nat (rev bs) < 2 ^ 32"
  using le_nat_bound [of "rev bs"] by simp

lemma sint_be:
  "x < 2 ^ 32 \<Longrightarrow> 0 \<le> sint (word_of_nat x :: u32) \<Longrightarrow> (scast (word_of_nat x :: u32) :: u64) = word_of_nat x"
proof -
  assume x: "x < 2 ^ 32" and "0 \<le> sint (word_of_nat x :: u32)"
  then have "\<not> bit (uint (word_of_nat x :: u32)) 31"
    unfolding sint_uint by (subst signed_take_bit_negative_iff [symmetric]) simp
  moreover have "uint (word_of_nat x :: u32) = int x"
    using x by (simp add: unsigned_of_nat take_bit_eq_mod)
  ultimately have "even (x div 2 ^ 31)"
    by (simp only: bit_of_nat_iff_bit) (simp add: bit_iff_odd)
  moreover have "x div 2 ^ 31 < 2"
    using x by (simp add: div_less_iff_less_mult)
  ultimately have "x div 2 ^ 31 = 0"
    by (cases "x div 2 ^ 31 = 1") auto
  then have "x < 2 ^ 31"
    by (simp add: div_eq_0_iff)
  then show ?thesis
    by (simp add: scast_eq sint_word_of_nat)
qed

lemma be_first_byte:
  assumes "4 \<le> length bs"
  shows "unat (bs ! 0) * 2 ^ 24 \<le> le_nat (rev (take 4 bs))" "le_nat (rev (take 4 bs)) < (unat (bs ! 0) + 1) * 2 ^ 24"
proof -
  have "le_nat (rev (take 4 bs)) = le_nat [bs ! 3, bs ! 2, bs ! 1] + 256 ^ 3 * unat (bs ! 0)"
    using le_nat_append [of "[bs ! 3, bs ! 2, bs ! 1]" "[bs ! 0]"] by (simp add: list4 [OF assms])
  then show "unat (bs ! 0) * 2 ^ 24 \<le> le_nat (rev (take 4 bs))" "le_nat (rev (take 4 bs)) < (unat (bs ! 0) + 1) * 2 ^ 24"
    using le_nat_bound [of "[bs ! 3, bs ! 2, bs ! 1]"] by simp_all
qed

lemma rocketmq_reject_size:
  assumes "mem_holds e buf bs" "length bs < 2 ^ 64"
    and "16 \<le> length bs \<Longrightarrow> length bs \<le> le_nat (rev (take 4 bs))"
  shows "is_rocketmq_protocol e buf (word_of_nat (length bs)) = kUnknown"
proof (cases "16 \<le> length bs")
  case True
  let ?x = "le_nat (rev (take 4 bs))" and ?c = "word_of_nat (length bs) :: u64"
  have r: "bpf_ntohl (read_u32 e buf) = word_of_nat ?x"
    using True by (simp add: read_u32_def mem_holds_at0 [OF assms(1)] bpf_ntohl_be)
  have x: "?x < 2 ^ 32"
    using True by (intro be_bound) simp
  have "unat (?c - 4) = length bs - 4"
    using assms(2) True by (subst unat_sub) (simp_all add: word_le_nat_alt unat_of_nat)
  moreover have "unat (word_of_nat ?x :: u64) = ?x"
    using x by (simp add: unat_of_nat)
  ultimately have "?c - 4 < word_of_nat ?x"
    using assms(3) [OF True] True by (simp add: word_less_nat_alt)
  then have "sint (word_of_nat ?x :: u32) \<le> 0 \<or> ?c - 4 < scast (word_of_nat ?x :: u32)"
    using sint_be [OF x] by (cases "0 \<le> sint (word_of_nat ?x :: u32)") simp_all
  then show ?thesis
    by (simp add: is_rocketmq_protocol_def Let_def r)
qed (use assms(2) in \<open>simp add: is_rocketmq_protocol_def count_less\<close>)

lemma rocketmq_reject_json:
  assumes "mem_holds e buf bs" "length bs < 2 ^ 64"
    and "16 \<le> length bs \<Longrightarrow> bs ! 4 = 0 \<and> take 8 (drop 8 bs) \<noteq> ascii ''{\"code\":''"
  shows "is_rocketmq_protocol e buf (word_of_nat (length bs)) = kUnknown"
proof (cases "16 \<le> length bs")
  case True
  have "probe_read e 4 (buf + 4) = bs ! 4 # [bs ! 5, bs ! 6, bs ! 7]"
    using mem_holdsD [OF assms(1), of 4 4] list4 [of "drop 4 bs"] True by simp
  then have "(ucast (drop_bit 24 (bpf_ntohl (read_u32 e (buf + 4)))) :: u8) = 0"
    using rocketmq_type_byte(1) [of "[bs ! 5, bs ! 6, bs ! 7]" "bs ! 4"] assms(3) [OF True]
    by (simp add: read_u32_def)
  moreover have "probe_read e 8 (buf + 8) \<noteq> ascii ''{\"code\":''"
    using mem_holdsD [OF assms(1), of 8 8] assms(3) [OF True] True by simp
  ultimately show ?thesis
    by (simp add: is_rocketmq_protocol_def Let_def)
qed (use assms(2) in \<open>simp add: is_rocketmq_protocol_def count_less\<close>)

lemma kafka_reject:
  assumes "mem_holds e buf bs" "length bs < 2 ^ 64" "tot < 2 ^ 64" "prev_count ci \<noteq> 4"
    and "12 \<le> length bs \<Longrightarrow> le_nat (rev (take 4 bs)) + 4 < 2 ^ 32 \<and> le_nat (rev (take 4 bs)) + 4 \<notin> {length bs, tot}"
  shows "\<not> fst (is_kafka_protocol e buf (word_of_nat (length bs)) (word_of_nat tot) ci)"
proof (cases "12 \<le> length bs")
  case True
  let ?x = "le_nat (rev (take 4 bs))"
  have r: "read_big_endian_int32 (probe_read e 4 buf) + 4 = word_of_nat (?x + 4)"
    using True by (simp add: read_big_endian_int32_def mem_holds_at0 [OF assms(1)] bpf_ntohl_be)
  have "unat (word_of_nat (?x + 4) :: u64) = ?x + 4"
    using assms(5) [OF True] by (subst unat_of_nat) simp
  then have "word_of_nat (length bs) \<noteq> (word_of_nat (?x + 4) :: u64)" "word_of_nat tot \<noteq> (word_of_nat (?x + 4) :: u64)"
    using assms(5) [OF True] assms(2,3) by (auto dest!: arg_cong [where f = unat] simp: length_word unat_of_nat)
  then show ?thesis
    using sint_be [of "?x + 4"] assms(4) assms(5) [OF True]
    by (auto simp: is_kafka_protocol_def Let_def r)
qed (use assms(2,4) in \<open>simp add: is_kafka_protocol_def Let_def count_less\<close>)

lemma dns_reject:
  assumes "mem_holds e buf bs" "length bs < 2 ^ 64" and "12 \<le> length bs \<Longrightarrow> bs ! 4 \<noteq> 0"
  shows "is_dns_protocol e buf (word_of_nat (length bs)) = kUnknown"
proof (cases "12 \<le> length bs")
  case True
  have "be16_at (probe_read e 12 buf) 4 = push_bit 8 (ucast (bs ! 4)) + ucast (bs ! 5)"
    using True by (simp add: be16_at_def mem_holds_at0 [OF assms(1)])
  moreover have "0 < unat (bs ! 4)" "unat (bs ! 4) < 256" "unat (bs ! 5) < 256"
    using assms(3) [OF True] unsigned_less [of "bs ! 4"] unsigned_less [of "bs ! 5"] by (simp_all add: unat_gt_0)
  then have "push_bit 8 (ucast (bs ! 4)) + ucast (bs ! 5) > (10 :: u16)"
    by (simp add: word_less_nat_alt unat_word_ariths push_bit_eq_mult unsigned_ucast_eq take_bit_eq_mod)
  ultimately show ?thesis
    by (simp add: is_dns_protocol_def Let_def)
qed (use assms(2) in \<open>simp add: is_dns_protocol_def count_less\<close>)

section \<open>Each protocol\<close>

lemmas chain_simps = fst_infer_protocol verdicts_def first_verdict_simps Let_def

lemma infer_http:
  assumes "mem_holds e buf bs" "length bs < 2 ^ 64" "5 \<le> length bs" "TRACE_PROTOCOL tp kProtocolHTTP"
  shows "take 4 bs = ascii ''HTTP'' \<Longrightarrow> fst (infer_protocol e buf (word_of_nat (length bs)) tot ci tp) =
      \<lparr>pm_protocol = kProtocolHTTP, pm_type = kResponse\<rparr>"
    and "take 4 bs \<noteq> ascii ''HTTP'' \<Longrightarrow>
      take 3 bs = ascii ''GET'' \<or> take 4 bs = ascii ''HEAD'' \<or> take 4 bs = ascii ''POST'' \<Longrightarrow>
      fst (infer_protocol e buf (word_of_nat (length bs)) tot ci tp) =
      \<lparr>pm_protocol = kProtocolHTTP, pm_type = kRequest\<rparr>"
  using assms(3,4) by (simp_all add: chain_simps http_verdict [OF assms(1,2)])

lemma http_reject_third:
  assumes "mem_holds e buf bs" "length bs < 2 ^ 64"
    and "5 \<le> length bs \<Longrightarrow> unat (bs ! 2) \<notin> {0x41, 0x53, 0x54}"
  shows "is_http_protocol e buf (word_of_nat (length bs)) = kUnknown"
proof (rule http_reject [OF assms(1,2)])
  assume "5 \<le> length bs"
  then show "take 4 bs \<notin> {ascii ''HTTP'', ascii ''HEAD'', ascii ''POST''} \<and> take 3 bs \<noteq> ascii ''GET''"
    using assms(3) by (auto simp: ascii_def dest!: arg_cong [where f = "\<lambda>l. l ! 2"])
qed

lemma http_reject_first:
  assumes "mem_holds e buf bs" "length bs < 2 ^ 64"
    and "5 \<le> length bs \<Longrightarrow> unat (bs ! 0) \<notin> {0x47, 0x48, 0x50}"
  shows "is_http_protocol e buf (word_of_nat (length bs)) = kUnknown"
proof (rule http_reject [OF assms(1,2)])
  assume "5 \<le> length bs"
  then show "take 4 bs \<notin> {ascii ''HTTP'', ascii ''HEAD'', ascii ''POST''} \<and> take 3 bs \<noteq> ascii ''GET''"
    using assms(3) by (auto simp: ascii_def dest!: arg_cong [where f = "\<lambda>l. l ! 0"])
qed

lemma infer_redis:
  assumes "mem_holds e buf (wire_bytes (RedisMessage c text) @ tail)" "length (wire_bytes (RedisMessage c text)) = 16 \<longrightarrow> tail \<noteq> []" "prev_count ci \<noteq> 4"
    and "TRACE_PROTOCOL tp kProtocolRedis" "wire_ok tot (RedisMessage c text)"
    and "length (wire_bytes (RedisMessage c text)) \<le> tot"
  defines "bs \<equiv> wire_bytes (RedisMessage c text)"
  shows "fst (infer_protocol e buf (word_of_nat (length bs)) (word_of_nat tot) ci tp) =
    \<lparr>pm_protocol = kProtocolRedis, pm_type = kUnknown\<rparr>"
proof -
  have m: "mem_holds e buf bs" and len: "length bs < 2 ^ 29" "length bs < 2 ^ 64" "tot < 2 ^ 64"
    using assms(1,5,6) mem_holds_append by (auto simp: bs_def)
  have nz: "bs ! i \<noteq> 0" if "i < length bs" "i < 16" for i
  proof (cases i)
    case 0
    then show ?thesis using assms(5) by (auto simp: bs_def ascii_def)
  next
    case (Suc j)
    then show ?thesis
      using that assms(5) nth_mem [of j "take 15 text"] by (auto simp: bs_def nth_append nth_Cons')
  qed
  have x: "0x24000000 \<le> le_nat (rev (take 4 bs)) \<and> le_nat (rev (take 4 bs)) < 2 ^ 31" if "4 \<le> length bs"
    using be_first_byte [OF that] assms(5) by (auto simp: bs_def ascii_def)
  have "is_http_protocol e buf (word_of_nat (length bs)) = kUnknown"
    by (rule http_reject_first [OF m len(2)]) (use assms(5) in \<open>auto simp: bs_def ascii_def\<close>)
  moreover have "is_mongo_protocol e buf (word_of_nat (length bs)) = kUnknown"
    by (rule mongo_reject [OF assms(1,2), folded bs_def, OF len(2)]) (simp add: nz)
  moreover have "is_mysql_protocol e buf (word_of_nat (length bs)) ci = kUnknown"
    by (rule mysql_reject [OF m len(2) assms(3)]) (simp add: nz)
  moreover have "is_rocketmq_protocol e buf (word_of_nat (length bs)) = kUnknown"
    by (rule rocketmq_reject_size [OF m len(2)]) (use len(1) x in simp)
  moreover have "\<not> fst (is_kafka_protocol e buf (word_of_nat (length bs)) (word_of_nat tot) ci)"
    by (rule kafka_reject [OF m len(2,3) assms(3)]) (use len(1) x assms(5) in auto)
  moreover have "is_dns_protocol e buf (word_of_nat (length bs)) = kUnknown"
    by (rule dns_reject [OF m len(2)]) (simp add: nz)
  moreover have "is_redis_protocol e buf (word_of_nat (length bs))"
    using redis_verdict [OF m len(2)] assms(5) by (simp add: bs_def)
  ultimately show ?thesis
    using assms(4) by (simp add: chain_simps)
qed

lemma infer_mongo:
  assumes "mem_holds e buf (wire_bytes (MongoRequest rid opcode body) @ tail)" "length (wire_bytes (MongoRequest rid opcode body)) = 16 \<longrightarrow> tail \<noteq> []"
    and "TRACE_PROTOCOL tp kProtocolMongo" "wire_ok tot (MongoRequest rid opcode body)"
  defines "bs \<equiv> wire_bytes (MongoRequest rid opcode body)"
  shows "fst (infer_protocol e buf (word_of_nat (length bs)) tot' ci tp) =
    \<lparr>pm_protocol = kProtocolMongo, pm_type = kRequest\<rparr>"
proof -
  have m: "mem_holds e buf bs" and len: "length bs = 16 + length body" "length bs < 2 ^ 64"
    using assms(1,4) mem_holds_append by (auto simp: bs_def)
  let ?n = "16 + length body"
  have "is_http_protocol e buf (word_of_nat (length bs)) = kUnknown"
  proof (rule http_reject [OF m len(2)])
    have "take 3 bs = nat_bytes 3 ?n" "bs ! 3 = 0"
      using assms(4) by (simp_all add: bs_def nat_bytes_numeral div_mult2_eq [symmetric] nth_append)
    moreover have "nat_bytes 3 ?n \<noteq> ascii ''GET''"
    proof
      assume "nat_bytes 3 ?n = ascii ''GET''"
      from arg_cong [OF this, of le_nat] show False
        using assms(4) by (simp add: le_nat_nat_bytes ascii_def)
    qed
    ultimately show "take 4 bs \<notin> {ascii ''HTTP'', ascii ''HEAD'', ascii ''POST''} \<and> take 3 bs \<noteq> ascii ''GET''"
      using len(1) by (auto simp: ascii_def dest!: arg_cong [where f = "\<lambda>l. l ! 3"])
  qed
  moreover have "is_mongo_protocol e buf (word_of_nat (length bs)) = kRequest"
  proof -
    note rd = mongo_reads [OF assms(1,2), folded bs_def]
    have "take 4 (probe_read e 17 buf) = nat_bytes 4 ?n" "take 4 (drop 4 (probe_read e 17 buf)) = nat_bytes 4 rid"
      "take 4 (drop 8 (probe_read e 17 buf)) = nat_bytes 4 0" "take 4 (drop 12 (probe_read e 17 buf)) = nat_bytes 4 (unat opcode)"
      using rd [of 0] rd [of 1] rd [of 2] rd [of 3] by (simp_all add: bs_def)
    moreover have "sint (le_word (nat_bytes 4 ?n) :: u32) = int ?n" "sint (le_word (nat_bytes 4 rid) :: u32) = int rid"
      using assms(4) by (simp_all add: le_word_nat_bytes_small sint_word_of_nat del: of_nat_add)
    moreover have "\<not> word_of_nat (length bs) < (16 :: u64)"
      unfolding count_less [OF len(2)] using len by simp
    ultimately show ?thesis
      using assms(4)
      by (simp add: is_mongo_protocol_def Let_def le_word_nat_bytes le_word_nat_bytes_small)
  qed
  ultimately show ?thesis
    using assms(3) by (simp add: chain_simps)
qed

lemma infer_mysql:
  assumes "mem_holds e buf (wire_bytes (MysqlCommand com payload) @ tail)" "length (wire_bytes (MysqlCommand com payload)) = 16 \<longrightarrow> tail \<noteq> []" "prev_count ci \<noteq> 4"
    and "TRACE_PROTOCOL tp kProtocolMySQL" "wire_ok tot (MysqlCommand com payload)"
  defines "bs \<equiv> wire_bytes (MysqlCommand com payload)"
  shows "fst (infer_protocol e buf (word_of_nat (length bs)) tot' ci tp) =
    \<lparr>pm_protocol = kProtocolMySQL, pm_type = kRequest\<rparr>"
proof -
  have m: "mem_holds e buf bs" and len: "length bs = 5 + length payload" "length bs < 2 ^ 64"
    using assms(1,5) mem_holds_append by (auto simp: bs_def mysql_packet_def)
  have bs: "bs ! 2 = 0" "bs ! 12 = payload ! 7"
    using assms(5) by (auto simp: bs_def mysql_packet_def nat_bytes_numeral div_mult2_eq [symmetric] nth_append nth_Cons')
  have "is_http_protocol e buf (word_of_nat (length bs)) = kUnknown"
    by (rule http_reject_third [OF m len(2)]) (simp add: bs)
  moreover have "is_mongo_protocol e buf (word_of_nat (length bs)) = kUnknown"
    by (rule mongo_reject [OF assms(1,2), folded bs_def, OF len(2)])
      (use assms(5) len(1) in \<open>auto simp: bs word_less_nat_alt\<close>)
  moreover have "is_mysql_protocol e buf (word_of_nat (length bs)) ci = kRequest"
    using mysql_verdict [of e buf 0 com payload ci] m assms(3,5) by (simp add: bs_def len [unfolded bs_def] mysql_packet_def)
  ultimately show ?thesis
    using assms(4) by (simp add: chain_simps)
qed

lemma infer_rocketmq:
  assumes "mem_holds e buf (wire_bytes (RocketmqRequest header rest) @ tail)" "length (wire_bytes (RocketmqRequest header rest)) = 16 \<longrightarrow> tail \<noteq> []" "prev_count ci \<noteq> 4"
    and "TRACE_PROTOCOL tp kProtocolRocketMQ" "wire_ok tot (RocketmqRequest header rest)" "length rest < 2 ^ 32"
  defines "bs \<equiv> wire_bytes (RocketmqRequest header rest)"
  shows "fst (infer_protocol e buf (word_of_nat (length bs)) tot' ci tp) =
    \<lparr>pm_protocol = kProtocolRocketMQ, pm_type = kRequest\<rparr>"
proof -
  have m: "mem_holds e buf bs" and len: "length bs < 2 ^ 64"
    using assms(1,5,6) mem_holds_append by (auto simp: bs_def rocketmq_frame_def)
  have h8: "take 8 header = ascii ''{\"code\":''"
    using assms(5) by simp
  have h: "8 \<le> length header" "header ! 6 = 0x22"
    using arg_cong [OF h8, of length] arg_cong [OF h8, of "\<lambda>l. l ! 6"] by (simp_all add: ascii_def)
  have bs: "bs ! 0 = 0" "bs ! 4 = 0" "bs ! 14 = header ! 6"
    using assms(5) h(1) by (auto simp: bs_def rocketmq_frame_def be_bytes_def nat_bytes_numeral
        div_mult2_eq [symmetric] nth_append)
  have "is_http_protocol e buf (word_of_nat (length bs)) = kUnknown"
    by (rule http_reject_first [OF m len]) (simp add: bs)
  moreover have "is_mongo_protocol e buf (word_of_nat (length bs)) = kUnknown"
    by (rule mongo_reject [OF assms(1,2), folded bs_def, OF len]) (simp add: bs h)
  moreover have "is_mysql_protocol e buf (word_of_nat (length bs)) ci = kUnknown"
    by (rule mysql_reject [OF m len assms(3)]) (simp add: bs mysql_commands_def)
  moreover have "is_rocketmq_protocol e buf (word_of_nat (length bs)) = kRequest"
    unfolding bs_def wire_bytes.simps
    by (rule rocketmq_json_verdict) (use m assms(5,6) in \<open>simp_all add: bs_def\<close>)
  ultimately show ?thesis
    using assms(4) by (simp add: chain_simps)
qed

lemma mem_holds_drop:
  assumes "mem_holds e buf (xs @ ys)"
  shows "mem_holds e (buf + word_of_nat (length xs)) ys"
  unfolding mem_holds_def
proof (intro allI impI)
  fix k n assume "k + n \<le> length ys"
  then show "probe_read e n (buf + word_of_nat (length xs) + word_of_nat k) = take n (drop k ys)"
    using mem_holdsD [OF assms, of "length xs + k" n] by (simp add: add.assoc)
qed

lemma be_bytes_4: "be_bytes 4 x = [word_of_nat (x div 2 ^ 24 mod 256), word_of_nat (x div 2 ^ 16 mod 256),
    word_of_nat (x div 256 mod 256), word_of_nat (x mod 256)]"
  by (simp add: be_bytes_def nat_bytes_numeral div_mult2_eq [symmetric])

lemma kafka_verdict:
  assumes "mem_holds e buf (wire_bytes (KafkaRequest k v c payload))" "prev_count ci \<noteq> 4"
    and lim: "k \<le> 62" "v \<le> 17" "c < 2 ^ 31" "length payload < 2 ^ 24 - 8"
  shows "fst (is_kafka_protocol e buf (word_of_nat (12 + length payload)) tot ci)"
proof -
  let ?n = "12 + length payload"
  have "mem_holds e (buf + 4) (kafka_request_body k v c payload)"
    using mem_holds_drop [of e buf "be_bytes 4 (8 + length payload)"] assms(1) by simp
  then have req: "infer_kafka_request e (buf + 4) = kRequest"
    by (rule kafka_request_verdict [OF _ lim(1-3)])
  have "read_big_endian_int32 (probe_read e 4 buf) = word_of_nat (8 + length payload)"
    using be32_read [of "8 + length payload"] lim(4) by (simp add: mem_holds_at0 [OF assms(1)])
  then have size: "read_big_endian_int32 (probe_read e 4 buf) + 4 = word_of_nat ?n"
    by simp
  have s: "sint (word_of_nat ?n :: u32) = int ?n"
    by (rule sint_word_of_nat) (use lim(4) in simp)
  then have "(scast (word_of_nat ?n :: u32) :: u64) = word_of_nat ?n"
    by (metis scast_eq of_int_of_nat_eq)
  moreover have "\<not> word_of_nat ?n < (12 :: u64)"
    using lim(4) by (simp only: word_less_nat_alt unat_of_nat) simp
  ultimately show ?thesis
    using assms(2) s by (simp add: is_kafka_protocol_def Let_def size req del: of_nat_add)
qed

lemma infer_kafka:
  assumes "mem_holds e buf (wire_bytes (KafkaRequest k v c payload) @ tail)" "length (wire_bytes (KafkaRequest k v c payload)) = 16 \<longrightarrow> tail \<noteq> []" "prev_count ci \<noteq> 4"
    and "TRACE_PROTOCOL tp kProtocolKafka" "wire_ok tot (KafkaRequest k v c payload)"
  defines "bs \<equiv> wire_bytes (KafkaRequest k v c payload)"
  shows "fst (infer_protocol e buf (word_of_nat (length bs)) tot' ci tp) =
    \<lparr>pm_protocol = kProtocolKafka, pm_type = kRequest\<rparr>"
proof -
  have m: "mem_holds e buf bs" and len: "length bs = 12 + length payload" "length bs < 2 ^ 64"
    using assms(1,5) mem_holds_append by (auto simp: bs_def kafka_request_body_def)
  have bs: "bs ! 0 = 0" "bs ! 4 = 0" "16 \<le> length bs \<Longrightarrow> bs ! 12 = hd payload"
    using assms(5) by (cases payload; auto simp: bs_def kafka_request_body_def be_bytes_4 be_bytes_2)+
  have "take 4 (drop 8 bs) = be_bytes 4 c"
    by (simp add: bs_def kafka_request_body_def)
  then have c: "le_nat (rev (take 4 (take 8 (drop 8 bs)))) = c"
    using assms(5) by (simp add: min_def le_nat_nat_bytes)
  have json: "take 8 (drop 8 bs) \<noteq> ascii ''{\"code\":''"
  proof
    assume "take 8 (drop 8 bs) = ascii ''{\"code\":''"
    with c have "c = 0x7B22636F"
      by (simp only:) (simp add: ascii_def)
    then show False
      using assms(5) by simp
  qed
  have "is_http_protocol e buf (word_of_nat (length bs)) = kUnknown"
    by (rule http_reject_first [OF m len(2)]) (simp add: bs)
  moreover have "is_mongo_protocol e buf (word_of_nat (length bs)) = kUnknown"
    by (rule mongo_reject [OF assms(1,2), folded bs_def, OF len(2)]) (use assms(5) len(1) in \<open>auto simp: bs\<close>)
  moreover have "is_mysql_protocol e buf (word_of_nat (length bs)) ci = kUnknown"
    by (rule mysql_reject [OF m len(2) assms(3)]) (simp add: bs mysql_commands_def)
  moreover have "is_rocketmq_protocol e buf (word_of_nat (length bs)) = kUnknown"
    by (rule rocketmq_reject_json [OF m len(2)]) (simp add: bs json)
  moreover have "fst (is_kafka_protocol e buf (word_of_nat (length bs)) tot' ci)"
    unfolding len(1) using kafka_verdict [of e buf k v c payload ci tot'] m assms(3,5) by (simp add: bs_def)
  ultimately show ?thesis
    using assms(4) by (simp add: chain_simps)
qed

lemma multiple_of_16: "n < 32 \<Longrightarrow> n mod 16 = 0 \<Longrightarrow> n \<le> (16 :: nat)"
  by presburger

lemma infer_dns:
  assumes "mem_holds e buf (wire_bytes (DnsMessage ident flags qd an ns ar records) @ tail)" "length (wire_bytes (DnsMessage ident flags qd an ns ar records)) = 16 \<longrightarrow> tail \<noteq> []" "prev_count ci \<noteq> 4"
    and "TRACE_PROTOCOL tp kProtocolDNS" "wire_ok tot (DnsMessage ident flags qd an ns ar records)"
  defines "bs \<equiv> wire_bytes (DnsMessage ident flags qd an ns ar records)"
  shows "fst (infer_protocol e buf (word_of_nat (length bs)) (word_of_nat tot) ci tp) =
    wire_verdict (DnsMessage ident flags qd an ns ar records)"
proof -
  have m: "mem_holds e buf bs" and len: "length bs = 12 + length records" "length bs < 2 ^ 64" "length bs \<le> 512" "tot < 2 ^ 64"
    using assms(1,5) mem_holds_append by (auto simp: bs_def dns_header_def)
  have "flags div 2048 < 32"
    using assms(5) by (simp add: div_less_iff_less_mult)
  then have "flags div 2048 \<le> 16"
    using assms(5) by (intro multiple_of_16) simp_all
  then have "flags div 2048 < 17"
    by simp
  then have fl: "flags < 17 * 2048"
    by (simp add: div_less_iff_less_mult)
  have "flags div 256 mod 256 = flags div 256"
    using assms(5) by (simp add: div_less_iff_less_mult)
  then have flags: "flags div 256 mod 256 div 8 mod 16 = 0"
    using assms(5) by (simp add: div_mult2_eq [symmetric])
  have bs: "unat (bs ! 2) = flags div 256 mod 256" "bs ! 4 = 0" "16 \<le> length bs \<Longrightarrow> bs ! 12 = hd records"
    using assms(5) by (cases records; auto simp: bs_def dns_header_def be_bytes_2 unat_of_nat)+
  have "rev (take 4 bs) = nat_bytes 2 flags @ nat_bytes 2 ident"
    by (simp add: bs_def dns_header_def)
  then have size: "le_nat (rev (take 4 bs)) = flags + 2 ^ 16 * ident"
    using assms(5) by (simp add: le_nat_append le_nat_nat_bytes)
  have "is_http_protocol e buf (word_of_nat (length bs)) = kUnknown"
    by (rule http_reject_third [OF m len(2)]) (use flags in \<open>auto simp: bs\<close>)
  moreover have "is_mongo_protocol e buf (word_of_nat (length bs)) = kUnknown"
    by (rule mongo_reject [OF assms(1,2), folded bs_def, OF len(2)])
      (use assms(5) len(1) in \<open>auto simp: bs word_le_nat_alt\<close>)
  moreover have "is_mysql_protocol e buf (word_of_nat (length bs)) ci = kUnknown"
    by (rule mysql_reject [OF m len(2) assms(3)]) (simp add: bs mysql_commands_def)
  moreover have "is_rocketmq_protocol e buf (word_of_nat (length bs)) = kUnknown"
    by (rule rocketmq_reject_size [OF m len(2)]) (use assms(5) len(3) in \<open>simp add: size\<close>)
  moreover have "\<not> fst (is_kafka_protocol e buf (word_of_nat (length bs)) (word_of_nat tot) ci)"
    by (rule kafka_reject [OF m len(2,4) assms(3)]) (use assms(5) len(3) fl in \<open>auto simp: size\<close>)
  moreover have "is_dns_protocol e buf (word_of_nat (length bs)) = (if flags < 2 ^ 15 then kRequest else kResponse)"
    using dns_verdict [of e buf ident flags qd an ns ar records] m assms(5) by (simp add: bs_def dns_header_def)
  ultimately show ?thesis
    using assms(4) by (simp add: chain_simps)
qed

section \<open>Property\<close>

text \<open>
  Property C18. The messages of \<open>wire_ok\<close> are recognised for what they are, although the
  classifiers of other protocols look at them first: HTTP responses and \<open>GET\<close>, \<open>HEAD\<close> and \<open>POST\<close>
  requests (no other method), Mongo requests, MySQL commands of at most 10000 bytes, RocketMQ
  requests with a JSON header (no binary one), Kafka requests sent in one piece, DNS
  queries and answers, and Redis messages, with fields in the ranges \<open>wire_ok\<close> gives. The buffer holds one
  whole message, the protocol is traced alone or with all others, and the call before did not leave a
  length header of four bytes pending; a message of exactly 16 bytes is followed by a readable byte. Then
  \<open>infer_protocol\<close> returns the protocol and whether the message is a request or a response (for Redis,
  which has no such mark, unknown).
\<close>

theorem wire_message_recognised:
  assumes "mem_holds e buf (wire_bytes msg @ tail)" and "length (wire_bytes msg) = 16 \<longrightarrow> tail \<noteq> []"
    and "wire_ok tot msg" and "length (wire_bytes msg) \<le> tot" and "tot < 2 ^ 32"
    and "prev_count ci \<noteq> 4" and "TRACE_PROTOCOL tp (pm_protocol (wire_verdict msg))"
  shows "fst (infer_protocol e buf (word_of_nat (length (wire_bytes msg))) (word_of_nat tot) ci tp) = wire_verdict msg"
proof (cases msg)
  case (HttpResponse rest)
  have "mem_holds e buf (wire_bytes msg)" "length (wire_bytes msg) < 2 ^ 64"
    using assms(1,4,5) mem_holds_append by auto
  note http = infer_http [OF this]
  show ?thesis
    using http(1) assms(3,7) HttpResponse by (cases rest) (simp_all add: ascii_def)
next
  case (HttpRequest meth rest)
  have "mem_holds e buf (wire_bytes msg)" "length (wire_bytes msg) < 2 ^ 64"
    using assms(1,4,5) mem_holds_append by auto
  note http = infer_http [OF this]
  obtain a b more where "rest = a # b # more"
    using assms(3) HttpRequest by (cases rest; cases "tl rest") auto
  then show ?thesis
    using http(2) assms(3,7) HttpRequest by (auto simp: ascii_def)
next
  case (RocketmqRequest header rest)
  then have "length rest < 2 ^ 32"
    using assms(4,5) by simp
  then show ?thesis
    using infer_rocketmq assms(1-3,6,7) RocketmqRequest by fastforce
qed (use infer_mongo infer_mysql infer_kafka infer_dns infer_redis assms in fastforce)+

theorem wire_message_recognised_witness:
  "fst (infer_protocol (env_of 0 (ascii ''*1'' @ [13, 10] @ ascii ''$4'' @ [13, 10] @ ascii ''PING'' @ [13, 10, 0])) 0 14 14
     conn_info_zero (traffic_protocol_code kProtocolUnset)) = \<lparr>pm_protocol = kProtocolRedis, pm_type = kUnknown\<rparr> \<and>
   fst (infer_protocol (env_of 0 (dns_header 7 256 1 0 0 0 @ [3] @ ascii ''www'' @ [0, 0, 1, 0, 1, 0])) 0 21 21
     conn_info_zero (traffic_protocol_code kProtocolUnset)) = \<lparr>pm_protocol = kProtocolDNS, pm_type = kRequest\<rparr>"
proof -
  let ?redis = "RedisMessage 42 (ascii ''1'' @ [13, 10] @ ascii ''$4'' @ [13, 10] @ ascii ''PING'')"
  let ?dns = "DnsMessage 7 256 1 0 0 0 ([3] @ ascii ''www'' @ [0, 0, 1, 0, 1])"
  have fresh: "prev_count conn_info_zero \<noteq> 4"
    by (simp add: conn_info_zero_def)
  have all: "TRACE_PROTOCOL (traffic_protocol_code kProtocolUnset) p" for p
    by (simp add: TRACE_PROTOCOL_def)
  have redis: "mem_holds (env_of 0 (wire_bytes ?redis @ [0])) 0 (wire_bytes ?redis @ [0])"
    "wire_ok 14 ?redis" "length (wire_bytes ?redis) = 14"
    by (rule mem_holds_env_of) (simp_all add: ascii_def)
  have dns: "mem_holds (env_of 0 (wire_bytes ?dns @ [0])) 0 (wire_bytes ?dns @ [0])"
    "wire_ok 21 ?dns" "length (wire_bytes ?dns) = 21"
    by (rule mem_holds_env_of) (simp_all add: ascii_def dns_header_def)
  show ?thesis
    using wire_message_recognised [OF redis(1) _ redis(2) _ _ fresh all] redis(3)
      wire_message_recognised [OF dns(1) _ dns(2) _ _ fresh all] dns(3)
    by (simp add: ascii_def)
qed

end
