(* ===== verification/Bpf_State.thy ===== *)
theory Bpf_State
  imports Bpf_Env
begin

text \<open>
  The state the programs share: every hash map, per-CPU array and perf ring that
  \<open>data_common.h\<close>, \<open>pktlatency.bpf.c\<close>, \<open>go_common.h\<close>, \<open>openssl.h\<close> and
  \<open>gotls.bpf.c\<close> declare, in one record. The loader replaces the maps of the OpenSSL and
  Go objects by those of the kernel probes (\<open>agent/uprobe/common.go\<close>), so one record
  serves all programs. A per-CPU
  array of one element is a function from CPU numbers; \<open>None\<close> is the failing lookup the
  programs test for. A perf ring is the list of what was submitted, oldest first, with the
  number of bytes the program asked to submit.
\<close>

section \<open>Structs of gotls.bpf.c and of the process events\<close>

datatype location_type_t = kLocationTypeInvalid | kLocationTypeStack | kLocationTypeRegisters

record location_t =
  loc_type :: location_type_t
  loc_offset :: u32

record go_tls_symaddrs_t =
  Write_c_loc :: location_t
  Write_b_loc :: location_t
  Write_retval0_loc :: location_t
  Write_retval1_loc :: location_t
  Read_c_loc :: location_t
  Read_b_loc :: location_t
  Read_retval0_loc :: location_t
  Read_retval1_loc :: location_t

record go_tls_conn_args =
  conn_ptr :: u64
  plaintext_ptr :: u64

record process_exec_event =
  exec_pid :: u32

record process_exit_event =
  exit_pid :: u32

section \<open>The shared state\<close>

type_synonym 'v percpu = "nat \<Rightarrow> 'v option"

record bpf_state =
  \<comment> \<open>\<open>data_common.h\<close>\<close>
  filter_mntns_map :: "(u32, u8) bpf_map"
  filter_pidns_map :: "(u32, u8) bpf_map"
  filter_netns_map :: "(u32, u8) bpf_map"
  filter_pid_map :: "(u32, u8) bpf_map"
  active_ssl_read_args_map :: "(u64, data_args) bpf_map"
  active_ssl_write_args_map :: "(u64, data_args) bpf_map"
  ssl_user_space_call_map :: "(u64, nested_syscall_fd_t) bpf_map"
  conn_info_map :: "(u64, conn_info_t) bpf_map"
  control_values :: "(u32, u64) bpf_map"
  syscall_data_map :: "kern_evt_data percpu"
  ssl_data_map :: "kern_evt_ssl_data percpu"
  first_packet_evt_map :: "first_packet_evt percpu"
  conn_evt_map :: "conn_evt_t percpu"
  rb :: "(kern_evt \<times> nat) list"
  syscall_rb :: "(kern_evt_data \<times> nat) list"
  ssl_rb :: "(kern_evt_ssl_data \<times> nat) list"
  first_packet_rb :: "first_packet_evt list"
  conn_evt_rb :: "conn_evt_t list"
  \<comment> \<open>\<open>pktlatency.bpf.c\<close>\<close>
  sock_xmit_map :: "(sock_key, u32) bpf_map"
  sock_key_conn_id_map :: "(sock_key, conn_id_s_t) bpf_map"
  nat_flow_map :: "(sock_key, sock_key) bpf_map"
  conn_info_t_map :: "conn_info_t percpu"
  kern_evt_t_map :: "kern_evt percpu"
  accept_args_map :: "(u64, accept_args) bpf_map"
  connect_args_map :: "(u64, connect_args) bpf_map"
  close_args_map :: "(u64, close_args) bpf_map"
  write_args_map :: "(u64, data_args) bpf_map"
  active_sendfile_args_map :: "(u64, sendfile_args) bpf_map"
  read_args_map :: "(u64, data_args) bpf_map"
  enabled_remote_port_map :: "(u16, u8) bpf_map"
  enabled_local_port_map :: "(u16, u8) bpf_map"
  enabled_remote_ip_map :: "(in6_addr, u8) bpf_map"
  enabled_local_ipv4_map :: "(u32, u8) bpf_map"
  proc_exec_events :: "process_exec_event list"
  proc_exit_events :: "process_exit_event list"
  \<comment> \<open>\<open>go_common.h\<close> and \<open>gotls.bpf.c\<close>\<close>
  go_common_symaddrs_map :: "(u32, go_common_symaddrs_t) bpf_map"
  go_ssl_user_space_call_map :: "(tgid_goid_t, nested_syscall_fd_t) bpf_map"
  go_tls_symaddrs_map :: "(u32, go_tls_symaddrs_t) bpf_map"
  active_tls_conn_op_map :: "(tgid_goid_t, go_tls_conn_args) bpf_map"
  regs_heap :: "u64 list percpu"

definition MAX_ENTRIES :: nat where "MAX_ENTRIES = 65535"

definition kern_evt_data_zero :: kern_evt_data where
  "kern_evt_data_zero = \<lparr>kd_ke = kern_evt_zero, kd_buf_size = 0, kd_msg = replicate MAX_MSG_SIZE 0\<rparr>"

definition kern_evt_ssl_data_zero :: kern_evt_ssl_data where
  "kern_evt_ssl_data_zero = \<lparr>ks_ke = kern_evt_zero, ks_syscall_seq = 0, ks_syscall_len = 0,
     ks_buf_size = 0, ks_msg = replicate MAX_MSG_SIZE 0\<rparr>"

definition first_packet_evt_zero :: first_packet_evt where
  "first_packet_evt_zero = \<lparr>fp_ts = 0, fp_len = 0, fp_flags = 0, fp_ifindex = 0,
     fp_step = step_start, fp_key = sock_key_zero\<rparr>"

definition conn_evt_zero :: conn_evt_t where
  "conn_evt_zero = \<lparr>ce_conn_info = conn_info_zero, ce_conn_type = kConnect, ce_ts = 0\<rparr>"

text \<open>The state right after the objects are loaded, before user space has set anything.\<close>

definition init_state :: bpf_state where
  "init_state = \<lparr>
     filter_mntns_map = bpf_map_create 10,
     filter_pidns_map = bpf_map_create 10,
     filter_netns_map = bpf_map_create 10,
     filter_pid_map = bpf_map_create 10,
     active_ssl_read_args_map = bpf_map_create MAX_ENTRIES,
     active_ssl_write_args_map = bpf_map_create MAX_ENTRIES,
     ssl_user_space_call_map = bpf_map_create MAX_ENTRIES,
     conn_info_map = bpf_map_create MAX_ENTRIES,
     control_values = bpf_map_create MAX_ENTRIES,
     syscall_data_map = (\<lambda>_. Some kern_evt_data_zero),
     ssl_data_map = (\<lambda>_. Some kern_evt_ssl_data_zero),
     first_packet_evt_map = (\<lambda>_. Some first_packet_evt_zero),
     conn_evt_map = (\<lambda>_. Some conn_evt_zero),
     rb = [], syscall_rb = [], ssl_rb = [], first_packet_rb = [], conn_evt_rb = [],
     sock_xmit_map = bpf_map_create MAX_ENTRIES,
     sock_key_conn_id_map = bpf_map_create MAX_ENTRIES,
     nat_flow_map = bpf_map_create MAX_ENTRIES,
     conn_info_t_map = (\<lambda>_. Some conn_info_zero),
     kern_evt_t_map = (\<lambda>_. Some kern_evt_zero),
     accept_args_map = bpf_map_create MAX_ENTRIES,
     connect_args_map = bpf_map_create MAX_ENTRIES,
     close_args_map = bpf_map_create MAX_ENTRIES,
     write_args_map = bpf_map_create MAX_ENTRIES,
     active_sendfile_args_map = bpf_map_create MAX_ENTRIES,
     read_args_map = bpf_map_create MAX_ENTRIES,
     enabled_remote_port_map = bpf_map_create MAX_ENTRIES,
     enabled_local_port_map = bpf_map_create MAX_ENTRIES,
     enabled_remote_ip_map = bpf_map_create MAX_ENTRIES,
     enabled_local_ipv4_map = bpf_map_create MAX_ENTRIES,
     proc_exec_events = [], proc_exit_events = [],
     go_common_symaddrs_map = bpf_map_create MAX_ENTRIES,
     go_ssl_user_space_call_map = bpf_map_create MAX_ENTRIES,
     go_tls_symaddrs_map = bpf_map_create MAX_ENTRIES,
     active_tls_conn_op_map = bpf_map_create MAX_ENTRIES,
     regs_heap = (\<lambda>_. Some (replicate 9 0))\<rparr>"

text \<open>One entry per configuration switch in \<open>control_values\<close>.\<close>

definition control_value :: "bpf_state \<Rightarrow> control_value_index_t \<Rightarrow> u64 option" where
  "control_value s i = bpf_map_lookup_elem (control_values s) (control_value_index i)"

end
