(* ===== verification/Data_Common.thy ===== *)
theory Data_Common
  imports Protocol_Inference Bpf_State
begin

text \<open>
  \<open>src/bpf/data_common.h\<close>: the functions that fill the per-CPU event buffers and submit
  them to the perf rings, and the two entry points that report a system call of a known
  connection. A function that gets a pointer to a \<open>conn_info_t\<close> takes the struct and
  returns it updated; the caller writes it back where its pointer came from.
\<close>

section \<open>Definitions\<close>

definition report_conn_evt ::
    "bpf_env \<Rightarrow> conn_info_t \<Rightarrow> conn_type_t \<Rightarrow> u64 \<Rightarrow> bpf_state \<Rightarrow> bpf_state" where
  "report_conn_evt e conn_info type ts s =
     (case conn_evt_map s (cur_cpu e) of
        None \<Rightarrow> s
      | Some evt \<Rightarrow>
          (let evt = evt\<lparr>ce_conn_info := conn_info, ce_conn_type := type,
                 ce_ts := (if ts \<noteq> 0 then ts else ktime e KT_report_conn_evt)\<rparr>
           in s\<lparr>conn_evt_map := (conn_evt_map s)(cur_cpu e := Some evt),
                conn_evt_rb := conn_evt_rb s @ [evt]\<rparr>))"

definition should_trace_conn :: "conn_info_t \<Rightarrow> bool" where
  "should_trace_conn conn_info \<longleftrightarrow>
     protocol conn_info \<noteq> kProtocolUnknown \<and> no_trace conn_info \<le> traceable"

text \<open>The header fields the three report functions write alike.\<close>

definition fill_kern_evt ::
    "u32 \<Rightarrow> conn_id_s_t \<Rightarrow> u64 \<Rightarrow> step_t \<Rightarrow> kern_evt \<Rightarrow> kern_evt" where
  "fill_kern_evt seq conn_id_s len step ke =
     ke\<lparr>ke_conn_id_s := conn_id_s, ke_seq := seq, ke_len := ucast len, ke_step := step\<rparr>"

definition fill_func_name :: "source_function_t \<Rightarrow> kern_evt \<Rightarrow> kern_evt" where
  "fill_func_name source_fn ke =
     ke\<lparr>ke_func_name := (ke_func_name ke)[0 := word_of_nat (source_function_code source_fn)]\<rparr>"

definition fill_ts :: "bpf_env \<Rightarrow> ktime_site \<Rightarrow> u64 \<Rightarrow> u32 \<Rightarrow> kern_evt \<Rightarrow> kern_evt" where
  "fill_ts e site ts ts_delta ke =
     (if ts \<noteq> 0 then ke\<lparr>ke_ts := ts, ke_ts_delta := ts_delta\<rparr> else ke\<lparr>ke_ts := ktime e site\<rparr>)"

definition report_syscall_buf_without_data ::
    "bpf_env \<Rightarrow> u32 \<Rightarrow> conn_id_s_t \<Rightarrow> u64 \<Rightarrow> step_t \<Rightarrow> u64 \<Rightarrow> u32 \<Rightarrow> source_function_t \<Rightarrow>
     bpf_state \<Rightarrow> bpf_state" where
  "report_syscall_buf_without_data e seq conn_id_s len step ts ts_delta source_fn s =
     (let l = (if len < of_nat MAX_MSG_SIZE then len else of_nat MAX_MSG_SIZE) in
      if l = 0 then s
      else case syscall_data_map s (cur_cpu e) of
          None \<Rightarrow> s
        | Some evt \<Rightarrow>
            (let ke = fill_ts e KT_report_syscall_buf_without_data ts ts_delta
                   (fill_func_name source_fn (fill_kern_evt seq conn_id_s len step (kd_ke evt)));
                 evt = evt\<lparr>kd_ke := ke, kd_buf_size := 0\<rparr>;
                 size = sizeof_kern_evt + 4
             in s\<lparr>syscall_data_map := (syscall_data_map s)(cur_cpu e := Some evt),
                  syscall_rb := syscall_rb s @ [(evt, size)]\<rparr>))"

text \<open>
  The copy of the payload into the event buffer, shared by \<open>report_syscall_buf\<close> and
  \<open>report_ssl_buf\<close>: the buffer afterwards and the number of bytes copied.
\<close>

definition copy_msg :: "bpf_env \<Rightarrow> u64 \<Rightarrow> u64 \<Rightarrow> u8 list \<Rightarrow> u8 list \<times> u64" where
  "copy_msg e l buf msg =
     (let len_minus_1 = l - 1; l = len_minus_1 + 1 in
      if len_minus_1 < of_nat MAX_MSG_SIZE
      then (write_prefix (probe_read e (unat l) buf) msg, l)
      else if len_minus_1 < 0x7fffffff
      then (write_prefix (probe_read e MAX_MSG_SIZE buf) msg, of_nat MAX_MSG_SIZE)
      else (msg, 0))"

definition report_syscall_buf ::
    "bpf_env \<Rightarrow> u32 \<Rightarrow> conn_id_s_t \<Rightarrow> u64 \<Rightarrow> step_t \<Rightarrow> u64 \<Rightarrow> u32 \<Rightarrow> u64 \<Rightarrow> source_function_t \<Rightarrow>
     bool \<Rightarrow> u32 \<Rightarrow> bpf_state \<Rightarrow> bpf_state" where
  "report_syscall_buf e seq conn_id_s len step ts ts_delta buf source_fn
       prepend_header length_header s =
     (let l = (if len < of_nat MAX_MSG_SIZE then len else of_nat MAX_MSG_SIZE) in
      if l = 0 then s
      else case syscall_data_map s (cur_cpu e) of
          None \<Rightarrow> s
        | Some evt \<Rightarrow>
            (let ke = fill_func_name source_fn (fill_kern_evt seq conn_id_s len step (kd_ke evt));
                 ke = ke\<lparr>ke_prepend_length_header := prepend_header\<rparr>;
                 ke = (if prepend_header then ke\<lparr>ke_length_header := length_header\<rparr> else ke);
                 ke = fill_ts e KT_report_syscall_buf ts ts_delta ke;
                 (msg, amount_copied) = copy_msg e l buf (kd_msg evt);
                 evt = evt\<lparr>kd_ke := ke, kd_buf_size := ucast amount_copied, kd_msg := msg\<rparr>;
                 size = sizeof_kern_evt + 4 + unat amount_copied
             in s\<lparr>syscall_data_map := (syscall_data_map s)(cur_cpu e := Some evt),
                  syscall_rb := syscall_rb s @ [(evt, size)]\<rparr>))"

definition args_delta :: "data_args \<Rightarrow> u32" where
  "args_delta args = ucast (da_end_ts args - da_start_ts args)"

definition report_syscall_evt ::
    "bpf_env \<Rightarrow> u32 \<Rightarrow> conn_id_s_t \<Rightarrow> u32 \<Rightarrow> step_t \<Rightarrow> data_args \<Rightarrow> bool \<Rightarrow> u32 \<Rightarrow>
     bpf_state \<Rightarrow> bpf_state" where
  "report_syscall_evt e seq conn_id_s len step args prepend_header length_header =
     report_syscall_buf e seq conn_id_s (ucast len) step (da_start_ts args) (args_delta args)
       (da_buf args) (da_source_fn args) prepend_header length_header"

definition report_ssl_buf ::
    "bpf_env \<Rightarrow> u32 \<Rightarrow> conn_id_s_t \<Rightarrow> u64 \<Rightarrow> step_t \<Rightarrow> u64 \<Rightarrow> u32 \<Rightarrow> u64 \<Rightarrow> source_function_t \<Rightarrow>
     u32 \<Rightarrow> u32 \<Rightarrow> bpf_state \<Rightarrow> bpf_state" where
  "report_ssl_buf e seq conn_id_s len step ts ts_delta buf source_fn syscall_seq syscall_len s =
     (let l = (if len < of_nat MAX_MSG_SIZE then len else of_nat MAX_MSG_SIZE) in
      if l = 0 then s
      else case ssl_data_map s (cur_cpu e) of
          None \<Rightarrow> s
        | Some evt \<Rightarrow>
            (let ke = fill_ts e KT_report_ssl_buf ts ts_delta
                   (fill_kern_evt seq conn_id_s len step (ks_ke evt));
                 (msg, amount_copied) = copy_msg e l buf (ks_msg evt);
                 evt = evt\<lparr>ks_ke := ke, ks_syscall_seq := syscall_seq,
                   ks_syscall_len := syscall_len, ks_buf_size := ucast amount_copied,
                   ks_msg := msg\<rparr>;
                 size = sizeof_kern_evt + 4 + 8 + 4 + unat amount_copied
             in s\<lparr>ssl_data_map := (ssl_data_map s)(cur_cpu e := Some evt),
                  ssl_rb := ssl_rb s @ [(evt, size)]\<rparr>))"

definition report_ssl_evt ::
    "bpf_env \<Rightarrow> u32 \<Rightarrow> conn_id_s_t \<Rightarrow> u32 \<Rightarrow> step_t \<Rightarrow> data_args \<Rightarrow> u32 \<Rightarrow> u32 \<Rightarrow>
     bpf_state \<Rightarrow> bpf_state" where
  "report_ssl_evt e seq conn_id_s len step args syscall_seq syscall_len =
     report_ssl_buf e seq conn_id_s (ucast len) step (da_start_ts args) (args_delta args)
       (da_buf args) (da_source_fn args) syscall_seq syscall_len"

text \<open>\<open>struct iovec\<close> at index \<open>i\<close> of a user array: base and length.\<close>

definition read_iovec :: "bpf_env \<Rightarrow> u64 \<Rightarrow> nat \<Rightarrow> u64 \<times> u64" where
  "read_iovec e iov i =
     (let bs = probe_read e 16 (iov + 16 * of_nat i) in (le_word (take 8 bs), le_word (drop 8 bs)))"

text \<open>
  The loop of \<open>report_syscall_evt_vecs\<close>: the state, the sequence number and the byte count
  with which it ends. \<open>bytes_sent\<close> is a C \<open>int\<close>; the comparison with the unsigned
  \<open>total_size\<close> is unsigned, the one of \<open>iov_len\<close> with \<open>bytes_remaining\<close> sign-extends
  the latter.
\<close>

function evt_vecs_loop ::
    "bpf_env \<Rightarrow> conn_id_s_t \<Rightarrow> u32 \<Rightarrow> step_t \<Rightarrow> data_args \<Rightarrow> u32 \<Rightarrow> nat \<Rightarrow>
     bool \<Rightarrow> u32 \<Rightarrow> u32 \<Rightarrow> bpf_state \<Rightarrow> u32 \<times> u32 \<times> bpf_state" where
  "evt_vecs_loop e conn_id_s total_size step args length_header i prepend_header seq bytes_sent s =
     (if i < LOOP_LIMIT \<and> of_nat i < da_iovlen args \<and> bytes_sent < total_size
      then
        (let (iov_base, iov_len) = read_iovec e (da_iov args) i;
             bytes_remaining = total_size - bytes_sent;
             iov_size = (if iov_len < scast bytes_remaining then iov_len else scast bytes_remaining);
             s = report_syscall_buf e seq conn_id_s iov_size step (da_start_ts args)
               (args_delta args) iov_base (da_source_fn args) prepend_header length_header s
         in evt_vecs_loop e conn_id_s total_size step args length_header (i + 1) False
              (seq + ucast iov_size) (bytes_sent + ucast iov_size) s)
      else (seq, bytes_sent, s))"
  by pat_completeness auto
termination
  by (relation "measure (\<lambda>(e, c, t, st, a, lh, i, p, q, b, s). LOOP_LIMIT - i)") auto

declare evt_vecs_loop.simps [simp del]

definition report_syscall_evt_vecs ::
    "bpf_env \<Rightarrow> u32 \<Rightarrow> conn_id_s_t \<Rightarrow> u32 \<Rightarrow> step_t \<Rightarrow> data_args \<Rightarrow> bool \<Rightarrow> u32 \<Rightarrow>
     bpf_state \<Rightarrow> bpf_state" where
  "report_syscall_evt_vecs e seq conn_id_s total_size step args prepend_header length_header s =
     (let (seq, bytes_sent, s) =
          evt_vecs_loop e conn_id_s total_size step args length_header 0 prepend_header seq 0 s
      in if bytes_sent < total_size
         then report_syscall_buf_without_data e seq conn_id_s (ucast (total_size - bytes_sent)) step
           (da_start_ts args) (args_delta args) (da_source_fn args) s
         else s)"

definition gen_tgid_fd :: "u32 \<Rightarrow> u32 \<Rightarrow> u64" where
  "gen_tgid_fd tgid fd = join32 tgid fd"

text \<open>
  \<open>conn_id_s.no_trace\<close> of the local variable is never assigned: it is whatever the stack
  slot holds.
\<close>

definition local_conn_id_s :: "bpf_env \<Rightarrow> u64 \<Rightarrow> conn_id_s_t" where
  "local_conn_id_s e tgid_fd = \<lparr>cs_tgid_fd = tgid_fd, cs_no_trace = stack_no_trace e\<rparr>"

definition data_step :: "bool \<Rightarrow> traffic_direction_t \<Rightarrow> step_t" where
  "data_step is_ssl direct =
     (if is_ssl then (if direct = kEgress then SSL_OUT else SSL_IN)
      else if direct = kEgress then SYSCALL_OUT else SYSCALL_IN)"

definition syscall_seq_of :: "traffic_direction_t \<Rightarrow> conn_info_t \<Rightarrow> u32" where
  "syscall_seq_of direct ci =
     ucast ((if direct = kEgress then write_bytes ci else read_bytes ci) + 1)"

definition ssl_seq_of :: "traffic_direction_t \<Rightarrow> conn_info_t \<Rightarrow> u32" where
  "ssl_seq_of direct ci =
     ucast ((if direct = kEgress then ssl_write_bytes ci else ssl_read_bytes ci) + 1)"

definition process_sendfile_with_conn_info ::
    "bpf_env \<Rightarrow> sendfile_args \<Rightarrow> u64 \<Rightarrow> traffic_direction_t \<Rightarrow> u64 \<Rightarrow> conn_info_t \<Rightarrow> bool \<Rightarrow>
     bpf_state \<Rightarrow> bpf_state" where
  "process_sendfile_with_conn_info e args tgid_fd direct bytes_count conn_info is_ssl s =
     (if protocol conn_info \<noteq> kProtocolUnknown \<and> no_trace conn_info \<le> traceable
      then report_syscall_buf_without_data e (syscall_seq_of direct conn_info)
        (local_conn_id_s e tgid_fd) bytes_count (data_step is_ssl direct) (sf_start_ts args)
        (ucast (sf_end_ts args - sf_start_ts args)) kSyscallSendfile s
      else s)"

text \<open>The protocol selected for tracing, read as a 32-bit enum.\<close>

definition get_trace_protocol :: "bpf_state \<Rightarrow> u32" where
  "get_trace_protocol s =
     (case control_value s kTraceProtocol of
        None \<Rightarrow> traffic_protocol_code kProtocolUnset
      | Some v \<Rightarrow> ucast v)"

definition infer_role :: "traffic_direction_t \<Rightarrow> message_type_t \<Rightarrow> endpoint_role_t" where
  "infer_role direct type =
     (if (direct = kEgress) \<noteq> (type = kResponse) then kRoleClient else kRoleServer)"

text \<open>
  The inference block, which \<open>process_syscall_data_with_conn_info\<close> and
  \<open>process_syscall_data_vecs\<close> share: the connection and state after it, and whether a new
  protocol was found.
\<close>

definition infer_and_report ::
    "bpf_env \<Rightarrow> u64 \<Rightarrow> u64 \<Rightarrow> u64 \<Rightarrow> traffic_direction_t \<Rightarrow> conn_info_t \<Rightarrow> bpf_state \<Rightarrow>
     bool \<times> conn_info_t \<times> bpf_state" where
  "infer_and_report e buf count total_count direct ci s =
     (let before_infer = protocol ci;
          (pm, ci) = infer_protocol e buf count total_count ci (get_trace_protocol s)
      in if before_infer \<noteq> pm_protocol pm
         then
           (let ci = ci\<lparr>protocol := pm_protocol pm\<rparr>;
                ci = (if role ci = kRoleUnknown \<and> pm_type pm \<noteq> kUnknown
                      then ci\<lparr>role := infer_role direct (pm_type pm)\<rparr> else ci)
            in (True, ci, report_conn_evt e ci kProtocolInfer 0 s))
         else (False, ci, s))"

definition may_report :: "bool \<Rightarrow> conn_info_t \<Rightarrow> bool" where
  "may_report inferred ci \<longleftrightarrow>
     (protocol ci \<noteq> kProtocolUnknown \<and> (inferred \<or> no_trace ci \<le> traceable)) \<or>
     (protocol ci \<noteq> kProtocolUnknown \<and> no_trace ci = protocol_unknown)"

definition process_syscall_data_with_conn_info ::
    "bpf_env \<Rightarrow> data_args \<Rightarrow> u64 \<Rightarrow> traffic_direction_t \<Rightarrow> u64 \<Rightarrow> u32 \<Rightarrow> bool \<Rightarrow> bool \<Rightarrow>
     conn_info_t \<Rightarrow> bpf_state \<Rightarrow> conn_info_t \<times> bpf_state" where
  "process_syscall_data_with_conn_info e args tgid_fd direct bytes_count syscall_len is_ssl
       with_data ci s =
     (let (inferred, ci, s) =
          (if (protocol ci = kProtocolUnset \<or> protocol ci = kProtocolUnknown) \<and> with_data
           then infer_and_report e (da_buf args) bytes_count bytes_count direct ci s
           else (False, ci, s));
          seq = syscall_seq_of direct ci;
          conn_id_s = local_conn_id_s e tgid_fd;
          step = data_step is_ssl direct
      in
      if may_report inferred ci
      then
        (if is_ssl
         then (ci, report_ssl_evt e (ssl_seq_of direct ci) conn_id_s (ucast bytes_count) step args
                (if sint syscall_len < 0 then 0 else seq - syscall_len)
                (if sint syscall_len < 0 then 0 else syscall_len) s)
         else if with_data
         then
           (let length_header = (if prepend_length_header ci then le_word (prev_buf ci) else 0);
                s = report_syscall_evt e seq conn_id_s (ucast bytes_count) step args
                  (prepend_length_header ci) length_header s
            in (ci\<lparr>prepend_length_header := False\<rparr>, s))
         else (ci, report_syscall_buf_without_data e seq conn_id_s bytes_count step
                (da_start_ts args) (args_delta args) (da_source_fn args) s))
      else (ci, s))"

definition set_conn_as_ssl :: "u32 \<Rightarrow> u32 \<Rightarrow> bpf_state \<Rightarrow> bpf_state" where
  "set_conn_as_ssl tgid fd s =
     (let tgid_fd = gen_tgid_fd tgid fd in
      case bpf_map_lookup_elem (conn_info_map s) tgid_fd of
        None \<Rightarrow> s
      | Some ci \<Rightarrow> s\<lparr>conn_info_map := bpf_map_store (conn_info_map s) tgid_fd (ci\<lparr>ssl := True\<rparr>)\<rparr>)"

section \<open>Specification\<close>

text \<open>
  What user space sees of a submitted data event: the range of stream bytes it stands for
  and the payload. \<open>tiles seq n spans\<close> says that the ranges cover \<open>n\<close> bytes from
  \<open>seq\<close> on, in order and without a gap or an overlap.
\<close>

definition evt_span :: "kern_evt_data \<times> nat \<Rightarrow> u32 \<times> u32" where
  "evt_span ev = (ke_seq (kd_ke (fst ev)), ke_len (kd_ke (fst ev)))"

definition evt_payload :: "kern_evt_data \<times> nat \<Rightarrow> u8 list" where
  "evt_payload ev = take (unat (kd_buf_size (fst ev))) (kd_msg (fst ev))"

fun tiles :: "u32 \<Rightarrow> nat \<Rightarrow> (u32 \<times> u32) list \<Rightarrow> bool" where
  "tiles seq n [] \<longleftrightarrow> n = 0"
| "tiles seq n ((q, l) # spans) \<longleftrightarrow>
     q = seq \<and> l \<noteq> 0 \<and> unat l \<le> n \<and> tiles (seq + l) (n - unat l) spans"

text \<open>The events submitted between two states.\<close>

definition new_syscall_evts :: "bpf_state \<Rightarrow> bpf_state \<Rightarrow> (kern_evt_data \<times> nat) list" where
  "new_syscall_evts s s' = drop (length (syscall_rb s)) (syscall_rb s')"

text \<open>The event a data report submits.\<close>

definition syscall_buf_evt ::
    "bpf_env \<Rightarrow> u32 \<Rightarrow> conn_id_s_t \<Rightarrow> u64 \<Rightarrow> step_t \<Rightarrow> u64 \<Rightarrow> u32 \<Rightarrow> u64 \<Rightarrow> source_function_t \<Rightarrow>
     bool \<Rightarrow> u32 \<Rightarrow> kern_evt_data \<Rightarrow> kern_evt_data" where
  "syscall_buf_evt e seq cid len step ts d buf fn ph lh evt =
     (let n = min (unat len) MAX_MSG_SIZE;
          ke = fill_func_name fn (fill_kern_evt seq cid len step (kd_ke evt));
          ke = ke\<lparr>ke_prepend_length_header := ph\<rparr>;
          ke = (if ph then ke\<lparr>ke_length_header := lh\<rparr> else ke)
      in evt\<lparr>kd_ke := fill_ts e KT_report_syscall_buf ts d ke, kd_buf_size := of_nat n,
             kd_msg := write_prefix (probe_read e n buf) (kd_msg evt)\<rparr>)"

text \<open>
  \<open>emits e seq n s s'\<close>: going from \<open>s\<close> to \<open>s'\<close> only appended events, and these cover
  \<open>n\<close> bytes from \<open>seq\<close> on.
\<close>

definition emits :: "bpf_env \<Rightarrow> u32 \<Rightarrow> nat \<Rightarrow> bpf_state \<Rightarrow> bpf_state \<Rightarrow> bool" where
  "emits e seq n s s' \<longleftrightarrow>
     syscall_data_map s' (cur_cpu e) \<noteq> None \<and>
     (\<exists>evs. syscall_rb s' = syscall_rb s @ evs \<and> tiles seq n (map evt_span evs))"

text \<open>The outcome of the inference block, by the first enabled verdict.\<close>

definition conn_after_infer ::
    "bpf_env \<Rightarrow> u64 \<Rightarrow> u64 \<Rightarrow> u64 \<Rightarrow> traffic_direction_t \<Rightarrow> u32 \<Rightarrow> conn_info_t \<Rightarrow> conn_info_t" where
  "conn_after_infer e buf count total_count direct tp ci =
     (let v = first_verdict tp (verdicts e buf count total_count ci);
          ci' = snd (infer_protocol e buf count total_count ci tp)
      in if protocol ci = pm_protocol v then ci'
         else ci'\<lparr>protocol := pm_protocol v,
           role := (if role ci = kRoleUnknown \<and> pm_type v \<noteq> kUnknown
                    then infer_role direct (pm_type v) else role ci)\<rparr>)"

text \<open>Whether this call tries to classify the connection, and whether it finds something new.\<close>

definition tries_infer :: "bool \<Rightarrow> conn_info_t \<Rightarrow> bool" where
  "tries_infer with_data ci \<longleftrightarrow>
     (protocol ci = kProtocolUnset \<or> protocol ci = kProtocolUnknown) \<and> with_data"

section \<open>Report functions\<close>

lemma MAX_MSG_SIZE_word: "unat (of_nat MAX_MSG_SIZE :: u64) = MAX_MSG_SIZE"
  by (simp add: MAX_MSG_SIZE_def)

lemma clamp_unat:
  "unat (if len < of_nat MAX_MSG_SIZE then len else of_nat MAX_MSG_SIZE :: u64) =
     min (unat len) MAX_MSG_SIZE"
  by (auto simp: word_less_nat_alt MAX_MSG_SIZE_word min_def)

lemma clamp_zero:
  "(if len < of_nat MAX_MSG_SIZE then len else of_nat MAX_MSG_SIZE :: u64) = 0 \<longleftrightarrow> len = 0"
  by (auto simp: MAX_MSG_SIZE_def word_less_nat_alt)

lemma copy_msg_eq:
  assumes "l \<noteq> 0" "unat l \<le> MAX_MSG_SIZE"
  shows "copy_msg e l buf msg = (write_prefix (probe_read e (unat l) buf) msg, l)"
proof -
  have "0 < unat l"
    using assms(1) by (simp add: unat_gt_0)
  then have "unat (l - 1) = unat l - 1"
    by (subst unat_sub) (simp_all add: word_le_nat_alt)
  then have "l - 1 < of_nat MAX_MSG_SIZE"
    using assms \<open>0 < unat l\<close> by (simp only: word_less_nat_alt MAX_MSG_SIZE_word)
  then show ?thesis
    by (simp add: copy_msg_def)
qed

lemma report_syscall_buf_zero [simp]:
  "report_syscall_buf e seq cid 0 step ts d buf fn ph lh s = s"
  by (simp add: report_syscall_buf_def MAX_MSG_SIZE_def)

lemma report_syscall_buf_eq:
  assumes "len \<noteq> 0" "syscall_data_map s (cur_cpu e) = Some evt"
  shows "report_syscall_buf e seq cid len step ts d buf fn ph lh s =
    (let ev = syscall_buf_evt e seq cid len step ts d buf fn ph lh evt in
     s\<lparr>syscall_data_map := (syscall_data_map s)(cur_cpu e := Some ev),
      syscall_rb := syscall_rb s @ [(ev, sizeof_kern_evt + 4 + min (unat len) MAX_MSG_SIZE)]\<rparr>)"
proof -
  define l :: u64 where "l = (if len < of_nat MAX_MSG_SIZE then len else of_nat MAX_MSG_SIZE)"
  have l0: "l \<noteq> 0"
    unfolding l_def using assms(1) clamp_zero by blast
  have ul: "unat l = min (unat len) MAX_MSG_SIZE"
    unfolding l_def by (rule clamp_unat)
  then have c: "copy_msg e l buf msg =
      (write_prefix (probe_read e (min (unat len) MAX_MSG_SIZE) buf) msg, l)" for msg
    using copy_msg_eq [OF l0] by simp
  have u: "(ucast l :: u32) = of_nat (min (unat len) MAX_MSG_SIZE)"
    by (metis ul of_nat_unat)
  show ?thesis
    unfolding report_syscall_buf_def l_def [symmetric] Let_def syscall_buf_evt_def c
    by (simp only: l0 assms(2) if_False option.case prod.case u ul)
qed

lemma syscall_buf_evt_fields:
  assumes "len \<noteq> 0"
  defines "n \<equiv> min (unat len) MAX_MSG_SIZE"
  shows "evt_span (syscall_buf_evt e seq cid len step ts d buf fn ph lh evt, k) = (seq, ucast len)"
    and "evt_payload (syscall_buf_evt e seq cid len step ts d buf fn ph lh evt, k) = probe_read e n buf"
    and "ke_prepend_length_header (kd_ke (syscall_buf_evt e seq cid len step ts d buf fn ph lh evt)) = ph"
    and "unat (kd_buf_size (syscall_buf_evt e seq cid len step ts d buf fn ph lh evt)) = n"
proof -
  have n: "unat (of_nat n :: u32) = n"
    unfolding n_def by (simp add: unat_of_nat MAX_MSG_SIZE_def)
  have "take n (write_prefix (probe_read e n buf) (kd_msg evt)) = probe_read e n buf"
    using take_write_prefix [of "probe_read e n buf"] by simp
  then show "evt_payload (syscall_buf_evt e seq cid len step ts d buf fn ph lh evt, k) = probe_read e n buf"
    using n by (simp add: evt_payload_def syscall_buf_evt_def Let_def n_def [symmetric])
qed (simp_all add: evt_span_def syscall_buf_evt_def Let_def fill_ts_def fill_func_name_def
    fill_kern_evt_def n_def unat_of_nat MAX_MSG_SIZE_def)

section \<open>Coverage of the stream\<close>

lemma tiles_append:
  "tiles seq n xs \<Longrightarrow> tiles (seq + of_nat n) m ys \<Longrightarrow> tiles seq (n + m) (xs @ ys)"
proof (induction xs arbitrary: seq n)
  case (Cons x xs)
  obtain q l where x: "x = (q, l)" by (cases x)
  with Cons.prems have l: "unat l \<le> n" by simp
  then have "seq + l + of_nat (n - unat l) = seq + of_nat n"
    by (simp add: of_nat_diff)
  with Cons x have "tiles (seq + l) (n - unat l + m) (xs @ ys)"
    by (intro Cons.IH) simp_all
  with Cons.prems x l show ?case
    by simp
qed simp

lemma emits_trans:
  "emits e seq n s s' \<Longrightarrow> emits e (seq + of_nat n) m s' s'' \<Longrightarrow> emits e seq (n + m) s s''"
  unfolding emits_def by (metis append_assoc map_append tiles_append)

lemma emits_refl: "syscall_data_map s (cur_cpu e) \<noteq> None \<Longrightarrow> emits e seq 0 s s"
  by (simp add: emits_def)

lemma emits_scratch: "emits e seq n s s' \<Longrightarrow> syscall_data_map s' (cur_cpu e) \<noteq> None"
  by (simp add: emits_def)

lemma emits_new: "emits e seq n s s' \<Longrightarrow> tiles seq n (map evt_span (new_syscall_evts s s'))"
  by (auto simp: emits_def new_syscall_evts_def)

lemma ucast_len_nonzero:
  "len \<noteq> 0 \<Longrightarrow> unat len < 2 ^ 32 \<Longrightarrow> unat (ucast (len :: u64) :: u32) = unat len \<and> (ucast len :: u32) \<noteq> 0"
  by (auto simp: word_unat_eq_iff unsigned_ucast_eq take_bit_eq_mod)

lemma report_syscall_buf_emits:
  assumes "syscall_data_map s (cur_cpu e) \<noteq> None" "unat len < 2 ^ 32"
  shows "emits e seq (unat len) s (report_syscall_buf e seq cid len step ts d buf fn ph lh s)"
proof (cases "len = 0")
  case True
  with assms show ?thesis by (simp add: emits_refl)
next
  case False
  obtain evt where "syscall_data_map s (cur_cpu e) = Some evt"
    using assms by auto
  then show ?thesis
    using ucast_len_nonzero [OF False assms(2)]
    by (simp add: emits_def report_syscall_buf_eq [OF False] Let_def syscall_buf_evt_fields [OF False])
qed

lemma report_syscall_buf_without_data_emits:
  assumes "syscall_data_map s (cur_cpu e) \<noteq> None" "unat len < 2 ^ 32"
  shows "emits e seq (unat len) s (report_syscall_buf_without_data e seq cid len step ts d fn s)"
proof (cases "len = 0")
  case True
  with assms show ?thesis
    by (simp add: emits_refl report_syscall_buf_without_data_def MAX_MSG_SIZE_def)
next
  case False
  obtain evt where "syscall_data_map s (cur_cpu e) = Some evt"
    using assms by auto
  then show ?thesis
    using ucast_len_nonzero [OF False assms(2)]
    by (simp add: emits_def report_syscall_buf_without_data_def clamp_zero False Let_def evt_span_def
        fill_ts_def fill_func_name_def fill_kern_evt_def)
qed

lemma evt_vecs_loop_emits:
  assumes "unat total_size < 2 ^ 31" "unat bytes_sent \<le> unat total_size"
    and "syscall_data_map s (cur_cpu e) \<noteq> None"
    and "evt_vecs_loop e cid total_size step args lh i ph seq bytes_sent s = (seq', bytes_sent', s')"
  shows "unat bytes_sent \<le> unat bytes_sent' \<and> unat bytes_sent' \<le> unat total_size \<and>
    seq' = seq + (bytes_sent' - bytes_sent) \<and>
    emits e seq (unat bytes_sent' - unat bytes_sent) s s'"
  using assms
proof (induction e cid total_size step args lh i ph seq bytes_sent s
    arbitrary: seq' bytes_sent' s' rule: evt_vecs_loop.induct)
  case (1 e cid total_size step args lh i ph seq bytes_sent s)
  show ?case
  proof (cases "i < LOOP_LIMIT \<and> of_nat i < da_iovlen args \<and> bytes_sent < total_size")
    case False
    with "1.prems" show ?thesis
      by (auto simp: evt_vecs_loop.simps [of e cid total_size] emits_refl)
  next
    case True
    obtain iov_base iov_len where iov: "read_iovec e (da_iov args) i = (iov_base, iov_len)"
      by force
    let ?rem = "total_size - bytes_sent"
    define n where "n = (if iov_len < scast ?rem then iov_len else scast ?rem)"
    let ?s = "report_syscall_buf e seq cid n step (da_start_ts args) (args_delta args) iov_base
      (da_source_fn args) ph lh s"
    have rem: "unat ?rem = unat total_size - unat bytes_sent"
      using "1.prems"(2) by (simp add: unat_sub word_le_nat_alt)
    then have "unat (scast ?rem :: u64) = unat total_size - unat bytes_sent"
      using "1.prems"(1) by (simp add: scast_small)
    then have n: "unat n \<le> unat total_size - unat bytes_sent"
      unfolding n_def by (auto simp: word_less_nat_alt)
    have un: "unat (ucast n :: u32) = unat n"
      using n "1.prems"(1) by (simp add: unsigned_ucast_eq take_bit_eq_mod)
    have bs: "unat (bytes_sent + ucast n) = unat bytes_sent + unat n"
      using n un "1.prems"(1,2) by (simp add: unat_word_ariths)
    have step: "emits e seq (unat n) s ?s"
      using n "1.prems"(1,3) by (intro report_syscall_buf_emits) auto
    have IH: "unat (bytes_sent + ucast n) \<le> unat bytes_sent' \<and> unat bytes_sent' \<le> unat total_size \<and>
        seq' = seq + ucast n + (bytes_sent' - (bytes_sent + ucast n)) \<and>
        emits e (seq + ucast n) (unat bytes_sent' - unat (bytes_sent + ucast n)) ?s s'"
    proof (rule "1.IH" [OF True iov [symmetric] refl refl n_def refl])
      show "unat (bytes_sent + ucast n) \<le> unat total_size"
        using bs n "1.prems"(2) by simp
      show "evt_vecs_loop e cid total_size step args lh (i + 1) False (seq + ucast n)
          (bytes_sent + ucast n) ?s = (seq', bytes_sent', s')"
        using "1.prems"(4) True
        by (simp add: evt_vecs_loop.simps [of e cid total_size _ _ _ i] iov Let_def n_def)
    qed (use "1.prems"(1) emits_scratch [OF step] in simp_all)
    have "(of_nat (unat n) :: u32) = ucast n"
      by (simp add: of_nat_unat)
    with IH step have "emits e seq (unat n + (unat bytes_sent' - unat (bytes_sent + ucast n))) s s'"
      by (intro emits_trans [OF step]) simp
    with IH bs show ?thesis
      by simp
  qed
qed

lemma report_syscall_evt_vecs_emits:
  assumes "unat total_size < 2 ^ 31" "syscall_data_map s (cur_cpu e) \<noteq> None"
  shows "emits e seq (unat total_size) s
    (report_syscall_evt_vecs e seq cid total_size step args ph lh s)"
proof -
  obtain seq' b s' where loop:
    "evt_vecs_loop e cid total_size step args lh 0 ph seq 0 s = (seq', b, s')"
    using prod_cases3 by blast
  from evt_vecs_loop_emits [OF assms(1) _ assms(2) loop]
  have *: "unat b \<le> unat total_size" "seq' = seq + b" "emits e seq (unat b) s s'"
    by auto
  show ?thesis
  proof (cases "b < total_size")
    case True
    have rest: "unat (ucast (total_size - b) :: u64) = unat total_size - unat b"
      using *(1) assms(1) by (simp add: unsigned_ucast_eq take_bit_eq_mod unat_sub word_le_nat_alt)
    have "emits e seq' (unat (ucast (total_size - b) :: u64)) s'
        (report_syscall_buf_without_data e seq' cid (ucast (total_size - b)) step
          (da_start_ts args) (args_delta args) (da_source_fn args) s')"
      by (rule report_syscall_buf_without_data_emits [OF emits_scratch [OF *(3)]])
        (use assms(1) rest in simp)
    then have "emits e (seq + of_nat (unat b)) (unat (ucast (total_size - b) :: u64)) s'
        (report_syscall_buf_without_data e seq' cid (ucast (total_size - b)) step
          (da_start_ts args) (args_delta args) (da_source_fn args) s')"
      using *(2) by simp
    from emits_trans [OF *(3) this] True rest *(1) show ?thesis
      by (simp add: report_syscall_evt_vecs_def loop)
  next
    case False
    then have "unat b = unat total_size"
      using *(1) by (simp add: word_less_nat_alt)
    with * False show ?thesis
      by (simp add: report_syscall_evt_vecs_def loop)
  qed
qed

section \<open>Inference and reporting for one call\<close>

lemma report_conn_evt_frame [simp]:
  "conn_info_map (report_conn_evt e ci ty ts s) = conn_info_map s"
  "sock_key_conn_id_map (report_conn_evt e ci ty ts s) = sock_key_conn_id_map s"
  "sock_xmit_map (report_conn_evt e ci ty ts s) = sock_xmit_map s"
  "syscall_data_map (report_conn_evt e ci ty ts s) = syscall_data_map s"
  "syscall_rb (report_conn_evt e ci ty ts s) = syscall_rb s"
  "ssl_rb (report_conn_evt e ci ty ts s) = ssl_rb s"
  "control_values (report_conn_evt e ci ty ts s) = control_values s"
  by (simp_all add: report_conn_evt_def Let_def split: option.split)

lemma report_conn_evt_rb:
  "conn_evt_map s (cur_cpu e) \<noteq> None \<Longrightarrow>
     conn_evt_rb (report_conn_evt e ci ty ts s) = conn_evt_rb s @
       [\<lparr>ce_conn_info = ci, ce_conn_type = ty,
         ce_ts = (if ts \<noteq> 0 then ts else ktime e KT_report_conn_evt)\<rparr>]"
  by (auto simp: report_conn_evt_def Let_def)

lemma infer_and_report_eq:
  "infer_and_report e buf count total_count direct ci s =
     (let v = first_verdict (get_trace_protocol s) (verdicts e buf count total_count ci);
          ci' = conn_after_infer e buf count total_count direct (get_trace_protocol s) ci
      in if protocol ci = pm_protocol v then (False, ci', s)
         else (True, ci', report_conn_evt e ci' kProtocolInfer 0 s))"
proof -
  have f: "fst (infer_protocol e buf count total_count ci (get_trace_protocol s)) =
      first_verdict (get_trace_protocol s) (verdicts e buf count total_count ci)"
    by (rule fst_infer_protocol)
  have r: "role (snd (infer_protocol e buf count total_count ci (get_trace_protocol s))) = role ci"
    by (simp add: snd_infer_protocol)
  have same: "c\<lparr>protocol := p, role := q\<rparr> = c\<lparr>protocol := p\<rparr>" if "role c = q" for c :: conn_info_t and p q
    using that by simp
  show ?thesis
    by (simp add: infer_and_report_def conn_after_infer_def Let_def case_prod_unfold f r same)
qed

lemma conn_after_infer_fields [simp]:
  "conn_id (conn_after_infer e buf n t direct tp ci) = conn_id ci"
  "read_bytes (conn_after_infer e buf n t direct tp ci) = read_bytes ci"
  "write_bytes (conn_after_infer e buf n t direct tp ci) = write_bytes ci"
  "ssl_read_bytes (conn_after_infer e buf n t direct tp ci) = ssl_read_bytes ci"
  "ssl_write_bytes (conn_after_infer e buf n t direct tp ci) = ssl_write_bytes ci"
  "laddr (conn_after_infer e buf n t direct tp ci) = laddr ci"
  "raddr (conn_after_infer e buf n t direct tp ci) = raddr ci"
  "no_trace (conn_after_infer e buf n t direct tp ci) = no_trace ci"
  "ssl (conn_after_infer e buf n t direct tp ci) = ssl ci"
  "protocol (conn_after_infer e buf n t direct tp ci) =
     pm_protocol (first_verdict tp (verdicts e buf n t ci))"
  by (simp_all add: conn_after_infer_def snd_infer_protocol Let_def)

lemma syscall_seq_of_infer [simp]:
  "syscall_seq_of direct (conn_after_infer e buf n t direct' tp ci) = syscall_seq_of direct ci"
  by (simp add: syscall_seq_of_def)

lemma report_syscall_frame [simp]:
  "conn_evt_rb (report_syscall_buf e q c n st ts d b f ph lh s) = conn_evt_rb s"
  "conn_evt_rb (report_syscall_buf_without_data e q c n st ts d f s) = conn_evt_rb s"
  "conn_evt_rb (report_ssl_buf e q c n st ts d b f sq sl s) = conn_evt_rb s"
  "conn_info_map (report_syscall_buf e q c n st ts d b f ph lh s) = conn_info_map s"
  "conn_info_map (report_syscall_buf_without_data e q c n st ts d f s) = conn_info_map s"
  "conn_info_map (report_ssl_buf e q c n st ts d b f sq sl s) = conn_info_map s"
  "syscall_rb (report_ssl_buf e q c n st ts d b f sq sl s) = syscall_rb s"
  by (simp_all add: report_syscall_buf_def report_syscall_buf_without_data_def report_ssl_buf_def
      Let_def case_prod_unfold split: option.split)

lemma process_syscall_data_with_conn_info_cases:
  fixes e args n ci s with_data direct
  defines "v \<equiv> first_verdict (get_trace_protocol s) (verdicts e (da_buf args) n n ci)"
    and "ci' \<equiv> (if tries_infer with_data ci
      then conn_after_infer e (da_buf args) n n direct (get_trace_protocol s) ci else ci)"
  defines "inferred \<equiv> tries_infer with_data ci \<and> protocol ci \<noteq> pm_protocol v"
  defines "s' \<equiv> (if inferred then report_conn_evt e ci' kProtocolInfer 0 s else s)"
  shows "process_syscall_data_with_conn_info e args tgid_fd direct n sl is_ssl with_data ci s =
    (if \<not> may_report inferred ci' then (ci', s')
     else if is_ssl
     then (ci', report_ssl_evt e (ssl_seq_of direct ci) (local_conn_id_s e tgid_fd) (ucast n)
       (data_step is_ssl direct) args (if sint sl < 0 then 0 else syscall_seq_of direct ci - sl)
       (if sint sl < 0 then 0 else sl) s')
     else if with_data
     then (ci'\<lparr>prepend_length_header := False\<rparr>,
       report_syscall_evt e (syscall_seq_of direct ci) (local_conn_id_s e tgid_fd) (ucast n)
         (data_step is_ssl direct) args (prepend_length_header ci')
         (if prepend_length_header ci' then le_word (prev_buf ci') else 0) s')
     else (ci', report_syscall_buf_without_data e (syscall_seq_of direct ci)
       (local_conn_id_s e tgid_fd) n (data_step is_ssl direct) (da_start_ts args) (args_delta args)
       (da_source_fn args) s'))"
proof -
  have seqs: "syscall_seq_of direct ci' = syscall_seq_of direct ci" "ssl_seq_of direct ci' = ssl_seq_of direct ci"
    by (simp_all add: ci'_def ssl_seq_of_def)
  have block: "(if (protocol ci = kProtocolUnset \<or> protocol ci = kProtocolUnknown) \<and> with_data
      then infer_and_report e (da_buf args) n n direct ci s else (False, ci, s)) = (inferred, ci', s')"
    by (simp add: infer_and_report_eq Let_def tries_infer_def ci'_def s'_def inferred_def v_def)
  show ?thesis
    unfolding process_syscall_data_with_conn_info_def block Let_def by (simp add: seqs)
qed

lemma report_ssl_buf_eq:
  assumes "len \<noteq> 0" "ssl_data_map s (cur_cpu e) = Some evt"
  shows "ssl_rb (report_ssl_buf e seq cid len step ts d buf fn sq sl s) =
    (let n = min (unat len) MAX_MSG_SIZE in
     ssl_rb s @ [(evt\<lparr>ks_ke := fill_ts e KT_report_ssl_buf ts d (fill_kern_evt seq cid len step (ks_ke evt)),
         ks_syscall_seq := sq, ks_syscall_len := sl, ks_buf_size := of_nat n,
         ks_msg := write_prefix (probe_read e n buf) (ks_msg evt)\<rparr>, sizeof_kern_evt + 16 + n)])"
proof -
  define l :: u64 where "l = (if len < of_nat MAX_MSG_SIZE then len else of_nat MAX_MSG_SIZE)"
  have l0: "l \<noteq> 0"
    unfolding l_def using assms(1) clamp_zero by blast
  have ul: "unat l = min (unat len) MAX_MSG_SIZE"
    unfolding l_def by (rule clamp_unat)
  then have c: "copy_msg e l buf msg =
      (write_prefix (probe_read e (min (unat len) MAX_MSG_SIZE) buf) msg, l)" for msg
    using copy_msg_eq [OF l0] by simp
  have u: "(ucast l :: u32) = of_nat (min (unat len) MAX_MSG_SIZE)"
    by (metis ul of_nat_unat)
  show ?thesis
    unfolding report_ssl_buf_def l_def [symmetric] Let_def c
    by (simp only: l0 assms(2) if_False option.case prod.case u ul) simp
qed

lemma conn_after_infer_role:
  "role (conn_after_infer e buf n t direct tp ci) =
     (let v = first_verdict tp (verdicts e buf n t ci) in
      if protocol ci \<noteq> pm_protocol v \<and> role ci = kRoleUnknown \<and> pm_type v \<noteq> kUnknown
      then infer_role direct (pm_type v) else role ci)"
  by (simp add: conn_after_infer_def snd_infer_protocol Let_def)

lemma may_report_prepend [simp]:
  "may_report b (ci\<lparr>prepend_length_header := p\<rparr>) = may_report b ci"
  by (simp add: may_report_def)

lemma emits_prefix:
  "emits e seq n s' s'' \<Longrightarrow> syscall_rb s' = syscall_rb s \<Longrightarrow> emits e seq n s s''"
  by (simp add: emits_def)

lemma process_syscall_data_emits_aux:
  assumes n: "unat n < 2 ^ 32" and m: "syscall_data_map s (cur_cpu e) \<noteq> None"
  shows "let v = first_verdict (get_trace_protocol s) (verdicts e (da_buf args) n n ci);
             inferred = (tries_infer with_data ci \<and> protocol ci \<noteq> pm_protocol v);
             r = process_syscall_data_with_conn_info e args tgid_fd direct n sl False with_data ci s
         in emits e (syscall_seq_of direct ci) (if may_report inferred (fst r) then unat n else 0) s (snd r)"
proof -
  define v where "v = first_verdict (get_trace_protocol s) (verdicts e (da_buf args) n n ci)"
  define inferred where "inferred = (tries_infer with_data ci \<and> protocol ci \<noteq> pm_protocol v)"
  define ci' where "ci' = (if tries_infer with_data ci
    then conn_after_infer e (da_buf args) n n direct (get_trace_protocol s) ci else ci)"
  define s' where "s' = (if inferred then report_conn_evt e ci' kProtocolInfer 0 s else s)"
  have s': "syscall_rb s' = syscall_rb s" "syscall_data_map s' (cur_cpu e) \<noteq> None"
    using m by (simp_all add: s'_def)
  have u: "(ucast (ucast n :: u32) :: u64) = n"
    using n by (simp add: word_unat_eq_iff unsigned_ucast_eq take_bit_eq_mod unat_mod)
  note cases = process_syscall_data_with_conn_info_cases [of e args tgid_fd direct n sl False with_data
      ci s, folded v_def, folded inferred_def, folded ci'_def, folded s'_def]
  have "emits e (syscall_seq_of direct ci) (unat n) s' (report_syscall_evt e (syscall_seq_of direct ci)
      c (ucast n) st args ph lh s')" for c st ph lh
    unfolding report_syscall_evt_def u by (rule report_syscall_buf_emits [OF s'(2) n])
  moreover have "emits e (syscall_seq_of direct ci) (unat n) s' (report_syscall_buf_without_data e
      (syscall_seq_of direct ci) c n st ts d f s')" for c st ts d f
    by (rule report_syscall_buf_without_data_emits [OF s'(2) n])
  moreover have "emits e (syscall_seq_of direct ci) 0 s' s'"
    by (rule emits_refl [OF s'(2)])
  ultimately show ?thesis
    unfolding Let_def v_def [symmetric] inferred_def [symmetric] cases
    by (auto intro: emits_prefix [OF _ s'(1)])
qed

lemma http_get_sample: "is_http_protocol (env_of 64 (ascii ''GET / HTTP'')) 64 10 = kRequest"
proof -
  have "probe_read (env_of 64 (ascii ''GET / HTTP'')) 4 64 = take 4 (ascii ''GET / HTTP'')"
    by (rule mem_holds_at0 [OF mem_holds_env_of]) (simp_all add: ascii_def)
  then show ?thesis
    by (simp add: is_http_protocol_def ascii_def)
qed

section \<open>Properties\<close>

text \<open>
  A data report of a non-empty buffer submits one event that carries the given
  range of the stream and, as payload, the first bytes of the user buffer, at most
  \<open>MAX_MSG_SIZE\<close> of them. The submitted size is the header, the length field and the payload,
  and stays inside \<open>struct kern_evt_data\<close>.
\<close>

theorem report_syscall_buf_event:
  assumes "len \<noteq> 0" and "syscall_data_map s (cur_cpu e) \<noteq> None"
  shows "\<exists>evt n. new_syscall_evts s (report_syscall_buf e seq cid len step ts d buf fn ph lh s) = [(evt, n)] \<and>
    evt_span (evt, n) = (seq, ucast len) \<and>
    evt_payload (evt, n) = probe_read e (min (unat len) MAX_MSG_SIZE) buf \<and>
    ke_prepend_length_header (kd_ke evt) = ph \<and>
    n = sizeof_kern_evt + 4 + length (evt_payload (evt, n)) \<and>
    n \<le> sizeof_struct kern_evt_data_layout"
proof -
  obtain evt where "syscall_data_map s (cur_cpu e) = Some evt"
    using assms(2) by auto
  from report_syscall_buf_eq [OF assms(1) this] show ?thesis
    by (simp add: new_syscall_evts_def Let_def syscall_buf_evt_fields [OF assms(1)]
        sizeof_kern_evt_data_eq sizeof_kern_evt_eq MAX_MSG_SIZE_def)
qed

theorem report_syscall_buf_event_witness:
  "\<exists>evt n. new_syscall_evts init_state (report_syscall_buf (env_of 64 [71, 69, 84]) 1
       (local_conn_id_s (env_of 0 []) 7) 3 SYSCALL_OUT 5 6 64 kSyscallWrite False 0 init_state) = [(evt, n)] \<and>
     evt_payload (evt, n) = [71, 69, 84] \<and> n = 79"
proof -
  have p: "probe_read (env_of 64 [71, 69, 84]) 3 64 = [71, 69, 84]"
    using mem_holds_at0 [OF mem_holds_env_of [of "[71, 69, 84]" 64], of 3] by simp
  have "syscall_data_map init_state (cur_cpu (env_of 64 [71, 69, 84])) \<noteq> None"
    by (simp add: init_state_def)
  from report_syscall_buf_event [OF _ this, of 3 1 "local_conn_id_s (env_of 0 []) 7" SYSCALL_OUT 5 6 64
      kSyscallWrite False 0]
  obtain evt n where *: "new_syscall_evts init_state (report_syscall_buf (env_of 64 [71, 69, 84]) 1
       (local_conn_id_s (env_of 0 []) 7) 3 SYSCALL_OUT 5 6 64 kSyscallWrite False 0 init_state) = [(evt, n)]"
    and pl: "evt_payload (evt, n) = probe_read (env_of 64 [71, 69, 84]) (min (unat (3 :: u64)) MAX_MSG_SIZE) 64"
    and n: "n = sizeof_kern_evt + 4 + length (evt_payload (evt, n))"
    by auto
  have "evt_payload (evt, n) = [71, 69, 84]"
    using pl by (simp add: MAX_MSG_SIZE_def p)
  with * n show ?thesis
    by (intro exI conjI) (assumption, assumption, simp add: sizeof_kern_evt_eq)
qed

text \<open>
  Property C21. A vectored call reports events that cover exactly the bytes of the call, in
  order, without gap or overlap, whatever the vector holds: the bytes beyond the third buffer
  are covered by an event without data.
\<close>

theorem report_syscall_evt_vecs_tiles:
  assumes "unat total_size < 2 ^ 31" and "syscall_data_map s (cur_cpu e) \<noteq> None"
  shows "tiles seq (unat total_size) (map evt_span (new_syscall_evts s
    (report_syscall_evt_vecs e seq cid total_size step args ph lh s)))"
  using report_syscall_evt_vecs_emits [OF assms] by (rule emits_new)

theorem report_syscall_evt_vecs_tiles_witness:
  "tiles 1 100 (map evt_span (new_syscall_evts init_state
    (report_syscall_evt_vecs (env_of 0 []) 1 (local_conn_id_s (env_of 0 []) 7) 100 SYSCALL_OUT
      (data_args_zero\<lparr>da_iov := 64, da_iovlen := 2\<rparr>) False 0 init_state)))"
proof -
  have "syscall_data_map init_state (cur_cpu (env_of 0 [])) \<noteq> None"
    by (simp add: init_state_def)
  from report_syscall_evt_vecs_tiles [OF _ this, of 100] show ?thesis
    by simp
qed

text \<open>
  Property C23. What one data call does to the classification of its connection. Only a
  connection that is not classified yet is inspected; it then takes the first enabled verdict,
  an unknown role is derived from direction and message type when the protocol changed, and
  user space is told exactly once when it changed. Counters, addresses and identity stay.
\<close>

theorem process_syscall_data_classification:
  assumes "conn_evt_map s (cur_cpu e) \<noteq> None"
  shows "let tried = tries_infer with_data ci;
             v = first_verdict (get_trace_protocol s) (verdicts e (da_buf args) n n ci);
             changed = (tried \<and> protocol ci \<noteq> pm_protocol v);
             (ci', s') = process_syscall_data_with_conn_info e args tgid_fd direct n sl is_ssl
               with_data ci s
         in protocol ci' = (if tried then pm_protocol v else protocol ci) \<and>
            role ci' = (if changed \<and> role ci = kRoleUnknown \<and> pm_type v \<noteq> kUnknown
              then infer_role direct (pm_type v) else role ci) \<and>
            map ce_conn_type (conn_evt_rb s') =
              map ce_conn_type (conn_evt_rb s) @ (if changed then [kProtocolInfer] else []) \<and>
            (conn_id ci', read_bytes ci', write_bytes ci', laddr ci', raddr ci') =
              (conn_id ci, read_bytes ci, write_bytes ci, laddr ci, raddr ci)"
  using assms
  by (auto simp: process_syscall_data_with_conn_info_cases [of e args] Let_def report_conn_evt_rb
      conn_after_infer_role report_ssl_evt_def report_syscall_evt_def split: if_split)

theorem process_syscall_data_classification_witness:
  "let (ci', s') = process_syscall_data_with_conn_info (env_of 64 (ascii ''GET / HTTP''))
         (data_args_zero\<lparr>da_buf := 64\<rparr>) 7 kEgress 10 0 False True conn_info_zero init_state
   in protocol ci' = kProtocolHTTP \<and> role ci' = kRoleClient \<and>
      map ce_conn_type (conn_evt_rb s') = [kProtocolInfer]"
proof -
  let ?e = "env_of 64 (ascii ''GET / HTTP'')"
  have v: "first_verdict (get_trace_protocol init_state) (verdicts ?e 64 10 10 conn_info_zero) =
      \<lparr>pm_protocol = kProtocolHTTP, pm_type = kRequest\<rparr>"
    by (simp add: get_trace_protocol_def control_value_def init_state_def verdicts_def Let_def
        first_verdict_simps TRACE_PROTOCOL_def http_get_sample)
  have m: "conn_evt_map init_state (cur_cpu ?e) \<noteq> None"
    by (simp add: init_state_def)
  show ?thesis
    using process_syscall_data_classification [OF m, of True conn_info_zero
        "data_args_zero\<lparr>da_buf := 64\<rparr>" 10 7 kEgress 0 False]
    by (simp add: v case_prod_unfold Let_def tries_infer_def infer_role_def)
      (simp add: conn_info_zero_def init_state_def)
qed

text \<open>
  Property C20. The data events of one call of an unencrypted connection cover exactly the
  bytes of the call, from the byte after the ones counted so far; a call that may not be
  reported submits nothing.
\<close>

theorem process_syscall_data_emits:
  assumes "unat n < 2 ^ 32" and "syscall_data_map s (cur_cpu e) \<noteq> None"
  shows "let v = first_verdict (get_trace_protocol s) (verdicts e (da_buf args) n n ci);
             inferred = (tries_infer with_data ci \<and> protocol ci \<noteq> pm_protocol v);
             (ci', s') = process_syscall_data_with_conn_info e args tgid_fd direct n sl False
               with_data ci s
         in tiles (syscall_seq_of direct ci) (if may_report inferred ci' then unat n else 0)
              (map evt_span (new_syscall_evts s s'))"
  using emits_new [OF process_syscall_data_emits_aux [OF assms, unfolded Let_def]]
  by (simp only: Let_def case_prod_unfold)

theorem process_syscall_data_emits_witness:
  "let (ci', s') = process_syscall_data_with_conn_info (env_of 64 [])
         (data_args_zero\<lparr>da_buf := 64\<rparr>) 7 kEgress 9 0 False True
         (conn_info_zero\<lparr>protocol := kProtocolHTTP, write_bytes := 40\<rparr>) init_state
   in tiles 41 9 (map evt_span (new_syscall_evts init_state s'))"
proof -
  let ?ci = "conn_info_zero\<lparr>protocol := kProtocolHTTP, write_bytes := 40\<rparr>"
  let ?r = "process_syscall_data_with_conn_info (env_of 64 []) (data_args_zero\<lparr>da_buf := 64\<rparr>) 7 kEgress 9 0
    False True ?ci init_state"
  have m: "syscall_data_map init_state (cur_cpu (env_of 64 [])) \<noteq> None"
    by (simp add: init_state_def)
  have n: "unat (9 :: u64) < 2 ^ 32"
    by simp
  have "may_report False (fst ?r)"
    by (simp add: process_syscall_data_with_conn_info_cases tries_infer_def may_report_def
        conn_info_zero_def enum_order_defs)
  then show ?thesis
    using process_syscall_data_emits [OF n m, of "data_args_zero\<lparr>da_buf := 64\<rparr>" ?ci True 7 kEgress 0]
    by (simp add: case_prod_unfold Let_def tries_infer_def syscall_seq_of_def)
qed

text \<open>
  A TLS report submits one event with the plaintext prefix. Its fields before
  the payload end at offset \<open>layout_end 0\<close> of the layout without the message, but the size
  passed to the ring counts four bytes more than these fields and the payload; it never
  exceeds \<open>struct kern_evt_ssl_data\<close>.
\<close>

theorem report_ssl_buf_event:
  assumes "len \<noteq> 0" and "ssl_data_map s (cur_cpu e) \<noteq> None"
  shows "\<exists>evt n. ssl_rb (report_ssl_buf e seq cid len step ts d buf fn sq sl s) = ssl_rb s @ [(evt, n)] \<and>
    take (unat (ks_buf_size evt)) (ks_msg evt) = probe_read e (min (unat len) MAX_MSG_SIZE) buf \<and>
    ke_seq (ks_ke evt) = seq \<and> ks_syscall_seq evt = sq \<and> ks_syscall_len evt = sl \<and>
    n = layout_end 0 (butlast kern_evt_ssl_data_layout) + unat (ks_buf_size evt) + 4 \<and>
    n \<le> sizeof_struct kern_evt_ssl_data_layout"
proof -
  define k where "k = min (unat len) MAX_MSG_SIZE"
  have k: "unat (of_nat k :: u32) = k" "k \<le> MAX_MSG_SIZE"
    unfolding k_def by (simp_all add: unat_of_nat MAX_MSG_SIZE_def)
  obtain evt where evt: "ssl_data_map s (cur_cpu e) = Some evt"
    using assms(2) by auto
  have "take k (write_prefix (probe_read e k buf) (ks_msg evt)) = probe_read e k buf"
    using take_write_prefix [of "probe_read e k buf"] by simp
  moreover have "layout_end 0 (butlast kern_evt_ssl_data_layout) = 84"
    by (simp add: kern_evt_ssl_data_layout_def sizeof_kern_evt_eq align_up_def)
  ultimately show ?thesis
    using k unfolding report_ssl_buf_eq [OF assms(1) evt] Let_def k_def [symmetric]
    by (simp add: sizeof_kern_evt_ssl_data_eq sizeof_kern_evt_eq fill_ts_def fill_kern_evt_def
        MAX_MSG_SIZE_def)
qed

theorem report_ssl_buf_event_witness:
  "\<exists>evt n. ssl_rb (report_ssl_buf (env_of 64 [1, 2]) 1 (local_conn_id_s (env_of 0 []) 7) 2 SSL_OUT 5 6 64
       kSSLWrite 1 30 init_state) = ssl_rb init_state @ [(evt, n)] \<and> ks_syscall_len evt = 30"
proof -
  have "ssl_data_map init_state (cur_cpu (env_of 64 [1, 2])) \<noteq> None"
    by (simp add: init_state_def)
  from report_ssl_buf_event [OF _ this, of 2 1 "local_conn_id_s (env_of 0 []) 7" SSL_OUT 5 6 64
      kSSLWrite 1 30]
  show ?thesis by auto
qed

end
