(* ===== verification/Sock_Key.thy ===== *)
theory Sock_Key
  imports Bpf_State
begin

text \<open>
  The four-tuple that names one direction of a connection (\<open>struct sock_key\<close>), the ways
  \<open>pktlatency.bpf.c\<close> computes it from a socket, from packet headers and from conntrack
  tuples, and the NAT table. A function that fills a key through a pointer takes the key and
  returns it updated. Reading a field through a null pointer delivers zero, as the probe-read
  helpers do.
\<close>

section \<open>Definitions\<close>

definition reverse_sock_key_no_copy :: "sock_key \<Rightarrow> sock_key" where
  "reverse_sock_key_no_copy key =
     (let temp = sip0 key; key = key\<lparr>sip0 := dip0 key\<rparr>; key = key\<lparr>dip0 := temp\<rparr>;
          temp = sip1 key; key = key\<lparr>sip1 := dip1 key\<rparr>; key = key\<lparr>dip1 := temp\<rparr>;
          temp = sport key; key = key\<lparr>sport := dport key\<rparr>; key = key\<lparr>dport := temp\<rparr>
      in key)"

definition sock_read :: "bpf_env \<Rightarrow> u64 \<Rightarrow> sock_obj" where
  "sock_read e sk = (if sk = 0 then sock_obj_zero else sock_at e sk)"

definition skb_read :: "bpf_env \<Rightarrow> u64 \<Rightarrow> sk_buff_obj" where
  "skb_read e skb = (if skb = 0 then sk_buff_obj_zero else skb_at e skb)"

text \<open>The two 64-bit halves of a 16-byte address in memory order.\<close>

definition in6_lo :: "in6_addr \<Rightarrow> u64" where
  "in6_lo a = join32 (u6_addr32_1 a) (u6_addr32_0 a)"

definition in6_hi :: "in6_addr \<Rightarrow> u64" where
  "in6_hi a = join32 (u6_addr32_3 a) (u6_addr32_2 a)"

definition in6_of :: "u64 \<Rightarrow> u64 \<Rightarrow> in6_addr" where
  "in6_of lo hi = \<lparr>u6_addr32_0 = ucast lo, u6_addr32_1 = ucast (drop_bit 32 lo),
     u6_addr32_2 = ucast hi, u6_addr32_3 = ucast (drop_bit 32 hi)\<rparr>"

definition use_ipv6 :: "bpf_env \<Rightarrow> u64 \<Rightarrow> bool" where
  "use_ipv6 e skc =
     (if \<not> v6_fields_exist e then False
      else let flag = skc_state_flags (sock_read e skc) in
        flag \<noteq> -1 \<and> flag AND 32 \<noteq> 0)"

definition parse_sock_key_sk :: "bpf_env \<Rightarrow> u64 \<Rightarrow> sock_key \<Rightarrow> bool \<times> sock_key" where
  "parse_sock_key_sk e sk key =
     (let skc = sock_read e sk;
          ports = (\<lambda>key. (True, key\<lparr>dport := bpf_ntohs (skc_dport skc), sport := skc_num skc\<rparr>))
      in
      if skc_family skc = AF_INET
      then ports (key\<lparr>dip0 := ucast (skc_daddr skc), sip0 := ucast (skc_rcv_saddr skc)\<rparr>)
      else if skc_family skc = AF_INET6
      then ports (key\<lparr>dip0 := in6_lo (skc_v6_daddr skc), dip1 := in6_hi (skc_v6_daddr skc),
             sip0 := in6_lo (skc_v6_rcv_saddr skc), sip1 := in6_hi (skc_v6_rcv_saddr skc)\<rparr>)
      else (False, key))"

definition parse_sock_key_rcv_sk :: "bpf_env \<Rightarrow> u64 \<Rightarrow> sock_key \<Rightarrow> sock_key" where
  "parse_sock_key_rcv_sk e sk key = reverse_sock_key_no_copy (snd (parse_sock_key_sk e sk key))"

definition parse_sock_key_rcv :: "bpf_env \<Rightarrow> u64 \<Rightarrow> sock_key \<Rightarrow> sock_key" where
  "parse_sock_key_rcv e skb key = parse_sock_key_rcv_sk e (skb_sk (skb_read e skb)) key"

definition parse_sock_key :: "bpf_env \<Rightarrow> u64 \<Rightarrow> sock_key \<Rightarrow> sock_key" where
  "parse_sock_key e skb key = snd (parse_sock_key_sk e (skb_sk (skb_read e skb)) key)"

text \<open>
  Header fields at their offsets: IPv4 source 12, destination 16; IPv6 source 8, destination
  24; TCP source port 0, destination port 2.
\<close>

definition parse_sock_key_from_ipv4_tcp_hdr ::
    "bpf_env \<Rightarrow> u64 \<Rightarrow> u64 \<Rightarrow> sock_key \<Rightarrow> sock_key" where
  "parse_sock_key_from_ipv4_tcp_hdr e ipv4 tcp key =
     key\<lparr>sip0 := ucast (read_u32 e (ipv4 + 12)), dip0 := ucast (read_u32 e (ipv4 + 16)),
         sport := bpf_ntohs (read_u16 e tcp), dport := bpf_ntohs (read_u16 e (tcp + 2))\<rparr>"

definition parse_sock_key_from_ipv6_tcp_hdr ::
    "bpf_env \<Rightarrow> u64 \<Rightarrow> u64 \<Rightarrow> sock_key \<Rightarrow> sock_key" where
  "parse_sock_key_from_ipv6_tcp_hdr e ipv6 tcp key =
     key\<lparr>sip0 := read_u64 e (ipv6 + 8), sip1 := read_u64 e (ipv6 + 16),
         dip0 := read_u64 e (ipv6 + 24), dip1 := read_u64 e (ipv6 + 32),
         sport := bpf_ntohs (read_u16 e tcp), dport := bpf_ntohs (read_u16 e (tcp + 2))\<rparr>"

definition parse_conntrack_tuple :: "conntrack_tuple \<Rightarrow> sock_key \<Rightarrow> sock_key" where
  "parse_conntrack_tuple tuple flow =
     flow\<lparr>sip0 := in6_lo (ct_src_u3 tuple), sip1 := in6_hi (ct_src_u3 tuple),
          dip0 := in6_lo (ct_dst_u3 tuple), dip1 := in6_hi (ct_dst_u3 tuple),
          sport := bpf_ntohs (ct_src_port tuple), dport := bpf_ntohs (ct_dst_port tuple)\<rparr>"

definition reverse_flow :: "sock_key \<Rightarrow> sock_key \<Rightarrow> sock_key" where
  "reverse_flow orig_flow new_flow =
     new_flow\<lparr>sip0 := dip0 orig_flow, sip1 := dip1 orig_flow,
              dip0 := sip0 orig_flow, dip1 := sip1 orig_flow,
              sport := dport orig_flow, dport := sport orig_flow\<rparr>"

definition handle_nat :: "bpf_env \<Rightarrow> u64 \<Rightarrow> bpf_state \<Rightarrow> bpf_state" where
  "handle_nat e ct s =
     (let tuplehash = (case ct_tuplehash (ct_at e ct) of
          Some th \<Rightarrow> Some th
        | None \<Rightarrow> ct_tuplehash_old (ct_at e ct))
      in
      case tuplehash of
        None \<Rightarrow> s
      | Some (orig_tuple, reply_tuple) \<Rightarrow>
          (let orig = parse_conntrack_tuple orig_tuple sock_key_zero;
               reply = parse_conntrack_tuple reply_tuple sock_key_zero;
               reversed_orig = reverse_flow orig sock_key_zero;
               m = bpf_map_update_elem (nat_flow_map s) reversed_orig reply BPF_ANY;
               reversed_reply = reverse_flow reply sock_key_zero;
               m = bpf_map_update_elem m orig reversed_reply BPF_ANY
           in s\<lparr>nat_flow_map := m\<rparr>))"

definition kprobe__nf_nat_packet :: "bpf_env \<Rightarrow> u64 \<Rightarrow> bpf_state \<Rightarrow> bpf_state" where
  "kprobe__nf_nat_packet e ct s = handle_nat e ct s"

definition kprobe__nf_nat_manip_pkt :: "bpf_env \<Rightarrow> u64 \<Rightarrow> bpf_state \<Rightarrow> bpf_state" where
  "kprobe__nf_nat_manip_pkt e ct s = handle_nat e ct s"

section \<open>Specification\<close>

text \<open>The two flows \<open>handle_nat\<close> reads off a conntrack entry, when it has them.\<close>

definition nat_tuples :: "nf_conn_obj \<Rightarrow> (sock_key \<times> sock_key) option" where
  "nat_tuples ct =
     map_option (map_prod (\<lambda>t. parse_conntrack_tuple t sock_key_zero)
         (\<lambda>t. parse_conntrack_tuple t sock_key_zero))
       (case ct_tuplehash ct of Some th \<Rightarrow> Some th | None \<Rightarrow> ct_tuplehash_old ct)"

text \<open>A conntrack entry for a translated HTTP flow, in the layout of older kernels.\<close>

definition nat_env :: bpf_env where
  "nat_env = (env_of 0 [])\<lparr>ct_at := (\<lambda>_. \<lparr>ct_tuplehash = None, ct_tuplehash_old = Some
     (\<lparr>ct_src_u3 = in6_addr_zero\<lparr>u6_addr32_0 := 7\<rparr>, ct_dst_u3 = in6_addr_zero\<lparr>u6_addr32_0 := 8\<rparr>,
        ct_src_port = 0x901f, ct_dst_port = 0x5000\<rparr>,
      \<lparr>ct_src_u3 = in6_addr_zero\<lparr>u6_addr32_0 := 9\<rparr>, ct_dst_u3 = in6_addr_zero\<lparr>u6_addr32_0 := 7\<rparr>,
        ct_src_port = 0x901f, ct_dst_port = 0x901f\<rparr>)\<rparr>)\<rparr>"

section \<open>Reversal\<close>

lemma reverse_sel [simp]:
  "sip0 (reverse_sock_key_no_copy k) = dip0 k" "sip1 (reverse_sock_key_no_copy k) = dip1 k"
  "dip0 (reverse_sock_key_no_copy k) = sip0 k" "dip1 (reverse_sock_key_no_copy k) = sip1 k"
  "sport (reverse_sock_key_no_copy k) = dport k" "dport (reverse_sock_key_no_copy k) = sport k"
  by (simp_all add: reverse_sock_key_no_copy_def Let_def)

lemma sock_key_eqI:
  "\<lbrakk>sip0 a = sip0 b; sip1 a = sip1 b; dip0 a = dip0 b; dip1 a = dip1 b; sport a = sport b;
    dport a = dport b\<rbrakk> \<Longrightarrow> (a :: sock_key) = b"
  by simp

lemma reverse_reverse [simp]: "reverse_sock_key_no_copy (reverse_sock_key_no_copy k) = k"
  by (rule sock_key_eqI) simp_all

lemma reverse_inj [simp]:
  "reverse_sock_key_no_copy a = reverse_sock_key_no_copy b \<longleftrightarrow> a = b"
  by (metis reverse_reverse)

lemma reverse_flow_eq [simp]: "reverse_flow k z = reverse_sock_key_no_copy k"
  by (rule sock_key_eqI) (simp_all add: reverse_flow_def)

lemma reverse_eq_iff: "reverse_sock_key_no_copy a = b \<longleftrightarrow> a = reverse_sock_key_no_copy b"
  by auto

section \<open>Address halves\<close>

lemma in6_of_halves [simp]: "in6_of (in6_lo a) (in6_hi a) = a"
  by (simp add: in6_of_def in6_lo_def in6_hi_def)

lemma halves_in6_of [simp]: "in6_lo (in6_of lo hi) = lo" "in6_hi (in6_of lo hi) = hi"
  by (simp_all add: in6_of_def in6_lo_def in6_hi_def)

section \<open>The NAT table\<close>

lemma handle_nat_eq:
  "handle_nat e ct s =
     (case nat_tuples (ct_at e ct) of
        None \<Rightarrow> s
      | Some (orig, reply) \<Rightarrow>
          s\<lparr>nat_flow_map := bpf_map_update_elem
              (bpf_map_update_elem (nat_flow_map s) (reverse_sock_key_no_copy orig) reply BPF_ANY)
              orig (reverse_sock_key_no_copy reply) BPF_ANY\<rparr>)"
  by (simp add: handle_nat_def nat_tuples_def Let_def split: option.splits prod.splits)

lemma handle_nat_lookup:
  assumes "nat_tuples (ct_at e ct) = Some (orig, reply)" and "bpf_map_room 2 (nat_flow_map s)"
  shows "bpf_map_lookup_elem (nat_flow_map (handle_nat e ct s)) k =
    (if k = orig then Some (reverse_sock_key_no_copy reply)
     else if k = reverse_sock_key_no_copy orig then Some reply
     else bpf_map_lookup_elem (nat_flow_map s) k)"
proof -
  let ?m = "bpf_map_update_elem (nat_flow_map s) (reverse_sock_key_no_copy orig) reply BPF_ANY"
  have room: "bpf_map_room (Suc (Suc 0)) (nat_flow_map s)"
    using assms(2) by (simp add: numeral_2_eq_2)
  then have "bpf_map_room (Suc 0) ?m"
    by (rule bpf_map_room_update)
  with room show ?thesis
    by (simp add: handle_nat_eq assms(1) update_any_room)
qed

section \<open>Properties\<close>

text \<open>
  After a NAT entry was observed, the table translates both directions of the
  flow, and the two translations are reversals of each other; every other flow keeps its
  translation. (The entry must not be its own reversal, and the table needs two free slots.)
\<close>

theorem handle_nat_translates_both_directions:
  assumes "nat_tuples (ct_at e ct) = Some (orig, reply)"
    and "orig \<noteq> reverse_sock_key_no_copy orig" and "bpf_map_room 2 (nat_flow_map s)"
  defines "m \<equiv> nat_flow_map (handle_nat e ct s)"
  shows "bpf_map_lookup_elem m orig = Some (reverse_sock_key_no_copy reply) \<and>
     bpf_map_lookup_elem m (reverse_sock_key_no_copy orig) = Some reply \<and>
     (\<forall>k. k \<notin> {orig, reverse_sock_key_no_copy orig} \<longrightarrow>
        bpf_map_lookup_elem m k = bpf_map_lookup_elem (nat_flow_map s) k)"
  using assms(2) unfolding m_def by (auto simp: handle_nat_lookup [OF assms(1,3)])

theorem handle_nat_translates_both_directions_witness:
  "bpf_map_lookup_elem (nat_flow_map (handle_nat nat_env 0 init_state))
     \<lparr>sip0 = 8, sip1 = 0, dip0 = 7, dip1 = 0, sport = 80, dport = 8080\<rparr> =
   Some \<lparr>sip0 = 9, sip1 = 0, dip0 = 7, dip1 = 0, sport = 8080, dport = 8080\<rparr>"
proof -
  let ?orig = "\<lparr>sip0 = 7, sip1 = 0, dip0 = 8, dip1 = 0, sport = 8080, dport = 80\<rparr>"
  let ?reply = "\<lparr>sip0 = 9, sip1 = 0, dip0 = 7, dip1 = 0, sport = 8080, dport = 8080\<rparr>"
  have "nat_tuples (ct_at nat_env 0) = Some (?orig, ?reply)"
    by (simp add: nat_tuples_def nat_env_def parse_conntrack_tuple_def in6_lo_def in6_hi_def
        join32_def in6_addr_zero_def sock_key_zero_def bpf_ntohs_def nat_bytes_numeral le_word_def)
  moreover have "?orig \<noteq> reverse_sock_key_no_copy ?orig"
    by (simp add: reverse_sock_key_no_copy_def)
  moreover have "bpf_map_room 2 (nat_flow_map init_state)"
    by (simp add: bpf_map_room_def init_state_def bpf_map_create_def MAX_ENTRIES_def)
  ultimately have "bpf_map_lookup_elem (nat_flow_map (handle_nat nat_env 0 init_state))
      (reverse_sock_key_no_copy ?orig) = Some ?reply"
    using handle_nat_translates_both_directions by blast
  then show ?thesis
    by (simp add: reverse_sock_key_no_copy_def)
qed

end
