(* ===== verification/Conn_Tracking.thy ===== *)
theory Conn_Tracking
  imports Data_Common Sock_Key
begin

text \<open>
  The connection table of \<open>pktlatency.bpf.c\<close>: which processes and connections are traced,
  how an entry is created (by connect, accept, an implicit connection or the first data
  system call), how data system calls update it and how close removes it. Signed C integers
  are words read with \<open>sint\<close>; a file descriptor is a \<open>32 word\<close>.
\<close>

section \<open>Process filter\<close>

datatype target_tgid_match_result_t =
  TARGET_TGID_UNSPECIFIED | TARGET_TGID_ALL | TARGET_TGID_MATCHED | TARGET_TGID_UNMATCHED

definition filter_mntns :: "u32 \<Rightarrow> bpf_state \<Rightarrow> int" where
  "filter_mntns ns s = (if bpf_map_lookup_elem (filter_mntns_map s) ns \<noteq> None then 0 else -1)"

definition filter_pidns :: "u32 \<Rightarrow> bpf_state \<Rightarrow> int" where
  "filter_pidns ns s = (if bpf_map_lookup_elem (filter_pidns_map s) ns \<noteq> None then 0 else -1)"

definition filter_netns :: "u32 \<Rightarrow> bpf_state \<Rightarrow> int" where
  "filter_netns ns s = (if bpf_map_lookup_elem (filter_netns_map s) ns \<noteq> None then 0 else -1)"

definition remember_pid :: "u32 \<Rightarrow> bpf_state \<Rightarrow> bpf_state" where
  "remember_pid tgid s =
     s\<lparr>filter_pid_map := bpf_map_update_elem (filter_pid_map s) tgid 0 BPF_NOEXIST\<rparr>"

definition match_trace_tgid ::
    "bpf_env \<Rightarrow> u32 \<Rightarrow> bpf_state \<Rightarrow> target_tgid_match_result_t \<times> bpf_state" where
  "match_trace_tgid e tgid s =
     (if control_value s kEnableFilterByPid = None then (TARGET_TGID_ALL, s)
      else if bpf_map_lookup_elem (filter_pid_map s) tgid \<noteq> None then (TARGET_TGID_MATCHED, s)
      else if task_parent e \<noteq> 0 \<and> bpf_map_lookup_elem (filter_pid_map s) (task_parent_tgid e) \<noteq> None
      then (TARGET_TGID_MATCHED, remember_pid tgid s)
      else if legacy_kernel_310 e then (TARGET_TGID_UNMATCHED, s)
      else if filter_pidns (task_pidns e) s = 0 \<or> filter_mntns (task_mntns e) s = 0 \<or>
              filter_netns (task_netns e) s = 0
      then (TARGET_TGID_MATCHED, remember_pid tgid s)
      else (TARGET_TGID_UNMATCHED, s))"

section \<open>Building a connection entry\<close>

definition set_addr32_0 :: "u32 \<Rightarrow> sockaddr_t \<Rightarrow> sockaddr_t" where
  "set_addr32_0 a sa = sa\<lparr>sin6_addr := (sin6_addr sa)\<lparr>u6_addr32_0 := a\<rparr>\<rparr>"

definition read_sockaddr_kernel :: "bpf_env \<Rightarrow> u64 \<Rightarrow> conn_info_t \<Rightarrow> conn_info_t" where
  "read_sockaddr_kernel e socket ci =
     (let skc = sock_read e (socket_sk (socket_at e socket));
          family = skc_family skc;
          lport = skc_num skc;
          rport = bpf_ntohs (skc_dport skc);
          l = (laddr ci)\<lparr>sa_family := family, sin6_port := lport\<rparr>;
          r = (raddr ci)\<lparr>sa_family := family, sin6_port := rport\<rparr>
      in
      if family = AF_INET
      then ci\<lparr>laddr := set_addr32_0 (skc_rcv_saddr skc) l, raddr := set_addr32_0 (skc_daddr skc) r\<rparr>
      else if family = AF_INET6
      then ci\<lparr>laddr := l\<lparr>sin6_addr := skc_v6_rcv_saddr skc\<rparr>,
              raddr := r\<lparr>sin6_addr := skc_v6_daddr skc\<rparr>\<rparr>
      else ci\<lparr>laddr := l, raddr := r\<rparr>)"

definition init_conn_id :: "bpf_env \<Rightarrow> u32 \<Rightarrow> u32 \<Rightarrow> conn_id_t" where
  "init_conn_id e tgid fd =
     \<lparr>ci_tgid = tgid, ci_start_time_ticks = 0, ci_fd = fd, ci_tsid = ktime e KT_init_conn_id\<rparr>"

definition init_conn_info :: "bpf_env \<Rightarrow> u32 \<Rightarrow> u32 \<Rightarrow> conn_info_t \<Rightarrow> conn_info_t" where
  "init_conn_info e tgid fd ci =
     ci\<lparr>conn_id := init_conn_id e tgid fd, role := kRoleUnknown,
        laddr := (laddr ci)\<lparr>sa_family := PX_AF_UNKNOWN\<rparr>,
        raddr := (raddr ci)\<lparr>sa_family := PX_AF_UNKNOWN\<rparr>\<rparr>"

definition SOCK_STREAM :: u16 where "SOCK_STREAM = 1"
definition SOCK_DGRAM :: u16 where "SOCK_DGRAM = 2"

definition get_socket_from_fd :: "bpf_env \<Rightarrow> u32 \<Rightarrow> u64" where
  "get_socket_from_fd e fd_num =
     (let file = fdtable e fd_num; private_data = file_private_data e file in
      if private_data = 0 then 0
      else
      let socket = socket_at e private_data;
          sk = (if socket_file socket \<noteq> file then socket_file socket else socket_sk socket)
      in if socket_type socket = SOCK_STREAM \<or> socket_type socket = SOCK_DGRAM then sk else 0)"

section \<open>Connection filter\<close>

text \<open>The marker of \<open>enabled_remote_ip_map\<close>: the address whose first byte is 1.\<close>

definition in6_one :: in6_addr where
  "in6_one = in6_addr_zero\<lparr>u6_addr32_0 := 1\<rparr>"

definition filter_conn_info :: "conn_info_t \<Rightarrow> bpf_state \<Rightarrow> bool" where
  "filter_conn_info ci s =
     (if role ci \<noteq> kRoleUnknown \<and>
         (case control_value s kSideFilter of
            None \<Rightarrow> False
          | Some v \<Rightarrow> v \<noteq> 0 \<and> (v = 1) \<noteq> (role ci = kRoleServer))
      then False
      else if bpf_map_lookup_elem (enabled_local_port_map s) 1 \<noteq> None \<and>
         bpf_map_lookup_elem (enabled_local_port_map s) (sin6_port (laddr ci)) = None
      then False
      else if bpf_map_lookup_elem (enabled_remote_port_map s) 1 \<noteq> None \<and>
         bpf_map_lookup_elem (enabled_remote_port_map s) (sin6_port (raddr ci)) = None
      then False
      else if bpf_map_lookup_elem (enabled_remote_ip_map s) in6_one \<noteq> None \<and>
         bpf_map_lookup_elem (enabled_remote_ip_map s) (sin6_addr (raddr ci)) = None
      then False
      else True)"

section \<open>Creating an entry\<close>

definition create_conn_info ::
    "bpf_env \<Rightarrow> conn_info_t \<Rightarrow> u64 \<Rightarrow> sock_key \<Rightarrow> u64 \<Rightarrow> bpf_state \<Rightarrow> bool \<times> bpf_state" where
  "create_conn_info e ci tgid_fd key start_ts s =
     (if should_trace_conn ci \<and> filter_conn_info ci s \<and> sin6_port (laddr ci) \<noteq> 0
      then
        (let s = s\<lparr>conn_info_map := bpf_map_update_elem (conn_info_map s) tgid_fd ci BPF_ANY\<rparr>;
             conn_id_s = \<lparr>cs_tgid_fd = tgid_fd, cs_no_trace = trace_unset\<rparr>;
             s = s\<lparr>sock_key_conn_id_map :=
               bpf_map_update_elem (sock_key_conn_id_map s) key conn_id_s BPF_NOEXIST\<rparr>
         in (True, report_conn_evt e ci kConnect start_ts s))
      else (False, s))"

text \<open>
  \<open>struct sockaddr_in\<close> in user memory: family at 0, port at 2, address at 4;
  \<open>struct sockaddr_in6\<close>: family 0, port 2, flow info 4, address 8, scope 24.
\<close>

definition read_in6_addr :: "bpf_env \<Rightarrow> u64 \<Rightarrow> in6_addr" where
  "read_in6_addr e a = \<lparr>u6_addr32_0 = read_u32 e a, u6_addr32_1 = read_u32 e (a + 4),
     u6_addr32_2 = read_u32 e (a + 8), u6_addr32_3 = read_u32 e (a + 12)\<rparr>"

definition read_sockaddr_in6 :: "bpf_env \<Rightarrow> u64 \<Rightarrow> sockaddr_t" where
  "read_sockaddr_in6 e a = \<lparr>sa_family = read_u16 e a, sin6_port = read_u16 e (a + 2),
     sin6_flowinfo = read_u32 e (a + 4), sin6_addr = read_in6_addr e (a + 8),
     sin6_scope_id = read_u32 e (a + 24)\<rparr>"

text \<open>\<open>submit_new_conn\<close> up to the addresses: from the socket, or from the caller's address.\<close>

definition conn_addr_from_args ::
    "bpf_env \<Rightarrow> u64 \<Rightarrow> u64 \<Rightarrow> conn_info_t \<Rightarrow> conn_info_t" where
  "conn_addr_from_args e addr socket ci =
     (if socket \<noteq> 0 then read_sockaddr_kernel e socket ci
      else if addr \<noteq> 0 then
        (let family = read_u16 e addr in
         if family = AF_INET
         then ci\<lparr>raddr := set_addr32_0 (read_u32 e (addr + 4))
             ((raddr ci)\<lparr>sin6_port := bpf_ntohs (read_u16 e (addr + 2))\<rparr>)\<rparr>
         else if family = AF_INET6 then ci\<lparr>raddr := read_sockaddr_in6 e addr\<rparr>
         else ci)
      else ci)"

text \<open>What \<open>submit_new_conn\<close> takes from the key of the socket when it got no socket.\<close>

definition conn_addr_from_key ::
    "bpf_env \<Rightarrow> u64 \<Rightarrow> u64 \<Rightarrow> sock_key \<Rightarrow> conn_info_t \<Rightarrow> conn_info_t" where
  "conn_addr_from_key e addr tcp_sk key ci =
     (let family = skc_family (sock_read e tcp_sk);
          l = (laddr ci)\<lparr>sin6_port := sport key\<rparr>;
          r = (if addr = 0 then (raddr ci)\<lparr>sin6_port := dport key\<rparr> else raddr ci);
          l = (if family = AF_INET then set_addr32_0 (ucast (sip0 key)) l
               else if family = AF_INET6 then l\<lparr>sin6_addr := in6_of (sip0 key) (sip1 key)\<rparr>
               else l);
          r = (if addr \<noteq> 0 then r
               else if family = AF_INET then set_addr32_0 (ucast (dip0 key)) r
               else if family = AF_INET6 then r\<lparr>sin6_addr := in6_of (dip0 key) (dip1 key)\<rparr>
               else r)
      in ci\<lparr>laddr := l\<lparr>sa_family := family\<rparr>, raddr := r\<lparr>sa_family := family\<rparr>\<rparr>)"

definition submit_new_conn ::
    "bpf_env \<Rightarrow> u32 \<Rightarrow> u32 \<Rightarrow> u64 \<Rightarrow> u64 \<Rightarrow> endpoint_role_t \<Rightarrow> u64 \<Rightarrow> bpf_state \<Rightarrow> bpf_state" where
  "submit_new_conn e tgid fd addr socket role' start_ts s =
     (let tgid_fd = gen_tgid_fd tgid fd;
          ci = conn_addr_from_args e addr socket (init_conn_info e tgid fd conn_info_zero);
          tcp_sk = get_socket_from_fd e fd;
          tcp_sk = (if tcp_sk \<noteq> 0 then tcp_sk
                    else if socket = 0 then 0 else socket_sk (socket_at e socket));
          key = snd (parse_sock_key_sk e tcp_sk sock_key_zero);
          ci = (if socket = 0 then conn_addr_from_key e addr tcp_sk key ci else ci);
          ci = ci\<lparr>role := role'\<rparr>;
          (created, s) = create_conn_info e ci tgid_fd key start_ts s
      in
      if created \<and> tcp_sk \<noteq> 0
      then
        (let wseq = write_seq (sock_read e tcp_sk);
             cseq = copied_seq (sock_read e tcp_sk);
             s = (if wseq \<noteq> 0
                  then s\<lparr>sock_xmit_map := bpf_map_update_elem (sock_xmit_map s) key (wseq - 1) BPF_ANY\<rparr>
                  else s);
             key = parse_sock_key_rcv_sk e tcp_sk key
         in if cseq \<noteq> 0
            then s\<lparr>sock_xmit_map := bpf_map_update_elem (sock_xmit_map s) key (cseq - 1) BPF_ANY\<rparr>
            else s)
      else s)"

section \<open>Close, connect, accept\<close>

definition conn_sock_key :: "conn_info_t \<Rightarrow> sock_key" where
  "conn_sock_key ci =
     (let key = sock_key_zero\<lparr>sport := sin6_port (laddr ci), dport := sin6_port (raddr ci)\<rparr> in
      if sa_family (laddr ci) = AF_INET
      then key\<lparr>sip0 := ucast (u6_addr32_0 (sin6_addr (laddr ci))),
               dip0 := ucast (u6_addr32_0 (sin6_addr (raddr ci)))\<rparr>
      else key\<lparr>sip0 := in6_lo (sin6_addr (laddr ci)), sip1 := in6_hi (sin6_addr (laddr ci)),
               dip0 := in6_lo (sin6_addr (raddr ci)), dip1 := in6_hi (sin6_addr (raddr ci))\<rparr>)"

text \<open>
  \<open>args->fd\<close> is unsigned in \<open>close_args\<close>: the comparison \<open>args->fd < 0\<close> is false for
  every value. The entry is still read after it was deleted from the map; its memory holds
  the old value.
\<close>

definition process_syscall_close ::
    "bpf_env \<Rightarrow> u32 \<Rightarrow> close_args \<Rightarrow> u64 \<Rightarrow> bpf_state \<Rightarrow> bpf_state" where
  "process_syscall_close e ret_val args pt s =
     (let tgid = ucast (drop_bit 32 pt) in
      if cl_fd args < 0 then s
      else if sint ret_val < 0 then s
      else
      let tgid_fd = gen_tgid_fd tgid (cl_fd args) in
      case bpf_map_lookup_elem (conn_info_map s) tgid_fd of
        None \<Rightarrow> s
      | Some ci \<Rightarrow>
          (let s = report_conn_evt e ci kClose 0 s;
               s = s\<lparr>conn_info_map := bpf_map_delete_elem (conn_info_map s) tgid_fd\<rparr>
           in s\<lparr>sock_key_conn_id_map :=
                bpf_map_delete_elem (sock_key_conn_id_map s) (conn_sock_key ci)\<rparr>))"

definition process_syscall_connect ::
    "bpf_env \<Rightarrow> u32 \<Rightarrow> connect_args \<Rightarrow> u64 \<Rightarrow> bpf_state \<Rightarrow> bpf_state" where
  "process_syscall_connect e ret_val args pt s =
     (let tgid = ucast (drop_bit 32 pt) in
      if sint ret_val < 0 \<and> sint ret_val \<noteq> - EINPROGRESS then s
      else if sint (co_fd args) < 0 then s
      else
      let (m, s) = match_trace_tgid e tgid s in
      if m = TARGET_TGID_UNMATCHED then s
      else submit_new_conn e tgid (co_fd args) (co_addr args) 0 kRoleClient (co_start_ts args) s)"

definition process_syscall_accept ::
    "bpf_env \<Rightarrow> u64 \<Rightarrow> accept_args \<Rightarrow> u64 \<Rightarrow> bpf_state \<Rightarrow> bpf_state" where
  "process_syscall_accept e ret args pt s =
     (let tgid = ucast (drop_bit 32 pt) in
      if sint ret < 0 then s
      else
      let (m, s) = match_trace_tgid e tgid s in
      if m = TARGET_TGID_UNMATCHED then s
      else submit_new_conn e tgid (ucast ret) (ac_addr args) (ac_sock_alloc_socket args)
        kRoleServer 0 s)"

section \<open>Data system calls\<close>

text \<open>\<open>create_conn_info_in_data_syscall\<close>: the entry it fills, before it is filtered.\<close>

definition data_conn_info ::
    "bpf_env \<Rightarrow> u64 \<Rightarrow> u64 \<Rightarrow> sock_key \<Rightarrow> conn_info_t \<Rightarrow> conn_info_t" where
  "data_conn_info e tcp_sk tgid_fd key ci =
     (let ci = init_conn_info e (ucast (drop_bit 32 tgid_fd)) (ucast tgid_fd) ci;
          l = (laddr ci)\<lparr>sin6_port := sport key\<rparr>;
          r = (raddr ci)\<lparr>sin6_port := dport key\<rparr>;
          family = (if use_ipv6 e tcp_sk then skc_family (sock_read e tcp_sk) else AF_INET);
          l = (if family = AF_INET then set_addr32_0 (ucast (sip0 key)) l
               else if family = AF_INET6 then l\<lparr>sin6_addr := in6_of (sip0 key) (sip1 key)\<rparr>
               else l);
          r = (if family = AF_INET then set_addr32_0 (ucast (dip0 key)) r
               else if family = AF_INET6 then r\<lparr>sin6_addr := in6_of (dip0 key) (dip1 key)\<rparr>
               else r)
      in ci\<lparr>laddr := l\<lparr>sa_family := family\<rparr>, raddr := r\<lparr>sa_family := family\<rparr>\<rparr>)"

definition create_conn_info_in_data_syscall ::
    "bpf_env \<Rightarrow> u64 \<Rightarrow> u64 \<Rightarrow> traffic_direction_t \<Rightarrow> u64 \<Rightarrow> conn_info_t \<Rightarrow> u64 \<Rightarrow> bpf_state \<Rightarrow>
     bool \<times> conn_info_t \<times> bpf_state" where
  "create_conn_info_in_data_syscall e tcp_sk tgid_fd direct bytes_count ci ts s =
     (let key = snd (parse_sock_key_sk e tcp_sk sock_key_zero);
          ci = data_conn_info e tcp_sk tgid_fd key ci;
          (created, s) = create_conn_info e ci tgid_fd key ts s
      in
      if \<not> created then (False, ci, s)
      else
      let wseq = write_seq (sock_read e tcp_sk);
          cseq = copied_seq (sock_read e tcp_sk);
          (send_initial_seq, rcv_initial_seq) =
            (if direct = kEgress then (wseq - ucast bytes_count - 1, cseq - 1)
             else (wseq - 1, cseq - ucast bytes_count - 1));
          s = s\<lparr>sock_xmit_map := bpf_map_update_elem (sock_xmit_map s) key send_initial_seq BPF_ANY\<rparr>;
          key = parse_sock_key_rcv_sk e tcp_sk key;
          s = s\<lparr>sock_xmit_map := bpf_map_update_elem (sock_xmit_map s) key rcv_initial_seq BPF_ANY\<rparr>
      in (True, ci, s))"

text \<open>
  The block \<open>if (!conn_info) ...\<close> of \<open>process_syscall_data\<close> and
  \<open>process_syscall_data_vecs\<close>, with the new entry built in the per-CPU buffer.
\<close>

definition find_or_create_conn ::
    "bpf_env \<Rightarrow> data_args \<Rightarrow> u64 \<Rightarrow> traffic_direction_t \<Rightarrow> u64 \<Rightarrow> bpf_state \<Rightarrow>
     conn_info_t option \<times> bpf_state" where
  "find_or_create_conn e args tgid_fd direct bytes_count s =
     (case bpf_map_lookup_elem (conn_info_map s) tgid_fd of
        Some ci \<Rightarrow> (Some ci, s)
      | None \<Rightarrow>
          (let tcp_sk = get_socket_from_fd e (da_fd args) in
           if tcp_sk = 0 then (None, s)
           else case conn_info_t_map s (cur_cpu e) of
               None \<Rightarrow> (None, s)
             | Some new_ci \<Rightarrow>
                 (let (created, new_ci, s) =
                      create_conn_info_in_data_syscall e tcp_sk tgid_fd direct bytes_count
                        (new_ci\<lparr>protocol := kProtocolUnset\<rparr>) (da_end_ts args - 1) s;
                      s = s\<lparr>conn_info_t_map := (conn_info_t_map s)(cur_cpu e := Some new_ci)\<rparr>
                  in (if created then bpf_map_lookup_elem (conn_info_map s) tgid_fd else None, s))))"

definition add_bytes :: "traffic_direction_t \<Rightarrow> u64 \<Rightarrow> conn_info_t \<Rightarrow> conn_info_t" where
  "add_bytes direct n ci =
     (if direct = kEgress then ci\<lparr>write_bytes := write_bytes ci + n\<rparr>
      else ci\<lparr>read_bytes := read_bytes ci + n\<rparr>)"

definition store_conn_info :: "u64 \<Rightarrow> conn_info_t \<Rightarrow> bpf_state \<Rightarrow> bpf_state" where
  "store_conn_info tgid_fd ci s =
     s\<lparr>conn_info_map := bpf_map_store (conn_info_map s) tgid_fd ci\<rparr>"

text \<open>The inference loop of \<open>process_syscall_data_vecs\<close>: at most \<open>PROTOCOL_VEC_LIMIT\<close> rounds.\<close>

function infer_vecs ::
    "bpf_env \<Rightarrow> data_args \<Rightarrow> traffic_direction_t \<Rightarrow> u64 \<Rightarrow> nat \<Rightarrow> conn_info_t \<Rightarrow> bpf_state \<Rightarrow>
     conn_info_t \<times> bpf_state" where
  "infer_vecs e args direct bytes_count i ci s =
     (if i < PROTOCOL_VEC_LIMIT \<and> of_nat i < da_iovlen args
      then
        (let (iov_base, iov_len) = read_iovec e (da_iov args) i;
             buf_size = (if iov_len < bytes_count then iov_len else bytes_count)
         in if buf_size \<noteq> 0
            then snd (infer_and_report e iov_base buf_size bytes_count direct ci s)
            else infer_vecs e args direct bytes_count (i + 1) ci s)
      else (ci, s))"
  by pat_completeness auto
termination
  by (relation "measure (\<lambda>(e, a, d, b, i, c, s). PROTOCOL_VEC_LIMIT - i)") auto

declare infer_vecs.simps [simp del]

text \<open>
  The part of \<open>process_syscall_data_vecs\<close> that has a connection: report, then the entry
  with the flag of the length header cleared.
\<close>

definition report_vecs_with_conn_info ::
    "bpf_env \<Rightarrow> data_args \<Rightarrow> u64 \<Rightarrow> traffic_direction_t \<Rightarrow> u64 \<Rightarrow> conn_info_t \<Rightarrow> bpf_state \<Rightarrow>
     conn_info_t \<times> bpf_state" where
  "report_vecs_with_conn_info e args tgid_fd direct bytes_count ci s =
     (let conn_id_s = local_conn_id_s e tgid_fd; step = data_step False direct in
      if \<not> ssl ci
      then
        (let (ci, s) =
             (if protocol ci = kProtocolUnset \<or> protocol ci = kProtocolUnknown
              then infer_vecs e args direct bytes_count 0 ci s else (ci, s));
             seq = syscall_seq_of direct ci
         in
         if should_trace_conn ci
         then
           (let length_header = (if prepend_length_header ci then le_word (prev_buf ci) else 0);
                s = report_syscall_evt_vecs e seq conn_id_s (ucast bytes_count) step args
                  (prepend_length_header ci) length_header s
            in (ci\<lparr>prepend_length_header := False\<rparr>, s))
         else (ci, s))
      else
        (ci, report_syscall_buf_without_data e (syscall_seq_of direct ci) conn_id_s bytes_count
               step (da_start_ts args) (args_delta args) (da_source_fn args) s))"

definition process_syscall_data_vecs ::
    "bpf_env \<Rightarrow> data_args \<Rightarrow> u64 \<Rightarrow> traffic_direction_t \<Rightarrow> u64 \<Rightarrow> bool \<Rightarrow> bpf_state \<Rightarrow> bpf_state" where
  "process_syscall_data_vecs e args pt direct bytes_count is_in_nested_ssl s =
     (let tgid = ucast (drop_bit 32 pt) in
      if da_iov args = 0 then s
      else if da_iovlen args = 0 then s
      else if sint (da_fd args) < 0 then s
      else if sint bytes_count \<le> 0 then s
      else
      let tgid_fd = gen_tgid_fd tgid (da_fd args);
          (found, s) = find_or_create_conn e args tgid_fd direct bytes_count s
      in
      case found of
        None \<Rightarrow> s
      | Some ci \<Rightarrow>
          (let ci = (if is_in_nested_ssl then ci\<lparr>ssl := True\<rparr> else ci);
               (ci, s) = report_vecs_with_conn_info e args tgid_fd direct bytes_count ci s
           in store_conn_info tgid_fd (add_bytes direct bytes_count ci) s))"

definition process_syscall_data ::
    "bpf_env \<Rightarrow> data_args \<Rightarrow> u64 \<Rightarrow> traffic_direction_t \<Rightarrow> u64 \<Rightarrow> bool \<Rightarrow> bpf_state \<Rightarrow> bpf_state" where
  "process_syscall_data e args pt direct bytes_count is_nested_ssl s =
     (if sint bytes_count \<le> 0 then s
      else
      let tgid = ucast (drop_bit 32 pt);
          (m, s) = match_trace_tgid e tgid s
      in
      if m = TARGET_TGID_UNMATCHED then s
      else
      let tgid_fd = gen_tgid_fd tgid (da_fd args);
          (found, s) = find_or_create_conn e args tgid_fd direct bytes_count s
      in
      case found of
        None \<Rightarrow> s
      | Some ci \<Rightarrow>
          (let ci = (if is_nested_ssl then ci\<lparr>ssl := True\<rparr> else ci);
               (ci, s) = process_syscall_data_with_conn_info e args tgid_fd direct bytes_count 0
                 False (\<not> ssl ci) ci s
           in store_conn_info tgid_fd (add_bytes direct bytes_count ci) s))"

definition process_syscall_sendfile ::
    "bpf_env \<Rightarrow> u64 \<Rightarrow> sendfile_args \<Rightarrow> u64 \<Rightarrow> bpf_state \<Rightarrow> bpf_state" where
  "process_syscall_sendfile e pt args bytes_count s =
     (let tgid = ucast (drop_bit 32 pt) in
      if sint (sf_out_fd args) < 0 then s
      else if sint bytes_count \<le> 0 then s
      else
      let (m, s) = match_trace_tgid e tgid s in
      if m = TARGET_TGID_UNMATCHED then s
      else
      let tgid_fd = gen_tgid_fd tgid (sf_out_fd args);
          (found, s) =
            (case bpf_map_lookup_elem (conn_info_map s) tgid_fd of
               Some ci \<Rightarrow> (Some ci, s)
             | None \<Rightarrow>
                 (let tcp_sk = get_socket_from_fd e (sf_out_fd args) in
                  if tcp_sk = 0 then (None, s)
                  else
                  let (created, _, s) =
                      create_conn_info_in_data_syscall e tcp_sk tgid_fd kEgress bytes_count
                        (conn_info_zero\<lparr>protocol := kProtocolUnset\<rparr>) (sf_end_ts args - 1) s
                  in (if created then bpf_map_lookup_elem (conn_info_map s) tgid_fd else None, s)))
      in
      case found of
        None \<Rightarrow> s
      | Some ci \<Rightarrow>
          (let s = process_sendfile_with_conn_info e args tgid_fd kEgress bytes_count ci False s
           in store_conn_info tgid_fd (ci\<lparr>write_bytes := write_bytes ci + bytes_count\<rparr>) s))"

definition process_implicit_conn ::
    "bpf_env \<Rightarrow> u64 \<Rightarrow> connect_args \<Rightarrow> source_function_t \<Rightarrow> endpoint_role_t \<Rightarrow> bpf_state \<Rightarrow>
     bpf_state" where
  "process_implicit_conn e pt args source_fn role' s =
     (let tgid = ucast (drop_bit 32 pt);
          (m, s) = match_trace_tgid e tgid s
      in
      if m = TARGET_TGID_UNMATCHED then s
      else if sint (co_fd args) < 0 then s
      else
      let tgid_fd = gen_tgid_fd tgid (co_fd args) in
      if bpf_map_lookup_elem (conn_info_map s) tgid_fd \<noteq> None then s
      else submit_new_conn e tgid (co_fd args) (co_addr args) 0 role'
        (of_nat (source_function_code source_fn)) s)"

section \<open>Handing the descriptor to the TLS probes\<close>

definition get_goid :: "bpf_env \<Rightarrow> bpf_state \<Rightarrow> u64" where
  "get_goid e s =
     (case bpf_map_lookup_elem (go_common_symaddrs_map s) (current_tgid e) of
        None \<Rightarrow> 0
      | Some common_symaddrs \<Rightarrow>
          (if task_ptr e = 0 then 0
           else
           let g_addr = read_u64 e (task_fs_base e + scast (g_addr_offset common_symaddrs))
           in read_u64 e (g_addr + scast (g_goid_offset common_symaddrs))))"

definition update_fd_and_syscall_len_to_uprobe ::
    "u32 \<Rightarrow> u32 \<Rightarrow> nested_syscall_fd_t \<Rightarrow> nested_syscall_fd_t" where
  "update_fd_and_syscall_len_to_uprobe fd len ns =
     (let current_fd = ns_fd ns;
          ns = (if current_fd = kInvalidFD then ns\<lparr>ns_fd := fd\<rparr>
                else if current_fd \<noteq> fd then ns\<lparr>ns_mismatched_fds := True\<rparr> else ns)
      in if sint len > 0 then ns\<lparr>ns_syscall_len := ns_syscall_len ns + len\<rparr> else ns)"

definition propagate_fd_to_uprobe ::
    "bpf_env \<Rightarrow> u64 \<Rightarrow> u32 \<Rightarrow> u32 \<Rightarrow> bpf_state \<Rightarrow> bool \<times> bpf_state" where
  "propagate_fd_to_uprobe e pt fd len s =
     (let s = (case bpf_map_lookup_elem (ssl_user_space_call_map s) pt of
          None \<Rightarrow> s
        | Some ns \<Rightarrow> s\<lparr>ssl_user_space_call_map :=
            bpf_map_store (ssl_user_space_call_map s) pt
              (update_fd_and_syscall_len_to_uprobe fd len ns)\<rparr>);
          goid = get_goid e s
      in
      if goid \<noteq> 0
      then
        (let tgid_goid = \<lparr>tg_tgid = ucast (drop_bit 32 pt), tg_goid = goid\<rparr> in
         case bpf_map_lookup_elem (go_ssl_user_space_call_map s) tgid_goid of
           None \<Rightarrow> (False, s)
         | Some ns \<Rightarrow>
             (True, s\<lparr>go_ssl_user_space_call_map :=
                bpf_map_store (go_ssl_user_space_call_map s) tgid_goid
                  (update_fd_and_syscall_len_to_uprobe fd len ns)\<rparr>))
      else (False, s))"

end
