(* ===== verification/Conn_Lifecycle.thy ===== *)
theory Conn_Lifecycle
  imports Conn_Tracking
begin

text \<open>
  Lemmas and properties of the connection table: which entry each way of opening a
  connection creates, that closing it restores the tables, that the byte counters and the
  reported events of successive calls fit together, and what the filters let through.
\<close>

section \<open>Specification\<close>

text \<open>The socket, key and entry with which \<open>submit_new_conn\<close> works.\<close>

definition submit_sk :: "bpf_env \<Rightarrow> u32 \<Rightarrow> u64 \<Rightarrow> u64" where
  "submit_sk e fd socket =
     (let tcp_sk = get_socket_from_fd e fd in
      if tcp_sk \<noteq> 0 then tcp_sk else if socket = 0 then 0 else socket_sk (socket_at e socket))"

definition socket_key :: "bpf_env \<Rightarrow> u64 \<Rightarrow> sock_key" where
  "socket_key e sk = snd (parse_sock_key_sk e sk sock_key_zero)"

definition submit_conn_info ::
    "bpf_env \<Rightarrow> u32 \<Rightarrow> u32 \<Rightarrow> u64 \<Rightarrow> u64 \<Rightarrow> endpoint_role_t \<Rightarrow> conn_info_t" where
  "submit_conn_info e tgid fd addr socket role' =
     (let ci = conn_addr_from_args e addr socket (init_conn_info e tgid fd conn_info_zero);
          sk = submit_sk e fd socket
      in (if socket = 0 then conn_addr_from_key e addr sk (socket_key e sk) ci else ci)\<lparr>role := role'\<rparr>)"

definition admits :: "conn_info_t \<Rightarrow> bpf_state \<Rightarrow> bool" where
  "admits ci s \<longleftrightarrow> should_trace_conn ci \<and> filter_conn_info ci s \<and> sin6_port (laddr ci) \<noteq> 0"

text \<open>Both tables answer every lookup alike.\<close>

definition same_conn_tables :: "bpf_state \<Rightarrow> bpf_state \<Rightarrow> bool" where
  "same_conn_tables s s' \<longleftrightarrow>
     bpf_map_lookup_elem (conn_info_map s') = bpf_map_lookup_elem (conn_info_map s) \<and>
     bpf_map_lookup_elem (sock_key_conn_id_map s') = bpf_map_lookup_elem (sock_key_conn_id_map s)"

text \<open>A state in which the process filter is on and allows one process.\<close>

definition pid_filter_state :: bpf_state where
  "pid_filter_state = init_state\<lparr>
     control_values := bpf_map_update_elem (control_values init_state)
       (control_value_index kEnableFilterByPid) 1 BPF_ANY,
     filter_pid_map := bpf_map_update_elem (filter_pid_map init_state) 7 1 BPF_ANY\<rparr>"

text \<open>An environment in which every descriptor is a stream socket of the given kind.\<close>

definition sock_env :: "sock_obj \<Rightarrow> bpf_env" where
  "sock_env sk = (env_of 0 [])\<lparr>fdtable := (\<lambda>_. 256), file_private_data := (\<lambda>_. 512),
     socket_at := (\<lambda>_. \<lparr>socket_sk = 768, socket_type = SOCK_STREAM, socket_file = 256\<rparr>),
     sock_at := (\<lambda>_. sk)\<rparr>"

definition v4_sock :: sock_obj where
  "v4_sock = sock_obj_zero\<lparr>skc_family := AF_INET, skc_num := 8080, skc_dport := 80,
     skc_daddr := 7, skc_rcv_saddr := 9\<rparr>"

text \<open>A client connecting to port 443 of the address \<open>::1\<close>, with its \<open>sockaddr_in6\<close> at 64.\<close>

definition v6_sock :: sock_obj where
  "v6_sock = sock_obj_zero\<lparr>skc_family := AF_INET6, skc_num := 50000, skc_dport := 0xbb01,
     skc_v6_daddr := \<lparr>u6_addr32_0 = 0, u6_addr32_1 = 0, u6_addr32_2 = 0, u6_addr32_3 = 0x01000000\<rparr>\<rparr>"

definition https6_bytes :: "u8 list" where
  "https6_bytes = [10, 0, 1, 0xbb, 0, 0, 0, 0, 0, 0, 0, 0, 0, 0, 0, 0, 0, 0, 0, 0, 0, 0, 0, 1, 0, 0, 0, 0]"

definition https6_env :: bpf_env where
  "https6_env = (sock_env v6_sock)\<lparr>probe_mem := mem_of 64 https6_bytes\<rparr>"

text \<open>A client whose IPv4 address, in the first eight bytes of its \<open>sockaddr_in\<close>, is at 64.\<close>

definition http4_env :: bpf_env where
  "http4_env = (sock_env v4_sock)\<lparr>probe_mem := mem_of 64 [2, 0, 80, 0, 7, 0, 0, 0]\<rparr>"

text \<open>
  A socket that the kernel has connected to the address a call passed: \<open>sockaddr_in\<close> has the port at
  offset 2 and the address at 4, \<open>sockaddr_in6\<close> the address at 8. (The kernel replaces the wildcard
  address by a local one, so this is about any other destination.)
\<close>

definition connected_to :: "bpf_env \<Rightarrow> u64 \<Rightarrow> sock_obj \<Rightarrow> bool" where
  "connected_to e addr so \<longleftrightarrow>
     skc_family so = read_u16 e addr \<and> skc_dport so = read_u16 e (addr + 2) \<and>
     (skc_family so = AF_INET \<longrightarrow> skc_daddr so = read_u32 e (addr + 4)) \<and>
     (skc_family so = AF_INET6 \<longrightarrow> skc_v6_daddr so = read_in6_addr e (addr + 8))"

text \<open>
  An established, classified and unencrypted connection in a state without process filter,
  and a sequence of data calls on it, each with its own environment (it may run on any CPU).
\<close>

definition traced_conn :: "bpf_state \<Rightarrow> u64 \<Rightarrow> conn_info_t \<Rightarrow> bool" where
  "traced_conn s tgid_fd ci \<longleftrightarrow>
     control_value s kEnableFilterByPid = None \<and>
     bpf_map_lookup_elem (conn_info_map s) tgid_fd = Some ci \<and>
     protocol ci \<noteq> kProtocolUnset \<and> should_trace_conn ci \<and> \<not> ssl ci \<and>
     (\<forall>cpu. syscall_data_map s cpu \<noteq> None)"

fun data_calls ::
    "u64 \<Rightarrow> traffic_direction_t \<Rightarrow> (bpf_env \<times> data_args \<times> u64) list \<Rightarrow> bpf_state \<Rightarrow> bpf_state" where
  "data_calls pt direct [] s = s"
| "data_calls pt direct ((e, args, n) # calls) s =
     data_calls pt direct calls (process_syscall_data e args pt direct n False s)"

definition good_call :: "u32 \<Rightarrow> bpf_env \<times> data_args \<times> u64 \<Rightarrow> bool" where
  "good_call fd = (\<lambda>(e, args, n). da_fd args = fd \<and> n \<noteq> 0 \<and> unat n < 2 ^ 32)"

section \<open>The process filter\<close>

lemma remember_pid_lookup:
  "\<not> bpf_map_full (filter_pid_map s) \<Longrightarrow>
     bpf_map_lookup_elem (filter_pid_map (remember_pid tgid s)) tgid \<noteq> None"
  by (cases "bpf_map_lookup_elem (filter_pid_map s) tgid") (simp_all add: remember_pid_def bpf_lookup)

lemma match_trace_tgid_frame [simp]:
  "conn_info_map (snd (match_trace_tgid e tgid s)) = conn_info_map s"
  "sock_key_conn_id_map (snd (match_trace_tgid e tgid s)) = sock_key_conn_id_map s"
  "control_values (snd (match_trace_tgid e tgid s)) = control_values s"
  "syscall_rb (snd (match_trace_tgid e tgid s)) = syscall_rb s"
  "syscall_data_map (snd (match_trace_tgid e tgid s)) = syscall_data_map s"
  "conn_evt_rb (snd (match_trace_tgid e tgid s)) = conn_evt_rb s"
  "conn_evt_map (snd (match_trace_tgid e tgid s)) = conn_evt_map s"
  "enabled_local_port_map (snd (match_trace_tgid e tgid s)) = enabled_local_port_map s"
  by (simp_all add: match_trace_tgid_def remember_pid_def)

lemma match_trace_tgid_all:
  "control_value s kEnableFilterByPid = None \<Longrightarrow> match_trace_tgid e tgid s = (TARGET_TGID_ALL, s)"
  by (simp add: match_trace_tgid_def)

text \<open>
  With the process filter on, a process that matched once (by its own id, its
  parent or a namespace) keeps matching at every later call, also when parent and namespaces
  have changed by then, as long as the table of process ids had a free slot.
\<close>

theorem match_trace_tgid_sticky:
  assumes "match_trace_tgid e tgid s = (TARGET_TGID_MATCHED, s')"
    and "\<not> bpf_map_full (filter_pid_map s)"
  shows "match_trace_tgid e' tgid s' = (TARGET_TGID_MATCHED, s')"
proof -
  have "bpf_map_lookup_elem (filter_pid_map s') tgid \<noteq> None \<and> control_value s' kEnableFilterByPid \<noteq> None"
    using assms remember_pid_lookup [OF assms(2), of tgid]
    by (auto simp: match_trace_tgid_def control_value_def remember_pid_def split: if_splits)
  then show ?thesis
    by (simp add: match_trace_tgid_def)
qed

theorem match_trace_tgid_sticky_witness:
  "match_trace_tgid (env_of 0 []) 42
     (snd (match_trace_tgid ((env_of 0 [])\<lparr>task_parent := 1, task_parent_tgid := 7\<rparr>) 42 pid_filter_state)) =
   (TARGET_TGID_MATCHED,
     snd (match_trace_tgid ((env_of 0 [])\<lparr>task_parent := 1, task_parent_tgid := 7\<rparr>) 42 pid_filter_state))"
proof -
  let ?e = "(env_of 0 [])\<lparr>task_parent := 1, task_parent_tgid := 7\<rparr>"
  have "match_trace_tgid ?e 42 pid_filter_state =
      (TARGET_TGID_MATCHED, snd (match_trace_tgid ?e 42 pid_filter_state))"
    by (simp add: match_trace_tgid_def pid_filter_state_def control_value_def init_state_def
        bpf_map_lookup_elem_def bpf_map_update_elem_def bpf_map_create_def MAX_ENTRIES_def)
  moreover have "\<not> bpf_map_full (filter_pid_map pid_filter_state)"
    by (simp add: bpf_map_full_def pid_filter_state_def init_state_def bpf_map_update_elem_def
        bpf_map_create_def)
  ultimately show ?thesis
    by (rule match_trace_tgid_sticky)
qed

section \<open>Opening and closing\<close>

lemma create_conn_info_maps:
  "conn_info_map (snd (create_conn_info e ci tgid_fd key ts s)) =
     (if admits ci s then bpf_map_update_elem (conn_info_map s) tgid_fd ci BPF_ANY else conn_info_map s)"
  "sock_key_conn_id_map (snd (create_conn_info e ci tgid_fd key ts s)) =
     (if admits ci s then bpf_map_update_elem (sock_key_conn_id_map s) key
        \<lparr>cs_tgid_fd = tgid_fd, cs_no_trace = trace_unset\<rparr> BPF_NOEXIST
      else sock_key_conn_id_map s)"
  "fst (create_conn_info e ci tgid_fd key ts s) = admits ci s"
  by (simp_all add: create_conn_info_def admits_def Let_def)

lemma create_conn_info_evt:
  "conn_evt_map s (cur_cpu e) \<noteq> None \<Longrightarrow>
   conn_evt_rb (snd (create_conn_info e ci tgid_fd key ts s)) = conn_evt_rb s @
     (if admits ci s
      then [\<lparr>ce_conn_info = ci, ce_conn_type = kConnect,
             ce_ts = (if ts \<noteq> 0 then ts else ktime e KT_report_conn_evt)\<rparr>]
      else [])"
  by (simp add: create_conn_info_def admits_def Let_def report_conn_evt_rb)

lemma submit_new_conn_maps:
  fixes e fd socket role' addr tgid
  defines "ci \<equiv> submit_conn_info e tgid fd addr socket role'"
    and "key \<equiv> socket_key e (submit_sk e fd socket)"
  shows "conn_info_map (submit_new_conn e tgid fd addr socket role' ts s) =
     conn_info_map (snd (create_conn_info e ci (gen_tgid_fd tgid fd) key ts s))"
    and "sock_key_conn_id_map (submit_new_conn e tgid fd addr socket role' ts s) =
     sock_key_conn_id_map (snd (create_conn_info e ci (gen_tgid_fd tgid fd) key ts s))"
    and "conn_evt_rb (submit_new_conn e tgid fd addr socket role' ts s) =
     conn_evt_rb (snd (create_conn_info e ci (gen_tgid_fd tgid fd) key ts s))"
  by (simp_all add: submit_new_conn_def Let_def case_prod_unfold ci_def key_def submit_conn_info_def
      submit_sk_def socket_key_def)

lemma gen_tgid_fd_inj [simp]: "gen_tgid_fd a b = gen_tgid_fd c d \<longleftrightarrow> a = c \<and> b = d"
  by (simp add: gen_tgid_fd_def)

lemma cl_fd_not_negative [simp]: "\<not> cl_fd args < 0"
  by simp

lemma process_syscall_close_eq:
  "process_syscall_close e ret args pt s =
     (let tgid_fd = gen_tgid_fd (ucast (drop_bit 32 pt)) (cl_fd args) in
      if sint ret < 0 then s
      else case bpf_map_lookup_elem (conn_info_map s) tgid_fd of
          None \<Rightarrow> s
        | Some ci \<Rightarrow> (report_conn_evt e ci kClose 0 s)
            \<lparr>conn_info_map := bpf_map_delete_elem (conn_info_map s) tgid_fd,
             sock_key_conn_id_map := bpf_map_delete_elem (sock_key_conn_id_map s) (conn_sock_key ci)\<rparr>)"
  by (simp add: process_syscall_close_def Let_def split: option.split)

lemma close_restores:
  assumes new: "bpf_map_lookup_elem (conn_info_map s) (gen_tgid_fd (ucast (drop_bit 32 pt)) fd) = None"
      "bpf_map_lookup_elem (sock_key_conn_id_map s) key = None"
    and room: "\<not> bpf_map_full (conn_info_map s)"
    and key: "conn_sock_key ci = key"
    and s': "conn_info_map s' = conn_info_map (snd (create_conn_info e ci (gen_tgid_fd (ucast (drop_bit 32 pt)) fd) key ts s))"
      "sock_key_conn_id_map s' =
        sock_key_conn_id_map (snd (create_conn_info e ci (gen_tgid_fd (ucast (drop_bit 32 pt)) fd) key ts s))"
    and ret: "0 \<le> sint ret"
  shows "same_conn_tables s (process_syscall_close e' ret \<lparr>cl_fd = fd\<rparr> pt s')"
proof (cases "admits ci s")
  case False
  with new ret show ?thesis
    by (simp add: same_conn_tables_def process_syscall_close_eq s' create_conn_info_maps Let_def)
next
  case True
  with new room ret key show ?thesis
    by (auto simp: same_conn_tables_def process_syscall_close_eq s' create_conn_info_maps Let_def
        bpf_lookup fun_eq_iff)
qed

lemma socket_key_simps:
  "skc_family (sock_read e sk) = AF_INET \<Longrightarrow> socket_key e sk =
     \<lparr>sip0 = ucast (skc_rcv_saddr (sock_read e sk)), sip1 = 0, dip0 = ucast (skc_daddr (sock_read e sk)),
      dip1 = 0, sport = skc_num (sock_read e sk), dport = bpf_ntohs (skc_dport (sock_read e sk))\<rparr>"
  "skc_family (sock_read e sk) = AF_INET6 \<Longrightarrow> socket_key e sk =
     \<lparr>sip0 = in6_lo (skc_v6_rcv_saddr (sock_read e sk)), sip1 = in6_hi (skc_v6_rcv_saddr (sock_read e sk)),
      dip0 = in6_lo (skc_v6_daddr (sock_read e sk)), dip1 = in6_hi (skc_v6_daddr (sock_read e sk)),
      sport = skc_num (sock_read e sk), dport = bpf_ntohs (skc_dport (sock_read e sk))\<rparr>"
  by (simp_all add: socket_key_def parse_sock_key_sk_def sock_key_zero_def AF_INET_def AF_INET6_def Let_def)

lemma ucast_up_down [simp]: "(ucast (ucast (x :: u32) :: u64) :: u32) = x"
  by (rule bit_word_eqI) (simp add: bit_simps)

lemma conn_sock_key_role [simp]: "conn_sock_key (ci\<lparr>role := r\<rparr>) = conn_sock_key ci"
  by (simp add: conn_sock_key_def Let_def)

lemma conn_sock_key_read_sockaddr:
  assumes "socket_sk (socket_at e socket) = sk"
    and "skc_family (sock_read e sk) = AF_INET \<or> skc_family (sock_read e sk) = AF_INET6"
  shows "conn_sock_key (read_sockaddr_kernel e socket ci) = socket_key e sk"
  using assms(2)
proof
  assume "skc_family (sock_read e sk) = AF_INET"
  then show ?thesis
    by (simp add: read_sockaddr_kernel_def Let_def assms(1) conn_sock_key_def set_addr32_0_def
        socket_key_simps sock_key_zero_def)
next
  assume "skc_family (sock_read e sk) = AF_INET6"
  then show ?thesis
    by (simp add: read_sockaddr_kernel_def Let_def assms(1) conn_sock_key_def
        socket_key_simps sock_key_zero_def AF_INET_def AF_INET6_def)
qed

lemma match_trace_tgid_shape: "\<exists>m. snd (match_trace_tgid e tgid s) = s\<lparr>filter_pid_map := m\<rparr>"
proof -
  have "\<exists>m. s = s\<lparr>filter_pid_map := m\<rparr>"
    by (rule exI [of _ "filter_pid_map s"]) simp
  then show ?thesis
    by (auto simp: match_trace_tgid_def remember_pid_def)
qed

lemma admits_pid_map [simp]: "admits ci (s\<lparr>filter_pid_map := m\<rparr>) = admits ci s"
  by (simp add: admits_def filter_conn_info_def control_value_def)

lemma admits_match: "admits ci (snd (match_trace_tgid e tgid s)) = admits ci s"
  using match_trace_tgid_shape [of e tgid s] by auto

lemma create_conn_info_evt_map:
  "conn_evt_map s c \<noteq> None \<Longrightarrow> conn_evt_map (snd (create_conn_info e ci tgid_fd key ts s)) c \<noteq> None"
  by (simp add: create_conn_info_def report_conn_evt_def Let_def split: option.split)

lemma submit_new_conn_evt_map:
  "conn_evt_map s c \<noteq> None \<Longrightarrow> conn_evt_map (submit_new_conn e tgid fd addr socket role' ts s) c \<noteq> None"
  using create_conn_info_evt_map by (simp add: submit_new_conn_def Let_def case_prod_unfold)

text \<open>What an accept leaves in the table and in the ring: one entry and its connect event, or nothing.\<close>

lemma accept_opens:
  fixes pt ret :: u64 and e s args
  defines "fd \<equiv> ucast ret :: u32" and "tgid \<equiv> ucast (drop_bit 32 pt) :: u32"
  defines "ci \<equiv> submit_conn_info e tgid fd (ac_addr args) (ac_sock_alloc_socket args) kRoleServer"
  defines "opened \<equiv> 0 \<le> sint ret \<and> fst (match_trace_tgid e tgid s) \<noteq> TARGET_TGID_UNMATCHED \<and> admits ci s"
    and "s1 \<equiv> process_syscall_accept e ret args pt s"
  assumes "bpf_map_lookup_elem (conn_info_map s) (gen_tgid_fd tgid fd) = None" and "\<not> bpf_map_full (conn_info_map s)"
    and "conn_evt_map s (cur_cpu e) \<noteq> None"
  shows "bpf_map_lookup_elem (conn_info_map s1) (gen_tgid_fd tgid fd) = (if opened then Some ci else None)"
    and "conn_evt_rb s1 = conn_evt_rb s @
      (if opened then [\<lparr>ce_conn_info = ci, ce_conn_type = kConnect, ce_ts = ktime e KT_report_conn_evt\<rparr>] else [])"
    and "conn_evt_map s c \<noteq> None \<Longrightarrow> conn_evt_map s1 c \<noteq> None"
proof -
  obtain m s0 where m: "match_trace_tgid e tgid s = (m, s0)"
    by force
  have s0: "conn_info_map s0 = conn_info_map s" "conn_evt_rb s0 = conn_evt_rb s" "conn_evt_map s0 = conn_evt_map s"
    "admits ci s0 = admits ci s"
    using match_trace_tgid_frame [of e tgid s] admits_match [of ci e tgid s] m by simp_all
  have s1: "s1 = (if sint ret < 0 then s else if m = TARGET_TGID_UNMATCHED then s0
      else submit_new_conn e tgid fd (ac_addr args) (ac_sock_alloc_socket args) kRoleServer 0 s0)"
    by (simp add: s1_def process_syscall_accept_def fd_def tgid_def [symmetric] m Let_def)
  have opened: "opened \<longleftrightarrow> \<not> sint ret < 0 \<and> m \<noteq> TARGET_TGID_UNMATCHED \<and> admits ci s"
    by (auto simp: opened_def m)
  show "bpf_map_lookup_elem (conn_info_map s1) (gen_tgid_fd tgid fd) = (if opened then Some ci else None)"
    using assms(6,7) by (auto simp: s1 opened s0 submit_new_conn_maps create_conn_info_maps ci_def [symmetric] bpf_lookup)
  show "conn_evt_rb s1 = conn_evt_rb s @
      (if opened then [\<lparr>ce_conn_info = ci, ce_conn_type = kConnect, ce_ts = ktime e KT_report_conn_evt\<rparr>] else [])"
    using assms(8) by (simp add: s1 opened s0 submit_new_conn_maps create_conn_info_evt ci_def [symmetric])
  show "conn_evt_map s c \<noteq> None \<Longrightarrow> conn_evt_map s1 c \<noteq> None"
    using submit_new_conn_evt_map [of s0] by (simp add: s1 s0)
qed

lemma close_events:
  assumes "0 \<le> sint ret" and "conn_evt_map s (cur_cpu e) \<noteq> None"
  shows "conn_evt_rb (process_syscall_close e ret \<lparr>cl_fd = fd\<rparr> pt s) = conn_evt_rb s @
    (case bpf_map_lookup_elem (conn_info_map s) (gen_tgid_fd (ucast (drop_bit 32 pt)) fd) of None \<Rightarrow> []
     | Some ci \<Rightarrow> [\<lparr>ce_conn_info = ci, ce_conn_type = kClose, ce_ts = ktime e KT_report_conn_evt\<rparr>])"
  using assms by (simp add: process_syscall_close_eq Let_def report_conn_evt_rb split: option.split)

lemma accept_then_close_tables:
  fixes pt ret :: u64 and e s args
  defines "fd \<equiv> ucast ret :: u32" and "sk \<equiv> socket_sk (socket_at e (ac_sock_alloc_socket args))"
  assumes "ac_sock_alloc_socket args \<noteq> 0" and "get_socket_from_fd e fd = sk"
    and "skc_family (sock_read e sk) = AF_INET \<or> skc_family (sock_read e sk) = AF_INET6"
    and "bpf_map_lookup_elem (conn_info_map s) (gen_tgid_fd (ucast (drop_bit 32 pt)) fd) = None"
    and "bpf_map_lookup_elem (sock_key_conn_id_map s) (socket_key e sk) = None"
    and "\<not> bpf_map_full (conn_info_map s)" and "0 \<le> sint cret"
  shows "same_conn_tables s
    (process_syscall_close e' cret \<lparr>cl_fd = fd\<rparr> pt (process_syscall_accept e ret args pt s))"
proof -
  let ?tgid = "ucast (drop_bit 32 pt) :: u32"
  let ?s = "snd (match_trace_tgid e ?tgid s)"
  let ?ci = "submit_conn_info e ?tgid fd (ac_addr args) (ac_sock_alloc_socket args) kRoleServer"
  have sk: "submit_sk e fd (ac_sock_alloc_socket args) = sk"
    using assms(3,4) by (simp add: submit_sk_def sk_def Let_def)
  have key: "conn_sock_key ?ci = socket_key e sk"
    using assms(3,5) by (simp add: submit_conn_info_def Let_def conn_addr_from_args_def
        conn_sock_key_read_sockaddr sk_def)
  have opened: "same_conn_tables s (process_syscall_close e' cret \<lparr>cl_fd = fd\<rparr> pt
      (submit_new_conn e ?tgid fd (ac_addr args) (ac_sock_alloc_socket args) kRoleServer 0 ?s))"
    unfolding same_conn_tables_def
    using close_restores [of ?s pt fd "socket_key e sk" ?ci _ e 0 cret e', OF _ _ _ key
        submit_new_conn_maps(1) [of e ?tgid fd "ac_addr args" "ac_sock_alloc_socket args" kRoleServer 0 ?s,
          unfolded sk]
        submit_new_conn_maps(2) [of e ?tgid fd "ac_addr args" "ac_sock_alloc_socket args" kRoleServer 0 ?s,
          unfolded sk] assms(9)] assms(6-8)
    by (simp add: same_conn_tables_def)
  have "same_conn_tables s (process_syscall_close e' cret \<lparr>cl_fd = fd\<rparr> pt s')"
    if "conn_info_map s' = conn_info_map s" "sock_key_conn_id_map s' = sock_key_conn_id_map s" for s'
    using that assms(6) by (simp add: same_conn_tables_def process_syscall_close_eq Let_def)
  then show ?thesis
    using opened by (simp add: process_syscall_accept_def Let_def case_prod_unfold fd_def)
qed

text \<open>
  Property C26. Accepting a connection and closing it. The accept files exactly one entry, with the
  addresses of the new socket and the server role, and announces it with one connect event, when the
  call succeeded, the process is traced and the filters admit the connection; the close then
  reports that entry with one close event and removes it. In every other case neither call
  reports anything. Afterwards the two connection tables are as they were. (The socket of the new
  descriptor is the one the kernel allocated, and the table has a free slot.)
\<close>

theorem accept_then_close_restores_tables:
  fixes pt ret :: u64 and e e' s args cret
  defines "fd \<equiv> ucast ret :: u32" and "tgid \<equiv> ucast (drop_bit 32 pt) :: u32"
    and "sk \<equiv> socket_sk (socket_at e (ac_sock_alloc_socket args))"
  defines "ci \<equiv> submit_conn_info e tgid fd (ac_addr args) (ac_sock_alloc_socket args) kRoleServer"
  defines "opened \<equiv> 0 \<le> sint ret \<and> fst (match_trace_tgid e tgid s) \<noteq> TARGET_TGID_UNMATCHED \<and> admits ci s"
    and "s1 \<equiv> process_syscall_accept e ret args pt s"
  defines "s2 \<equiv> process_syscall_close e' cret \<lparr>cl_fd = fd\<rparr> pt s1"
  assumes "ac_sock_alloc_socket args \<noteq> 0" and "get_socket_from_fd e fd = sk"
    and "skc_family (sock_read e sk) = AF_INET \<or> skc_family (sock_read e sk) = AF_INET6"
    and "bpf_map_lookup_elem (conn_info_map s) (gen_tgid_fd tgid fd) = None"
    and "bpf_map_lookup_elem (sock_key_conn_id_map s) (socket_key e sk) = None"
    and "\<not> bpf_map_full (conn_info_map s)" and "0 \<le> sint cret"
    and "conn_evt_map s (cur_cpu e) \<noteq> None" and "conn_evt_map s (cur_cpu e') \<noteq> None"
  shows "bpf_map_lookup_elem (conn_info_map s1) (gen_tgid_fd tgid fd) = (if opened then Some ci else None) \<and>
    conn_evt_rb s2 = conn_evt_rb s @
      (if opened
       then [\<lparr>ce_conn_info = ci, ce_conn_type = kConnect, ce_ts = ktime e KT_report_conn_evt\<rparr>,
             \<lparr>ce_conn_info = ci, ce_conn_type = kClose, ce_ts = ktime e' KT_report_conn_evt\<rparr>]
       else []) \<and>
    same_conn_tables s s2"
proof -
  note opens = accept_opens [where s = s and pt = pt and ret = ret and e = e and args = args, folded fd_def tgid_def, folded ci_def, folded opened_def s1_def,
      OF assms(11,13,15)]
  have "conn_evt_rb s2 = conn_evt_rb s1 @ (if opened
      then [\<lparr>ce_conn_info = ci, ce_conn_type = kClose, ce_ts = ktime e' KT_report_conn_evt\<rparr>] else [])"
    unfolding s2_def using close_events [OF assms(14) opens(3) [OF assms(16)], of fd pt] opens(1)
    by (simp add: tgid_def [symmetric])
  moreover have "same_conn_tables s s2"
    using accept_then_close_tables [of args e ret s pt cret e'] assms by simp
  ultimately show ?thesis
    using opens(1,2) by simp
qed

lemma sock_env_simps [simp]:
  "get_socket_from_fd (sock_env sk) fd = 768"
  "socket_sk (socket_at (sock_env sk) a) = 768"
  "sock_read (sock_env sk) 768 = sk"
  "cur_cpu (sock_env sk) = 0"
  by (simp_all add: sock_env_def get_socket_from_fd_def sock_read_def Let_def env_of_def)

lemma init_state_maps [simp]:
  "bpf_map_lookup_elem (conn_info_map init_state) k = None"
  "bpf_map_lookup_elem (sock_key_conn_id_map init_state) k' = None"
  "\<not> bpf_map_full (conn_info_map init_state)"
  by (simp_all add: init_state_def bpf_map_full_def bpf_map_create_def bpf_map_lookup_elem_def
      MAX_ENTRIES_def)

lemma accept_sample_admitted:
  "admits (submit_conn_info (sock_env v4_sock) tgid fd 0 512 kRoleServer) init_state"
  by (simp add: admits_def submit_conn_info_def Let_def submit_sk_def conn_addr_from_args_def
      read_sockaddr_kernel_def init_conn_info_def conn_info_zero_def should_trace_conn_def
      filter_conn_info_def v4_sock_def set_addr32_0_def enum_order_defs)
    (simp add: init_state_def control_value_def)

theorem accept_then_close_restores_tables_witness:
  "let s1 = process_syscall_accept (sock_env v4_sock) 5 \<lparr>ac_addr = 0, ac_sock_alloc_socket = 512\<rparr> (42 * 2 ^ 32) init_state;
       s2 = process_syscall_close (env_of 0 []) 0 \<lparr>cl_fd = 5\<rparr> (42 * 2 ^ 32) s1
   in bpf_map_lookup_elem (conn_info_map s1) (gen_tgid_fd 42 5) \<noteq> None \<and>
      map ce_conn_type (conn_evt_rb s2) = [kConnect, kClose] \<and> same_conn_tables init_state s2"
proof -
  have "fst (match_trace_tgid (sock_env v4_sock) 42 init_state) \<noteq> TARGET_TGID_UNMATCHED"
    by (simp add: match_trace_tgid_all init_state_def control_value_def)
  moreover have "conn_evt_map init_state c \<noteq> None" "conn_evt_rb init_state = []" for c
    by (simp_all add: init_state_def)
  moreover have "(ucast (drop_bit 32 (42 * 2 ^ 32 :: u64)) :: u32) = 42"
    by simp
  ultimately show ?thesis
    using accept_then_close_restores_tables [of "\<lparr>ac_addr = 0, ac_sock_alloc_socket = 512\<rparr>"
      "sock_env v4_sock" 5 init_state "42 * 2 ^ 32" 0 "env_of 0 []"] accept_sample_admitted [of 42 5]
    by (simp add: Let_def) (simp add: v4_sock_def)
qed

section \<open>Implicit connections\<close>

lemma implicit_sample_admitted:
  "admits (submit_conn_info (sock_env v4_sock) tgid fd 0 0 kRoleUnknown) init_state"
  by (simp add: admits_def submit_conn_info_def Let_def submit_sk_def conn_addr_from_args_def
      conn_addr_from_key_def init_conn_info_def conn_info_zero_def should_trace_conn_def
      filter_conn_info_def socket_key_simps v4_sock_def set_addr32_0_def enum_order_defs)
    (simp add: init_state_def)

text \<open>
  Property C37. The connect event of a connection that is discovered by a data call with an
  address carries, as its time stamp, the number of the system call instead of a time: the
  source function is passed in the position of the start time.
\<close>

theorem implicit_conn_event_time:
  assumes "control_value s kEnableFilterByPid = None"
    and "conn_evt_map s (cur_cpu e) \<noteq> None" and "source_fn \<noteq> kSourceFunctionUnknown"
  shows "\<forall>ev \<in> set (drop (length (conn_evt_rb s))
       (conn_evt_rb (process_implicit_conn e pt args source_fn role' s))).
     ce_conn_type ev = kConnect \<and> ce_ts ev = of_nat (source_function_code source_fn)"
proof -
  have code: "(of_nat (source_function_code source_fn) :: u64) \<noteq> 0"
    using assms(3) by (cases source_fn) simp_all
  show ?thesis
    using assms(2) code
    by (simp add: process_implicit_conn_def match_trace_tgid_all [OF assms(1)] Let_def
        submit_new_conn_maps create_conn_info_evt)
qed

theorem implicit_conn_event_time_witness:
  "map ce_ts (conn_evt_rb (process_implicit_conn (sock_env v4_sock) (42 * 2 ^ 32)
     \<lparr>co_addr = 0, co_fd = 5, co_start_ts = 0\<rparr> kSyscallSendTo kRoleUnknown init_state)) = [8]"
proof -
  let ?evs = "conn_evt_rb (process_implicit_conn (sock_env v4_sock) (42 * 2 ^ 32)
     \<lparr>co_addr = 0, co_fd = 5, co_start_ts = 0\<rparr> kSyscallSendTo kRoleUnknown init_state)"
  have cv: "control_value init_state kEnableFilterByPid = None"
    by (simp add: control_value_def init_state_def)
  have cm: "conn_evt_map init_state (cur_cpu (sock_env v4_sock)) \<noteq> None"
    by (simp add: init_state_def)
  have "\<forall>ev \<in> set (drop (length (conn_evt_rb init_state)) ?evs). ce_conn_type ev = kConnect \<and>
      ce_ts ev = of_nat (source_function_code kSyscallSendTo)"
    using implicit_conn_event_time [OF cv cm] by blast
  moreover have "length ?evs = 1"
    by (simp add: process_implicit_conn_def match_trace_tgid_all [OF cv] submit_new_conn_maps
        create_conn_info_evt [OF cm] implicit_sample_admitted)
      (simp add: init_state_def)
  ultimately show ?thesis
    by (cases ?evs) (simp_all add: init_state_def)
qed

section \<open>Successive data calls\<close>

lemma traced_conn_process:
  fixes e args direct
  assumes t: "traced_conn s tgid_fd ci" and n: "unat n < 2 ^ 32"
  defines "r \<equiv> process_syscall_data_with_conn_info e args tgid_fd direct n 0 False True ci s"
  shows "fst r = ci\<lparr>prepend_length_header := False\<rparr>"
    and "emits e (syscall_seq_of direct ci) (unat n) s (snd r)"
    and "conn_info_map (snd r) = conn_info_map s" "control_values (snd r) = control_values s"
    and "\<forall>cpu. syscall_data_map (snd r) cpu \<noteq> None"
proof -
  have ci: "\<not> tries_infer True ci" "may_report False ci"
    using t by (simp_all add: traced_conn_def tries_infer_def may_report_def should_trace_conn_def)
  have r: "r = (ci\<lparr>prepend_length_header := False\<rparr>, report_syscall_evt e (syscall_seq_of direct ci)
      (local_conn_id_s e tgid_fd) (ucast n) (data_step False direct) args (prepend_length_header ci)
      (if prepend_length_header ci then le_word (prev_buf ci) else 0) s)"
    using ci by (simp add: r_def process_syscall_data_with_conn_info_cases)
  then show fst: "fst r = ci\<lparr>prepend_length_header := False\<rparr>"
    by simp
  have "syscall_data_map s (cur_cpu e) \<noteq> None"
    using t by (simp add: traced_conn_def)
  from process_syscall_data_emits_aux [OF n this, of args ci True tgid_fd direct 0] ci(1,2) fst
  show "emits e (syscall_seq_of direct ci) (unat n) s (snd r)"
    by (simp add: Let_def r_def)
  show "conn_info_map (snd r) = conn_info_map s"
    by (simp add: r report_syscall_evt_def)
  show "control_values (snd r) = control_values s" "\<forall>cpu. syscall_data_map (snd r) cpu \<noteq> None"
    using t by (auto simp: r report_syscall_evt_def report_syscall_buf_def Let_def case_prod_unfold
        traced_conn_def split: option.split)
qed

lemma add_bytes_simps [simp]:
  "protocol (add_bytes d n ci) = protocol ci" "ssl (add_bytes d n ci) = ssl ci"
  "no_trace (add_bytes d n ci) = no_trace ci" "laddr (add_bytes d n ci) = laddr ci"
  "raddr (add_bytes d n ci) = raddr ci" "conn_id (add_bytes d n ci) = conn_id ci"
  by (simp_all add: add_bytes_def)

lemma seq_after_add_bytes:
  "syscall_seq_of d (add_bytes d n (ci\<lparr>prepend_length_header := b\<rparr>)) =
     syscall_seq_of d ci + of_nat (unat n)"
proof -
  have down: "(ucast (a + b) :: u32) = ucast a + ucast b" for a b :: u64
    by (simp add: word_unat_eq_iff unsigned_ucast_eq take_bit_eq_mod unat_word_ariths mod_simps
        mod_mod_cancel)
  have u: "(ucast (w + n + 1) :: u32) = ucast (w + 1) + ucast n" for w :: u64
    by (simp add: down)
  show ?thesis
    by (cases d) (simp_all add: syscall_seq_of_def add_bytes_def u)
qed

lemma traced_conn_step:
  fixes pt fd direct
  defines "tgid_fd \<equiv> gen_tgid_fd (ucast (drop_bit 32 pt)) fd"
  assumes t: "traced_conn s tgid_fd ci" and c: "good_call fd (e, args, n)"
  defines "s' \<equiv> process_syscall_data e args pt direct n False s"
  shows "emits e (syscall_seq_of direct ci) (unat n) s s'"
    and "traced_conn s' tgid_fd (add_bytes direct n (ci\<lparr>prepend_length_header := False\<rparr>))"
proof -
  have n: "unat n < 2 ^ 32" "n \<noteq> 0" "da_fd args = fd"
    using c by (simp_all add: good_call_def)
  then have "0 < unat n"
    by (simp add: unat_gt_0)
  moreover have "sint n = int (unat n)"
    by (rule sint_small) (use n in simp)
  ultimately have pos: "\<not> sint n \<le> 0"
    by linarith
  let ?r = "process_syscall_data_with_conn_info e args tgid_fd direct n 0 False True ci s"
  have s': "s' = store_conn_info tgid_fd (add_bytes direct n (fst ?r)) (snd ?r)"
    using t pos n(3) by (simp add: s'_def process_syscall_data_def traced_conn_def match_trace_tgid_all
        Let_def find_or_create_conn_def case_prod_unfold tgid_fd_def)
  note r = traced_conn_process [OF t n(1), where e = e and args = args and direct = direct]
  show "emits e (syscall_seq_of direct ci) (unat n) s s'"
    using r(2) by (simp add: s' emits_def store_conn_info_def)
  show "traced_conn s' tgid_fd (add_bytes direct n (ci\<lparr>prepend_length_header := False\<rparr>))"
    using r t by (simp add: s' traced_conn_def store_conn_info_def bpf_lookup control_value_def
        should_trace_conn_def)
qed

lemma new_syscall_evts_trans:
  "syscall_rb s' = syscall_rb s @ evs \<Longrightarrow> syscall_rb s'' = syscall_rb s' @ evs' \<Longrightarrow>
     new_syscall_evts s s'' = new_syscall_evts s s' @ new_syscall_evts s' s''"
  by (simp add: new_syscall_evts_def)

lemma data_calls_stream:
  fixes pt fd
  defines "tgid_fd \<equiv> gen_tgid_fd (ucast (drop_bit 32 pt)) fd"
  assumes "traced_conn s tgid_fd ci" and "\<forall>c \<in> set calls. good_call fd c"
  shows "\<exists>evs ci'. syscall_rb (data_calls pt direct calls s) = syscall_rb s @ evs \<and>
    tiles (syscall_seq_of direct ci) (\<Sum>(e, args, n) \<leftarrow> calls. unat n) (map evt_span evs) \<and>
    traced_conn (data_calls pt direct calls s) tgid_fd ci' \<and>
    syscall_seq_of direct ci' = syscall_seq_of direct ci + of_nat (\<Sum>(e, args, n) \<leftarrow> calls. unat n)"
  using assms(2,3)
proof (induction calls arbitrary: s ci)
  case (Cons c calls)
  obtain e args n where c: "c = (e, args, n)"
    by (cases c) auto
  let ?s = "process_syscall_data e args pt direct n False s"
  let ?ci = "add_bytes direct n (ci\<lparr>prepend_length_header := False\<rparr>)"
  have g: "good_call fd (e, args, n)"
    using Cons.prems(2) c by simp
  note step = traced_conn_step [OF Cons.prems(1) [unfolded tgid_fd_def] g, where direct = direct, folded tgid_fd_def]
  obtain evs where evs: "syscall_rb ?s = syscall_rb s @ evs"
      "tiles (syscall_seq_of direct ci) (unat n) (map evt_span evs)"
    using step(1) by (auto simp: emits_def)
  obtain evs' ci' where IH: "syscall_rb (data_calls pt direct calls ?s) = syscall_rb ?s @ evs'"
      "tiles (syscall_seq_of direct ?ci) (\<Sum>(e, args, n) \<leftarrow> calls. unat n) (map evt_span evs')"
      "traced_conn (data_calls pt direct calls ?s) tgid_fd ci'"
      "syscall_seq_of direct ci' = syscall_seq_of direct ?ci + of_nat (\<Sum>(e, args, n) \<leftarrow> calls. unat n)"
    using Cons.IH [OF step(2)] Cons.prems(2) by auto
  show ?case
    using evs IH tiles_append [OF evs(2), of "\<Sum>(e, args, n) \<leftarrow> calls. unat n" "map evt_span evs'"]
    by (intro exI [of _ "evs @ evs'"] exI [of _ ci'])
      (simp add: c seq_after_add_bytes add.assoc)
qed (auto intro: exI [of _ "[]"])

text \<open>
  Property C4. A sequence of data calls on an established, classified connection reports
  events that together cover exactly the bytes of all calls, starting at the byte after the
  counter, in order and without gap or overlap, on whatever CPUs the calls run; afterwards the
  connection is still established and its counter has advanced by the same number of bytes.
\<close>

theorem data_calls_cover_stream:
  assumes "traced_conn s (gen_tgid_fd (ucast (drop_bit 32 pt)) fd) ci"
    and "\<forall>c \<in> set calls. good_call fd c"
  shows "let n = (\<Sum>(e, args, n) \<leftarrow> calls. unat n); s' = data_calls pt direct calls s in
    tiles (syscall_seq_of direct ci) n (map evt_span (new_syscall_evts s s')) \<and>
    (\<exists>ci'. traced_conn s' (gen_tgid_fd (ucast (drop_bit 32 pt)) fd) ci' \<and>
       syscall_seq_of direct ci' = syscall_seq_of direct ci + of_nat n)"
  using data_calls_stream [OF assms, of direct] by (auto simp: new_syscall_evts_def Let_def)

theorem data_calls_cover_stream_witness:
  "let s = init_state\<lparr>conn_info_map := bpf_map_update_elem (bpf_map_create 5) (gen_tgid_fd 42 5)
         (conn_info_zero\<lparr>protocol := kProtocolHTTP\<rparr>) BPF_ANY\<rparr>;
       args = data_args_zero\<lparr>da_fd := 5\<rparr>
   in tiles 1 17 (map evt_span (new_syscall_evts s (data_calls (42 * 2 ^ 32) kEgress
        [(env_of 0 [], args, 10), ((env_of 0 [])\<lparr>cur_cpu := 3\<rparr>, args, 7)] s)))"
proof -
  let ?ci = "conn_info_zero\<lparr>protocol := kProtocolHTTP\<rparr>"
  let ?s = "init_state\<lparr>conn_info_map := bpf_map_update_elem (bpf_map_create 5) (gen_tgid_fd 42 5) ?ci BPF_ANY\<rparr>"
  have "traced_conn ?s (gen_tgid_fd (ucast (drop_bit 32 (42 * 2 ^ 32 :: u64))) 5) ?ci"
    by (simp add: traced_conn_def bpf_lookup bpf_map_full_def conn_info_zero_def should_trace_conn_def
        enum_order_defs control_value_def) (simp add: init_state_def, simp add: bpf_map_create_def)
  from data_calls_cover_stream [OF this, of "[(env_of 0 [], data_args_zero\<lparr>da_fd := 5\<rparr>, 10),
      ((env_of 0 [])\<lparr>cur_cpu := 3\<rparr>, data_args_zero\<lparr>da_fd := 5\<rparr>, 7)]" kEgress]
  show ?thesis
    by (simp add: good_call_def Let_def syscall_seq_of_def conn_info_zero_def)
qed

section \<open>Keys of connecting sockets\<close>

lemma https6_reads:
  "sock_read https6_env 768 = v6_sock"
  "skc_family v6_sock = AF_INET6" "skc_dport v6_sock = 0xbb01" "skc_daddr v6_sock = 0"
  "skc_v6_daddr v6_sock = \<lparr>u6_addr32_0 = 0, u6_addr32_1 = 0, u6_addr32_2 = 0, u6_addr32_3 = 0x01000000\<rparr>"
  "read_u16 https6_env 64 = AF_INET6" "read_u16 https6_env 66 = 0xbb01" "read_u32 https6_env 68 = 0"
  "read_in6_addr https6_env 72 =
     \<lparr>u6_addr32_0 = 0, u6_addr32_1 = 0, u6_addr32_2 = 0, u6_addr32_3 = 0x01000000\<rparr>"
proof -
  have m: "probe_read https6_env n (64 + word_of_nat k) = take n (drop k https6_bytes)"
    if "k + n \<le> 28" for k n
  proof -
    have "probe_read https6_env n (64 + word_of_nat k) = probe_read (env_of 64 https6_bytes) n (64 + word_of_nat k)"
      by (simp add: probe_read_def https6_env_def env_of_def)
    also have "\<dots> = take n (drop k https6_bytes)"
      by (rule mem_holdsD [OF mem_holds_env_of]) (use that in \<open>simp_all add: https6_bytes_def\<close>)
    finally show ?thesis .
  qed
  show "read_u16 https6_env 64 = AF_INET6" "read_u16 https6_env 66 = 0xbb01" "read_u32 https6_env 68 = 0"
    "read_in6_addr https6_env 72 =
       \<lparr>u6_addr32_0 = 0, u6_addr32_1 = 0, u6_addr32_2 = 0, u6_addr32_3 = 0x01000000\<rparr>"
    using m [of 0 2] m [of 2 2] m [of 4 4] m [of 8 4] m [of 12 4] m [of 16 4] m [of 20 4]
    by (simp_all add: read_u16_def read_u32_def read_in6_addr_def https6_bytes_def le_word_def AF_INET6_def)
qed (simp_all add: sock_read_def https6_env_def sock_env_def v6_sock_def sock_obj_zero_def)

text \<open>
  Property C35. For a client connection, whose socket the kernel has connected to the address the
  call was given, the key that close rebuilds from the entry is the key under which the
  connection was registered when the address is IPv4. When it is IPv6 it is the same key only for
  ports that are their own byte swap: the remote port is stored in network byte order in that
  branch, so close does not find the registration.
\<close>

theorem connect_key_agreement:
  fixes e addr sk fd
  defines "so \<equiv> sock_read e sk"
  assumes "addr \<noteq> 0" and "sk \<noteq> 0" and "get_socket_from_fd e fd = sk"
    and "connected_to e addr so"
  shows "let ci = submit_conn_info e tgid fd addr 0 kRoleClient; key = socket_key e sk in
    (skc_family so = AF_INET \<longrightarrow> conn_sock_key ci = key) \<and>
    (skc_family so = AF_INET6 \<longrightarrow>
       (conn_sock_key ci = key \<longleftrightarrow> bpf_ntohs (skc_dport so) = skc_dport so))"
proof -
  have sk: "submit_sk e fd 0 = sk"
    using assms(3,4) by (simp add: submit_sk_def Let_def)
  show ?thesis
  proof (cases "skc_family so = AF_INET")
    case True
    then show ?thesis
      using assms by (simp add: connected_to_def submit_conn_info_def Let_def sk conn_addr_from_args_def
          conn_addr_from_key_def conn_sock_key_def socket_key_simps set_addr32_0_def sock_key_zero_def
          AF_INET_def AF_INET6_def)
  next
    case False
    then show ?thesis
      using assms by (auto simp: connected_to_def submit_conn_info_def Let_def sk conn_addr_from_args_def
          conn_addr_from_key_def conn_sock_key_def socket_key_simps read_sockaddr_in6_def sock_key_zero_def
          AF_INET_def AF_INET6_def)
  qed
qed

lemma http4_reads:
  "read_u16 http4_env 64 = AF_INET" "read_u16 http4_env 66 = 80" "read_u32 http4_env 68 = 7"
  "sock_read http4_env 768 = v4_sock"
proof -
  have m: "probe_read http4_env n (64 + word_of_nat k) = take n (drop k [2, 0, 80, 0, 7, 0, 0, 0])"
    if "k + n \<le> 8" for k n
  proof -
    have "probe_read http4_env n (64 + word_of_nat k) = probe_read (env_of 64 [2, 0, 80, 0, 7, 0, 0, 0]) n (64 + word_of_nat k)"
      by (simp add: probe_read_def http4_env_def env_of_def)
    also have "\<dots> = take n (drop k [2, 0, 80, 0, 7, 0, 0, 0])"
      by (rule mem_holdsD [OF mem_holds_env_of]) (use that in simp_all)
    finally show ?thesis .
  qed
  show "read_u16 http4_env 64 = AF_INET" "read_u16 http4_env 66 = 80" "read_u32 http4_env 68 = 7"
    using m [of 0 2] m [of 2 2] m [of 4 4]
    by (simp_all add: read_u16_def read_u32_def le_word_def AF_INET_def)
qed (simp add: sock_read_def http4_env_def sock_env_def)

theorem connect_key_agreement_witness:
  "conn_sock_key (submit_conn_info http4_env 42 5 64 0 kRoleClient) = socket_key http4_env 768 \<and>
   conn_sock_key (submit_conn_info https6_env 42 5 64 0 kRoleClient) \<noteq> socket_key https6_env 768"
proof -
  have v4: "connected_to http4_env 64 (sock_read http4_env 768)"
    by (simp add: connected_to_def http4_reads v4_sock_def AF_INET_def AF_INET6_def)
  have v6: "connected_to https6_env 64 (sock_read https6_env 768)"
    by (simp add: connected_to_def https6_reads AF_INET_def AF_INET6_def)
  have fd: "get_socket_from_fd http4_env 5 = 768" "get_socket_from_fd https6_env 5 = 768"
    by (simp_all add: http4_env_def https6_env_def get_socket_from_fd_def sock_env_def)
  show ?thesis
    using connect_key_agreement [OF _ _ fd(1) v4, of 42] connect_key_agreement [OF _ _ fd(2) v6, of 42]
    by (simp add: Let_def http4_reads https6_reads v4_sock_def bpf_ntohs_def nat_bytes_numeral le_word_def)
qed

text \<open>
  Property C38. An entry that a data call creates for an IPv6 socket without the IPv6-only
  flag is filed as an IPv4 connection: only the first 32 bits of each address are kept, so
  close rebuilds a key without the rest of the addresses.
\<close>

theorem dual_stack_socket_key_truncated:
  assumes "skc_family (sock_read e sk) = AF_INET6" and "\<not> use_ipv6 e sk"
  shows "conn_sock_key (data_conn_info e sk tgid_fd (socket_key e sk) ci) =
    (socket_key e sk)\<lparr>sip0 := ucast (u6_addr32_0 (skc_v6_rcv_saddr (sock_read e sk))), sip1 := 0,
       dip0 := ucast (u6_addr32_0 (skc_v6_daddr (sock_read e sk))), dip1 := 0\<rparr>"
proof -
  have lo: "(ucast (in6_lo a) :: u32) = u6_addr32_0 a" for a
    by (simp add: in6_lo_def)
  show ?thesis
    using assms by (simp add: data_conn_info_def Let_def conn_sock_key_def set_addr32_0_def
        socket_key_simps sock_key_zero_def lo)
qed

theorem dual_stack_socket_key_truncated_witness:
  "conn_sock_key (data_conn_info https6_env 768 7 (socket_key https6_env 768) conn_info_zero) \<noteq>
     socket_key https6_env 768"
proof -
  have "conn_sock_key (data_conn_info https6_env 768 7 (socket_key https6_env 768) conn_info_zero) =
    (socket_key https6_env 768)\<lparr>sip0 := ucast (u6_addr32_0 (skc_v6_rcv_saddr (sock_read https6_env 768))),
       sip1 := 0, dip0 := ucast (u6_addr32_0 (skc_v6_daddr (sock_read https6_env 768))), dip1 := 0\<rparr>"
    by (rule dual_stack_socket_key_truncated)
      (simp_all add: https6_reads use_ipv6_def v6_sock_def sock_obj_zero_def)
  then show ?thesis
    by (simp add: socket_key_simps https6_reads in6_hi_def join32_def)
qed

section \<open>Filters\<close>

text \<open>
  The local port filter is switched on by an entry for port 1 in the table of
  allowed ports itself, so with the filter on for a set of ports, port 1 is let through as
  well.
\<close>

theorem local_port_filter_accepts_marker:
  assumes "\<And>p. bpf_map_lookup_elem (enabled_local_port_map s) p \<noteq> None \<longleftrightarrow> p = 1 \<or> p \<in> ports"
    and "control_value s kSideFilter = None"
    and "bpf_map_lookup_elem (enabled_remote_port_map s) 1 = None"
    and "bpf_map_lookup_elem (enabled_remote_ip_map s) in6_one = None"
  shows "filter_conn_info ci s \<longleftrightarrow> sin6_port (laddr ci) = 1 \<or> sin6_port (laddr ci) \<in> ports"
  using assms(1) [of 1] assms(1) [of "sin6_port (laddr ci)"] assms(2-4)
  by (auto simp: filter_conn_info_def)

theorem local_port_filter_accepts_marker_witness:
  "\<exists>s ci. sin6_port (laddr ci) = 1 \<and> filter_conn_info ci s \<and>
     \<not> filter_conn_info (ci\<lparr>laddr := (laddr ci)\<lparr>sin6_port := 22\<rparr>\<rparr>) s"
proof -
  let ?m = "bpf_map_update_elem (bpf_map_update_elem (bpf_map_create 9) 1 1 BPF_ANY) 80 1 BPF_ANY"
  let ?s = "init_state\<lparr>enabled_local_port_map := ?m\<rparr>"
  let ?ci = "\<lambda>p. conn_info_zero\<lparr>laddr := sockaddr_zero\<lparr>sin6_port := p\<rparr>\<rparr>"
  have spec: "filter_conn_info ci ?s \<longleftrightarrow> sin6_port (laddr ci) = 1 \<or> sin6_port (laddr ci) \<in> {80}" for ci
  proof (rule local_port_filter_accepts_marker)
    show "bpf_map_lookup_elem (enabled_local_port_map ?s) p \<noteq> None \<longleftrightarrow> p = 1 \<or> p \<in> {80}" for p
      by (simp add: bpf_map_lookup_elem_def bpf_map_update_elem_def bpf_map_create_def)
  qed (simp_all add: control_value_def init_state_def)
  show ?thesis
    using spec [of "?ci 1"] spec [of "?ci 22"] by (intro exI [of _ ?s] exI [of _ "?ci 1"]) simp
qed

section \<open>Nested system calls of TLS libraries\<close>

text \<open>
  While a TLS call is running, the system calls below it add up their positive
  lengths, the first descriptor seen is kept, and the mismatch flag is set exactly when a
  later call used another descriptor.
\<close>

lemma nested_calls_accumulate:
  assumes "ns_fd ns = kInvalidFD" and "fd \<noteq> kInvalidFD" and "\<forall>(f, n) \<in> set calls. 0 < sint n"
  shows "fold (\<lambda>(f, n). update_fd_and_syscall_len_to_uprobe f n) ((fd, n0) # calls) ns =
    ns\<lparr>ns_fd := fd,
       ns_mismatched_fds := (ns_mismatched_fds ns \<or> (\<exists>(f, n) \<in> set calls. f \<noteq> fd)),
       ns_syscall_len := ns_syscall_len ns + (if 0 < sint n0 then n0 else 0) + sum_list (map snd calls)\<rparr>"
proof -
  have later: "fold (\<lambda>(f, n). update_fd_and_syscall_len_to_uprobe f n) cs m =
      m\<lparr>ns_mismatched_fds := (ns_mismatched_fds m \<or> (\<exists>(f, n) \<in> set cs. f \<noteq> ns_fd m)),
        ns_syscall_len := ns_syscall_len m + sum_list (map snd cs)\<rparr>"
    if "ns_fd m \<noteq> kInvalidFD" "\<forall>(f, n) \<in> set cs. 0 < sint n" for cs m
    using that
  proof (induction cs arbitrary: m)
    case (Cons c cs)
    then show ?case
      by (cases c) (auto simp: update_fd_and_syscall_len_to_uprobe_def Let_def add.assoc)
  qed simp
  show ?thesis
    using assms by (simp add: later update_fd_and_syscall_len_to_uprobe_def Let_def)
qed

end
