(* ===== verification/Syscall_Probes.thy ===== *)
theory Syscall_Probes
  imports Conn_Tracking
begin

text \<open>
  The system-call programs of \<open>pktlatency.bpf.c\<close>: for each traced call the handler at its
  entry, which stashes the arguments under the thread id, the handler at its exit, which
  takes them back and processes the call, and the programs attached to the tracepoints and to
  the fentry/fexit hooks, which decode their context and call the handlers. Also the programs
  on \<open>security_socket_sendmsg\<close>/\<open>recvmsg\<close>, \<open>sock_alloc\<close> and the scheduler tracepoints.
\<close>

section \<open>Contexts\<close>

text \<open>
  \<open>TP_ARGS\<close> and \<open>TP_RET\<close> read the arguments of a raw system-call tracepoint behind the
  8-byte entry header and the call number. A fentry program on a system-call wrapper gets the
  caller's registers.
\<close>

definition TP_ARGS32 :: "bpf_env \<Rightarrow> u64 \<Rightarrow> nat \<Rightarrow> u32" where
  "TP_ARGS32 e ctx idx = read_u32 e (ctx + 16 + of_nat idx * 8)"

definition TP_ARGS64 :: "bpf_env \<Rightarrow> u64 \<Rightarrow> nat \<Rightarrow> u64" where
  "TP_ARGS64 e ctx idx = read_u64 e (ctx + 16 + of_nat idx * 8)"

definition TP_RET32 :: "bpf_env \<Rightarrow> u64 \<Rightarrow> u32" where
  "TP_RET32 e ctx = read_u32 e (ctx + 16)"

definition TP_RET64 :: "bpf_env \<Rightarrow> u64 \<Rightarrow> u64" where
  "TP_RET64 e ctx = read_u64 e (ctx + 16)"

text \<open>
  \<open>struct my_user_msghdr\<close>: name at 0, vector at 16, its length at 24. \<open>struct mmsghdr\<close>
  has the header first and \<open>msg_len\<close> at 56.
\<close>

definition read_msg_name :: "bpf_env \<Rightarrow> u64 \<Rightarrow> u64" where
  "read_msg_name e msghdr = read_u64 e msghdr"

definition read_msg_iov :: "bpf_env \<Rightarrow> u64 \<Rightarrow> u64" where
  "read_msg_iov e msghdr = read_u64 e (msghdr + 16)"

definition read_msg_iovlen :: "bpf_env \<Rightarrow> u64 \<Rightarrow> u64" where
  "read_msg_iovlen e msghdr = read_u64 e (msghdr + 24)"

section \<open>Stashed arguments\<close>

text \<open>\<open>read_args_map\<close> serves the receiving calls, \<open>write_args_map\<close> the sending ones.\<close>

definition stashed :: "traffic_direction_t \<Rightarrow> u64 \<Rightarrow> bpf_state \<Rightarrow> data_args option" where
  "stashed direct pt s =
     bpf_map_lookup_elem (if direct = kIngress then read_args_map s else write_args_map s) pt"

definition stash :: "traffic_direction_t \<Rightarrow> u64 \<Rightarrow> data_args \<Rightarrow> bpf_state \<Rightarrow> bpf_state" where
  "stash direct pt args s =
     (if direct = kIngress
      then s\<lparr>read_args_map := bpf_map_update_elem (read_args_map s) pt args BPF_ANY\<rparr>
      else s\<lparr>write_args_map := bpf_map_update_elem (write_args_map s) pt args BPF_ANY\<rparr>)"

definition stash_write :: "traffic_direction_t \<Rightarrow> u64 \<Rightarrow> data_args \<Rightarrow> bpf_state \<Rightarrow> bpf_state" where
  "stash_write direct pt args s =
     (if direct = kIngress
      then s\<lparr>read_args_map := bpf_map_store (read_args_map s) pt args\<rparr>
      else s\<lparr>write_args_map := bpf_map_store (write_args_map s) pt args\<rparr>)"

definition unstash :: "traffic_direction_t \<Rightarrow> u64 \<Rightarrow> bpf_state \<Rightarrow> bpf_state" where
  "unstash direct pt s =
     (if direct = kIngress
      then s\<lparr>read_args_map := bpf_map_delete_elem (read_args_map s) pt\<rparr>
      else s\<lparr>write_args_map := bpf_map_delete_elem (write_args_map s) pt\<rparr>)"

definition stash_connect :: "u64 \<Rightarrow> connect_args \<Rightarrow> bpf_state \<Rightarrow> bpf_state" where
  "stash_connect pt args s =
     s\<lparr>connect_args_map := bpf_map_update_elem (connect_args_map s) pt args BPF_ANY\<rparr>"

definition unstash_connect :: "u64 \<Rightarrow> bpf_state \<Rightarrow> bpf_state" where
  "unstash_connect pt s = s\<lparr>connect_args_map := bpf_map_delete_elem (connect_args_map s) pt\<rparr>"

text \<open>The entry of \<open>connect_args_map\<close> that a call with an address leaves.\<close>

definition stash_peer :: "u64 \<Rightarrow> u32 \<Rightarrow> u64 \<Rightarrow> bpf_state \<Rightarrow> bpf_state" where
  "stash_peer pt fd addr s =
     (if addr \<noteq> 0 then stash_connect pt \<lparr>co_addr = addr, co_fd = fd, co_start_ts = 0\<rparr> s else s)"

text \<open>
  The blocks the exit handlers share: the implicit connection of a call with an address, and
  the processing of the stashed arguments once the handler has decided to process them.
\<close>

definition finish_peer ::
    "bpf_env \<Rightarrow> bool \<Rightarrow> source_function_t \<Rightarrow> endpoint_role_t \<Rightarrow> bpf_state \<Rightarrow> bpf_state" where
  "finish_peer e ok source_fn role' s =
     (let pt = pid_tgid e;
          s = (case bpf_map_lookup_elem (connect_args_map s) pt of
                 None \<Rightarrow> s
               | Some args \<Rightarrow> if ok then process_implicit_conn e pt args source_fn role' s else s)
      in unstash_connect pt s)"

definition finish_data ::
    "bpf_env \<Rightarrow> traffic_direction_t \<Rightarrow> bool \<Rightarrow> u64 \<Rightarrow> data_args \<Rightarrow> bpf_state \<Rightarrow> bpf_state" where
  "finish_data e direct vecs bytes_count args s =
     (let pt = pid_tgid e;
          args = args\<lparr>da_end_ts := ktime e KT_exit\<rparr>;
          s = stash_write direct pt args s;
          (is_ssl, s) = propagate_fd_to_uprobe e pt (da_fd args) (ucast bytes_count) s
      in if vecs then process_syscall_data_vecs e args pt direct bytes_count is_ssl s
         else process_syscall_data e args pt direct bytes_count is_ssl s)"

section \<open>Socket hooks\<close>

definition handle_security_socket_sendmsg :: "bpf_env \<Rightarrow> bpf_state \<Rightarrow> bpf_state" where
  "handle_security_socket_sendmsg e s =
     (case stashed kEgress (pid_tgid e) s of
        None \<Rightarrow> s
      | Some args \<Rightarrow> stash_write kEgress (pid_tgid e) (args\<lparr>da_sock_event := True\<rparr>) s)"

definition fentry__security_socket_sendmsg :: "bpf_env \<Rightarrow> bpf_state \<Rightarrow> bpf_state" where
  "fentry__security_socket_sendmsg e s = handle_security_socket_sendmsg e s"

definition security_socket_sendmsg_enter :: "bpf_env \<Rightarrow> bpf_state \<Rightarrow> bpf_state" where
  "security_socket_sendmsg_enter e s = handle_security_socket_sendmsg e s"

definition handle_security_socket_recvmsg :: "bpf_env \<Rightarrow> bpf_state \<Rightarrow> bpf_state" where
  "handle_security_socket_recvmsg e s =
     (case stashed kIngress (pid_tgid e) s of
        None \<Rightarrow> s
      | Some args \<Rightarrow> stash_write kIngress (pid_tgid e) (args\<lparr>da_sock_event := True\<rparr>) s)"

definition fentry__security_socket_recvmsg :: "bpf_env \<Rightarrow> bpf_state \<Rightarrow> bpf_state" where
  "fentry__security_socket_recvmsg e s = handle_security_socket_recvmsg e s"

definition security_socket_recvmsg_enter :: "bpf_env \<Rightarrow> bpf_state \<Rightarrow> bpf_state" where
  "security_socket_recvmsg_enter e s = handle_security_socket_recvmsg e s"

section \<open>recvfrom\<close>

definition handle_syscall_enter_recvfrom :: "bpf_env \<Rightarrow> u32 \<Rightarrow> u64 \<Rightarrow> u64 \<Rightarrow> u32 \<Rightarrow> bpf_state \<Rightarrow> bpf_state" where
  "handle_syscall_enter_recvfrom e fd buf src_addr flags s =
     (if flags AND MSG_OOB \<noteq> 0 \<or> flags AND MSG_PEEK \<noteq> 0 then s
      else
      let args = data_args_zero\<lparr>da_fd := fd, da_buf := buf, da_source_fn := kSyscallRecvFrom,
            da_start_ts := ktime e KT_enter\<rparr>;
          s = stash_peer (pid_tgid e) fd src_addr s
      in stash kIngress (pid_tgid e) args s)"

definition fentry__sys_recvfrom :: "bpf_env \<Rightarrow> u32 \<Rightarrow> u64 \<Rightarrow> u32 \<Rightarrow> u64 \<Rightarrow> bpf_state \<Rightarrow> bpf_state" where
  "fentry__sys_recvfrom e fd buf flags src_addr s =
     handle_syscall_enter_recvfrom e fd buf src_addr flags s"

definition tracepoint__syscalls__sys_enter_recvfrom :: "bpf_env \<Rightarrow> u64 \<Rightarrow> bpf_state \<Rightarrow> bpf_state" where
  "tracepoint__syscalls__sys_enter_recvfrom e ctx s =
     handle_syscall_enter_recvfrom e (TP_ARGS32 e ctx 0) (TP_ARGS64 e ctx 1) (TP_ARGS64 e ctx 4)
       (TP_ARGS32 e ctx 3) s"

definition handle_syscall_exit_recvfrom :: "bpf_env \<Rightarrow> u64 \<Rightarrow> bpf_state \<Rightarrow> bpf_state" where
  "handle_syscall_exit_recvfrom e ret s =
     (let s = finish_peer e (0 < sint ret) kSyscallRecvFrom kRoleServer s;
          s = (case stashed kIngress (pid_tgid e) s of
            None \<Rightarrow> s
          | Some args \<Rightarrow> finish_data e kIngress False ret args s)
      in unstash kIngress (pid_tgid e) s)"

definition fexit__sys_recvfrom :: "bpf_env \<Rightarrow> u64 \<Rightarrow> bpf_state \<Rightarrow> bpf_state" where
  "fexit__sys_recvfrom e ret s = handle_syscall_exit_recvfrom e ret s"

definition tracepoint__syscalls__sys_exit_recvfrom :: "bpf_env \<Rightarrow> u64 \<Rightarrow> bpf_state \<Rightarrow> bpf_state" where
  "tracepoint__syscalls__sys_exit_recvfrom e ctx s =
     handle_syscall_exit_recvfrom e (TP_RET64 e ctx) s"

section \<open>read\<close>

definition handle_syscall_enter_read :: "bpf_env \<Rightarrow> u32 \<Rightarrow> u64 \<Rightarrow> bpf_state \<Rightarrow> bpf_state" where
  "handle_syscall_enter_read e fd buf s =
     stash kIngress (pid_tgid e)
       (data_args_zero\<lparr>da_fd := fd, da_buf := buf, da_source_fn := kSyscallRead,
          da_start_ts := ktime e KT_enter\<rparr>) s"

definition fentry__sys_read :: "bpf_env \<Rightarrow> pt_regs \<Rightarrow> bpf_state \<Rightarrow> bpf_state" where
  "fentry__sys_read e regs s =
     handle_syscall_enter_read e (ucast (parm1 regs)) (parm2 regs) s"

definition tracepoint__syscalls__sys_enter_read :: "bpf_env \<Rightarrow> u64 \<Rightarrow> bpf_state \<Rightarrow> bpf_state" where
  "tracepoint__syscalls__sys_enter_read e ctx s =
     handle_syscall_enter_read e (TP_ARGS32 e ctx 0) (TP_ARGS64 e ctx 1) s"

definition handle_syscall_exit_read :: "bpf_env \<Rightarrow> u64 \<Rightarrow> bpf_state \<Rightarrow> bpf_state" where
  "handle_syscall_exit_read e ret s =
     (let s = (case stashed kIngress (pid_tgid e) s of
            None \<Rightarrow> s
          | Some args \<Rightarrow> if da_sock_event args then finish_data e kIngress False ret args s else s)
      in unstash kIngress (pid_tgid e) s)"

definition fexit__sys_read :: "bpf_env \<Rightarrow> u64 \<Rightarrow> bpf_state \<Rightarrow> bpf_state" where
  "fexit__sys_read e ret s = handle_syscall_exit_read e ret s"

definition tracepoint__syscalls__sys_exit_read :: "bpf_env \<Rightarrow> u64 \<Rightarrow> bpf_state \<Rightarrow> bpf_state" where
  "tracepoint__syscalls__sys_exit_read e ctx s =
     handle_syscall_exit_read e (TP_RET64 e ctx) s"

section \<open>recvmmsg\<close>

definition handle_syscall_enter_recvmmsg :: "bpf_env \<Rightarrow> u32 \<Rightarrow> u64 \<Rightarrow> u32 \<Rightarrow> bpf_state \<Rightarrow> bpf_state" where
  "handle_syscall_enter_recvmmsg e sockfd msgvec vlen s =
     (if msgvec \<noteq> 0 \<and> 1 \<le> vlen
      then
        (let msghdr = msgvec;
             s = stash_peer (pid_tgid e) sockfd (read_msg_name e msghdr) s
         in stash kIngress (pid_tgid e)
           (data_args_zero\<lparr>da_fd := sockfd, da_iov := read_msg_iov e msghdr,
              da_iovlen := read_msg_iovlen e msghdr, da_msg_len := msgvec + 56,
              da_source_fn := kSyscallRecvMMsg, da_start_ts := ktime e KT_enter\<rparr>) s)
      else s)"

definition fentry__sys_recvmmsg :: "bpf_env \<Rightarrow> pt_regs \<Rightarrow> bpf_state \<Rightarrow> bpf_state" where
  "fentry__sys_recvmmsg e regs s =
     handle_syscall_enter_recvmmsg e (ucast (parm1 regs)) (parm2 regs) (ucast (parm3 regs)) s"

definition tracepoint__syscalls__sys_enter_recvmmsg :: "bpf_env \<Rightarrow> u64 \<Rightarrow> bpf_state \<Rightarrow> bpf_state" where
  "tracepoint__syscalls__sys_enter_recvmmsg e ctx s =
     handle_syscall_enter_recvmmsg e (TP_ARGS32 e ctx 0) (TP_ARGS64 e ctx 1) (TP_ARGS32 e ctx 2) s"

definition handle_syscall_exit_recvmmsg :: "bpf_env \<Rightarrow> u32 \<Rightarrow> bpf_state \<Rightarrow> bpf_state" where
  "handle_syscall_exit_recvmmsg e ret s =
     (let s = finish_peer e (0 < sint ret) kSyscallRecvMMsg kRoleServer s;
          s = (case stashed kIngress (pid_tgid e) s of
            None \<Rightarrow> s
          | Some args \<Rightarrow>
              if 0 < sint ret
              then finish_data e kIngress True (ucast (read_u32 e (da_msg_len args))) args s
              else s)
      in unstash kIngress (pid_tgid e) s)"

definition fexit__sys_recvmmsg :: "bpf_env \<Rightarrow> u64 \<Rightarrow> bpf_state \<Rightarrow> bpf_state" where
  "fexit__sys_recvmmsg e ret s = handle_syscall_exit_recvmmsg e (ucast ret) s"

definition tracepoint__syscalls__sys_exit_recvmmsg :: "bpf_env \<Rightarrow> u64 \<Rightarrow> bpf_state \<Rightarrow> bpf_state" where
  "tracepoint__syscalls__sys_exit_recvmmsg e ctx s =
     handle_syscall_exit_recvmmsg e (TP_RET32 e ctx) s"

section \<open>recvmsg\<close>

definition handle_syscall_enter_recvmsg :: "bpf_env \<Rightarrow> u32 \<Rightarrow> u64 \<Rightarrow> u32 \<Rightarrow> bpf_state \<Rightarrow> bpf_state" where
  "handle_syscall_enter_recvmsg e sockfd msghdr flags s =
     (if flags AND MSG_OOB \<noteq> 0 \<or> flags AND MSG_PEEK \<noteq> 0 then s
      else (if msghdr \<noteq> 0
      then
        (let s = stash_peer (pid_tgid e) sockfd (read_msg_name e msghdr) s
         in stash kIngress (pid_tgid e)
           (data_args_zero\<lparr>da_fd := sockfd, da_iov := read_msg_iov e msghdr,
              da_iovlen := read_msg_iovlen e msghdr, da_source_fn := kSyscallRecvMsg,
              da_start_ts := ktime e KT_enter\<rparr>) s)
      else s))"

definition fentry__sys_recvmsg :: "bpf_env \<Rightarrow> pt_regs \<Rightarrow> bpf_state \<Rightarrow> bpf_state" where
  "fentry__sys_recvmsg e regs s =
     handle_syscall_enter_recvmsg e (ucast (parm1 regs)) (parm2 regs) (ucast (parm3 regs)) s"

definition tracepoint__syscalls__sys_enter_recvmsg :: "bpf_env \<Rightarrow> u64 \<Rightarrow> bpf_state \<Rightarrow> bpf_state" where
  "tracepoint__syscalls__sys_enter_recvmsg e ctx s =
     handle_syscall_enter_recvmsg e (TP_ARGS32 e ctx 0) (TP_ARGS64 e ctx 1) (TP_ARGS32 e ctx 2) s"

definition handle_syscall_exit_recvmsg :: "bpf_env \<Rightarrow> u64 \<Rightarrow> bpf_state \<Rightarrow> bpf_state" where
  "handle_syscall_exit_recvmsg e ret s =
     (let s = finish_peer e (0 < sint ret) kSyscallRecvMsg kRoleServer s;
          s = (case stashed kIngress (pid_tgid e) s of
            None \<Rightarrow> s
          | Some args \<Rightarrow> finish_data e kIngress True ret args s)
      in unstash kIngress (pid_tgid e) s)"

definition fexit__sys_recvmsg :: "bpf_env \<Rightarrow> u64 \<Rightarrow> bpf_state \<Rightarrow> bpf_state" where
  "fexit__sys_recvmsg e ret s = handle_syscall_exit_recvmsg e ret s"

definition tracepoint__syscalls__sys_exit_recvmsg :: "bpf_env \<Rightarrow> u64 \<Rightarrow> bpf_state \<Rightarrow> bpf_state" where
  "tracepoint__syscalls__sys_exit_recvmsg e ctx s =
     handle_syscall_exit_recvmsg e (TP_RET64 e ctx) s"

section \<open>readv\<close>

definition handle_syscall_enter_readv :: "bpf_env \<Rightarrow> u32 \<Rightarrow> u64 \<Rightarrow> u32 \<Rightarrow> bpf_state \<Rightarrow> bpf_state" where
  "handle_syscall_enter_readv e fd iov iovlen s =
     (if iov = 0 then s
      else stash kIngress (pid_tgid e)
        (data_args_zero\<lparr>da_fd := fd, da_iov := iov, da_iovlen := scast iovlen,
           da_source_fn := kSyscallReadV, da_start_ts := ktime e KT_enter\<rparr>) s)"

definition fentry__sys_readv :: "bpf_env \<Rightarrow> pt_regs \<Rightarrow> bpf_state \<Rightarrow> bpf_state" where
  "fentry__sys_readv e regs s =
     handle_syscall_enter_readv e (ucast (parm1 regs)) (parm2 regs) (ucast (parm3 regs)) s"

definition tracepoint__syscalls__sys_enter_readv :: "bpf_env \<Rightarrow> u64 \<Rightarrow> bpf_state \<Rightarrow> bpf_state" where
  "tracepoint__syscalls__sys_enter_readv e ctx s =
     handle_syscall_enter_readv e (TP_ARGS32 e ctx 0) (TP_ARGS64 e ctx 1) (TP_ARGS32 e ctx 2) s"

definition handle_syscall_exit_readv :: "bpf_env \<Rightarrow> u64 \<Rightarrow> bpf_state \<Rightarrow> bpf_state" where
  "handle_syscall_exit_readv e ret s =
     (let s = (case stashed kIngress (pid_tgid e) s of
            None \<Rightarrow> s
          | Some args \<Rightarrow> if da_sock_event args then finish_data e kIngress True ret args s else s)
      in unstash kIngress (pid_tgid e) s)"

definition fexit__sys_readv :: "bpf_env \<Rightarrow> u64 \<Rightarrow> bpf_state \<Rightarrow> bpf_state" where
  "fexit__sys_readv e ret s = handle_syscall_exit_readv e ret s"

definition tracepoint__syscalls__sys_exit_readv :: "bpf_env \<Rightarrow> u64 \<Rightarrow> bpf_state \<Rightarrow> bpf_state" where
  "tracepoint__syscalls__sys_exit_readv e ctx s =
     handle_syscall_exit_readv e (TP_RET64 e ctx) s"

section \<open>sendfile64\<close>

definition handle_syscall_enter_sendfile :: "bpf_env \<Rightarrow> u32 \<Rightarrow> u32 \<Rightarrow> u64 \<Rightarrow> bpf_state \<Rightarrow> bpf_state" where
  "handle_syscall_enter_sendfile e out_fd in_fd count s =
     (if sint out_fd < 0 \<or> sint in_fd < 0 then s
      else s\<lparr>active_sendfile_args_map := bpf_map_update_elem (active_sendfile_args_map s) (pid_tgid e)
        \<lparr>sf_out_fd = out_fd, sf_in_fd = in_fd, sf_count = count,
         sf_start_ts = ktime e KT_enter, sf_end_ts = 0\<rparr> BPF_ANY\<rparr>)"

definition fentry__sys_sendfile64 :: "bpf_env \<Rightarrow> pt_regs \<Rightarrow> bpf_state \<Rightarrow> bpf_state" where
  "fentry__sys_sendfile64 e regs s =
     handle_syscall_enter_sendfile e (ucast (parm1 regs)) (ucast (parm2 regs)) (parm4 regs) s"

definition tracepoint__syscalls__sys_enter_sendfile64 :: "bpf_env \<Rightarrow> u64 \<Rightarrow> bpf_state \<Rightarrow> bpf_state" where
  "tracepoint__syscalls__sys_enter_sendfile64 e ctx s =
     handle_syscall_enter_sendfile e (TP_ARGS32 e ctx 0) (TP_ARGS32 e ctx 1) (TP_ARGS64 e ctx 3) s"

definition handle_syscall_exit_sendfile64 :: "bpf_env \<Rightarrow> u64 \<Rightarrow> bpf_state \<Rightarrow> bpf_state" where
  "handle_syscall_exit_sendfile64 e ret s =
     (let s = (case bpf_map_lookup_elem (active_sendfile_args_map s) (pid_tgid e) of
            None \<Rightarrow> s
          | Some args \<Rightarrow>
              (let args = args\<lparr>sf_end_ts := ktime e KT_exit\<rparr>;
                   s = s\<lparr>active_sendfile_args_map :=
                     bpf_map_store (active_sendfile_args_map s) (pid_tgid e) args\<rparr>
               in process_syscall_sendfile e (pid_tgid e) args ret s))
      in s\<lparr>active_sendfile_args_map := bpf_map_delete_elem (active_sendfile_args_map s) (pid_tgid e)\<rparr>)"

definition fexit__sys_sendfile64 :: "bpf_env \<Rightarrow> u64 \<Rightarrow> bpf_state \<Rightarrow> bpf_state" where
  "fexit__sys_sendfile64 e ret s = handle_syscall_exit_sendfile64 e ret s"

definition tracepoint__syscalls__sys_exit_sendfile64 :: "bpf_env \<Rightarrow> u64 \<Rightarrow> bpf_state \<Rightarrow> bpf_state" where
  "tracepoint__syscalls__sys_exit_sendfile64 e ctx s =
     handle_syscall_exit_sendfile64 e (TP_RET64 e ctx) s"

section \<open>sendto\<close>

definition handle_syscall_enter_sendto :: "bpf_env \<Rightarrow> u32 \<Rightarrow> u64 \<Rightarrow> u64 \<Rightarrow> bpf_state \<Rightarrow> bpf_state" where
  "handle_syscall_enter_sendto e fd buf dest_addr s =
     (if buf = 0 then s
      else
      let args = data_args_zero\<lparr>da_fd := fd, da_buf := buf, da_source_fn := kSyscallSendTo,
            da_start_ts := ktime e KT_enter\<rparr>;
          s = stash_peer (pid_tgid e) fd dest_addr s
      in stash kEgress (pid_tgid e) args s)"

definition fentry__sys_sendto :: "bpf_env \<Rightarrow> u32 \<Rightarrow> u64 \<Rightarrow> u64 \<Rightarrow> bpf_state \<Rightarrow> bpf_state" where
  "fentry__sys_sendto e fd buff dest_addr s =
     handle_syscall_enter_sendto e fd buff dest_addr s"

definition tracepoint__syscalls__sys_enter_sendto :: "bpf_env \<Rightarrow> u64 \<Rightarrow> bpf_state \<Rightarrow> bpf_state" where
  "tracepoint__syscalls__sys_enter_sendto e ctx s =
     handle_syscall_enter_sendto e (TP_ARGS32 e ctx 0) (TP_ARGS64 e ctx 1) (TP_ARGS64 e ctx 4) s"

definition handle_syscall_exit_sendto :: "bpf_env \<Rightarrow> u64 \<Rightarrow> bpf_state \<Rightarrow> bpf_state" where
  "handle_syscall_exit_sendto e ret s =
     (let s = finish_peer e (0 < sint ret) kSyscallSendTo kRoleClient s;
          s = (case stashed kEgress (pid_tgid e) s of
            None \<Rightarrow> s
          | Some args \<Rightarrow> finish_data e kEgress False ret args s)
      in unstash kEgress (pid_tgid e) s)"

definition fexit__sys_sendto :: "bpf_env \<Rightarrow> u64 \<Rightarrow> bpf_state \<Rightarrow> bpf_state" where
  "fexit__sys_sendto e ret s = handle_syscall_exit_sendto e ret s"

definition tracepoint__syscalls__sys_exit_sendto :: "bpf_env \<Rightarrow> u64 \<Rightarrow> bpf_state \<Rightarrow> bpf_state" where
  "tracepoint__syscalls__sys_exit_sendto e ctx s =
     handle_syscall_exit_sendto e (TP_RET64 e ctx) s"

section \<open>write\<close>

definition handle_syscall_enter_write :: "bpf_env \<Rightarrow> u32 \<Rightarrow> u64 \<Rightarrow> bpf_state \<Rightarrow> bpf_state" where
  "handle_syscall_enter_write e fd buf s =
     (if buf = 0 then s
      else stash kEgress (pid_tgid e)
        (data_args_zero\<lparr>da_fd := fd, da_buf := buf, da_source_fn := kSyscallWrite,
           da_start_ts := ktime e KT_enter\<rparr>) s)"

definition fentry__sys_write :: "bpf_env \<Rightarrow> pt_regs \<Rightarrow> bpf_state \<Rightarrow> bpf_state" where
  "fentry__sys_write e regs s =
     handle_syscall_enter_write e (ucast (parm1 regs)) (parm2 regs) s"

definition tracepoint__syscalls__sys_enter_write :: "bpf_env \<Rightarrow> u64 \<Rightarrow> bpf_state \<Rightarrow> bpf_state" where
  "tracepoint__syscalls__sys_enter_write e ctx s =
     stash kEgress (pid_tgid e)
       (data_args_zero\<lparr>da_fd := TP_ARGS32 e ctx 0, da_buf := TP_ARGS64 e ctx 1,
          da_source_fn := kSyscallWrite, da_start_ts := ktime e KT_enter\<rparr>) s"

definition handle_syscall_exit_write :: "bpf_env \<Rightarrow> u64 \<Rightarrow> bpf_state \<Rightarrow> bpf_state" where
  "handle_syscall_exit_write e ret s =
     (let s = (case stashed kEgress (pid_tgid e) s of
            None \<Rightarrow> s
          | Some args \<Rightarrow> if da_sock_event args then finish_data e kEgress False ret args s else s)
      in unstash kEgress (pid_tgid e) s)"

definition fexit__sys_write :: "bpf_env \<Rightarrow> u64 \<Rightarrow> bpf_state \<Rightarrow> bpf_state" where
  "fexit__sys_write e ret s = handle_syscall_exit_write e ret s"

definition tracepoint__syscalls__sys_exit_write :: "bpf_env \<Rightarrow> u64 \<Rightarrow> bpf_state \<Rightarrow> bpf_state" where
  "tracepoint__syscalls__sys_exit_write e ctx s =
     (let ret = TP_RET64 e ctx;
          s = (case stashed kEgress (pid_tgid e) s of
            None \<Rightarrow> s
          | Some args \<Rightarrow> if da_sock_event args then finish_data e kEgress False ret args s else s)
      in unstash kEgress (pid_tgid e) s)"

section \<open>sendmmsg\<close>

definition handle_syscall_enter_sendmmsg :: "bpf_env \<Rightarrow> u32 \<Rightarrow> u64 \<Rightarrow> u32 \<Rightarrow> bpf_state \<Rightarrow> bpf_state" where
  "handle_syscall_enter_sendmmsg e sockfd msgvec vlen s =
     (if msgvec \<noteq> 0 \<and> 1 \<le> vlen
      then
        (let msghdr = msgvec;
             s = stash_peer (pid_tgid e) sockfd (read_msg_name e msghdr) s
         in stash kEgress (pid_tgid e)
           (data_args_zero\<lparr>da_fd := sockfd, da_iov := read_msg_iov e msghdr,
              da_iovlen := read_msg_iovlen e msghdr, da_msg_len := msgvec + 56,
              da_source_fn := kSyscallSendMMsg, da_start_ts := ktime e KT_enter\<rparr>) s)
      else s)"

definition fentry__sys_sendmmsg :: "bpf_env \<Rightarrow> u32 \<Rightarrow> u64 \<Rightarrow> u32 \<Rightarrow> bpf_state \<Rightarrow> bpf_state" where
  "fentry__sys_sendmmsg e sockfd msgvec vlen s =
     handle_syscall_enter_sendmmsg e sockfd msgvec vlen s"

definition tracepoint__syscalls__sys_enter_sendmmsg :: "bpf_env \<Rightarrow> u64 \<Rightarrow> bpf_state \<Rightarrow> bpf_state" where
  "tracepoint__syscalls__sys_enter_sendmmsg e ctx s =
     handle_syscall_enter_sendmmsg e (TP_ARGS32 e ctx 0) (TP_ARGS64 e ctx 1) (TP_ARGS32 e ctx 2) s"

definition handle_syscall_exit_sendmmsg :: "bpf_env \<Rightarrow> u32 \<Rightarrow> bpf_state \<Rightarrow> bpf_state" where
  "handle_syscall_exit_sendmmsg e ret s =
     (let s = finish_peer e (0 < sint ret) kSyscallSendMMsg kRoleClient s;
          s = (case stashed kEgress (pid_tgid e) s of
            None \<Rightarrow> s
          | Some args \<Rightarrow>
              if 0 < sint ret
              then finish_data e kEgress True (ucast (read_u32 e (da_msg_len args))) args s
              else s)
      in unstash kEgress (pid_tgid e) s)"

definition fexit__sys_sendmmsg :: "bpf_env \<Rightarrow> u32 \<Rightarrow> bpf_state \<Rightarrow> bpf_state" where
  "fexit__sys_sendmmsg e ret s = handle_syscall_exit_sendmmsg e ret s"

definition tracepoint__syscalls__sys_exit_sendmmsg :: "bpf_env \<Rightarrow> u64 \<Rightarrow> bpf_state \<Rightarrow> bpf_state" where
  "tracepoint__syscalls__sys_exit_sendmmsg e ctx s =
     handle_syscall_exit_sendmmsg e (TP_RET32 e ctx) s"

section \<open>sendmsg\<close>

definition handle_syscall_enter_sendmsg :: "bpf_env \<Rightarrow> u32 \<Rightarrow> u64 \<Rightarrow> bpf_state \<Rightarrow> bpf_state" where
  "handle_syscall_enter_sendmsg e sockfd msghdr s =
     (if msghdr \<noteq> 0
      then
        (let s = stash_peer (pid_tgid e) sockfd (read_msg_name e msghdr) s
         in stash kEgress (pid_tgid e)
           (data_args_zero\<lparr>da_fd := sockfd, da_iov := read_msg_iov e msghdr,
              da_iovlen := read_msg_iovlen e msghdr, da_source_fn := kSyscallSendMsg,
              da_start_ts := ktime e KT_enter\<rparr>) s)
      else s)"

definition fentry__sys_sendmsg :: "bpf_env \<Rightarrow> u32 \<Rightarrow> u64 \<Rightarrow> bpf_state \<Rightarrow> bpf_state" where
  "fentry__sys_sendmsg e fd msg s =
     handle_syscall_enter_sendmsg e fd msg s"

definition tracepoint__syscalls__sys_enter_sendmsg :: "bpf_env \<Rightarrow> u64 \<Rightarrow> bpf_state \<Rightarrow> bpf_state" where
  "tracepoint__syscalls__sys_enter_sendmsg e ctx s =
     handle_syscall_enter_sendmsg e (TP_ARGS32 e ctx 0) (TP_ARGS64 e ctx 1) s"

definition handle_syscall_exit_sendmsg :: "bpf_env \<Rightarrow> u64 \<Rightarrow> bpf_state \<Rightarrow> bpf_state" where
  "handle_syscall_exit_sendmsg e ret s =
     (let s = finish_peer e (0 < sint ret) kSyscallSendMsg kRoleClient s;
          s = (case stashed kEgress (pid_tgid e) s of
            None \<Rightarrow> s
          | Some args \<Rightarrow> if da_sock_event args then finish_data e kEgress True ret args s else s)
      in unstash kEgress (pid_tgid e) s)"

definition fexit__sys_sendmsg :: "bpf_env \<Rightarrow> u64 \<Rightarrow> bpf_state \<Rightarrow> bpf_state" where
  "fexit__sys_sendmsg e ret s = handle_syscall_exit_sendmsg e ret s"

definition tracepoint__syscalls__sys_exit_sendmsg :: "bpf_env \<Rightarrow> u64 \<Rightarrow> bpf_state \<Rightarrow> bpf_state" where
  "tracepoint__syscalls__sys_exit_sendmsg e ctx s =
     handle_syscall_exit_sendmsg e (TP_RET64 e ctx) s"

section \<open>writev\<close>

definition handle_syscall_enter_writev :: "bpf_env \<Rightarrow> u32 \<Rightarrow> u64 \<Rightarrow> u32 \<Rightarrow> bpf_state \<Rightarrow> bpf_state" where
  "handle_syscall_enter_writev e fd iov iovlen s =
     stash kEgress (pid_tgid e)
       (data_args_zero\<lparr>da_fd := fd, da_iov := iov, da_iovlen := scast iovlen,
          da_start_ts := ktime e KT_enter\<rparr>) s"

definition fentry__sys_writev :: "bpf_env \<Rightarrow> pt_regs \<Rightarrow> bpf_state \<Rightarrow> bpf_state" where
  "fentry__sys_writev e regs s =
     handle_syscall_enter_writev e (ucast (parm1 regs)) (parm2 regs) (ucast (parm3 regs)) s"

definition tracepoint__syscalls__sys_enter_writev :: "bpf_env \<Rightarrow> u64 \<Rightarrow> bpf_state \<Rightarrow> bpf_state" where
  "tracepoint__syscalls__sys_enter_writev e ctx s =
     handle_syscall_enter_writev e (TP_ARGS32 e ctx 0) (TP_ARGS64 e ctx 1) (TP_ARGS32 e ctx 2) s"

definition handle_syscall_exit_writev :: "bpf_env \<Rightarrow> u64 \<Rightarrow> bpf_state \<Rightarrow> bpf_state" where
  "handle_syscall_exit_writev e ret s =
     (let s = (case stashed kEgress (pid_tgid e) s of
            None \<Rightarrow> s
          | Some args \<Rightarrow> if da_sock_event args then finish_data e kEgress True ret args s else s)
      in unstash kEgress (pid_tgid e) s)"

definition fexit__sys_writev :: "bpf_env \<Rightarrow> u64 \<Rightarrow> bpf_state \<Rightarrow> bpf_state" where
  "fexit__sys_writev e ret s = handle_syscall_exit_writev e ret s"

definition tracepoint__syscalls__sys_exit_writev :: "bpf_env \<Rightarrow> u64 \<Rightarrow> bpf_state \<Rightarrow> bpf_state" where
  "tracepoint__syscalls__sys_exit_writev e ctx s =
     (let ret = TP_RET64 e ctx;
          s = (case stashed kEgress (pid_tgid e) s of
            None \<Rightarrow> s
          | Some args \<Rightarrow> if da_sock_event args then finish_data e kEgress True ret args s else s)
      in unstash kEgress (pid_tgid e) s)"

section \<open>close\<close>

definition handle_syscall_enter_close :: "bpf_env \<Rightarrow> u32 \<Rightarrow> bpf_state \<Rightarrow> bpf_state" where
  "handle_syscall_enter_close e fd s =
     s\<lparr>close_args_map := bpf_map_update_elem (close_args_map s) (pid_tgid e) \<lparr>cl_fd = fd\<rparr> BPF_ANY\<rparr>"

definition fentry__sys_close :: "bpf_env \<Rightarrow> pt_regs \<Rightarrow> bpf_state \<Rightarrow> bpf_state" where
  "fentry__sys_close e regs s =
     handle_syscall_enter_close e (ucast (parm1 regs)) s"

definition tracepoint__syscalls__sys_enter_close :: "bpf_env \<Rightarrow> u64 \<Rightarrow> bpf_state \<Rightarrow> bpf_state" where
  "tracepoint__syscalls__sys_enter_close e ctx s =
     handle_syscall_enter_close e (TP_ARGS32 e ctx 0) s"

definition handle_syscall_exit_close :: "bpf_env \<Rightarrow> u64 \<Rightarrow> bpf_state \<Rightarrow> bpf_state" where
  "handle_syscall_exit_close e ret s =
     (let s = (case bpf_map_lookup_elem (close_args_map s) (pid_tgid e) of
            None \<Rightarrow> s
          | Some args \<Rightarrow> process_syscall_close e (ucast ret) args (pid_tgid e) s)
      in s\<lparr>close_args_map := bpf_map_delete_elem (close_args_map s) (pid_tgid e)\<rparr>)"

definition fexit__sys_close :: "bpf_env \<Rightarrow> u64 \<Rightarrow> bpf_state \<Rightarrow> bpf_state" where
  "fexit__sys_close e ret s = handle_syscall_exit_close e ret s"

definition tracepoint__syscalls__sys_exit_close :: "bpf_env \<Rightarrow> u64 \<Rightarrow> bpf_state \<Rightarrow> bpf_state" where
  "tracepoint__syscalls__sys_exit_close e ctx s =
     handle_syscall_exit_close e (TP_RET64 e ctx) s"

section \<open>connect\<close>

definition handle_syscall_enter_connect :: "bpf_env \<Rightarrow> u32 \<Rightarrow> u64 \<Rightarrow> bpf_state \<Rightarrow> bpf_state" where
  "handle_syscall_enter_connect e sockfd addr s =
     stash_connect (pid_tgid e)
       \<lparr>co_addr = addr, co_fd = sockfd, co_start_ts = ktime e KT_enter\<rparr> s"

definition fentry__sys_connect :: "bpf_env \<Rightarrow> u32 \<Rightarrow> u64 \<Rightarrow> bpf_state \<Rightarrow> bpf_state" where
  "fentry__sys_connect e sockfd addr s =
     handle_syscall_enter_connect e sockfd addr s"

definition tracepoint__syscalls__sys_enter_connect :: "bpf_env \<Rightarrow> u64 \<Rightarrow> bpf_state \<Rightarrow> bpf_state" where
  "tracepoint__syscalls__sys_enter_connect e ctx s =
     handle_syscall_enter_connect e (TP_ARGS32 e ctx 0) (TP_ARGS64 e ctx 1) s"

definition handle_syscall_exit_connect :: "bpf_env \<Rightarrow> u32 \<Rightarrow> bpf_state \<Rightarrow> bpf_state" where
  "handle_syscall_exit_connect e ret s =
     (let s = (case bpf_map_lookup_elem (connect_args_map s) (pid_tgid e) of
            None \<Rightarrow> s
          | Some args \<Rightarrow> process_syscall_connect e ret args (pid_tgid e) s)
      in unstash_connect (pid_tgid e) s)"

definition fexit__sys_connect :: "bpf_env \<Rightarrow> u32 \<Rightarrow> bpf_state \<Rightarrow> bpf_state" where
  "fexit__sys_connect e ret s = handle_syscall_exit_connect e ret s"

definition tracepoint__syscalls__sys_exit_connect :: "bpf_env \<Rightarrow> u64 \<Rightarrow> bpf_state \<Rightarrow> bpf_state" where
  "tracepoint__syscalls__sys_exit_connect e ctx s =
     handle_syscall_exit_connect e (ucast (TP_RET64 e ctx)) s"

section \<open>accept4\<close>

definition handle_syscall_enter_accept4 :: "bpf_env \<Rightarrow> u64 \<Rightarrow> bpf_state \<Rightarrow> bpf_state" where
  "handle_syscall_enter_accept4 e addr s =
     s\<lparr>accept_args_map := bpf_map_update_elem (accept_args_map s) (pid_tgid e)
       \<lparr>ac_addr = addr, ac_sock_alloc_socket = 0\<rparr> BPF_ANY\<rparr>"

definition fentry__sys_accept4 :: "bpf_env \<Rightarrow> u64 \<Rightarrow> bpf_state \<Rightarrow> bpf_state" where
  "fentry__sys_accept4 e addr s =
     handle_syscall_enter_accept4 e addr s"

definition tracepoint__syscalls__sys_enter_accept4 :: "bpf_env \<Rightarrow> u64 \<Rightarrow> bpf_state \<Rightarrow> bpf_state" where
  "tracepoint__syscalls__sys_enter_accept4 e ctx s =
     handle_syscall_enter_accept4 e (TP_ARGS64 e ctx 1) s"

definition handle_syscall_exit_accept4 :: "bpf_env \<Rightarrow> u64 \<Rightarrow> bpf_state \<Rightarrow> bpf_state" where
  "handle_syscall_exit_accept4 e ret s =
     (let s = (case bpf_map_lookup_elem (accept_args_map s) (pid_tgid e) of
            None \<Rightarrow> s
          | Some args \<Rightarrow> process_syscall_accept e ret args (pid_tgid e) s)
      in s\<lparr>accept_args_map := bpf_map_delete_elem (accept_args_map s) (pid_tgid e)\<rparr>)"

definition fexit__sys_accept4 :: "bpf_env \<Rightarrow> u64 \<Rightarrow> bpf_state \<Rightarrow> bpf_state" where
  "fexit__sys_accept4 e ret s = handle_syscall_exit_accept4 e ret s"

definition tracepoint__syscalls__sys_exit_accept4 :: "bpf_env \<Rightarrow> u64 \<Rightarrow> bpf_state \<Rightarrow> bpf_state" where
  "tracepoint__syscalls__sys_exit_accept4 e ctx s =
     (let s = (case bpf_map_lookup_elem (accept_args_map s) (pid_tgid e) of
            None \<Rightarrow> s
          | Some args \<Rightarrow> process_syscall_accept e (TP_RET64 e ctx) args (pid_tgid e) s)
      in s\<lparr>accept_args_map := bpf_map_delete_elem (accept_args_map s) (pid_tgid e)\<rparr>)"

definition sock_alloc_ret :: "bpf_env \<Rightarrow> pt_regs \<Rightarrow> bpf_state \<Rightarrow> bpf_state" where
  "sock_alloc_ret e regs s =
     (case bpf_map_lookup_elem (accept_args_map s) (pid_tgid e) of
        None \<Rightarrow> s
      | Some args \<Rightarrow>
          (if ac_sock_alloc_socket args = 0
           then s\<lparr>accept_args_map := bpf_map_store (accept_args_map s) (pid_tgid e)
             (args\<lparr>ac_sock_alloc_socket := pt_rc regs\<rparr>)\<rparr>
           else s))"

section \<open>Processes\<close>

definition handle_sched_process_exec :: "bpf_env \<Rightarrow> bpf_state \<Rightarrow> bpf_state" where
  "handle_sched_process_exec e s =
     (let tgid = ucast (drop_bit 32 (pid_tgid e)) :: u32; tid = ucast (pid_tgid e) :: u32 in
      if tgid = tid then s\<lparr>proc_exec_events := proc_exec_events s @ [\<lparr>exec_pid = tgid\<rparr>]\<rparr> else s)"

definition tracepoint__sched__sched_process_exec :: "bpf_env \<Rightarrow> bpf_state \<Rightarrow> bpf_state" where
  "tracepoint__sched__sched_process_exec e s = handle_sched_process_exec e s"

definition handle_sched_process_exit :: "bpf_env \<Rightarrow> bpf_state \<Rightarrow> bpf_state" where
  "handle_sched_process_exit e s =
     (let tgid = ucast (drop_bit 32 (pid_tgid e)) :: u32; tid = ucast (pid_tgid e) :: u32 in
      if tgid = tid then s\<lparr>proc_exit_events := proc_exit_events s @ [\<lparr>exit_pid = tgid\<rparr>]\<rparr> else s)"

definition tracepoint__sched__sched_process_exit :: "bpf_env \<Rightarrow> bpf_state \<Rightarrow> bpf_state" where
  "tracepoint__sched__sched_process_exit e s = handle_sched_process_exit e s"

end
