(* ===== verification/Skb_Path.thy ===== *)
theory Skb_Path
  imports Data_Common Sock_Key
begin

text \<open>
  The packet path of \<open>pktlatency.bpf.c\<close>: the programs on the receive and transmit
  functions of the kernel locate the TCP header of a packet, find the connection of its
  flow and report how far the packet is, by the sequence number relative to the start of the
  connection. Packet bytes are read from memory at the addresses the socket buffer gives.
\<close>

section \<open>Reporting a packet\<close>

definition parse_kern_evt_body :: "bpf_env \<Rightarrow> parse_kern_evt_body_t \<Rightarrow> bpf_state \<Rightarrow> bpf_state" where
  "parse_kern_evt_body e param s =
     (case kern_evt_t_map s (cur_cpu e) of
        None \<Rightarrow> s
      | Some evt \<Rightarrow>
          (case bpf_map_lookup_elem (sock_key_conn_id_map s) (kb_key param) of
             None \<Rightarrow> s
           | Some conn_id_s \<Rightarrow>
               (if cs_no_trace conn_id_s > traceable then s
                else case bpf_map_lookup_elem (conn_info_map s) (cs_tgid_fd conn_id_s) of
                    None \<Rightarrow> s
                  | Some conn_info \<Rightarrow>
                      (if protocol conn_info = kProtocolUnknown then s
                       else
                       let evt = evt\<lparr>ke_conn_id_s := conn_id_s, ke_seq := kb_cur_seq param,
                             ke_len := kb_len param, ke_ts := ktime e KT_parse_kern_evt_body,
                             ke_ts_delta := 0, ke_step := kb_step param,
                             ke_func_name := probe_read e FUNC_NAME_LIMIT (kb_func_name param)\<rparr>
                       in s\<lparr>kern_evt_t_map := (kern_evt_t_map s)(cur_cpu e := Some evt),
                            rb := rb s @ [(evt, sizeof_kern_evt)]\<rparr>))))"

text \<open>The header fields \<open>report_kern_evt\<close> computes from the TCP header.\<close>

definition tcp_relative_seq :: "bpf_env \<Rightarrow> parse_kern_evt_body_t \<Rightarrow> u32" where
  "tcp_relative_seq e param = bpf_ntohl (read_u32 e (kb_tcp param + 4)) - kb_inital_seq param"

definition tcp_payload_len :: "bpf_env \<Rightarrow> parse_kern_evt_body_t \<Rightarrow> u32" where
  "tcp_payload_len e param =
     (let doff = drop_bit 4 (read_u32 e (kb_tcp param + 12) AND 255);
          hdr_len = ucast (push_bit 2 doff) :: u64
      in ucast (scast (kb_len param) - hdr_len))"

definition report_kern_evt :: "bpf_env \<Rightarrow> parse_kern_evt_body_t \<Rightarrow> bpf_state \<Rightarrow> bpf_state" where
  "report_kern_evt e param s =
     (let relative_seq = tcp_relative_seq e param;
          len_minus_hdr = tcp_payload_len e param;
          found = bpf_map_lookup_elem (sock_key_conn_id_map s) (kb_key param);
          has_conn_info =
            (case found of
               None \<Rightarrow> False
             | Some conn_id_s \<Rightarrow>
                 cs_no_trace conn_id_s \<le> traceable \<and>
                 (case bpf_map_lookup_elem (conn_info_map s) (cs_tgid_fd conn_id_s) of
                    None \<Rightarrow> False
                  | Some conn_info \<Rightarrow> protocol conn_info \<noteq> kProtocolUnknown))
      in
      case found of
        Some conn_id_s \<Rightarrow>
          (if has_conn_info
           then case kern_evt_t_map s (cur_cpu e) of
               None \<Rightarrow> s
             | Some evt \<Rightarrow>
                 (let evt = evt\<lparr>ke_seq := relative_seq, ke_len := len_minus_hdr,
                        ke_ts := ktime e KT_report_kern_evt, ke_ts_delta := 0,
                        ke_step := kb_step param, ke_ifindex := kb_ifindex param,
                        ke_flags := read_u8 e (kb_tcp param + 13), ke_conn_id_s := conn_id_s\<rparr>
                  in s\<lparr>kern_evt_t_map := (kern_evt_t_map s)(cur_cpu e := Some evt),
                       rb := rb s @ [(evt, sizeof_kern_evt)]\<rparr>)
           else s)
      | None \<Rightarrow>
          (if relative_seq = 1 \<and> len_minus_hdr > 0 \<and> (kb_step param = DEV_IN \<or> kb_step param = TCP_IN)
           then case first_packet_evt_map s (cur_cpu e) of
               None \<Rightarrow> s
             | Some evt \<Rightarrow>
                 (let evt = evt\<lparr>fp_ts := ktime e KT_report_kern_evt, fp_step := kb_step param,
                        fp_len := len_minus_hdr, fp_key := kb_key param,
                        fp_ifindex := kb_ifindex param, fp_flags := read_u8 e (kb_tcp param + 13)\<rparr>
                  in s\<lparr>first_packet_evt_map := (first_packet_evt_map s)(cur_cpu e := Some evt),
                       first_packet_rb := first_packet_rb s @ [evt]\<rparr>)
           else s))"

section \<open>Locating the TCP header\<close>

definition skb_l2_check :: "u16 \<Rightarrow> bool" where
  "skb_l2_check header \<longleftrightarrow> header = 0 \<or> header = -1"

definition skb_l4_check :: "u16 \<Rightarrow> u16 \<Rightarrow> bool" where
  "skb_l4_check l4 l3 \<longleftrightarrow> l4 = 0xFFFF \<or> l4 \<le> l3"

definition get_ip_header_len :: "u8 \<Rightarrow> u8" where
  "get_ip_header_len h = (let len = (h AND 0x0F) * 4 in if len > IP_H_LEN then len else IP_H_LEN)"

definition enabledXDP :: "bpf_state \<Rightarrow> bool" where
  "enabledXDP s =
     (case control_value s kEnabledXdpIndex of None \<Rightarrow> True | Some v \<Rightarrow> v = 1)"

definition IPPROTO_IPIP :: u8 where "IPPROTO_IPIP = 4"
definition IPPROTO_TCP :: u8 where "IPPROTO_TCP = 6"

text \<open>The protocol of layer 3, \<open>None\<close> where the code jumps to \<open>err\<close>.\<close>

definition skb_l3_proto :: "bpf_env \<Rightarrow> sk_buff_obj \<Rightarrow> u16 option" where
  "skb_l3_proto e skb =
     (let nh = network_header skb; mac = mac_header skb; data = skb_head skb;
          known = (\<lambda>p. if p = ETH_P_IP \<or> p = ETH_P_IPV6 then Some p else None)
      in
      if \<not> skb_l2_check mac
      then
        (if nh \<noteq> 0 \<and> mac \<ge> nh then Some ETH_P_IP
         else if mac \<noteq> nh then known (bpf_ntohs (read_u16 e (data + ucast mac + 12)))
         else None)
      else known (bpf_ntohs (skb_protocol skb)))"

text \<open>
  From the protocol of layer 3: the address of the IP header, of the layer-4 header, the
  length of the segment and the layer-4 protocol. One level of IP-in-IP is unwrapped.
\<close>

definition skb_l4 :: "bpf_env \<Rightarrow> sk_buff_obj \<Rightarrow> u16 \<Rightarrow> u64 \<times> u64 \<times> u32 \<times> u8" where
  "skb_l4 e skb l3_proto =
     (let nh = network_header skb; trans = transport_header skb; data = skb_head skb;
          ip = data + ucast nh;
          l4 = (if \<not> skb_l4_check trans nh then data + ucast trans else 0)
      in
      if l3_proto = ETH_P_IP
      then
        (let len = ucast (bpf_ntohs (read_u16 e (ip + 2))) :: u32;
             ip_hdr_len = get_ip_header_len (read_u8 e ip);
             l4 = (if l4 \<noteq> 0 then l4 else ip + ucast ip_hdr_len);
             proto_l4 = read_u8 e (ip + 9);
             tcp_len = len - ucast ip_hdr_len
         in
         if proto_l4 = IPPROTO_IPIP
         then
           (let ip = ip + ucast ip_hdr_len;
                tcp_len = tcp_len - ucast ip_hdr_len;
                proto_l4 = read_u8 e (ip + 9);
                l4 = ip + ucast ip_hdr_len
            in (ip, l4, tcp_len, proto_l4))
         else (ip, l4, tcp_len, proto_l4))
      else
        (ip, if l4 \<noteq> 0 then l4 else ip + 40,
         ucast (bpf_ntohs (read_u16 e (ip + 4))), read_u8 e (ip + 6)))"

text \<open>
  The initial sequence number of the flow of a packet without a ready socket: from the table,
  or, for the first packet seen on the way in, from the packet itself. \<open>None\<close> is the jump to
  \<open>err\<close>.
\<close>

definition packet_initial_seq ::
    "bpf_env \<Rightarrow> step_t \<Rightarrow> u64 \<Rightarrow> sock_key \<Rightarrow> bpf_state \<Rightarrow> u32 option \<times> bpf_state" where
  "packet_initial_seq e step tcp key s =
     (case bpf_map_lookup_elem (sock_xmit_map s) key of
        Some v \<Rightarrow> (Some v, s)
      | None \<Rightarrow>
          (if step = DEV_IN
           then
             (let seq = bpf_ntohl (read_u32 e (tcp + 4));
                  flag = read_u8 e (tcp + 13);
                  seq = (if flag AND 2 = 0 then seq - 1 else seq)
              in (Some seq, s\<lparr>sock_xmit_map := bpf_map_update_elem (sock_xmit_map s) key seq BPF_NOEXIST\<rparr>))
           else (None, s)))"

definition translate_flow :: "step_t \<Rightarrow> sock_key \<Rightarrow> bpf_state \<Rightarrow> sock_key" where
  "translate_flow step key s =
     (if step = DEV_IN \<or> step = DEV_OUT
      then case bpf_map_lookup_elem (nat_flow_map s) key of None \<Rightarrow> key | Some k \<Rightarrow> k
      else key)"

definition skb_ifindex :: "sk_buff_obj \<Rightarrow> u32" where
  "skb_ifindex skb = (if skb_dev skb \<noteq> 0 then skb_dev_ifindex skb else skb_iif skb)"

text \<open>The part of \<open>parse_skb\<close> from \<open>__l3\<close> on; the number is the return value.\<close>

definition parse_skb_l3 ::
    "bpf_env \<Rightarrow> sk_buff_obj \<Rightarrow> step_t \<Rightarrow> u16 \<Rightarrow> u32 \<Rightarrow> sock_key \<Rightarrow> bpf_state \<Rightarrow> nat \<times> bpf_state" where
  "parse_skb_l3 e skb step l3_proto inital_seq key s =
     (let (ip, tcp, tcp_len, proto_l4) = skb_l4 e skb l3_proto in
      if proto_l4 \<noteq> IPPROTO_TCP then (0, s)
      else
      let (found, key, s) =
          (if inital_seq = 0
           then
             (let key = (if l3_proto = ETH_P_IP then parse_sock_key_from_ipv4_tcp_hdr e ip tcp key
                         else parse_sock_key_from_ipv6_tcp_hdr e ip tcp key);
                  key = translate_flow step key s;
                  (found, s) = packet_initial_seq e step tcp key s
              in (found, key, s))
           else (Some inital_seq, key, s))
      in
      case found of
        None \<Rightarrow> (0, s)
      | Some inital_seq \<Rightarrow>
          (let key = (if step \<ge> NIC_IN then reverse_sock_key_no_copy key else key)
           in (1, report_kern_evt e
                \<lparr>kb_inital_seq = inital_seq, kb_key = key, kb_cur_seq = 0, kb_len = tcp_len,
                 kb_func_name = 0, kb_step = step, kb_tcp = tcp, kb_ifindex = skb_ifindex skb\<rparr> s)))"

definition parse_skb :: "bpf_env \<Rightarrow> u64 \<Rightarrow> bool \<Rightarrow> step_t \<Rightarrow> bpf_state \<Rightarrow> nat \<times> bpf_state" where
  "parse_skb e skbp sk_not_ready step s =
     (if skbp = 0 then (0, s)
      else
      let skb = skb_read e skbp;
          skc = sock_read e (skb_sk skb);
          ready = (skb_sk skb \<noteq> 0 \<and> (skc_daddr skc \<noteq> 0 \<or> skc_rcv_saddr skc \<noteq> 0) \<and> \<not> sk_not_ready);
          key = (if ready then parse_sock_key e skbp sock_key_zero else sock_key_zero);
          start = (if ready then bpf_map_lookup_elem (sock_xmit_map s) key else Some 0)
      in
      case start of
        None \<Rightarrow> (0, s)
      | Some inital_seq \<Rightarrow>
          (case skb_l3_proto e skb of
             None \<Rightarrow> (0, s)
           | Some l3_proto \<Rightarrow> parse_skb_l3 e skb step l3_proto inital_seq key s))"

section \<open>Programs\<close>

definition xdp_proxy :: "bpf_state \<Rightarrow> nat \<times> bpf_state" where
  "xdp_proxy s = (2, s)"

definition handle_skb_data_copy :: "bpf_env \<Rightarrow> u64 \<Rightarrow> u32 \<Rightarrow> u32 \<Rightarrow> bpf_state \<Rightarrow> bpf_state" where
  "handle_skb_data_copy e skb offset len s =
     (let key = parse_sock_key_rcv e skb sock_key_zero in
      case bpf_map_lookup_elem (sock_xmit_map s) key of
        None \<Rightarrow> s
      | Some inital_seq \<Rightarrow>
          (let seq = skb_cb_seq (skb_read e skb) + offset;
               key = reverse_sock_key_no_copy key
           in parse_kern_evt_body e
                \<lparr>kb_inital_seq = inital_seq, kb_key = key, kb_cur_seq = seq - inital_seq, kb_len = len,
                 kb_func_name = 0, kb_step = USER_COPY, kb_tcp = 0, kb_ifindex = 0\<rparr> s))"

definition skb_copy_datagram_iter :: "bpf_env \<Rightarrow> u64 \<Rightarrow> u32 \<Rightarrow> u32 \<Rightarrow> bpf_state \<Rightarrow> bpf_state" where
  "skb_copy_datagram_iter e skb offset len s = handle_skb_data_copy e skb offset len s"

definition skb_copy_datagram_iovec :: "bpf_env \<Rightarrow> u64 \<Rightarrow> u32 \<Rightarrow> u32 \<Rightarrow> bpf_state \<Rightarrow> bpf_state" where
  "skb_copy_datagram_iovec e skb offset len s = handle_skb_data_copy e skb offset len s"

definition tracepoint__skb_copy_datagram_iovec :: "bpf_env \<Rightarrow> u64 \<Rightarrow> bpf_state \<Rightarrow> bpf_state" where
  "tracepoint__skb_copy_datagram_iovec e ctx s =
     handle_skb_data_copy e (read_u64 e (ctx + 8)) 0 (read_u32 e (ctx + 16)) s"

definition tracepoint__netif_receive_skb :: "bpf_env \<Rightarrow> u64 \<Rightarrow> bpf_state \<Rightarrow> bpf_state" where
  "tracepoint__netif_receive_skb e ctx s = snd (parse_skb e (read_u64 e (ctx + 8)) True DEV_IN s)"

definition tcp_queue_rcv :: "bpf_state \<Rightarrow> bpf_state" where
  "tcp_queue_rcv s = s"

definition tcp_rcv_established :: "bpf_state \<Rightarrow> bpf_state" where
  "tcp_rcv_established s = s"

definition tcp_v4_do_rcv :: "bpf_env \<Rightarrow> u64 \<Rightarrow> bpf_state \<Rightarrow> bpf_state" where
  "tcp_v4_do_rcv e skb s = snd (parse_skb e skb True TCP_IN s)"

definition tcp_v6_do_rcv :: "bpf_env \<Rightarrow> u64 \<Rightarrow> bpf_state \<Rightarrow> bpf_state" where
  "tcp_v6_do_rcv e skb s = snd (parse_skb e skb True TCP_IN s)"

definition tcp_v4_rcv :: "bpf_state \<Rightarrow> bpf_state" where
  "tcp_v4_rcv s = s"

definition ip_rcv_core :: "bpf_env \<Rightarrow> u64 \<Rightarrow> bpf_state \<Rightarrow> bpf_state" where
  "ip_rcv_core e skb s = snd (parse_skb e skb True IP_IN s)"

text \<open>The loop of \<open>dev_hard_start_xmit\<close> over at most two buffers of the list.\<close>

fun dev_xmit_loop :: "nat \<Rightarrow> bpf_env \<Rightarrow> u64 \<Rightarrow> bpf_state \<Rightarrow> bpf_state" where
  "dev_xmit_loop 0 e skb s = s"
| "dev_xmit_loop (Suc n) e skb s =
     (let s = snd (parse_skb e skb False DEV_OUT s);
          skb = skb_next (skb_read e skb)
      in if skb = 0 then s else dev_xmit_loop n e skb s)"

definition dev_hard_start_xmit :: "bpf_env \<Rightarrow> u64 \<Rightarrow> bpf_state \<Rightarrow> bpf_state" where
  "dev_hard_start_xmit e skb s = dev_xmit_loop 2 e skb s"

definition dev_queue_xmit :: "bpf_env \<Rightarrow> u64 \<Rightarrow> bpf_state \<Rightarrow> bpf_state" where
  "dev_queue_xmit e skb s = snd (parse_skb e skb False QDISC_OUT s)"

definition handle_ip_queue_xmit :: "bpf_env \<Rightarrow> u64 \<Rightarrow> bpf_state \<Rightarrow> bpf_state" where
  "handle_ip_queue_xmit e skb s =
     (let key = parse_sock_key e skb sock_key_zero in
      case bpf_map_lookup_elem (sock_xmit_map s) key of
        None \<Rightarrow> s
      | Some inital_seq \<Rightarrow>
          report_kern_evt e
            \<lparr>kb_inital_seq = inital_seq, kb_key = key, kb_cur_seq = 0,
             kb_len = skb_len (skb_read e skb), kb_func_name = 0, kb_step = IP_OUT,
             kb_tcp = skb_data (skb_read e skb), kb_ifindex = 0\<rparr> s)"

definition ip_queue_xmit2 :: "bpf_env \<Rightarrow> u64 \<Rightarrow> bpf_state \<Rightarrow> bpf_state" where
  "ip_queue_xmit2 e skb s = handle_ip_queue_xmit e skb s"

definition ip_queue_xmit :: "bpf_env \<Rightarrow> u64 \<Rightarrow> bpf_state \<Rightarrow> bpf_state" where
  "ip_queue_xmit e skb s = handle_ip_queue_xmit e skb s"

definition tcp_destroy_sock :: "bpf_env \<Rightarrow> u64 \<Rightarrow> bpf_state \<Rightarrow> bpf_state" where
  "tcp_destroy_sock e sk s =
     (let key = (snd (parse_sock_key_sk e sk sock_key_zero))
            \<lparr>sport := bpf_ntohs (inet_sport (sock_read e sk))\<rparr>;
          s = s\<lparr>sock_xmit_map := bpf_map_delete_elem (sock_xmit_map s) key\<rparr>
      in
      case bpf_map_lookup_elem (sock_key_conn_id_map s) key of
        None \<Rightarrow> s
      | Some conn_id_s \<Rightarrow>
          (let tgid_fd = cs_tgid_fd conn_id_s;
               s = (case bpf_map_lookup_elem (conn_info_map s) tgid_fd of
                      None \<Rightarrow> s
                    | Some conn_info \<Rightarrow> report_conn_evt e conn_info kClose 0 s);
               s = s\<lparr>conn_info_map := bpf_map_delete_elem (conn_info_map s) tgid_fd\<rparr>
           in s\<lparr>sock_key_conn_id_map := bpf_map_delete_elem (sock_key_conn_id_map s) key\<rparr>))"

end
