(* ===== verification/Openssl.thy ===== *)
theory Openssl
  imports Data_Common
begin

text \<open>
  \<open>src/bpf/openssl.h\<close>: the programs on \<open>SSL_read\<close>, \<open>SSL_write\<close> and their \<open>_ex\<close>
  variants. The object is compiled once per OpenSSL version; the two offsets it uses,
  \<open>SSL_ST_RBIO\<close> and \<open>BIO_ST_NUM\<close>, are a parameter of the programs (the versions are in
  the theory \<open>Openssl_Offsets\<close>). The descriptor comes either from the \<open>SSL\<close> object (the
  programs named \<open>_offset\<close>) or from the system call nested in the library call.
\<close>

record ssl_offsets =
  off_SSL_ST_RBIO :: u64
  off_BIO_ST_NUM :: u64

definition get_fd_symaddrs :: "ssl_offsets \<Rightarrow> bpf_env \<Rightarrow> u64 \<Rightarrow> u32" where
  "get_fd_symaddrs off e sslp =
     (let rbio_ptr = read_u64 e (sslp + off_SSL_ST_RBIO off) in read_u32 e (rbio_ptr + off_BIO_ST_NUM off))"

definition get_fd :: "ssl_offsets \<Rightarrow> bpf_env \<Rightarrow> u64 \<Rightarrow> u32" where
  "get_fd off e sslp =
     (let fd = get_fd_symaddrs off e sslp in if fd \<noteq> kInvalidFD \<and> 2 < sint fd then fd else kInvalidFD)"

definition add_ssl_bytes :: "traffic_direction_t \<Rightarrow> u64 \<Rightarrow> conn_info_t \<Rightarrow> conn_info_t" where
  "add_ssl_bytes direction n ci =
     (if direction = kEgress then ci\<lparr>ssl_write_bytes := ssl_write_bytes ci + n\<rparr>
      else ci\<lparr>ssl_read_bytes := ssl_read_bytes ci + n\<rparr>)"

text \<open>
  The number of plaintext bytes of a call, \<open>None\<close> where the function returns early: the
  \<open>_ex\<close> variants return 1 and store the number.
\<close>

definition ssl_bytes_count :: "bpf_env \<Rightarrow> pt_regs \<Rightarrow> data_args \<Rightarrow> u32 option" where
  "ssl_bytes_count e ctx args =
     (let bytes_count = ucast (pt_rc ctx) :: u32 in
      if bytes_count = 1 \<and> da_ssl_ex_len args \<noteq> 0 then Some (ucast (read_u64 e (da_ssl_ex_len args)))
      else if sint bytes_count \<le> 0 then None
      else Some bytes_count)"

definition process_ssl_data ::
    "bpf_env \<Rightarrow> pt_regs \<Rightarrow> u64 \<Rightarrow> traffic_direction_t \<Rightarrow> data_args \<Rightarrow> u32 \<Rightarrow> bpf_state \<Rightarrow> bpf_state" where
  "process_ssl_data e ctx pt direction args syscall_len s =
     (case ssl_bytes_count e ctx args of
        None \<Rightarrow> s
      | Some bytes_count \<Rightarrow>
          (let tgid_fd = gen_tgid_fd (ucast (drop_bit 32 pt)) (da_fd args) in
           case bpf_map_lookup_elem (conn_info_map s) tgid_fd of
             None \<Rightarrow> s
           | Some ci \<Rightarrow>
               (let (ci, s) = process_syscall_data_with_conn_info e args tgid_fd direction
                      (scast bytes_count) syscall_len True True (ci\<lparr>ssl := True\<rparr>) s;
                    ci = add_ssl_bytes direction (scast bytes_count) ci
                in s\<lparr>conn_info_map := bpf_map_store (conn_info_map s) tgid_fd ci\<rparr>)))"

section \<open>Descriptor from the SSL object\<close>

definition do_SSL_read_entry_offset :: "ssl_offsets \<Rightarrow> bpf_env \<Rightarrow> pt_regs \<Rightarrow> bpf_state \<Rightarrow> bpf_state" where
  "do_SSL_read_entry_offset off e ctx s =
     (let pt = pid_tgid e; tgid = current_tgid e; fd = get_fd off e (parm1 ctx) in
      if fd = kInvalidFD then s
      else
      let read_args = data_args_zero\<lparr>da_source_fn := kSSLRead, da_fd := fd, da_buf := parm2 ctx,
            da_start_ts := ktime e KT_enter\<rparr>;
          s = s\<lparr>active_ssl_read_args_map :=
            bpf_map_update_elem (active_ssl_read_args_map s) pt read_args BPF_ANY\<rparr>
      in set_conn_as_ssl tgid fd s)"

definition do_SSL_read_ret_offset :: "bpf_env \<Rightarrow> pt_regs \<Rightarrow> bpf_state \<Rightarrow> bpf_state" where
  "do_SSL_read_ret_offset e ctx s =
     (let pt = pid_tgid e;
          s = (case bpf_map_lookup_elem (active_ssl_read_args_map s) pt of
                 None \<Rightarrow> s
               | Some read_args \<Rightarrow>
                   (let read_args = read_args\<lparr>da_end_ts := ktime e KT_exit\<rparr>;
                        s = s\<lparr>active_ssl_read_args_map :=
                          bpf_map_store (active_ssl_read_args_map s) pt read_args\<rparr>
                    in process_ssl_data e ctx pt kIngress read_args 0 s))
      in s\<lparr>active_ssl_read_args_map := bpf_map_delete_elem (active_ssl_read_args_map s) pt\<rparr>)"

definition do_SSL_write_entry_offset :: "ssl_offsets \<Rightarrow> bpf_env \<Rightarrow> pt_regs \<Rightarrow> bpf_state \<Rightarrow> bpf_state" where
  "do_SSL_write_entry_offset off e ctx s =
     (let pt = pid_tgid e; tgid = current_tgid e; fd = get_fd off e (parm1 ctx) in
      if fd = kInvalidFD then s
      else
      let write_args = data_args_zero\<lparr>da_source_fn := kSSLWrite, da_fd := fd, da_buf := parm2 ctx,
            da_start_ts := ktime e KT_enter\<rparr>;
          s = s\<lparr>active_ssl_write_args_map :=
            bpf_map_update_elem (active_ssl_write_args_map s) pt write_args BPF_ANY\<rparr>
      in set_conn_as_ssl tgid fd s)"

definition do_SSL_write_ret_offset :: "bpf_env \<Rightarrow> pt_regs \<Rightarrow> bpf_state \<Rightarrow> bpf_state" where
  "do_SSL_write_ret_offset e ctx s =
     (let pt = pid_tgid e;
          s = (case bpf_map_lookup_elem (active_ssl_write_args_map s) pt of
                 None \<Rightarrow> s
               | Some write_args \<Rightarrow>
                   (let write_args = write_args\<lparr>da_end_ts := ktime e KT_exit\<rparr>;
                        s = s\<lparr>active_ssl_write_args_map :=
                          bpf_map_store (active_ssl_write_args_map s) pt write_args\<rparr>
                    in process_ssl_data e ctx pt kEgress write_args 0 s))
      in s\<lparr>active_ssl_write_args_map := bpf_map_delete_elem (active_ssl_write_args_map s) pt\<rparr>)"

section \<open>Descriptor from the nested system call\<close>

definition do_SSL_read_entry :: "ssl_offsets \<Rightarrow> bpf_env \<Rightarrow> pt_regs \<Rightarrow> bool \<Rightarrow> bpf_state \<Rightarrow> bpf_state" where
  "do_SSL_read_entry off e ctx is_ex_call s =
     (let pt = pid_tgid e;
          nested = \<lparr>ns_fd = get_fd off e (parm1 ctx), ns_mismatched_fds = False, ns_syscall_len = 0\<rparr>;
          s = s\<lparr>ssl_user_space_call_map :=
            bpf_map_update_elem (ssl_user_space_call_map s) pt nested BPF_ANY\<rparr>;
          read_args = data_args_zero\<lparr>da_source_fn := kSSLRead, da_buf := parm2 ctx,
            da_start_ts := ktime e KT_enter\<rparr>;
          read_args = (if is_ex_call then read_args\<lparr>da_ssl_ex_len := parm4 ctx\<rparr> else read_args)
      in s\<lparr>active_ssl_read_args_map :=
           bpf_map_update_elem (active_ssl_read_args_map s) pt read_args BPF_ANY\<rparr>)"

text \<open>
  \<open>nested_syscall_fd_ptr->syscall_len\<close> is read after the entry was deleted from the map; the
  memory of the element still holds the value.
\<close>

definition do_SSL_read_ret :: "bpf_env \<Rightarrow> pt_regs \<Rightarrow> bpf_state \<Rightarrow> bpf_state" where
  "do_SSL_read_ret e ctx s =
     (let pt = pid_tgid e in
      case bpf_map_lookup_elem (ssl_user_space_call_map s) pt of
        None \<Rightarrow> s
      | Some nested \<Rightarrow>
          (let s = s\<lparr>ssl_user_space_call_map := bpf_map_delete_elem (ssl_user_space_call_map s) pt\<rparr> in
           case bpf_map_lookup_elem (active_ssl_read_args_map s) pt of
             None \<Rightarrow> s
           | Some data_arg \<Rightarrow>
               (let data_arg = data_arg\<lparr>da_end_ts := ktime e KT_exit, da_fd := ns_fd nested\<rparr>;
                    s = s\<lparr>active_ssl_read_args_map :=
                      bpf_map_store (active_ssl_read_args_map s) pt data_arg\<rparr>
                in process_ssl_data e ctx pt kIngress data_arg (ns_syscall_len nested) s)))"

definition do_SSL_write_entry :: "ssl_offsets \<Rightarrow> bpf_env \<Rightarrow> pt_regs \<Rightarrow> bool \<Rightarrow> bpf_state \<Rightarrow> bpf_state" where
  "do_SSL_write_entry off e ctx is_ex_call s =
     (let pt = pid_tgid e;
          nested = \<lparr>ns_fd = get_fd off e (parm1 ctx), ns_mismatched_fds = False, ns_syscall_len = 0\<rparr>;
          s = s\<lparr>ssl_user_space_call_map :=
            bpf_map_update_elem (ssl_user_space_call_map s) pt nested BPF_ANY\<rparr>;
          write_args = data_args_zero\<lparr>da_source_fn := kSSLWrite, da_buf := parm2 ctx,
            da_start_ts := ktime e KT_enter\<rparr>;
          write_args = (if is_ex_call then write_args\<lparr>da_ssl_ex_len := parm4 ctx\<rparr> else write_args)
      in s\<lparr>active_ssl_write_args_map :=
           bpf_map_update_elem (active_ssl_write_args_map s) pt write_args BPF_ANY\<rparr>)"

definition do_SSL_write_ret :: "bpf_env \<Rightarrow> pt_regs \<Rightarrow> bpf_state \<Rightarrow> bpf_state" where
  "do_SSL_write_ret e ctx s =
     (let pt = pid_tgid e in
      case bpf_map_lookup_elem (ssl_user_space_call_map s) pt of
        None \<Rightarrow> s
      | Some nested \<Rightarrow>
          (let s = s\<lparr>ssl_user_space_call_map := bpf_map_delete_elem (ssl_user_space_call_map s) pt\<rparr> in
           case bpf_map_lookup_elem (active_ssl_write_args_map s) pt of
             None \<Rightarrow> s
           | Some data_arg \<Rightarrow>
               (let data_arg = data_arg\<lparr>da_end_ts := ktime e KT_exit, da_fd := ns_fd nested\<rparr>;
                    s = s\<lparr>active_ssl_write_args_map :=
                      bpf_map_store (active_ssl_write_args_map s) pt data_arg\<rparr>
                in process_ssl_data e ctx pt kEgress data_arg (ns_syscall_len nested) s)))"

section \<open>Programs\<close>

definition SSL_read_entry_nested_syscall ::
    "ssl_offsets \<Rightarrow> bpf_env \<Rightarrow> pt_regs \<Rightarrow> bpf_state \<Rightarrow> bpf_state" where
  "SSL_read_entry_nested_syscall off e ctx s = do_SSL_read_entry off e ctx False s"

definition SSL_read_ret_nested_syscall ::
    "bpf_env \<Rightarrow> pt_regs \<Rightarrow> bpf_state \<Rightarrow> bpf_state" where
  "SSL_read_ret_nested_syscall e ctx s = do_SSL_read_ret e ctx s"

definition SSL_read_ex_entry_nested_syscall ::
    "ssl_offsets \<Rightarrow> bpf_env \<Rightarrow> pt_regs \<Rightarrow> bpf_state \<Rightarrow> bpf_state" where
  "SSL_read_ex_entry_nested_syscall off e ctx s = do_SSL_read_entry off e ctx True s"

definition SSL_read_ex_ret_nested_syscall ::
    "bpf_env \<Rightarrow> pt_regs \<Rightarrow> bpf_state \<Rightarrow> bpf_state" where
  "SSL_read_ex_ret_nested_syscall e ctx s = do_SSL_read_ret e ctx s"

definition SSL_write_entry_nested_syscall ::
    "ssl_offsets \<Rightarrow> bpf_env \<Rightarrow> pt_regs \<Rightarrow> bpf_state \<Rightarrow> bpf_state" where
  "SSL_write_entry_nested_syscall off e ctx s = do_SSL_write_entry off e ctx False s"

definition SSL_write_ret_nested_syscall ::
    "bpf_env \<Rightarrow> pt_regs \<Rightarrow> bpf_state \<Rightarrow> bpf_state" where
  "SSL_write_ret_nested_syscall e ctx s = do_SSL_write_ret e ctx s"

definition SSL_write_ex_entry_nested_syscall ::
    "ssl_offsets \<Rightarrow> bpf_env \<Rightarrow> pt_regs \<Rightarrow> bpf_state \<Rightarrow> bpf_state" where
  "SSL_write_ex_entry_nested_syscall off e ctx s = do_SSL_write_entry off e ctx True s"

definition SSL_write_ex_ret_nested_syscall ::
    "bpf_env \<Rightarrow> pt_regs \<Rightarrow> bpf_state \<Rightarrow> bpf_state" where
  "SSL_write_ex_ret_nested_syscall e ctx s = do_SSL_write_ret e ctx s"

definition SSL_write_entry_offset ::
    "ssl_offsets \<Rightarrow> bpf_env \<Rightarrow> pt_regs \<Rightarrow> bpf_state \<Rightarrow> bpf_state" where
  "SSL_write_entry_offset off e ctx s = do_SSL_write_entry_offset off e ctx s"

definition SSL_write_ret_offset ::
    "bpf_env \<Rightarrow> pt_regs \<Rightarrow> bpf_state \<Rightarrow> bpf_state" where
  "SSL_write_ret_offset e ctx s = do_SSL_write_ret_offset e ctx s"

definition SSL_read_entry_offset ::
    "ssl_offsets \<Rightarrow> bpf_env \<Rightarrow> pt_regs \<Rightarrow> bpf_state \<Rightarrow> bpf_state" where
  "SSL_read_entry_offset off e ctx s = do_SSL_read_entry_offset off e ctx s"

definition SSL_read_ret_offset ::
    "bpf_env \<Rightarrow> pt_regs \<Rightarrow> bpf_state \<Rightarrow> bpf_state" where
  "SSL_read_ret_offset e ctx s = do_SSL_read_ret_offset e ctx s"

end
