(* ===== verification/Go_Tls.thy ===== *)
theory Go_Tls
  imports Conn_Tracking
begin

text \<open>
  \<open>src/bpf/gotls.bpf.c\<close>: the programs on \<open>crypto/tls.(*Conn).Write\<close> and \<open>Read\<close> of Go
  binaries. Where an argument lives is described by the locations user space put into
  \<open>go_tls_symaddrs_map\<close>; calls are matched by process and goroutine.
\<close>

record go_interface =
  gi_type :: u64
  gi_ptr :: u64

text \<open>
  The registers, copied to the per-CPU buffer; \<open>None\<close> is the failing lookup. As memory the
  buffer is its 72 bytes, followed by whatever the kernel has behind it.
\<close>

definition go_regabi_regs :: "bpf_env \<Rightarrow> pt_regs \<Rightarrow> bpf_state \<Rightarrow> u64 list option \<times> bpf_state" where
  "go_regabi_regs e ctx s =
     (case regs_heap s (cur_cpu e) of
        None \<Rightarrow> (None, s)
      | Some _ \<Rightarrow>
          (let regs = pt_go_regs ctx
           in (Some regs, s\<lparr>regs_heap := (regs_heap s)(cur_cpu e := Some regs)\<rparr>)))"

definition regs_memory :: "bpf_env \<Rightarrow> u64 list \<Rightarrow> u8 list" where
  "regs_memory e regs = concat (map (\<lambda>r. nat_bytes 8 (unat r)) regs) @ heap_tail e"

definition assign_arg :: "bpf_env \<Rightarrow> nat \<Rightarrow> location_t \<Rightarrow> u64 \<Rightarrow> u64 list \<Rightarrow> u8 list \<Rightarrow> u8 list" where
  "assign_arg e arg_size loc sp regs arg =
     (if loc_type loc = kLocationTypeStack then probe_read e arg_size (sp + scast (loc_offset loc))
      else if loc_type loc = kLocationTypeRegisters
      then
        (if sint (loc_offset loc) < 0 \<or> sint (loc_offset loc) > 1000 then arg
         else fill_buf arg_size (drop (unat (loc_offset loc)) (regs_memory e regs)))
      else arg)"

definition assign_u64 :: "bpf_env \<Rightarrow> location_t \<Rightarrow> u64 \<Rightarrow> u64 list \<Rightarrow> u64" where
  "assign_u64 e loc sp regs = le_word (assign_arg e 8 loc sp regs (replicate 8 0))"

definition read_go_interface :: "bpf_env \<Rightarrow> u64 \<Rightarrow> go_interface" where
  "read_go_interface e a = \<lparr>gi_type = read_u64 e a, gi_ptr = read_u64 e (a + 8)\<rparr>"

definition get_fd_from_conn_intf_core ::
    "bpf_env \<Rightarrow> go_interface \<Rightarrow> go_common_symaddrs_t \<Rightarrow> u32" where
  "get_fd_from_conn_intf_core e conn_intf symaddrs =
     (if FD_Sysfd_offset symaddrs = -1 then kInvalidFD
      else if gi_type conn_intf = internal_syscallConn symaddrs \<and> syscallConn_conn_offset symaddrs = -1
      then kInvalidFD
      else
      let conn_intf =
          (if gi_type conn_intf = internal_syscallConn symaddrs
           then read_go_interface e (gi_ptr conn_intf + scast (syscallConn_conn_offset symaddrs))
           else conn_intf)
      in
      if gi_type conn_intf = tls_Conn symaddrs \<and> tlsConn_conn_offset symaddrs = -1 then kInvalidFD
      else
      let conn_intf =
          (if gi_type conn_intf = tls_Conn symaddrs
           then read_go_interface e (gi_ptr conn_intf + scast (tlsConn_conn_offset symaddrs))
           else conn_intf)
      in
      if gi_type conn_intf \<noteq> net_TCPConn symaddrs then kInvalidFD
      else
      let fd_ptr = read_u64 e (gi_ptr conn_intf);
          sysfd = read_u64 e (fd_ptr + scast (FD_Sysfd_offset symaddrs))
      in ucast sysfd)"

section \<open>Entry\<close>

text \<open>
  The two entry programs differ only in the locations they use: stash the arguments and open
  the record of the nested system calls.
\<close>

definition tls_conn_entry ::
    "bpf_env \<Rightarrow> pt_regs \<Rightarrow> (go_tls_symaddrs_t \<Rightarrow> location_t) \<Rightarrow> (go_tls_symaddrs_t \<Rightarrow> location_t) \<Rightarrow>
     bpf_state \<Rightarrow> bpf_state" where
  "tls_conn_entry e ctx c_loc b_loc s =
     (let tgid = current_tgid e; goid = get_goid e s in
      if goid = 0 then s
      else
      let tgid_goid = \<lparr>tg_tgid = tgid, tg_goid = goid\<rparr> in
      case bpf_map_lookup_elem (go_tls_symaddrs_map s) tgid of
        None \<Rightarrow> s
      | Some symaddrs \<Rightarrow>
          (if loc_type (c_loc symaddrs) = kLocationTypeInvalid then s
           else if loc_type (b_loc symaddrs) = kLocationTypeInvalid then s
           else
           let sp = pt_sp ctx; (regs, s) = go_regabi_regs e ctx s in
           case regs of
             None \<Rightarrow> s
           | Some regs \<Rightarrow>
               (let args = \<lparr>conn_ptr = assign_u64 e (c_loc symaddrs) sp regs,
                      plaintext_ptr = assign_u64 e (b_loc symaddrs) sp regs\<rparr>;
                    s = s\<lparr>active_tls_conn_op_map :=
                      bpf_map_update_elem (active_tls_conn_op_map s) tgid_goid args BPF_ANY\<rparr>;
                    nested = \<lparr>ns_fd = kInvalidFD, ns_mismatched_fds = False, ns_syscall_len = 0\<rparr>
                in s\<lparr>go_ssl_user_space_call_map :=
                     bpf_map_update_elem (go_ssl_user_space_call_map s) tgid_goid nested BPF_ANY\<rparr>)))"

definition probe_entry_tls_conn_write :: "bpf_env \<Rightarrow> pt_regs \<Rightarrow> bpf_state \<Rightarrow> bpf_state" where
  "probe_entry_tls_conn_write e ctx s = tls_conn_entry e ctx Write_c_loc Write_b_loc s"

definition probe_entry_tls_conn_read :: "bpf_env \<Rightarrow> pt_regs \<Rightarrow> bpf_state \<Rightarrow> bpf_state" where
  "probe_entry_tls_conn_read e ctx s = tls_conn_entry e ctx Read_c_loc Read_b_loc s"

section \<open>Return\<close>

definition tls_conn_return_core ::
    "bpf_env \<Rightarrow> pt_regs \<Rightarrow> (go_tls_symaddrs_t \<Rightarrow> location_t) \<Rightarrow> (go_tls_symaddrs_t \<Rightarrow> location_t) \<Rightarrow>
     traffic_direction_t \<Rightarrow> source_function_t \<Rightarrow> go_tls_conn_args \<Rightarrow> tgid_goid_t \<Rightarrow> bpf_state \<Rightarrow> bpf_state" where
  "tls_conn_return_core e ctx r0_loc r1_loc direct source_fn args tgoid s =
     (let tgid = current_tgid e in
      case bpf_map_lookup_elem (go_tls_symaddrs_map s) tgid of
        None \<Rightarrow> s
      | Some symaddrs \<Rightarrow>
          (if loc_type (r0_loc symaddrs) = kLocationTypeInvalid then s
           else if loc_type (r1_loc symaddrs) = kLocationTypeInvalid then s
           else
           let sp = pt_sp ctx; (regs, s) = go_regabi_regs e ctx s in
           case regs of
             None \<Rightarrow> s
           | Some regs \<Rightarrow>
               (let retval0 = assign_u64 e (r0_loc symaddrs) sp regs;
                    retval1 = assign_arg e 16 (r1_loc symaddrs) sp regs (replicate 16 0)
                in
                if (le_word (drop 8 retval1) :: u64) \<noteq> 0 then s
                else case bpf_map_lookup_elem (go_common_symaddrs_map s) tgid of
                    None \<Rightarrow> s
                  | Some common \<Rightarrow>
                      (let fd = get_fd_from_conn_intf_core e
                             \<lparr>gi_type = tls_Conn common, gi_ptr = conn_ptr args\<rparr> common
                       in
                       if fd = kInvalidFD then s
                       else case bpf_map_lookup_elem (go_ssl_user_space_call_map s) tgoid of
                           None \<Rightarrow> s
                         | Some nested \<Rightarrow>
                             (let data = data_args_zero\<lparr>da_source_fn := source_fn,
                                    da_buf := plaintext_ptr args, da_fd := fd\<rparr>;
                                  tgid_fd = gen_tgid_fd tgid fd
                              in
                              case bpf_map_lookup_elem (conn_info_map s) tgid_fd of
                                None \<Rightarrow> s
                              | Some ci \<Rightarrow>
                                  (let (ci, s) = process_syscall_data_with_conn_info e data tgid_fd
                                         direct retval0 (ns_syscall_len nested) True True
                                         (ci\<lparr>ssl := True\<rparr>) s;
                                       ci = (if direct = kEgress
                                             then ci\<lparr>ssl_write_bytes := ssl_write_bytes ci + retval0\<rparr>
                                             else ci\<lparr>ssl_read_bytes := ssl_read_bytes ci + retval0\<rparr>)
                                   in s\<lparr>conn_info_map := bpf_map_store (conn_info_map s) tgid_fd ci\<rparr>))))))"

definition probe_return_tls_conn_write_core ::
    "bpf_env \<Rightarrow> pt_regs \<Rightarrow> go_tls_conn_args \<Rightarrow> tgid_goid_t \<Rightarrow> bpf_state \<Rightarrow> bpf_state" where
  "probe_return_tls_conn_write_core e ctx args tgoid s =
     tls_conn_return_core e ctx Write_retval0_loc Write_retval1_loc kEgress kSSLWrite args tgoid s"

definition probe_return_tls_conn_read_core ::
    "bpf_env \<Rightarrow> pt_regs \<Rightarrow> go_tls_conn_args \<Rightarrow> tgid_goid_t \<Rightarrow> bpf_state \<Rightarrow> bpf_state" where
  "probe_return_tls_conn_read_core e ctx args tgoid s =
     tls_conn_return_core e ctx Read_retval0_loc Read_retval1_loc kIngress kSSLRead args tgoid s"

definition close_tls_op :: "tgid_goid_t \<Rightarrow> bpf_state \<Rightarrow> bpf_state" where
  "close_tls_op tgid_goid s =
     s\<lparr>active_tls_conn_op_map := bpf_map_delete_elem (active_tls_conn_op_map s) tgid_goid,
       go_ssl_user_space_call_map := bpf_map_delete_elem (go_ssl_user_space_call_map s) tgid_goid\<rparr>"

definition probe_return_tls_conn_write :: "bpf_env \<Rightarrow> pt_regs \<Rightarrow> bpf_state \<Rightarrow> bpf_state" where
  "probe_return_tls_conn_write e ctx s =
     (let goid = get_goid e s in
      if goid = 0 then s
      else
      let tgid_goid = \<lparr>tg_tgid = current_tgid e, tg_goid = goid\<rparr> in
      case bpf_map_lookup_elem (active_tls_conn_op_map s) tgid_goid of
        None \<Rightarrow> s
      | Some args \<Rightarrow>
          close_tls_op tgid_goid (probe_return_tls_conn_write_core e ctx args tgid_goid s))"

definition probe_return_tls_conn_read :: "bpf_env \<Rightarrow> pt_regs \<Rightarrow> bpf_state \<Rightarrow> bpf_state" where
  "probe_return_tls_conn_read e ctx s =
     (let goid = get_goid e s in
      if goid = 0 then s
      else
      let tgid_goid = \<lparr>tg_tgid = current_tgid e, tg_goid = goid\<rparr> in
      case bpf_map_lookup_elem (active_tls_conn_op_map s) tgid_goid of
        None \<Rightarrow> s
      | Some args \<Rightarrow>
          close_tls_op tgid_goid (probe_return_tls_conn_read_core e ctx args tgid_goid s))"

end
