(* ===== verification/Agent_Effects.thy ===== *)
theory Agent_Effects
  imports Conn_Lifecycle Syscall_Probes Skb_Path Openssl Go_Tls
begin

text \<open>
  What the programs may do to the shared state, as a relation. \<open>eff1 p\<close> lists the
  elementary effects of a program that runs in thread \<open>p\<close>: each touches one map, one buffer
  or one ring, with the side conditions the programs establish before it (an event names a
  connection of the table, an entry is stored under the key of its own identity, arguments
  are stashed under the own thread). Every function of the connection table, the packet path
  and the TLS programs is a sequence \<open>eff p\<close> of such effects. Invariants are then proved
  against the elementary effects only.
\<close>

section \<open>Effects\<close>

text \<open>A sequence of operations of one map on the keys \<open>K\<close>.\<close>

inductive map_op :: "'k set \<Rightarrow> ('k, 'v) bpf_map \<Rightarrow> ('k, 'v) bpf_map \<Rightarrow> bool" for K m where
  map_op_refl: "map_op K m m"
| map_op_update: "map_op K m m' \<Longrightarrow> k \<in> K \<Longrightarrow> map_op K m (bpf_map_update_elem m' k v fl)"
| map_op_store: "map_op K m m' \<Longrightarrow> k \<in> K \<Longrightarrow> map_op K m (bpf_map_store m' k v)"
| map_op_delete: "map_op K m m' \<Longrightarrow> k \<in> K \<Longrightarrow> map_op K m (bpf_map_delete_elem m' k)"

text \<open>The key under which a connection belongs into \<open>conn_info_map\<close>.\<close>

definition conn_key :: "conn_info_t \<Rightarrow> u64" where
  "conn_key ci = gen_tgid_fd (ci_tgid (conn_id ci)) (ci_fd (conn_id ci))"

definition in_table :: "bpf_state \<Rightarrow> u64 \<Rightarrow> bool" where
  "in_table s k \<longleftrightarrow> bpf_map_lookup_elem (conn_info_map s) k \<noteq> None"

text \<open>
  How an entry of the table may change. Its identity and addresses stay; user space may
  rewrite the rest. The programs moreover keep its protocol once it is classified, its role
  once it is known, the mark of an encrypted connection and the decision of user space
  whether to trace it.
\<close>

definition same_conn :: "conn_info_t \<Rightarrow> conn_info_t \<Rightarrow> bool" where
  "same_conn ci ci' \<longleftrightarrow> conn_id ci' = conn_id ci \<and> laddr ci' = laddr ci \<and> raddr ci' = raddr ci"

definition unclassified :: "conn_info_t \<Rightarrow> bool" where
  "unclassified ci \<longleftrightarrow> protocol ci = kProtocolUnset \<or> protocol ci = kProtocolUnknown"

definition conn_evolves :: "conn_info_t \<Rightarrow> conn_info_t \<Rightarrow> bool" where
  "conn_evolves ci ci' \<longleftrightarrow> same_conn ci ci' \<and> no_trace ci' = no_trace ci \<and>
     (\<not> unclassified ci \<longrightarrow> protocol ci' = protocol ci) \<and>
     (role ci \<noteq> kRoleUnknown \<longrightarrow> role ci' = role ci) \<and> (ssl ci \<longrightarrow> ssl ci')"

text \<open>An event and the buffer it was built in: its message fits and its size is the one submitted.\<close>

definition syscall_evt_fits :: "kern_evt_data \<Rightarrow> kern_evt_data \<Rightarrow> nat \<Rightarrow> bool" where
  "syscall_evt_fits old d n \<longleftrightarrow>
     unat (kd_buf_size d) \<le> MAX_MSG_SIZE \<and> n = sizeof_kern_evt + 4 + unat (kd_buf_size d) \<and>
     (length (kd_msg old) = MAX_MSG_SIZE \<longrightarrow> length (kd_msg d) = MAX_MSG_SIZE)"

definition ssl_evt_fits :: "kern_evt_ssl_data \<Rightarrow> kern_evt_ssl_data \<Rightarrow> nat \<Rightarrow> bool" where
  "ssl_evt_fits old d n \<longleftrightarrow>
     unat (ks_buf_size d) \<le> MAX_MSG_SIZE \<and> n = sizeof_kern_evt + 16 + unat (ks_buf_size d) \<and>
     (length (ks_msg old) = MAX_MSG_SIZE \<longrightarrow> length (ks_msg d) = MAX_MSG_SIZE)"

text \<open>The fields of the buffer for new connections that no program writes.\<close>

definition fresh_like :: "conn_info_t \<Rightarrow> conn_info_t \<Rightarrow> bool" where
  "fresh_like old ci \<longleftrightarrow>
     read_bytes ci = read_bytes old \<and> write_bytes ci = write_bytes old \<and>
     ssl_read_bytes ci = ssl_read_bytes old \<and> ssl_write_bytes ci = ssl_write_bytes old \<and>
     ssl ci = ssl old \<and> no_trace ci = no_trace old \<and>
     prepend_length_header ci = prepend_length_header old"

text \<open>The keys of the goroutines of a thread's process.\<close>

definition goroutines :: "u64 \<Rightarrow> tgid_goid_t set" where
  "goroutines p = {g. tg_tgid g = ucast (drop_bit 32 p)}"

inductive eff1 :: "u64 \<Rightarrow> bpf_state \<Rightarrow> bpf_state \<Rightarrow> bool" for p where
  eff_pid: "eff1 p s (remember_pid t s)"
| eff_create: "conn_key ci = k \<Longrightarrow> eff1 p s (snd (create_conn_info e ci k key ts s))"
| eff_infer_evt: "bpf_map_lookup_elem (conn_info_map s) k = Some ci0 \<Longrightarrow> conn_id ci = conn_id ci0 \<Longrightarrow>
    eff1 p s (report_conn_evt e ci kProtocolInfer ts s)"
| eff_store: "bpf_map_lookup_elem (conn_info_map s) k = Some ci0 \<Longrightarrow> conn_evolves ci0 ci \<Longrightarrow>
    eff1 p s (s\<lparr>conn_info_map := bpf_map_store (conn_info_map s) k ci\<rparr>)"
| eff_close_conn: "bpf_map_lookup_elem (conn_info_map s) k = Some ci \<Longrightarrow>
    m = bpf_map_delete_elem (conn_info_map s) k \<Longrightarrow>
    eff1 p s ((report_conn_evt e ci kClose ts s)\<lparr>conn_info_map := m\<rparr>)"
| eff_drop: "bpf_map_lookup_elem (conn_info_map s) k = None \<Longrightarrow>
    eff1 p s (s\<lparr>conn_info_map := bpf_map_delete_elem (conn_info_map s) k\<rparr>)"
| eff_drop_key: "eff1 p s (s\<lparr>sock_key_conn_id_map := bpf_map_delete_elem (sock_key_conn_id_map s) key\<rparr>)"
| eff_syscall_evt: "syscall_data_map s c = Some old \<Longrightarrow> syscall_evt_fits old d n \<Longrightarrow>
    in_table s (cs_tgid_fd (ke_conn_id_s (kd_ke d))) \<Longrightarrow>
    eff1 p s (s\<lparr>syscall_data_map := (syscall_data_map s)(c := Some d),
      syscall_rb := syscall_rb s @ [(d, n)]\<rparr>)"
| eff_ssl_evt: "ssl_data_map s c = Some old \<Longrightarrow> ssl_evt_fits old d n \<Longrightarrow>
    in_table s (cs_tgid_fd (ke_conn_id_s (ks_ke d))) \<Longrightarrow>
    eff1 p s (s\<lparr>ssl_data_map := (ssl_data_map s)(c := Some d), ssl_rb := ssl_rb s @ [(d, n)]\<rparr>)"
| eff_kern_evt: "in_table s (cs_tgid_fd (ke_conn_id_s d)) \<Longrightarrow>
    eff1 p s (s\<lparr>kern_evt_t_map := (kern_evt_t_map s)(c := Some d),
      rb := rb s @ [(d, sizeof_kern_evt)]\<rparr>)"
| eff_first_packet: "bpf_map_lookup_elem (sock_key_conn_id_map s) (fp_key f) = None \<Longrightarrow>
    eff1 p s (s\<lparr>first_packet_evt_map := (first_packet_evt_map s)(c := Some f),
      first_packet_rb := first_packet_rb s @ [f]\<rparr>)"
| eff_xmit: "map_op UNIV (sock_xmit_map s) m \<Longrightarrow> eff1 p s (s\<lparr>sock_xmit_map := m\<rparr>)"
| eff_nat: "map_op UNIV (nat_flow_map s) m' \<Longrightarrow> eff1 p s (s\<lparr>nat_flow_map := m'\<rparr>)"
| eff_new_conn: "conn_info_t_map s c = Some old_ci \<Longrightarrow> fresh_like old_ci ci \<Longrightarrow>
    eff1 p s (s\<lparr>conn_info_t_map := (conn_info_t_map s)(c := Some ci)\<rparr>)"
| eff_regs: "eff1 p s (s\<lparr>regs_heap := (regs_heap s)(c := Some r)\<rparr>)"
| eff_accept: "map_op {p} (accept_args_map s) ma \<Longrightarrow> eff1 p s (s\<lparr>accept_args_map := ma\<rparr>)"
| eff_connect: "map_op {p} (connect_args_map s) mc \<Longrightarrow> eff1 p s (s\<lparr>connect_args_map := mc\<rparr>)"
| eff_close: "map_op {p} (close_args_map s) ml \<Longrightarrow> eff1 p s (s\<lparr>close_args_map := ml\<rparr>)"
| eff_write: "map_op {p} (write_args_map s) mw \<Longrightarrow> eff1 p s (s\<lparr>write_args_map := mw\<rparr>)"
| eff_read: "map_op {p} (read_args_map s) mr \<Longrightarrow> eff1 p s (s\<lparr>read_args_map := mr\<rparr>)"
| eff_sendfile: "map_op {p} (active_sendfile_args_map s) mf \<Longrightarrow>
    eff1 p s (s\<lparr>active_sendfile_args_map := mf\<rparr>)"
| eff_ssl_read: "map_op {p} (active_ssl_read_args_map s) mr \<Longrightarrow>
    eff1 p s (s\<lparr>active_ssl_read_args_map := mr\<rparr>)"
| eff_ssl_write: "map_op {p} (active_ssl_write_args_map s) mr \<Longrightarrow>
    eff1 p s (s\<lparr>active_ssl_write_args_map := mr\<rparr>)"
| eff_ssl_call: "map_op {p} (ssl_user_space_call_map s) mn \<Longrightarrow>
    eff1 p s (s\<lparr>ssl_user_space_call_map := mn\<rparr>)"
| eff_go_op: "map_op (goroutines p) (active_tls_conn_op_map s) mo \<Longrightarrow>
    eff1 p s (s\<lparr>active_tls_conn_op_map := mo\<rparr>)"
| eff_go_call: "map_op (goroutines p) (go_ssl_user_space_call_map s) mg \<Longrightarrow>
    eff1 p s (s\<lparr>go_ssl_user_space_call_map := mg\<rparr>)"
| eff_exec: "eff1 p s (s\<lparr>proc_exec_events := proc_exec_events s @ [x]\<rparr>)"
| eff_exit: "eff1 p s (s\<lparr>proc_exit_events := proc_exit_events s @ [y]\<rparr>)"

definition eff :: "u64 \<Rightarrow> bpf_state \<Rightarrow> bpf_state \<Rightarrow> bool" where
  "eff p = rtranclp (eff1 p)"

named_theorems eff_intros \<open>functions that are a sequence of elementary effects\<close>

lemma eff_refl [simp, intro!]: "eff p s s"
  by (simp add: eff_def)

lemma eff_base: "eff1 p s s' \<Longrightarrow> eff p s s'"
  by (simp add: eff_def)

lemma eff_trans: "eff p s s' \<Longrightarrow> eff p s' s'' \<Longrightarrow> eff p s s''"
  by (simp add: eff_def)

lemma eff_snoc: "eff1 p s' s'' \<Longrightarrow> eff p s s' \<Longrightarrow> eff p s s''"
  by (simp add: eff_def)

lemma eff_then: "eff p s' s'' \<Longrightarrow> eff p s s' \<Longrightarrow> eff p s s''"
  by (rule eff_trans)

lemmas eff_posts [eff_intros] = eff1.intros [THEN eff_snoc]

lemmas map_op_intros [simp] = map_op.intros

section \<open>Event reports\<close>

lemma in_table_report [simp]:
  "in_table (report_conn_evt e ci ty ts s) k = in_table s k"
  "in_table (report_syscall_buf e q c n st ts d b f ph lh s) k = in_table s k"
  "in_table (report_syscall_buf_without_data e q c n st ts d f s) k = in_table s k"
  "in_table (report_ssl_buf e q c n st ts d b f sq sl s) k = in_table s k"
  by (simp_all add: in_table_def)

lemma report_syscall_buf_eff [eff_intros]:
  assumes "in_table s (cs_tgid_fd cid)"
  shows "eff p s (report_syscall_buf e seq cid len step ts d buf fn ph lh s)"
proof (cases "len = 0 \<or> syscall_data_map s (cur_cpu e) = None")
  case True
  then show ?thesis
    by (auto simp: report_syscall_buf_def Let_def MAX_MSG_SIZE_def)
next
  case False
  then obtain old where old: "syscall_data_map s (cur_cpu e) = Some old" and len: "len \<noteq> 0"
    by auto
  let ?d = "syscall_buf_evt e seq cid len step ts d buf fn ph lh old"
  have "syscall_evt_fits old ?d (sizeof_kern_evt + 4 + min (unat len) MAX_MSG_SIZE)"
    using syscall_buf_evt_fields(4) [OF len]
    by (simp add: syscall_evt_fits_def syscall_buf_evt_def Let_def length_write_prefix)
  moreover have "ke_conn_id_s (kd_ke ?d) = cid"
    by (simp add: syscall_buf_evt_def Let_def fill_ts_def fill_func_name_def fill_kern_evt_def)
  ultimately show ?thesis
    unfolding report_syscall_buf_eq [OF len old] Let_def
    using assms by (intro eff_base eff_syscall_evt [OF old]) simp_all
qed

lemma report_syscall_buf_without_data_eff [eff_intros]:
  assumes "in_table s (cs_tgid_fd cid)"
  shows "eff p s (report_syscall_buf_without_data e seq cid len step ts d fn s)"
proof (cases "syscall_data_map s (cur_cpu e)")
  case (Some old)
  then show ?thesis
    using assms
    by (auto simp: report_syscall_buf_without_data_def Let_def syscall_evt_fits_def fill_ts_def
      fill_func_name_def fill_kern_evt_def intro!: eff_base eff_syscall_evt)
qed (simp add: report_syscall_buf_without_data_def Let_def)

lemma copy_msg_clamped:
  assumes "len \<noteq> 0"
  defines "l \<equiv> (if len < of_nat MAX_MSG_SIZE then len else of_nat MAX_MSG_SIZE) :: u64"
  shows "copy_msg e l buf msg = (write_prefix (probe_read e (unat l) buf) msg, l)"
    and "unat l \<le> MAX_MSG_SIZE" and "unat (ucast l :: u32) = unat l"
proof -
  have l: "unat l = min (unat len) MAX_MSG_SIZE"
    unfolding l_def by (rule clamp_unat)
  then show le: "unat l \<le> MAX_MSG_SIZE"
    by simp
  show "copy_msg e l buf msg = (write_prefix (probe_read e (unat l) buf) msg, l)"
    using assms(1) clamp_zero le by (intro copy_msg_eq) (auto simp: l_def)
  show "unat (ucast l :: u32) = unat l"
    using le by (simp add: unsigned_ucast_eq take_bit_eq_mod MAX_MSG_SIZE_def)
qed

lemma report_ssl_buf_eff [eff_intros]:
  assumes "in_table s (cs_tgid_fd cid)"
  shows "eff p s (report_ssl_buf e seq cid len step ts d buf fn sq sl s)"
proof (cases "len = 0 \<or> ssl_data_map s (cur_cpu e) = None")
  case True
  then show ?thesis
    by (auto simp: report_ssl_buf_def Let_def MAX_MSG_SIZE_def)
next
  case False
  then obtain old where old: "ssl_data_map s (cur_cpu e) = Some old" and len: "len \<noteq> 0"
    by auto
  show ?thesis
    unfolding report_ssl_buf_def Let_def copy_msg_clamped(1) [OF len] old
    using assms copy_msg_clamped(2,3) [OF len]
    by (auto simp: ssl_evt_fits_def length_write_prefix fill_ts_def fill_kern_evt_def
      intro!: eff_base eff_ssl_evt [OF old])
qed

lemmas report_posts = report_syscall_buf_eff [THEN eff_then] report_ssl_buf_eff [THEN eff_then]
  report_syscall_buf_without_data_eff [THEN eff_then]

lemma report_xmit [simp]:
  "sock_xmit_map (report_conn_evt e ci ty ts s) = sock_xmit_map s"
  "sock_xmit_map (report_syscall_buf e q c n st ts d b f ph lh s) = sock_xmit_map s"
  "sock_xmit_map (report_syscall_buf_without_data e q c n st ts d f s) = sock_xmit_map s"
  "sock_xmit_map (report_ssl_buf e q c n st ts d b f sq sl s) = sock_xmit_map s"
  by (simp_all add: report_conn_evt_def report_syscall_buf_def report_syscall_buf_without_data_def
      report_ssl_buf_def Let_def case_prod_unfold split: option.split)

lemma evt_vecs_loop_step:
  assumes "evt_vecs_loop e cid tot step args lh i ph seq b s = (seq', b', s')"
  shows "conn_info_map s' = conn_info_map s \<and> sock_xmit_map s' = sock_xmit_map s \<and>
    (in_table s (cs_tgid_fd cid) \<longrightarrow> eff p s s')"
  using assms
proof (induction e cid tot step args lh i ph seq b s arbitrary: seq' b' s' rule: evt_vecs_loop.induct)
  case (1 e cid tot step args lh i ph seq b s)
  obtain base len where iov: "read_iovec e (da_iov args) i = (base, len)"
    by force
  show ?case
  proof (cases "i < LOOP_LIMIT \<and> of_nat i < da_iovlen args \<and> b < tot")
    case True
    let ?n = "if len < scast (tot - b) then len else scast (tot - b)"
    let ?s = "report_syscall_buf e seq cid ?n step (da_start_ts args) (args_delta args) base
      (da_source_fn args) ph lh s"
    have "evt_vecs_loop e cid tot step args lh (i + 1) False (seq + ucast ?n) (b + ucast ?n) ?s =
        (seq', b', s')"
      using "1.prems" True by (subst (asm) evt_vecs_loop.simps) (simp add: iov Let_def)
    from "1.IH" [OF True iov [symmetric] refl refl refl refl this] show ?thesis
      by (auto intro: eff_trans [OF report_syscall_buf_eff])
  next
    case False
    with "1.prems" show ?thesis
      by (subst (asm) evt_vecs_loop.simps) auto
  qed
qed

lemmas evt_vecs_loop_frame = evt_vecs_loop_step [THEN conjunct1]
lemmas evt_vecs_loop_xmit = evt_vecs_loop_step [THEN conjunct2, THEN conjunct1]
lemmas evt_vecs_loop_eff = evt_vecs_loop_step [THEN conjunct2, THEN conjunct2, rule_format]

lemma report_syscall_evt_vecs_frame [simp]:
  "conn_info_map (report_syscall_evt_vecs e seq cid tot step args ph lh s) = conn_info_map s"
  "sock_xmit_map (report_syscall_evt_vecs e seq cid tot step args ph lh s) = sock_xmit_map s"
  by (auto simp: report_syscall_evt_vecs_def evt_vecs_loop_frame evt_vecs_loop_xmit split: prod.split)

lemma report_syscall_evt_vecs_eff [eff_intros]:
  assumes "in_table s (cs_tgid_fd cid)"
  shows "eff p s (report_syscall_evt_vecs e seq cid tot step args ph lh s)"
proof -
  obtain seq' b s' where loop: "evt_vecs_loop e cid tot step args lh 0 ph seq 0 s = (seq', b, s')"
    using prod_cases3 by blast
  have "in_table s' (cs_tgid_fd cid)"
    using assms evt_vecs_loop_frame [OF loop] by (simp add: in_table_def)
  then show ?thesis
    using eff_trans [OF evt_vecs_loop_eff [OF loop assms]] report_syscall_buf_without_data_eff
    by (simp add: report_syscall_evt_vecs_def loop)
qed

section \<open>Connection table\<close>

lemma match_trace_tgid_eff [eff_intros]: "eff p s (snd (match_trace_tgid e tgid s))"
  by (auto simp: match_trace_tgid_def intro: eff_intros)

lemma conn_key_simps [simp]:
  "conn_key (ci\<lparr>role := r\<rparr>) = conn_key ci"
  "conn_key (ci\<lparr>laddr := a\<rparr>) = conn_key ci"
  "conn_key (ci\<lparr>raddr := a\<rparr>) = conn_key ci"
  "conn_key (init_conn_info e tgid fd ci) = gen_tgid_fd tgid fd"
  by (simp_all add: conn_key_def init_conn_info_def init_conn_id_def)

lemma conn_key_args [simp]: "conn_key (conn_addr_from_args e addr socket ci) = conn_key ci"
  by (simp add: conn_addr_from_args_def read_sockaddr_kernel_def Let_def)

lemma conn_key_key [simp]: "conn_key (conn_addr_from_key e addr sk key ci) = conn_key ci"
  by (simp add: conn_addr_from_key_def Let_def)

lemma conn_key_data [simp]: "conn_key (data_conn_info e sk tgid_fd key ci) = tgid_fd"
  by (simp add: data_conn_info_def Let_def) (simp add: gen_tgid_fd_def)


lemma submit_new_conn_eff [eff_intros]:
  "eff p s (submit_new_conn e tgid fd addr socket r ts s)"
proof -
  let ?sk = "submit_sk e fd socket" and ?ci = "submit_conn_info e tgid fd addr socket r"
  let ?c = "create_conn_info e ?ci (gen_tgid_fd tgid fd) (socket_key e ?sk) ts s"
  have "conn_key ?ci = gen_tgid_fd tgid fd"
    by (simp add: submit_conn_info_def Let_def)
  then have "eff p s (snd ?c)"
    by (intro eff_base eff_create)
  moreover have "\<exists>m. submit_new_conn e tgid fd addr socket r ts s = (snd ?c)\<lparr>sock_xmit_map := m\<rparr> \<and>
      map_op UNIV (sock_xmit_map (snd ?c)) m"
    unfolding submit_new_conn_def Let_def socket_key_def [symmetric] submit_sk_def [unfolded Let_def, symmetric]
      submit_conn_info_def [unfolded Let_def, symmetric]
    by (cases ?c; auto intro: exI [of _ "sock_xmit_map (snd ?c)"])
  ultimately show ?thesis
    using eff_snoc [OF eff_xmit] by metis
qed

lemma create_in_data_eff:
  assumes "create_conn_info_in_data_syscall e sk k direct n ci ts s = (created, ci', s')"
  shows "eff p s s'"
proof -
  let ?key = "snd (parse_sock_key_sk e sk sock_key_zero)"
  let ?c = "create_conn_info e (data_conn_info e sk k ?key ci) k ?key ts s"
  have "eff p s (snd ?c)"
    by (intro eff_base eff_create conn_key_data)
  then show ?thesis
    using assms
    by (cases ?c) (auto simp: create_conn_info_in_data_syscall_def Let_def split: if_splits
        intro!: eff_snoc [OF eff_xmit])
qed

lemma create_in_data_new_conn:
  assumes "create_conn_info_in_data_syscall e sk k direct n ci ts s = (created, ci', s')"
  shows "conn_info_t_map s' = conn_info_t_map s" and "fresh_like ci ci'"
proof -
  let ?key = "snd (parse_sock_key_sk e sk sock_key_zero)"
  let ?ci = "data_conn_info e sk k ?key ci"
  have "conn_info_t_map (snd (create_conn_info e ?ci k ?key ts s)) = conn_info_t_map s"
    by (simp add: create_conn_info_def report_conn_evt_def Let_def split: option.split)
  then show "conn_info_t_map s' = conn_info_t_map s"
    using assms by (auto simp: create_conn_info_in_data_syscall_def Let_def split: prod.splits if_splits)
  have "ci' = ?ci"
    using assms by (auto simp: create_conn_info_in_data_syscall_def Let_def split: prod.splits if_splits)
  then show "fresh_like ci ci'"
    by (simp add: fresh_like_def data_conn_info_def init_conn_info_def Let_def)
qed

lemma find_or_create_conn_eff:
  assumes "find_or_create_conn e args k direct n s = (found, s')"
  shows "eff p s s'" and "found = Some ci \<Longrightarrow> bpf_map_lookup_elem (conn_info_map s') k = Some ci"
proof -
  show "eff p s s'"
  proof (cases "bpf_map_lookup_elem (conn_info_map s) k = None \<and> get_socket_from_fd e (da_fd args) \<noteq> 0 \<and>
      conn_info_t_map s (cur_cpu e) \<noteq> None")
    case False
    with assms show ?thesis
      by (auto simp: find_or_create_conn_def Let_def split: option.splits if_splits)
  next
    case True
    then obtain old where old: "conn_info_t_map s (cur_cpu e) = Some old"
      by auto
    obtain created ci' s1 where new: "create_conn_info_in_data_syscall e
        (get_socket_from_fd e (da_fd args)) k direct n (old\<lparr>protocol := kProtocolUnset\<rparr>)
        (da_end_ts args - 1) s = (created, ci', s1)"
      using prod_cases3 by blast
    have s': "s' = s1\<lparr>conn_info_t_map := (conn_info_t_map s1)(cur_cpu e := Some ci')\<rparr>"
      using assms True old new by (simp add: find_or_create_conn_def Let_def)
    have "fresh_like old ci'"
      using create_in_data_new_conn(2) [OF new] by (simp add: fresh_like_def)
    then have "eff1 p s1 s'"
      unfolding s' using create_in_data_new_conn(1) [OF new] old by (intro eff_new_conn) simp_all
    then show ?thesis
      by (rule eff_snoc [OF _ create_in_data_eff [OF new]])
  qed
  show "found = Some ci \<Longrightarrow> bpf_map_lookup_elem (conn_info_map s') k = Some ci"
    using assms
    by (auto simp: find_or_create_conn_def Let_def split: option.splits prod.splits if_splits)
qed

lemma same_conn_refl [simp]: "same_conn ci ci"
  by (simp add: same_conn_def)

lemma conn_evolves_upd [simp]:
  "conn_evolves ci ci" "conn_evolves ci (ci'\<lparr>prepend_length_header := b\<rparr>) = conn_evolves ci ci'"
  "conn_evolves ci (ci'\<lparr>write_bytes := w\<rparr>) = conn_evolves ci ci'"
  "conn_evolves ci (ci'\<lparr>ssl_write_bytes := w\<rparr>) = conn_evolves ci ci'"
  "conn_evolves ci (ci'\<lparr>ssl_read_bytes := w\<rparr>) = conn_evolves ci ci'"
  "conn_evolves ci (add_bytes d w ci') = conn_evolves ci ci'"
  "conn_evolves ci (add_ssl_bytes d w ci') = conn_evolves ci ci'"
  "conn_evolves ci ci' \<Longrightarrow> conn_evolves ci (ci'\<lparr>ssl := True\<rparr>)"
  by (simp_all add: conn_evolves_def same_conn_def add_bytes_def add_ssl_bytes_def)

lemma conn_evolves_trans: "conn_evolves a b \<Longrightarrow> conn_evolves b c \<Longrightarrow> conn_evolves a c"
  by (auto simp: conn_evolves_def same_conn_def unclassified_def)

lemma conn_evolves_infer [simp]:
  "conn_evolves ci ci' \<Longrightarrow> unclassified ci' \<Longrightarrow> conn_evolves ci (conn_after_infer e a n t d tp ci')"
  by (auto simp: conn_evolves_def same_conn_def unclassified_def conn_after_infer_role)

lemma tries_infer_unclassified [simp]: "tries_infer b ci \<Longrightarrow> unclassified ci"
  by (simp add: tries_infer_def unclassified_def)

lemma conn_evt_eff:
  "bpf_map_lookup_elem (conn_info_map s) k = Some ci0 \<Longrightarrow> conn_evolves ci0 ci \<Longrightarrow> ty = kProtocolInfer \<Longrightarrow>
     eff p s (report_conn_evt e ci ty ts s)"
  by (auto simp: conn_evolves_def same_conn_def intro: eff_base eff_infer_evt)

lemma store_eff:
  "bpf_map_lookup_elem (conn_info_map s) k = Some ci0 \<Longrightarrow> conn_evolves ci0 ci \<Longrightarrow>
     eff p s (s\<lparr>conn_info_map := bpf_map_store (conn_info_map s) k ci\<rparr>)"
  by (auto intro: eff_base eff_store)

lemma process_data_conn_eff:
  assumes "process_syscall_data_with_conn_info e args k direct n sl is_ssl with_data ci s = (ci', s')"
    and "bpf_map_lookup_elem (conn_info_map s) k = Some ci0" and "conn_evolves ci0 ci"
  shows "eff p s s'" and "conn_info_map s' = conn_info_map s" and "conn_evolves ci0 ci'"
proof -
  have tab: "in_table s (cs_tgid_fd (local_conn_id_s e k))"
    using assms(2) by (simp add: in_table_def local_conn_id_s_def)
  note eqs = assms(1) [unfolded process_syscall_data_with_conn_info_cases report_syscall_evt_def report_ssl_evt_def]
  show "eff p s s'"
    using eqs tab assms(2,3)
    by (auto split: if_splits intro!: report_posts intro: conn_evt_eff)
  show "conn_info_map s' = conn_info_map s" and "conn_evolves ci0 ci'"
    using eqs assms(3) by (auto split: if_splits)
qed

lemma infer_and_report_eff:
  assumes "infer_and_report e buf n t direct ci s = (b, ci', s')"
    and "bpf_map_lookup_elem (conn_info_map s) k = Some ci0" and "conn_evolves ci0 ci" "unclassified ci"
  shows "eff p s s' \<and> conn_info_map s' = conn_info_map s \<and> conn_evolves ci0 ci'"
  using assms by (auto simp: infer_and_report_eq Let_def split: if_splits intro: conn_evt_eff)

lemma infer_vecs_cases:
  "infer_vecs e args direct n i ci s = (ci, s) \<or>
     (\<exists>buf m. infer_vecs e args direct n i ci s = snd (infer_and_report e buf m n direct ci s))"
proof (induction "PROTOCOL_VEC_LIMIT - i" arbitrary: i)
  case 0
  then show ?case
    by (subst infer_vecs.simps, subst (2) infer_vecs.simps) auto
next
  case (Suc m)
  then have "infer_vecs e args direct n (i + 1) ci s = (ci, s) \<or>
     (\<exists>buf m. infer_vecs e args direct n (i + 1) ci s = snd (infer_and_report e buf m n direct ci s))"
    by simp
  then show ?case
    by (subst infer_vecs.simps, subst (2) infer_vecs.simps)
      (auto simp: Let_def split: prod.split)
qed

lemma infer_vecs_eff:
  assumes "infer_vecs e args direct n i ci s = (ci', s')"
    and "bpf_map_lookup_elem (conn_info_map s) k = Some ci0" and "conn_evolves ci0 ci" "unclassified ci"
  shows "eff p s s'" and "conn_info_map s' = conn_info_map s" and "conn_evolves ci0 ci'"
proof -
  have "eff p s s' \<and> conn_info_map s' = conn_info_map s \<and> conn_evolves ci0 ci'"
    using infer_vecs_cases [of e args direct n i ci s]
  proof (elim disjE exE)
    fix buf m
    assume "infer_vecs e args direct n i ci s = snd (infer_and_report e buf m n direct ci s)"
    then have "infer_and_report e buf m n direct ci s =
        (fst (infer_and_report e buf m n direct ci s), ci', s')"
      using assms(1) by (metis prod.collapse)
    then show ?thesis
      using assms(2-) by (rule infer_and_report_eff)
  qed (use assms in simp)
  then show "eff p s s'" and "conn_info_map s' = conn_info_map s" and "conn_evolves ci0 ci'"
    by blast+
qed

lemma report_vecs_eff:
  assumes "report_vecs_with_conn_info e args k direct n ci s = (ci', s')"
    and "bpf_map_lookup_elem (conn_info_map s) k = Some ci0" and "conn_evolves ci0 ci"
  shows "eff p s s'" and "conn_info_map s' = conn_info_map s" and "conn_evolves ci0 ci'"
proof -
  obtain c t where vecs: "(if protocol ci = kProtocolUnset \<or> protocol ci = kProtocolUnknown
      then infer_vecs e args direct n 0 ci s else (ci, s)) = (c, t)"
    by force
  have infer: "eff p s t" "conn_info_map t = conn_info_map s" "conn_evolves ci0 c"
    using vecs assms(2,3) infer_vecs_eff [OF _ assms(2,3)]
    by (auto simp: unclassified_def split: if_splits)
  have tab: "in_table u (cs_tgid_fd (local_conn_id_s e k))" if "conn_info_map u = conn_info_map s" for u
    using assms(2) that by (simp add: in_table_def local_conn_id_s_def)
  note eqs = assms(1) [unfolded report_vecs_with_conn_info_def Let_def vecs]
  show "eff p s s'"
    using eqs infer(1) tab [OF infer(2)] tab [OF refl]
    by (auto split: if_splits intro!: report_posts report_syscall_evt_vecs_eff [THEN eff_then])
  show "conn_info_map s' = conn_info_map s" and "conn_evolves ci0 ci'"
    using eqs infer(2,3) assms(3) by (auto split: if_splits)
qed

section \<open>System calls\<close>

lemma store_conn_info_eff:
  assumes "eff p s s'" and "bpf_map_lookup_elem (conn_info_map s') k = Some ci0" and "conn_evolves ci0 ci"
  shows "eff p s (store_conn_info k ci s')"
  unfolding store_conn_info_def by (rule eff_trans [OF assms(1) store_eff [OF assms(2,3)]])

lemma found_conn_eff:
  assumes found: "find_or_create_conn e args k direct n s = (Some ci, s1)"
    and report: "eff p s1 s2" "conn_info_map s2 = conn_info_map s1" "conn_evolves ci ci'"
  shows "eff p s (store_conn_info k ci' s2)"
proof (rule store_conn_info_eff)
  show "eff p s s2"
    using find_or_create_conn_eff(1) [OF found] report(1) by (rule eff_trans)
  show "bpf_map_lookup_elem (conn_info_map s2) k = Some ci"
    using find_or_create_conn_eff(2) [OF found] report(2) by simp
qed (rule report(3))

lemma process_syscall_data_vecs_eff [eff_intros]:
  "eff p s (process_syscall_data_vecs e args pt direct n b s)"
proof -
  let ?k = "gen_tgid_fd (ucast (drop_bit 32 pt)) (da_fd args)"
  obtain found s1 where found: "find_or_create_conn e args ?k direct n s = (found, s1)"
    by force
  show ?thesis
  proof (cases found)
    case None
    then show ?thesis
      using find_or_create_conn_eff(1) [OF found]
      by (simp add: process_syscall_data_vecs_def Let_def found)
  next
    case (Some ci)
    let ?c = "if b then ci\<lparr>ssl := True\<rparr> else ci"
    obtain ci' s2 where report: "report_vecs_with_conn_info e args ?k direct n ?c s1 = (ci', s2)"
      by force
    note tab = find_or_create_conn_eff(2) [OF found Some]
    have "conn_evolves ci ?c" by simp
    note r = report_vecs_eff [OF report tab this]
    have "eff p s (store_conn_info ?k (add_bytes direct n ci') s2)"
      using found_conn_eff [OF found [unfolded Some] r(1,2)] r(3) by simp
    then show ?thesis
      by (simp add: process_syscall_data_vecs_def Let_def found Some report)
  qed
qed

lemma process_syscall_data_eff [eff_intros]:
  "eff p s (process_syscall_data e args pt direct n b s)"
proof -
  let ?k = "gen_tgid_fd (ucast (drop_bit 32 pt)) (da_fd args)"
  obtain m s0 where m: "match_trace_tgid e (ucast (drop_bit 32 pt)) s = (m, s0)"
    by force
  have e0: "eff p s s0"
    using match_trace_tgid_eff [of p s e "ucast (drop_bit 32 pt)"] m by simp
  obtain found s1 where found: "find_or_create_conn e args ?k direct n s0 = (found, s1)"
    by force
  show ?thesis
  proof (cases found)
    case None
    then show ?thesis
      using e0 eff_trans [OF e0 find_or_create_conn_eff(1) [OF found]]
      by (simp add: process_syscall_data_def Let_def m found)
  next
    case (Some ci)
    let ?c = "if b then ci\<lparr>ssl := True\<rparr> else ci"
    obtain ci' s2 where report: "process_syscall_data_with_conn_info e args ?k direct n 0 False
        (\<not> ssl ?c) ?c s1 = (ci', s2)"
      by force
    note tab = find_or_create_conn_eff(2) [OF found Some]
    have "conn_evolves ci ?c" by simp
    note r = process_data_conn_eff [OF report tab this]
    have "eff p s0 (store_conn_info ?k (add_bytes direct n ci') s2)"
      using found_conn_eff [OF found [unfolded Some] r(1,2)] r(3) by simp
    then show ?thesis
      using e0 eff_trans [OF e0]
      by (simp add: process_syscall_data_def Let_def m found Some report)
  qed
qed

lemma match_eff: "match_trace_tgid e tgid s = (m, s') \<Longrightarrow> eff p s s'"
  using match_trace_tgid_eff [of p s e tgid] by simp

lemma process_sendfile_conn_eff:
  "bpf_map_lookup_elem (conn_info_map s) k = Some ci0 \<Longrightarrow>
     eff p s (process_sendfile_with_conn_info e args k direct n ci b s)"
  "conn_info_map (process_sendfile_with_conn_info e args k direct n ci b s) = conn_info_map s"
  by (auto simp: process_sendfile_with_conn_info_def in_table_def local_conn_id_s_def
      intro: report_syscall_buf_without_data_eff)

lemma process_syscall_sendfile_eff [eff_intros]:
  "eff p s (process_syscall_sendfile e pt args n s)"
proof -
  let ?k = "gen_tgid_fd (ucast (drop_bit 32 pt)) (sf_out_fd args)"
  obtain m s0 where m: "match_trace_tgid e (ucast (drop_bit 32 pt)) s = (m, s0)"
    by force
  have e0: "eff p s s0"
    by (rule match_eff [OF m])
  have rest: "eff p s0 (store_conn_info ?k (ci\<lparr>write_bytes := w\<rparr>)
      (process_sendfile_with_conn_info e args ?k kEgress n ci False s1))"
    if "eff p s0 s1" "bpf_map_lookup_elem (conn_info_map s1) ?k = Some ci" for s1 ci w
    using that process_sendfile_conn_eff
    by (intro store_conn_info_eff) (auto intro: eff_trans)
  show ?thesis
    using eff_trans [OF e0 rest] e0
    by (auto simp: process_syscall_sendfile_def Let_def m split: option.splits prod.splits if_splits
        dest!: create_in_data_eff [where p = p] intro: eff_trans)
qed

text \<open>An entry leaves the table together with its close event, or it was not there.\<close>

lemma drop_conn_eff:
  assumes "s' = (case bpf_map_lookup_elem (conn_info_map s) k of None \<Rightarrow> s
      | Some ci \<Rightarrow> report_conn_evt e ci kClose ts s)"
  shows "eff p s (s'\<lparr>conn_info_map := bpf_map_delete_elem (conn_info_map s') k,
    sock_key_conn_id_map := bpf_map_delete_elem (sock_key_conn_id_map s') key\<rparr>)"
proof -
  have "eff1 p s (s'\<lparr>conn_info_map := bpf_map_delete_elem (conn_info_map s') k\<rparr>)"
    using assms eff_drop eff_close_conn by (cases "bpf_map_lookup_elem (conn_info_map s) k") auto
  from eff_snoc [OF eff_drop_key eff_base [OF this]] show ?thesis
    by simp
qed

lemma process_syscall_close_eff [eff_intros]:
  "eff p s (process_syscall_close e r args pt s)"
proof -
  let ?k = "gen_tgid_fd (ucast (drop_bit 32 pt)) (cl_fd args)"
  show ?thesis
  proof (cases "bpf_map_lookup_elem (conn_info_map s) ?k")
    case (Some ci)
    then show ?thesis
      using drop_conn_eff [OF refl, where p = p and s = s and k = ?k and e = e and ts = 0
          and key = "conn_sock_key ci"]
      by (simp add: process_syscall_close_def Let_def)
  qed (simp add: process_syscall_close_def Let_def)
qed

lemma process_syscall_connect_eff [eff_intros]:
  "eff p s (process_syscall_connect e r args pt s)"
  by (auto simp: process_syscall_connect_def Let_def split: prod.split
      intro: match_eff submit_new_conn_eff [THEN eff_then])

lemma process_syscall_accept_eff [eff_intros]:
  "eff p s (process_syscall_accept e r args pt s)"
  by (auto simp: process_syscall_accept_def Let_def split: prod.split
      intro: match_eff submit_new_conn_eff [THEN eff_then])

lemma process_implicit_conn_eff [eff_intros]:
  "eff p s (process_implicit_conn e pt args fn r s)"
  by (auto simp: process_implicit_conn_def Let_def split: prod.split
      intro: match_eff submit_new_conn_eff [THEN eff_then])

lemma propagate_eff:
  "propagate_fd_to_uprobe e p fd n s = (b, s') \<Longrightarrow> eff p s s'"
  by (auto simp: propagate_fd_to_uprobe_def goroutines_def Let_def split: option.splits if_splits
      intro!: eff_posts)

section \<open>Stashed arguments\<close>

lemma stash_eff [eff_intros]:
  "eff p s (stash direct p args s)" "eff p s (stash_write direct p args s)"
  "eff p s (unstash direct p s)" "eff p s (stash_connect p cargs s)" "eff p s (unstash_connect p s)"
  "eff p s (stash_peer p fd addr s)"
  by (auto simp: stash_def stash_write_def unstash_def stash_connect_def unstash_connect_def
      stash_peer_def intro: eff_posts)

lemma finish_peer_eff [eff_intros]: "pid_tgid e = p \<Longrightarrow> eff p s (finish_peer e ok fn r s)"
  by (auto simp: finish_peer_def Let_def split: option.split
      intro: stash_eff(5) [THEN eff_then] process_implicit_conn_eff)

lemma finish_data_eff [eff_intros]:
  assumes "pid_tgid e = p"
  shows "eff p s (finish_data e direct vecs n args s)"
proof -
  let ?a = "args\<lparr>da_end_ts := ktime e KT_exit\<rparr>"
  obtain b s1 where b: "propagate_fd_to_uprobe e p (da_fd ?a) (ucast n) (stash_write direct p ?a s) = (b, s1)"
    by force
  from eff_trans [OF stash_eff(2) propagate_eff [OF b]] have "eff p s s1" .
  then show ?thesis
    using assms b
    by (simp add: finish_data_def Let_def)
      (auto intro: process_syscall_data_eff [THEN eff_then] process_syscall_data_vecs_eff [THEN eff_then])
qed

section \<open>Packet path\<close>

lemma handle_nat_eff [eff_intros]: "eff p s (handle_nat e ct s)"
  by (auto simp: handle_nat_def Let_def split: option.split intro!: eff_posts)

lemma parse_kern_evt_body_eff [eff_intros]: "eff p s (parse_kern_evt_body e param s)"
  by (auto simp: parse_kern_evt_body_def Let_def in_table_def split: option.split
      intro!: eff_base eff_kern_evt)

lemma report_kern_evt_eff [eff_intros]: "eff p s (report_kern_evt e param s)"
proof (cases "bpf_map_lookup_elem (sock_key_conn_id_map s) (kb_key param)")
  case None
  then show ?thesis
    by (auto simp: report_kern_evt_def Let_def split: option.split intro!: eff_base eff_first_packet)
next
  case (Some cid)
  then show ?thesis
    by (auto simp: report_kern_evt_def Let_def in_table_def split: option.split
        intro!: eff_base eff_kern_evt)
qed

lemma packet_initial_seq_eff: "packet_initial_seq e step tcp key s = (r, s') \<Longrightarrow> eff p s s'"
  by (auto simp: packet_initial_seq_def Let_def split: option.splits if_splits intro!: eff_posts)

lemma parse_skb_l3_eff [eff_intros]: "eff p s (snd (parse_skb_l3 e skb step l3 seq key s))"
  by (auto simp: parse_skb_l3_def Let_def split: prod.split option.split
      intro!: report_kern_evt_eff [THEN eff_then] dest: packet_initial_seq_eff [where p = p])

lemma parse_skb_eff [eff_intros]: "eff p s (snd (parse_skb e skbp b step s))"
  by (auto simp: parse_skb_def Let_def parse_skb_l3_eff split: option.split)

lemma handle_skb_data_copy_eff [eff_intros]: "eff p s (handle_skb_data_copy e skb off len s)"
  by (auto simp: handle_skb_data_copy_def Let_def parse_kern_evt_body_eff split: option.split)

lemma dev_xmit_loop_eff [eff_intros]: "eff p s (dev_xmit_loop n e skb s)"
proof (induction n arbitrary: skb s)
  case (Suc n)
  have "eff p s (snd (parse_skb e skb False DEV_OUT s))"
    by (rule parse_skb_eff)
  then show ?case
    using eff_trans Suc by (auto simp: Let_def)
qed simp

lemma handle_ip_queue_xmit_eff [eff_intros]: "eff p s (handle_ip_queue_xmit e skb s)"
  by (auto simp: handle_ip_queue_xmit_def Let_def report_kern_evt_eff split: option.split)

lemma tcp_destroy_sock_eff [eff_intros]: "eff p s (tcp_destroy_sock e sk s)"
proof -
  let ?key = "(snd (parse_sock_key_sk e sk sock_key_zero))\<lparr>sport := bpf_ntohs (inet_sport (sock_read e sk))\<rparr>"
  let ?s = "s\<lparr>sock_xmit_map := bpf_map_delete_elem (sock_xmit_map s) ?key\<rparr>"
  have x: "eff p s ?s"
    by (auto intro!: eff_posts)
  show ?thesis
  proof (cases "bpf_map_lookup_elem (sock_key_conn_id_map s) ?key")
    case (Some cid)
    show ?thesis
      using eff_trans [OF x drop_conn_eff [OF refl, where k = "cs_tgid_fd cid" and e = e and ts = 0 and key = ?key]] Some
      by (simp add: tcp_destroy_sock_def Let_def)
  qed (use x in \<open>simp add: tcp_destroy_sock_def Let_def\<close>)
qed

section \<open>TLS programs\<close>

lemma set_conn_as_ssl_eff [eff_intros]: "eff p s (set_conn_as_ssl tgid fd s)"
  by (auto simp: set_conn_as_ssl_def Let_def split: option.split intro: store_eff)

lemma tls_report_eff:
  assumes "process_syscall_data_with_conn_info e args k direct n sl True True (ci0\<lparr>ssl := True\<rparr>) s = (ci', s')"
    and "bpf_map_lookup_elem (conn_info_map s) k = Some ci0"
    and "conn_evolves ci' c"
  shows "eff p s (s'\<lparr>conn_info_map := bpf_map_store (conn_info_map s') k c\<rparr>)"
proof -
  have "conn_evolves ci0 (ci0\<lparr>ssl := True\<rparr>)" by simp
  note r = process_data_conn_eff [OF assms(1,2) this]
  have "conn_evolves ci0 c"
    using r(3) assms(3) by (rule conn_evolves_trans)
  then show ?thesis
    using eff_trans [OF r(1) store_eff] r(2) assms(2) by simp
qed

lemma process_ssl_data_eff [eff_intros]: "eff p s (process_ssl_data e ctx pt direct args sl s)"
  by (auto simp: process_ssl_data_def Let_def split: option.split prod.split
      intro: tls_report_eff)

lemma ssl_entry_eff [eff_intros]:
  assumes "pid_tgid e = p"
  shows "eff p s (do_SSL_read_entry_offset off e ctx s)" "eff p s (do_SSL_write_entry_offset off e ctx s)"
    and "eff p s (do_SSL_read_entry off e ctx b s)" "eff p s (do_SSL_write_entry off e ctx b s)"
  using assms
  by (auto simp: do_SSL_read_entry_offset_def do_SSL_write_entry_offset_def do_SSL_read_entry_def
      do_SSL_write_entry_def Let_def intro!: eff_posts set_conn_as_ssl_eff [THEN eff_then])

lemma ssl_ret_offset_eff [eff_intros]:
  assumes "pid_tgid e = p"
  shows "eff p s (do_SSL_read_ret_offset e ctx s)" "eff p s (do_SSL_write_ret_offset e ctx s)"
  using assms
  by (auto simp: do_SSL_read_ret_offset_def do_SSL_write_ret_offset_def Let_def split: option.split
      intro!: eff_posts process_ssl_data_eff [THEN eff_then])

lemma ssl_ret_eff [eff_intros]:
  assumes "pid_tgid e = p"
  shows "eff p s (do_SSL_read_ret e ctx s)" "eff p s (do_SSL_write_ret e ctx s)"
  using assms
  by (auto simp: do_SSL_read_ret_def do_SSL_write_ret_def Let_def split: option.split
      intro!: eff_posts process_ssl_data_eff [THEN eff_then])

lemma go_regs_eff: "go_regabi_regs e ctx s = (r, s') \<Longrightarrow> eff p s s'"
  by (auto simp: go_regabi_regs_def Let_def split: option.splits intro!: eff_posts)

lemma tls_conn_entry_eff: "pid_tgid e = p \<Longrightarrow> eff p s (tls_conn_entry e ctx c_loc b_loc s)"
  by (auto simp: tls_conn_entry_def goroutines_def current_tgid_def Let_def split: option.split prod.split
      intro!: eff_posts dest: go_regs_eff [where p = p])

lemma tls_conn_return_core_eff [eff_intros]:
  "eff p s (tls_conn_return_core e ctx r0 r1 direct fn args g s)"
  by (auto simp: tls_conn_return_core_def Let_def split: option.split prod.split
      intro: tls_report_eff [THEN eff_then] dest: go_regs_eff [where p = p])

lemma close_tls_op_eff: "g \<in> goroutines p \<Longrightarrow> eff p s (close_tls_op g s)"
  by (auto simp: close_tls_op_def intro!: eff_posts)

end
