(* ===== verification/Conn_Spec.thy ===== *)
theory Conn_Spec
  imports Agent_Effects
begin

text \<open>
  The connection table as user space may think of it: a partial map from process and
  descriptor to a connection with its two end points and the number of bytes sent and
  received, on which three operations act: open, transfer and close. The programs on system
  calls implement these operations; each is shown to perform exactly the operations its
  arguments and the state call for.
\<close>

section \<open>Abstract table\<close>

record conn_view =
  view_id :: conn_id_t
  view_local :: sockaddr_t
  view_remote :: sockaddr_t
  view_sent :: u64
  view_received :: u64

datatype conn_op =
    Open u64 conn_view
  | Transfer u64 traffic_direction_t u64
  | Close u64

definition transfer :: "traffic_direction_t \<Rightarrow> u64 \<Rightarrow> conn_view \<Rightarrow> conn_view" where
  "transfer direct n c =
     (if direct = kEgress then c\<lparr>view_sent := view_sent c + n\<rparr>
      else c\<lparr>view_received := view_received c + n\<rparr>)"

fun apply_op :: "conn_op \<Rightarrow> (u64 \<rightharpoonup> conn_view) \<Rightarrow> (u64 \<rightharpoonup> conn_view)" where
  "apply_op (Open k c) t = t(k \<mapsto> c)"
| "apply_op (Transfer k direct n) t = t(k := map_option (transfer direct n) (t k))"
| "apply_op (Close k) t = t(k := None)"

definition view_of :: "conn_info_t \<Rightarrow> conn_view" where
  "view_of ci = \<lparr>view_id = conn_id ci, view_local = laddr ci, view_remote = raddr ci,
     view_sent = write_bytes ci, view_received = read_bytes ci\<rparr>"

definition table_view :: "bpf_state \<Rightarrow> (u64 \<rightharpoonup> conn_view)" where
  "table_view s k = map_option view_of (bpf_map_lookup_elem (conn_info_map s) k)"

section \<open>The operations a program performs\<close>

text \<open>A new entry is stored when the filters admit it and the table has a slot for it.\<close>

definition opens :: "conn_info_t \<Rightarrow> u64 \<Rightarrow> bpf_state \<Rightarrow> bool" where
  "opens ci k s \<longleftrightarrow> admits ci s \<and>
     (bpf_map_lookup_elem (conn_info_map s) k \<noteq> None \<or> \<not> bpf_map_full (conn_info_map s))"

definition open_ops :: "conn_info_t \<Rightarrow> u64 \<Rightarrow> bpf_state \<Rightarrow> conn_op list" where
  "open_ops ci k s = (if opens ci k s then [Open k (view_of ci)] else [])"

text \<open>The entry a data call creates when the descriptor has none.\<close>

definition new_conn :: "bpf_env \<Rightarrow> u32 \<Rightarrow> u64 \<Rightarrow> bpf_state \<Rightarrow> conn_info_t option" where
  "new_conn e fd k s =
     (let sk = get_socket_from_fd e fd in
      if sk = 0 then None
      else map_option (\<lambda>ci. data_conn_info e sk k (socket_key e sk) (ci\<lparr>protocol := kProtocolUnset\<rparr>))
             (conn_info_t_map s (cur_cpu e)))"

text \<open>A sendfile call builds it from a zeroed struct instead of the per-CPU buffer.\<close>

definition sendfile_conn :: "bpf_env \<Rightarrow> u32 \<Rightarrow> u64 \<Rightarrow> conn_info_t option" where
  "sendfile_conn e fd k =
     (let sk = get_socket_from_fd e fd in
      if sk = 0 then None
      else Some (data_conn_info e sk k (socket_key e sk) (conn_info_zero\<lparr>protocol := kProtocolUnset\<rparr>)))"

text \<open>A transfer on the connection of \<open>k\<close>, opened as \<open>new\<close> when there is none.\<close>

definition transfer_ops ::
    "conn_info_t option \<Rightarrow> u64 \<Rightarrow> traffic_direction_t \<Rightarrow> u64 \<Rightarrow> bpf_state \<Rightarrow> conn_op list" where
  "transfer_ops new k direct n s =
     (if bpf_map_lookup_elem (conn_info_map s) k \<noteq> None then [Transfer k direct n]
      else case new of
          None \<Rightarrow> []
        | Some ci \<Rightarrow> if opens ci k s then [Open k (view_of ci), Transfer k direct n] else [])"

definition data_ops ::
    "bpf_env \<Rightarrow> u32 \<Rightarrow> u64 \<Rightarrow> traffic_direction_t \<Rightarrow> u64 \<Rightarrow> bpf_state \<Rightarrow> conn_op list" where
  "data_ops e fd k direct n s = transfer_ops (new_conn e fd k s) k direct n s"

definition tgid_traced :: "bpf_env \<Rightarrow> u64 \<Rightarrow> bpf_state \<Rightarrow> bool" where
  "tgid_traced e pt s \<longleftrightarrow> fst (match_trace_tgid e (ucast (drop_bit 32 pt)) s) \<noteq> TARGET_TGID_UNMATCHED"

text \<open>
  What a call that looks up or opens the connection of \<open>k\<close> has found, with the transfer still to
  be counted.
\<close>

definition found_as :: "conn_info_t option \<Rightarrow> u64 \<Rightarrow> traffic_direction_t \<Rightarrow> u64 \<Rightarrow> conn_info_t option \<Rightarrow>
    bpf_state \<Rightarrow> bpf_state \<Rightarrow> bool" where
  "found_as new k direct n found s s' \<longleftrightarrow>
     (case found of
        None \<Rightarrow> transfer_ops new k direct n s = [] \<and> table_view s' = table_view s
      | Some ci \<Rightarrow> bpf_map_lookup_elem (conn_info_map s') k = Some ci \<and>
          fold apply_op (transfer_ops new k direct n s) (table_view s) =
            (table_view s')(k \<mapsto> transfer direct n (view_of ci)))"

section \<open>Lemmas\<close>

lemma view_of_upd [simp]:
  "view_of (ci\<lparr>ssl := b\<rparr>) = view_of ci"
  "view_of (ci\<lparr>prepend_length_header := b\<rparr>) = view_of ci"
  "view_of (conn_after_infer e a n t d tp ci) = view_of ci"
  "view_of (add_bytes d n ci) = transfer d n (view_of ci)"
  by (simp_all add: view_of_def transfer_def add_bytes_def)

lemma table_view_cong: "conn_info_map s' = conn_info_map s \<Longrightarrow> table_view s' = table_view s"
  by (simp add: table_view_def fun_eq_iff)

lemma table_view_create:
  "table_view (snd (create_conn_info e ci k key ts s)) = fold apply_op (open_ops ci k s) (table_view s)"
  by (auto simp: table_view_def fun_eq_iff create_conn_info_maps open_ops_def opens_def bpf_lookup)

lemma table_view_store:
  "bpf_map_lookup_elem (conn_info_map s) k = Some ci0 \<Longrightarrow>
     table_view (store_conn_info k ci s) = (table_view s)(k \<mapsto> view_of ci)"
  by (simp add: table_view_def fun_eq_iff store_conn_info_def bpf_lookup)

lemma opens_pid_map [simp]: "opens ci k (s\<lparr>filter_pid_map := m\<rparr>) = opens ci k s"
  by (simp add: opens_def)

lemma new_conn_pid_map [simp]: "new_conn e fd k (s\<lparr>filter_pid_map := m\<rparr>) = new_conn e fd k s"
  by (simp add: new_conn_def Let_def)

lemma ops_pid_map [simp]:
  "open_ops ci k (s\<lparr>filter_pid_map := m\<rparr>) = open_ops ci k s"
  "transfer_ops new k d n (s\<lparr>filter_pid_map := m\<rparr>) = transfer_ops new k d n s"
  "data_ops e fd k d n (s\<lparr>filter_pid_map := m\<rparr>) = data_ops e fd k d n s"
  "table_view (s\<lparr>filter_pid_map := m\<rparr>) = table_view s"
  by (simp_all add: open_ops_def transfer_ops_def data_ops_def table_view_def fun_eq_iff split: option.split)

lemma ops_match:
  assumes "match_trace_tgid e tgid s = (m, s')"
  shows "open_ops ci k s' = open_ops ci k s" "data_ops e' fd k d n s' = data_ops e' fd k d n s"
    and "table_view s' = table_view s" and "transfer_ops new k d n s' = transfer_ops new k d n s"
  using match_trace_tgid_shape [of e tgid s] assms by auto

text \<open>Finding or creating the connection of a call.\<close>

lemma found_there:
  "bpf_map_lookup_elem (conn_info_map s) k = Some ci \<Longrightarrow> found_as new k direct n (Some ci) s s"
  by (simp add: found_as_def transfer_ops_def table_view_def)

lemma found_none:
  "bpf_map_lookup_elem (conn_info_map s) k = None \<Longrightarrow> found_as None k direct n None s s"
  by (simp add: found_as_def transfer_ops_def)

lemma found_new:
  assumes "bpf_map_lookup_elem (conn_info_map s) k = None"
    and "create_conn_info_in_data_syscall e sk k direct n ci0 ts s = (created, ci, s1)"
    and "conn_info_map s' = conn_info_map s1"
  shows "found_as (Some (data_conn_info e sk k (socket_key e sk) ci0)) k direct n
    (if created then bpf_map_lookup_elem (conn_info_map s') k else None) s s'"
proof -
  let ?ci = "data_conn_info e sk k (socket_key e sk) ci0"
  let ?c = "create_conn_info e ?ci k (socket_key e sk) ts s"
  have map: "conn_info_map s' = conn_info_map (snd ?c)" and created: "created = admits ?ci s"
    using assms create_conn_info_maps(3) [of e ?ci k "socket_key e sk" ts s]
    by (auto simp: create_conn_info_in_data_syscall_def socket_key_def [symmetric] Let_def
        split: prod.splits if_splits)
  have view: "table_view s' = fold apply_op (open_ops ?ci k s) (table_view s)"
    using table_view_cong [OF map] table_view_create by simp
  show ?thesis
    using assms(1) map created view
    by (auto simp: found_as_def transfer_ops_def open_ops_def opens_def create_conn_info_maps bpf_lookup
        fun_eq_iff split: if_splits)
qed

lemma find_or_create_view:
  assumes "find_or_create_conn e args k direct n s = (found, s')"
  shows "found_as (new_conn e (da_fd args) k s) k direct n found s s'"
proof (cases "bpf_map_lookup_elem (conn_info_map s) k")
  case (Some ci)
  then have "found = Some ci \<and> s' = s"
    using assms by (simp add: find_or_create_conn_def)
  then show ?thesis
    using found_there [OF Some] by simp
next
  case None
  let ?sk = "get_socket_from_fd e (da_fd args)"
  show ?thesis
  proof (cases "new_conn e (da_fd args) k s")
    case no: None
    then have "found = None \<and> s' = s"
      using assms None by (auto simp: find_or_create_conn_def new_conn_def Let_def split: if_splits)
    then show ?thesis
      using no found_none [OF None] by simp
  next
    case (Some c)
    then obtain old where old: "?sk \<noteq> 0" "conn_info_t_map s (cur_cpu e) = Some old"
        "c = data_conn_info e ?sk k (socket_key e ?sk) (old\<lparr>protocol := kProtocolUnset\<rparr>)"
      by (auto simp: new_conn_def Let_def split: if_splits)
    obtain created ci s1 where new: "create_conn_info_in_data_syscall e ?sk k direct n
        (old\<lparr>protocol := kProtocolUnset\<rparr>) (da_end_ts args - 1) s = (created, ci, s1)"
      by (metis prod_cases3)
    then have "found = (if created then bpf_map_lookup_elem (conn_info_map s') k else None)"
      "conn_info_map s' = conn_info_map s1"
      using assms None old by (auto simp: find_or_create_conn_def Let_def)
    then show ?thesis
      using found_new [OF None new] Some old(3) by simp
  qed
qed

section \<open>Refinement\<close>

lemma process_data_conn_view:
  assumes "process_syscall_data_with_conn_info e args k direct n sl is_ssl with_data ci s = (ci', s')"
  shows "view_of ci' = view_of ci" and "conn_info_map s' = conn_info_map s"
  using assms
  by (auto simp: process_syscall_data_with_conn_info_cases report_syscall_evt_def report_ssl_evt_def
      split: if_splits)

lemma report_vecs_view:
  assumes "report_vecs_with_conn_info e args k direct n ci s = (ci', s')"
  shows "view_of ci' = view_of ci" and "conn_info_map s' = conn_info_map s"
proof -
  obtain c t where vecs: "(if protocol ci = kProtocolUnset \<or> protocol ci = kProtocolUnknown
      then infer_vecs e args direct n 0 ci s else (ci, s)) = (c, t)"
    by force
  have "view_of c = view_of ci \<and> conn_info_map t = conn_info_map s"
    using vecs infer_vecs_cases [of e args direct n 0 ci s]
    by (auto simp: infer_and_report_eq Let_def split: if_splits)
  then show "view_of ci' = view_of ci" and "conn_info_map s' = conn_info_map s"
    using assms [unfolded report_vecs_with_conn_info_def Let_def vecs]
    by (auto split: if_splits)
qed

lemma store_after_report:
  assumes found: "found_as new k direct n (Some ci) s s1"
    and report: "view_of ci' = view_of ci" "conn_info_map s2 = conn_info_map s1"
  shows "table_view (store_conn_info k (add_bytes direct n ci') s2) =
    fold apply_op (transfer_ops new k direct n s) (table_view s)"
proof -
  have f: "bpf_map_lookup_elem (conn_info_map s1) k = Some ci"
    "fold apply_op (transfer_ops new k direct n s) (table_view s) =
      (table_view s1)(k \<mapsto> transfer direct n (view_of ci))"
    using found by (simp_all add: found_as_def)
  have "table_view (store_conn_info k (add_bytes direct n ci') s2) =
      (table_view s2)(k \<mapsto> view_of (add_bytes direct n ci'))"
    using f report(2) by (intro table_view_store) simp
  also have "\<dots> = (table_view s1)(k \<mapsto> transfer direct n (view_of ci))"
    using report table_view_cong [OF report(2)] by simp
  finally show ?thesis
    using f by simp
qed

lemma process_syscall_data_view:
  assumes "0 < sint n" and "tgid_traced e pt s"
  shows "table_view (process_syscall_data e args pt direct n b s) =
    fold apply_op (data_ops e (da_fd args) (gen_tgid_fd (ucast (drop_bit 32 pt)) (da_fd args)) direct n s)
      (table_view s)"
proof -
  let ?k = "gen_tgid_fd (ucast (drop_bit 32 pt)) (da_fd args)"
  obtain m s0 where m: "match_trace_tgid e (ucast (drop_bit 32 pt)) s = (m, s0)"
    by force
  obtain found s1 where found: "find_or_create_conn e args ?k direct n s0 = (found, s1)"
    by force
  have traced: "m \<noteq> TARGET_TGID_UNMATCHED"
    using assms(2) m by (simp add: tgid_traced_def)
  show ?thesis
  proof (cases found)
    case None
    then show ?thesis
      using assms(1) traced find_or_create_view [OF found] ops_match(3) [OF m] ops_match(2) [OF m, of e]
      by (simp add: process_syscall_data_def Let_def m found found_as_def data_ops_def)
  next
    case (Some ci)
    let ?c = "if b then ci\<lparr>ssl := True\<rparr> else ci"
    obtain ci' s2 where report: "process_syscall_data_with_conn_info e args ?k direct n 0 False
        (\<not> ssl ?c) ?c s1 = (ci', s2)"
      by force
    have "view_of ?c = view_of ci"
      by simp
    then show ?thesis
      using assms(1) traced store_after_report [OF find_or_create_view [OF found, unfolded Some]]
        process_data_conn_view [OF report] ops_match(3) [OF m] ops_match(2) [OF m, of e]
      by (simp add: process_syscall_data_def Let_def m found Some report data_ops_def)
  qed
qed

lemma process_syscall_data_vecs_view:
  assumes "0 < sint n" and "0 \<le> sint (da_fd args)" and "da_iov args \<noteq> 0" and "da_iovlen args \<noteq> 0"
  shows "table_view (process_syscall_data_vecs e args pt direct n b s) =
    fold apply_op (data_ops e (da_fd args) (gen_tgid_fd (ucast (drop_bit 32 pt)) (da_fd args)) direct n s)
      (table_view s)"
proof -
  let ?k = "gen_tgid_fd (ucast (drop_bit 32 pt)) (da_fd args)"
  obtain found s1 where found: "find_or_create_conn e args ?k direct n s = (found, s1)"
    by force
  show ?thesis
  proof (cases found)
    case None
    then show ?thesis
      using assms find_or_create_view [OF found]
      by (simp add: process_syscall_data_vecs_def Let_def found found_as_def data_ops_def)
  next
    case (Some ci)
    let ?c = "if b then ci\<lparr>ssl := True\<rparr> else ci"
    obtain ci' s2 where report: "report_vecs_with_conn_info e args ?k direct n ?c s1 = (ci', s2)"
      by force
    have "view_of ?c = view_of ci"
      by simp
    then show ?thesis
      using assms store_after_report [OF find_or_create_view [OF found, unfolded Some]]
        report_vecs_view [OF report]
      by (simp add: process_syscall_data_vecs_def Let_def found Some report data_ops_def)
  qed
qed

lemma sendfile_conn_info_map [simp]:
  "conn_info_map (process_sendfile_with_conn_info e args k d n ci is_ssl s) = conn_info_map s"
  by (simp add: process_sendfile_with_conn_info_def)

lemma process_syscall_sendfile_view:
  assumes "0 \<le> sint (sf_out_fd args)" "0 < sint n" and "tgid_traced e pt s"
  shows "table_view (process_syscall_sendfile e pt args n s) =
    fold apply_op
      (let k = gen_tgid_fd (ucast (drop_bit 32 pt)) (sf_out_fd args)
       in transfer_ops (sendfile_conn e (sf_out_fd args) k) k kEgress n s)
      (table_view s)"
proof -
  let ?k = "gen_tgid_fd (ucast (drop_bit 32 pt)) (sf_out_fd args)"
  let ?sk = "get_socket_from_fd e (sf_out_fd args)"
  obtain m s0 where m: "match_trace_tgid e (ucast (drop_bit 32 pt)) s = (m, s0)"
    by force
  have traced: "m \<noteq> TARGET_TGID_UNMATCHED"
    using assms(3) m by (simp add: tgid_traced_def)
  let ?find = "case bpf_map_lookup_elem (conn_info_map s0) ?k of
      None \<Rightarrow>
        if ?sk = 0 then (None, s0)
        else (case create_conn_info_in_data_syscall e ?sk ?k kEgress n
            (conn_info_zero\<lparr>protocol := kProtocolUnset\<rparr>) (sf_end_ts args - 1) s0 of
          (created, _, s) \<Rightarrow> (if created then bpf_map_lookup_elem (conn_info_map s) ?k else None, s))
    | Some ci \<Rightarrow> (Some ci, s0)"
  obtain found s1 where find: "?find = (found, s1)"
    by force
  have as: "found_as (sendfile_conn e (sf_out_fd args) ?k) ?k kEgress n found s0 s1"
  proof (cases "bpf_map_lookup_elem (conn_info_map s0) ?k")
    case (Some ci)
    then show ?thesis
      using find found_there [OF Some] by simp
  next
    case None
    obtain created ci s' where new: "create_conn_info_in_data_syscall e ?sk ?k kEgress n
        (conn_info_zero\<lparr>protocol := kProtocolUnset\<rparr>) (sf_end_ts args - 1) s0 = (created, ci, s')"
      by (metis prod_cases3)
    show ?thesis
      using find None new found_none [OF None] found_new [OF None new refl]
      by (simp add: sendfile_conn_def Let_def split: if_splits)
  qed
  have "table_view (process_syscall_sendfile e pt args n s) = table_view (case found of None \<Rightarrow> s1
      | Some ci \<Rightarrow> store_conn_info ?k (add_bytes kEgress n ci)
          (process_sendfile_with_conn_info e args ?k kEgress n ci False s1))"
    using assms(1,2) traced
    unfolding process_syscall_sendfile_def Let_def m prod.case find
    by (simp add: add_bytes_def split: option.split)
  also have "\<dots> = fold apply_op (transfer_ops (sendfile_conn e (sf_out_fd args) ?k) ?k kEgress n s0) (table_view s0)"
    using as store_after_report [of _ ?k kEgress n _ s0 s1]
    by (auto simp: found_as_def split: option.splits)
  finally show ?thesis
    using ops_match(3,4) [OF m] by (simp add: Let_def)
qed

lemma process_syscall_data_unseen:
  assumes "\<not> (0 < sint n \<and> tgid_traced e pt s)"
  shows "table_view (process_syscall_data e args pt direct n b s) = table_view s"
proof -
  obtain m s0 where m: "match_trace_tgid e (ucast (drop_bit 32 pt)) s = (m, s0)"
    by force
  show ?thesis
    using assms ops_match(3) [OF m]
    by (auto simp: process_syscall_data_def tgid_traced_def Let_def m)
qed

lemma submit_new_conn_view:
  "table_view (submit_new_conn e tgid fd addr socket r ts s) =
     fold apply_op (open_ops (submit_conn_info e tgid fd addr socket r) (gen_tgid_fd tgid fd) s) (table_view s)"
  using table_view_cong [OF submit_new_conn_maps(1)] table_view_create by simp

lemma match_then_submit_view:
  assumes "match_trace_tgid e tgid s = (m, s0)"
  shows "table_view (if m = TARGET_TGID_UNMATCHED then s0 else submit_new_conn e tgid fd addr socket r ts s0) =
    fold apply_op (if m = TARGET_TGID_UNMATCHED then []
      else open_ops (submit_conn_info e tgid fd addr socket r) (gen_tgid_fd tgid fd) s) (table_view s)"
  using ops_match [OF assms] by (simp add: submit_new_conn_view)

text \<open>
  Property C14. A data call implements the abstract table: it performs exactly one transfer of its
  byte count in its direction on the connection of its descriptor, opening the connection
  first when the descriptor has none and the filters and the capacity of the table allow it, and
  nothing otherwise. The vectored calls do the same, except that they never ask whether the
  process is traced; sendfile does the same on its outgoing descriptor.
\<close>

theorem data_calls_refine_table:
  "table_view (process_syscall_data e args pt direct n b s) =
     fold apply_op
       (if 0 < sint n \<and> tgid_traced e pt s
        then data_ops e (da_fd args) (gen_tgid_fd (ucast (drop_bit 32 pt)) (da_fd args)) direct n s
        else []) (table_view s) \<and>
   table_view (process_syscall_data_vecs e args pt direct n b s) =
     fold apply_op
       (if 0 < sint n \<and> 0 \<le> sint (da_fd args) \<and> da_iov args \<noteq> 0 \<and> da_iovlen args \<noteq> 0
        then data_ops e (da_fd args) (gen_tgid_fd (ucast (drop_bit 32 pt)) (da_fd args)) direct n s
        else []) (table_view s) \<and>
   table_view (process_syscall_sendfile e pt sargs n s) =
     fold apply_op
       (if 0 < sint n \<and> 0 \<le> sint (sf_out_fd sargs) \<and> tgid_traced e pt s
        then let k = gen_tgid_fd (ucast (drop_bit 32 pt)) (sf_out_fd sargs)
          in transfer_ops (sendfile_conn e (sf_out_fd sargs) k) k kEgress n s
        else []) (table_view s)"
proof (intro conjI)
  show "table_view (process_syscall_data e args pt direct n b s) =
     fold apply_op
       (if 0 < sint n \<and> tgid_traced e pt s
        then data_ops e (da_fd args) (gen_tgid_fd (ucast (drop_bit 32 pt)) (da_fd args)) direct n s
        else []) (table_view s)"
    by (simp add: process_syscall_data_view process_syscall_data_unseen)
next
  show "table_view (process_syscall_data_vecs e args pt direct n b s) =
     fold apply_op
       (if 0 < sint n \<and> 0 \<le> sint (da_fd args) \<and> da_iov args \<noteq> 0 \<and> da_iovlen args \<noteq> 0
        then data_ops e (da_fd args) (gen_tgid_fd (ucast (drop_bit 32 pt)) (da_fd args)) direct n s
        else []) (table_view s)"
    by (auto simp: process_syscall_data_vecs_view) (auto simp: process_syscall_data_vecs_def Let_def)
next
  obtain m s0 where m: "match_trace_tgid e (ucast (drop_bit 32 pt)) s = (m, s0)"
    by force
  have "table_view (process_syscall_sendfile e pt sargs n s) = table_view s"
    if "\<not> (0 < sint n \<and> 0 \<le> sint (sf_out_fd sargs) \<and> tgid_traced e pt s)"
    using that ops_match(3) [OF m] by (auto simp: process_syscall_sendfile_def tgid_traced_def Let_def m)
  then show "table_view (process_syscall_sendfile e pt sargs n s) =
     fold apply_op
       (if 0 < sint n \<and> 0 \<le> sint (sf_out_fd sargs) \<and> tgid_traced e pt s
        then let k = gen_tgid_fd (ucast (drop_bit 32 pt)) (sf_out_fd sargs)
          in transfer_ops (sendfile_conn e (sf_out_fd sargs) k) k kEgress n s
        else []) (table_view s)"
    by (simp add: process_syscall_sendfile_view)
qed

text \<open>
  Property C15. Connect, accept and close implement the abstract table: a connect that succeeds or
  is in progress and an accept that succeeds open the connection of their descriptor when the
  process is traced and filters and capacity allow it, a close that succeeds closes it, and
  every other outcome leaves the table as it is.
\<close>

theorem open_close_refine_table:
  "table_view (process_syscall_connect e r cargs pt s) =
     fold apply_op
       (if (0 \<le> sint r \<or> sint r = - EINPROGRESS) \<and> 0 \<le> sint (co_fd cargs) \<and> tgid_traced e pt s
        then open_ops (submit_conn_info e (ucast (drop_bit 32 pt)) (co_fd cargs) (co_addr cargs) 0 kRoleClient)
          (gen_tgid_fd (ucast (drop_bit 32 pt)) (co_fd cargs)) s
        else []) (table_view s) \<and>
   table_view (process_syscall_accept e ret aargs pt s) =
     fold apply_op
       (if 0 \<le> sint ret \<and> tgid_traced e pt s
        then open_ops (submit_conn_info e (ucast (drop_bit 32 pt)) (ucast ret) (ac_addr aargs)
            (ac_sock_alloc_socket aargs) kRoleServer)
          (gen_tgid_fd (ucast (drop_bit 32 pt)) (ucast ret)) s
        else []) (table_view s) \<and>
   table_view (process_syscall_close e r largs pt s) =
     fold apply_op
       (if 0 \<le> sint r then [Close (gen_tgid_fd (ucast (drop_bit 32 pt)) (cl_fd largs))] else [])
       (table_view s)"
proof (intro conjI)
  obtain m s0 where m: "match_trace_tgid e (ucast (drop_bit 32 pt)) s = (m, s0)"
    by force
  have t: "tgid_traced e pt s \<longleftrightarrow> m \<noteq> TARGET_TGID_UNMATCHED"
    by (simp add: tgid_traced_def m)
  note view = match_then_submit_view [OF m]
  show "table_view (process_syscall_connect e r cargs pt s) =
     fold apply_op
       (if (0 \<le> sint r \<or> sint r = - EINPROGRESS) \<and> 0 \<le> sint (co_fd cargs) \<and> tgid_traced e pt s
        then open_ops (submit_conn_info e (ucast (drop_bit 32 pt)) (co_fd cargs) (co_addr cargs) 0 kRoleClient)
          (gen_tgid_fd (ucast (drop_bit 32 pt)) (co_fd cargs)) s
        else []) (table_view s)"
    using view [of "co_fd cargs" "co_addr cargs" 0 kRoleClient "co_start_ts cargs"]
    by (auto simp: process_syscall_connect_def Let_def m t)
  show "table_view (process_syscall_accept e ret aargs pt s) =
     fold apply_op
       (if 0 \<le> sint ret \<and> tgid_traced e pt s
        then open_ops (submit_conn_info e (ucast (drop_bit 32 pt)) (ucast ret) (ac_addr aargs)
            (ac_sock_alloc_socket aargs) kRoleServer)
          (gen_tgid_fd (ucast (drop_bit 32 pt)) (ucast ret)) s
        else []) (table_view s)"
    using view [of "ucast ret" "ac_addr aargs" "ac_sock_alloc_socket aargs" kRoleServer 0]
    by (auto simp: process_syscall_accept_def Let_def m t)
  show "table_view (process_syscall_close e r largs pt s) =
     fold apply_op
       (if 0 \<le> sint r then [Close (gen_tgid_fd (ucast (drop_bit 32 pt)) (cl_fd largs))] else [])
       (table_view s)"
    by (auto simp: process_syscall_close_def Let_def table_view_def fun_eq_iff bpf_lookup split: option.split)
qed

end
