(* ===== verification/Agent_Machine.thy ===== *)
theory Agent_Machine
  imports Agent_Effects
begin

text \<open>
  The whole agent as a state machine. A step is one run of one BPF program, with any
  arguments and any environment, in some thread, or one action of user space on the maps it
  shares with the programs. Programs run to completion before the next one starts. The
  theorems here hold in every state the machine can reach from the state after loading.
\<close>

section \<open>Steps\<close>

text \<open>Every program of \<open>pktlatency.bpf.c\<close>, \<open>openssl.h\<close> and \<open>gotls.bpf.c\<close>.\<close>

inductive prog_step :: "u64 \<Rightarrow> bpf_state \<Rightarrow> bpf_state \<Rightarrow> bool" for p where
  "pid_tgid e = p \<Longrightarrow> prog_step p s (kprobe__nf_nat_packet e a s)"
| "pid_tgid e = p \<Longrightarrow> prog_step p s (kprobe__nf_nat_manip_pkt e a s)"
| "prog_step p s (snd (xdp_proxy s))"
| "pid_tgid e = p \<Longrightarrow> prog_step p s (skb_copy_datagram_iter e a i j s)"
| "pid_tgid e = p \<Longrightarrow> prog_step p s (skb_copy_datagram_iovec e a i j s)"
| "pid_tgid e = p \<Longrightarrow> prog_step p s (tracepoint__skb_copy_datagram_iovec e a s)"
| "pid_tgid e = p \<Longrightarrow> prog_step p s (tracepoint__netif_receive_skb e a s)"
| "prog_step p s (tcp_queue_rcv s)"
| "prog_step p s (tcp_rcv_established s)"
| "pid_tgid e = p \<Longrightarrow> prog_step p s (tcp_v4_do_rcv e a s)"
| "pid_tgid e = p \<Longrightarrow> prog_step p s (tcp_v6_do_rcv e a s)"
| "prog_step p s (tcp_v4_rcv s)"
| "pid_tgid e = p \<Longrightarrow> prog_step p s (ip_rcv_core e a s)"
| "pid_tgid e = p \<Longrightarrow> prog_step p s (dev_hard_start_xmit e a s)"
| "pid_tgid e = p \<Longrightarrow> prog_step p s (dev_queue_xmit e a s)"
| "pid_tgid e = p \<Longrightarrow> prog_step p s (ip_queue_xmit2 e a s)"
| "pid_tgid e = p \<Longrightarrow> prog_step p s (ip_queue_xmit e a s)"
| "pid_tgid e = p \<Longrightarrow> prog_step p s (tcp_destroy_sock e a s)"
| "pid_tgid e = p \<Longrightarrow> prog_step p s (fentry__security_socket_sendmsg e s)"
| "pid_tgid e = p \<Longrightarrow> prog_step p s (security_socket_sendmsg_enter e s)"
| "pid_tgid e = p \<Longrightarrow> prog_step p s (fentry__security_socket_recvmsg e s)"
| "pid_tgid e = p \<Longrightarrow> prog_step p s (security_socket_recvmsg_enter e s)"
| "pid_tgid e = p \<Longrightarrow> prog_step p s (fentry__sys_recvfrom e i a j b s)"
| "pid_tgid e = p \<Longrightarrow> prog_step p s (tracepoint__syscalls__sys_enter_recvfrom e a s)"
| "pid_tgid e = p \<Longrightarrow> prog_step p s (fexit__sys_recvfrom e a s)"
| "pid_tgid e = p \<Longrightarrow> prog_step p s (tracepoint__syscalls__sys_exit_recvfrom e a s)"
| "pid_tgid e = p \<Longrightarrow> prog_step p s (fentry__sys_read e regs s)"
| "pid_tgid e = p \<Longrightarrow> prog_step p s (tracepoint__syscalls__sys_enter_read e a s)"
| "pid_tgid e = p \<Longrightarrow> prog_step p s (fexit__sys_read e a s)"
| "pid_tgid e = p \<Longrightarrow> prog_step p s (tracepoint__syscalls__sys_exit_read e a s)"
| "pid_tgid e = p \<Longrightarrow> prog_step p s (fentry__sys_recvmmsg e regs s)"
| "pid_tgid e = p \<Longrightarrow> prog_step p s (tracepoint__syscalls__sys_enter_recvmmsg e a s)"
| "pid_tgid e = p \<Longrightarrow> prog_step p s (fexit__sys_recvmmsg e a s)"
| "pid_tgid e = p \<Longrightarrow> prog_step p s (tracepoint__syscalls__sys_exit_recvmmsg e a s)"
| "pid_tgid e = p \<Longrightarrow> prog_step p s (fentry__sys_recvmsg e regs s)"
| "pid_tgid e = p \<Longrightarrow> prog_step p s (tracepoint__syscalls__sys_enter_recvmsg e a s)"
| "pid_tgid e = p \<Longrightarrow> prog_step p s (fexit__sys_recvmsg e a s)"
| "pid_tgid e = p \<Longrightarrow> prog_step p s (tracepoint__syscalls__sys_exit_recvmsg e a s)"
| "pid_tgid e = p \<Longrightarrow> prog_step p s (fentry__sys_readv e regs s)"
| "pid_tgid e = p \<Longrightarrow> prog_step p s (tracepoint__syscalls__sys_enter_readv e a s)"
| "pid_tgid e = p \<Longrightarrow> prog_step p s (fexit__sys_readv e a s)"
| "pid_tgid e = p \<Longrightarrow> prog_step p s (tracepoint__syscalls__sys_exit_readv e a s)"
| "pid_tgid e = p \<Longrightarrow> prog_step p s (fentry__sys_sendfile64 e regs s)"
| "pid_tgid e = p \<Longrightarrow> prog_step p s (tracepoint__syscalls__sys_enter_sendfile64 e a s)"
| "pid_tgid e = p \<Longrightarrow> prog_step p s (fexit__sys_sendfile64 e a s)"
| "pid_tgid e = p \<Longrightarrow> prog_step p s (tracepoint__syscalls__sys_exit_sendfile64 e a s)"
| "pid_tgid e = p \<Longrightarrow> prog_step p s (fentry__sys_sendto e i a b s)"
| "pid_tgid e = p \<Longrightarrow> prog_step p s (tracepoint__syscalls__sys_enter_sendto e a s)"
| "pid_tgid e = p \<Longrightarrow> prog_step p s (fexit__sys_sendto e a s)"
| "pid_tgid e = p \<Longrightarrow> prog_step p s (tracepoint__syscalls__sys_exit_sendto e a s)"
| "pid_tgid e = p \<Longrightarrow> prog_step p s (fentry__sys_write e regs s)"
| "pid_tgid e = p \<Longrightarrow> prog_step p s (tracepoint__syscalls__sys_enter_write e a s)"
| "pid_tgid e = p \<Longrightarrow> prog_step p s (fexit__sys_write e a s)"
| "pid_tgid e = p \<Longrightarrow> prog_step p s (tracepoint__syscalls__sys_exit_write e a s)"
| "pid_tgid e = p \<Longrightarrow> prog_step p s (fentry__sys_sendmmsg e i a j s)"
| "pid_tgid e = p \<Longrightarrow> prog_step p s (tracepoint__syscalls__sys_enter_sendmmsg e a s)"
| "pid_tgid e = p \<Longrightarrow> prog_step p s (fexit__sys_sendmmsg e i s)"
| "pid_tgid e = p \<Longrightarrow> prog_step p s (tracepoint__syscalls__sys_exit_sendmmsg e a s)"
| "pid_tgid e = p \<Longrightarrow> prog_step p s (fentry__sys_sendmsg e i a s)"
| "pid_tgid e = p \<Longrightarrow> prog_step p s (tracepoint__syscalls__sys_enter_sendmsg e a s)"
| "pid_tgid e = p \<Longrightarrow> prog_step p s (fexit__sys_sendmsg e a s)"
| "pid_tgid e = p \<Longrightarrow> prog_step p s (tracepoint__syscalls__sys_exit_sendmsg e a s)"
| "pid_tgid e = p \<Longrightarrow> prog_step p s (fentry__sys_writev e regs s)"
| "pid_tgid e = p \<Longrightarrow> prog_step p s (tracepoint__syscalls__sys_enter_writev e a s)"
| "pid_tgid e = p \<Longrightarrow> prog_step p s (fexit__sys_writev e a s)"
| "pid_tgid e = p \<Longrightarrow> prog_step p s (tracepoint__syscalls__sys_exit_writev e a s)"
| "pid_tgid e = p \<Longrightarrow> prog_step p s (fentry__sys_close e regs s)"
| "pid_tgid e = p \<Longrightarrow> prog_step p s (tracepoint__syscalls__sys_enter_close e a s)"
| "pid_tgid e = p \<Longrightarrow> prog_step p s (fexit__sys_close e a s)"
| "pid_tgid e = p \<Longrightarrow> prog_step p s (tracepoint__syscalls__sys_exit_close e a s)"
| "pid_tgid e = p \<Longrightarrow> prog_step p s (fentry__sys_connect e i a s)"
| "pid_tgid e = p \<Longrightarrow> prog_step p s (tracepoint__syscalls__sys_enter_connect e a s)"
| "pid_tgid e = p \<Longrightarrow> prog_step p s (fexit__sys_connect e i s)"
| "pid_tgid e = p \<Longrightarrow> prog_step p s (tracepoint__syscalls__sys_exit_connect e a s)"
| "pid_tgid e = p \<Longrightarrow> prog_step p s (fentry__sys_accept4 e a s)"
| "pid_tgid e = p \<Longrightarrow> prog_step p s (tracepoint__syscalls__sys_enter_accept4 e a s)"
| "pid_tgid e = p \<Longrightarrow> prog_step p s (fexit__sys_accept4 e a s)"
| "pid_tgid e = p \<Longrightarrow> prog_step p s (tracepoint__syscalls__sys_exit_accept4 e a s)"
| "pid_tgid e = p \<Longrightarrow> prog_step p s (sock_alloc_ret e regs s)"
| "pid_tgid e = p \<Longrightarrow> prog_step p s (tracepoint__sched__sched_process_exec e s)"
| "pid_tgid e = p \<Longrightarrow> prog_step p s (tracepoint__sched__sched_process_exit e s)"
| "pid_tgid e = p \<Longrightarrow> prog_step p s (SSL_read_entry_nested_syscall off e regs s)"
| "pid_tgid e = p \<Longrightarrow> prog_step p s (SSL_read_ret_nested_syscall e regs s)"
| "pid_tgid e = p \<Longrightarrow> prog_step p s (SSL_read_ex_entry_nested_syscall off e regs s)"
| "pid_tgid e = p \<Longrightarrow> prog_step p s (SSL_read_ex_ret_nested_syscall e regs s)"
| "pid_tgid e = p \<Longrightarrow> prog_step p s (SSL_write_entry_nested_syscall off e regs s)"
| "pid_tgid e = p \<Longrightarrow> prog_step p s (SSL_write_ret_nested_syscall e regs s)"
| "pid_tgid e = p \<Longrightarrow> prog_step p s (SSL_write_ex_entry_nested_syscall off e regs s)"
| "pid_tgid e = p \<Longrightarrow> prog_step p s (SSL_write_ex_ret_nested_syscall e regs s)"
| "pid_tgid e = p \<Longrightarrow> prog_step p s (SSL_write_entry_offset off e regs s)"
| "pid_tgid e = p \<Longrightarrow> prog_step p s (SSL_write_ret_offset e regs s)"
| "pid_tgid e = p \<Longrightarrow> prog_step p s (SSL_read_entry_offset off e regs s)"
| "pid_tgid e = p \<Longrightarrow> prog_step p s (SSL_read_ret_offset e regs s)"
| "pid_tgid e = p \<Longrightarrow> prog_step p s (probe_entry_tls_conn_write e regs s)"
| "pid_tgid e = p \<Longrightarrow> prog_step p s (probe_entry_tls_conn_read e regs s)"
| "pid_tgid e = p \<Longrightarrow> prog_step p s (probe_return_tls_conn_write e regs s)"
| "pid_tgid e = p \<Longrightarrow> prog_step p s (probe_return_tls_conn_read e regs s)"

text \<open>
  What user space does to the shared maps: it sets the filters, switches and symbol tables,
  it rewrites the trace state of a connection it looked up (an entry of the same
  connection, whose counters may be older), and it forgets flows. The rewrite is an assumption about
  \<open>conntrack.go\<close>: \<open>UpdateConnectionTraceable\<close> looks the entry up and writes it back with two map
  operations, and a descriptor that is closed and opened again between the two would get the entry of
  the old connection. Such a late write is not a step of the model.
\<close>

inductive user_step :: "bpf_state \<Rightarrow> bpf_state \<Rightarrow> bool" where
  "map_op UNIV (control_values s) m \<Longrightarrow> user_step s (s\<lparr>control_values := m\<rparr>)"
| "map_op UNIV (filter_mntns_map s) m \<Longrightarrow> user_step s (s\<lparr>filter_mntns_map := m\<rparr>)"
| "map_op UNIV (filter_pidns_map s) m \<Longrightarrow> user_step s (s\<lparr>filter_pidns_map := m\<rparr>)"
| "map_op UNIV (filter_netns_map s) m \<Longrightarrow> user_step s (s\<lparr>filter_netns_map := m\<rparr>)"
| "map_op UNIV (filter_pid_map s) m \<Longrightarrow> user_step s (s\<lparr>filter_pid_map := m\<rparr>)"
| "map_op UNIV (enabled_remote_port_map s) mp \<Longrightarrow> user_step s (s\<lparr>enabled_remote_port_map := mp\<rparr>)"
| "map_op UNIV (enabled_local_port_map s) mp \<Longrightarrow> user_step s (s\<lparr>enabled_local_port_map := mp\<rparr>)"
| "map_op UNIV (enabled_remote_ip_map s) mi \<Longrightarrow> user_step s (s\<lparr>enabled_remote_ip_map := mi\<rparr>)"
| "map_op UNIV (enabled_local_ipv4_map s) m \<Longrightarrow> user_step s (s\<lparr>enabled_local_ipv4_map := m\<rparr>)"
| "map_op UNIV (go_common_symaddrs_map s) mg \<Longrightarrow> user_step s (s\<lparr>go_common_symaddrs_map := mg\<rparr>)"
| "map_op UNIV (go_tls_symaddrs_map s) mt \<Longrightarrow> user_step s (s\<lparr>go_tls_symaddrs_map := mt\<rparr>)"
| "bpf_map_lookup_elem (conn_info_map s) k = Some ci0 \<Longrightarrow> same_conn ci0 ci \<Longrightarrow>
     user_step s (s\<lparr>conn_info_map := bpf_map_store (conn_info_map s) k ci\<rparr>)"
| "bpf_map_lookup_elem (sock_key_conn_id_map s) key = Some cid \<Longrightarrow>
     user_step s (s\<lparr>sock_key_conn_id_map :=
       bpf_map_store (sock_key_conn_id_map s) key (cid\<lparr>cs_no_trace := t\<rparr>)\<rparr>)"
| "user_step s (s\<lparr>sock_key_conn_id_map := bpf_map_delete_elem (sock_key_conn_id_map s) key\<rparr>)"
| "user_step s (s\<lparr>sock_xmit_map := bpf_map_delete_elem (sock_xmit_map s) key\<rparr>)"

datatype actor = Thread u64 | User_space

inductive agent_step :: "actor \<Rightarrow> bpf_state \<Rightarrow> bpf_state \<Rightarrow> bool" where
  step_prog: "prog_step p s s' \<Longrightarrow> agent_step (Thread p) s s'"
| step_user: "user_step s s' \<Longrightarrow> agent_step User_space s s'"

inductive reachable :: "bpf_state \<Rightarrow> bool" where
  reach_init: "reachable init_state"
| reach_step: "reachable s \<Longrightarrow> agent_step a s s' \<Longrightarrow> reachable s'"

inductive_cases agent_step_cases: "agent_step a s s'"

section \<open>Programs are sequences of effects\<close>

lemma enter_eff:
  assumes "pid_tgid e = p"
  shows "eff p s (handle_syscall_enter_recvfrom e i a b j s)"
    and "eff p s (handle_syscall_enter_read e i a s)"
    and "eff p s (handle_syscall_enter_recvmmsg e i a j s)"
    and "eff p s (handle_syscall_enter_recvmsg e i a j s)"
    and "eff p s (handle_syscall_enter_readv e i a j s)"
    and "eff p s (handle_syscall_enter_sendfile e i j a s)"
    and "eff p s (handle_syscall_enter_sendto e i a b s)"
    and "eff p s (handle_syscall_enter_write e i a s)"
    and "eff p s (handle_syscall_enter_sendmmsg e i a j s)"
    and "eff p s (handle_syscall_enter_sendmsg e i a s)"
    and "eff p s (handle_syscall_enter_writev e i a j s)"
    and "eff p s (handle_syscall_enter_close e i s)"
    and "eff p s (handle_syscall_enter_connect e i a s)"
    and "eff p s (handle_syscall_enter_accept4 e a s)"
    and "eff p s (tracepoint__syscalls__sys_enter_write e a s)"
    and "eff p s (sock_alloc_ret e regs s)"
  using assms
  by (auto simp: handle_syscall_enter_recvfrom_def handle_syscall_enter_read_def
      handle_syscall_enter_recvmmsg_def handle_syscall_enter_recvmsg_def
      handle_syscall_enter_readv_def handle_syscall_enter_sendfile_def
      handle_syscall_enter_sendto_def handle_syscall_enter_write_def
      handle_syscall_enter_sendmmsg_def handle_syscall_enter_sendmsg_def
      handle_syscall_enter_writev_def handle_syscall_enter_close_def
      handle_syscall_enter_connect_def handle_syscall_enter_accept4_def
      tracepoint__syscalls__sys_enter_write_def sock_alloc_ret_def
      Let_def split: option.split intro!: eff_posts stash_eff [THEN eff_then])

lemma exit_eff:
  assumes "pid_tgid e = p"
  shows "eff p s (handle_syscall_exit_recvfrom e a s)"
    and "eff p s (handle_syscall_exit_read e a s)"
    and "eff p s (handle_syscall_exit_recvmmsg e i s)"
    and "eff p s (handle_syscall_exit_recvmsg e a s)"
    and "eff p s (handle_syscall_exit_readv e a s)"
    and "eff p s (handle_syscall_exit_sendfile64 e a s)"
    and "eff p s (handle_syscall_exit_sendto e a s)"
    and "eff p s (handle_syscall_exit_write e a s)"
    and "eff p s (handle_syscall_exit_sendmmsg e i s)"
    and "eff p s (handle_syscall_exit_sendmsg e a s)"
    and "eff p s (handle_syscall_exit_writev e a s)"
    and "eff p s (handle_syscall_exit_close e a s)"
    and "eff p s (handle_syscall_exit_connect e i s)"
    and "eff p s (handle_syscall_exit_accept4 e a s)"
    and "eff p s (tracepoint__syscalls__sys_exit_write e a s)"
    and "eff p s (tracepoint__syscalls__sys_exit_writev e a s)"
    and "eff p s (tracepoint__syscalls__sys_exit_accept4 e a s)"
  using assms
  by (auto simp: handle_syscall_exit_recvfrom_def handle_syscall_exit_read_def
      handle_syscall_exit_recvmmsg_def handle_syscall_exit_recvmsg_def
      handle_syscall_exit_readv_def handle_syscall_exit_sendfile64_def
      handle_syscall_exit_sendto_def handle_syscall_exit_write_def
      handle_syscall_exit_sendmmsg_def handle_syscall_exit_sendmsg_def
      handle_syscall_exit_writev_def handle_syscall_exit_close_def
      handle_syscall_exit_connect_def handle_syscall_exit_accept4_def
      tracepoint__syscalls__sys_exit_write_def tracepoint__syscalls__sys_exit_writev_def
      tracepoint__syscalls__sys_exit_accept4_def
      Let_def split: option.split
      intro!: eff_posts stash_eff [THEN eff_then] finish_data_eff [THEN eff_then] finish_peer_eff
        process_syscall_close_eff process_syscall_connect_eff process_syscall_accept_eff
        process_syscall_sendfile_eff [THEN eff_then])

lemma hook_eff:
  assumes "pid_tgid e = p"
  shows "eff p s (handle_security_socket_sendmsg e s)"
    and "eff p s (handle_security_socket_recvmsg e s)"
    and "eff p s (handle_sched_process_exec e s)"
    and "eff p s (handle_sched_process_exit e s)"
  using assms
  by (auto simp: handle_security_socket_sendmsg_def handle_security_socket_recvmsg_def
      handle_sched_process_exec_def handle_sched_process_exit_def
      Let_def split: option.split intro!: eff_posts stash_eff)

lemma go_probe_eff:
  assumes "pid_tgid e = p"
  shows "eff p s (probe_entry_tls_conn_write e regs s)" "eff p s (probe_entry_tls_conn_read e regs s)"
    and "eff p s (probe_return_tls_conn_write e regs s)" "eff p s (probe_return_tls_conn_read e regs s)"
  using assms
  by (auto simp: probe_entry_tls_conn_write_def probe_entry_tls_conn_read_def goroutines_def current_tgid_def
      probe_return_tls_conn_write_def probe_return_tls_conn_read_def
      probe_return_tls_conn_write_core_def probe_return_tls_conn_read_core_def Let_def
      split: option.split intro: tls_conn_entry_eff tls_conn_return_core_eff close_tls_op_eff [THEN eff_then])

lemmas program_defs =
  kprobe__nf_nat_packet_def kprobe__nf_nat_manip_pkt_def xdp_proxy_def
  skb_copy_datagram_iter_def skb_copy_datagram_iovec_def
  tracepoint__skb_copy_datagram_iovec_def tracepoint__netif_receive_skb_def
  tcp_queue_rcv_def tcp_rcv_established_def tcp_v4_do_rcv_def tcp_v6_do_rcv_def
  tcp_v4_rcv_def ip_rcv_core_def dev_hard_start_xmit_def dev_queue_xmit_def
  ip_queue_xmit2_def ip_queue_xmit_def fentry__security_socket_sendmsg_def
  security_socket_sendmsg_enter_def fentry__security_socket_recvmsg_def
  security_socket_recvmsg_enter_def fentry__sys_recvfrom_def
  tracepoint__syscalls__sys_enter_recvfrom_def fexit__sys_recvfrom_def
  tracepoint__syscalls__sys_exit_recvfrom_def fentry__sys_read_def
  tracepoint__syscalls__sys_enter_read_def fexit__sys_read_def
  tracepoint__syscalls__sys_exit_read_def fentry__sys_recvmmsg_def
  tracepoint__syscalls__sys_enter_recvmmsg_def fexit__sys_recvmmsg_def
  tracepoint__syscalls__sys_exit_recvmmsg_def fentry__sys_recvmsg_def
  tracepoint__syscalls__sys_enter_recvmsg_def fexit__sys_recvmsg_def
  tracepoint__syscalls__sys_exit_recvmsg_def fentry__sys_readv_def
  tracepoint__syscalls__sys_enter_readv_def fexit__sys_readv_def
  tracepoint__syscalls__sys_exit_readv_def fentry__sys_sendfile64_def
  tracepoint__syscalls__sys_enter_sendfile64_def fexit__sys_sendfile64_def
  tracepoint__syscalls__sys_exit_sendfile64_def fentry__sys_sendto_def
  tracepoint__syscalls__sys_enter_sendto_def fexit__sys_sendto_def
  tracepoint__syscalls__sys_exit_sendto_def fentry__sys_write_def fexit__sys_write_def
  fentry__sys_sendmmsg_def tracepoint__syscalls__sys_enter_sendmmsg_def
  fexit__sys_sendmmsg_def tracepoint__syscalls__sys_exit_sendmmsg_def
  fentry__sys_sendmsg_def tracepoint__syscalls__sys_enter_sendmsg_def fexit__sys_sendmsg_def
  tracepoint__syscalls__sys_exit_sendmsg_def fentry__sys_writev_def
  tracepoint__syscalls__sys_enter_writev_def fexit__sys_writev_def fentry__sys_close_def
  tracepoint__syscalls__sys_enter_close_def fexit__sys_close_def
  tracepoint__syscalls__sys_exit_close_def fentry__sys_connect_def
  tracepoint__syscalls__sys_enter_connect_def fexit__sys_connect_def
  tracepoint__syscalls__sys_exit_connect_def fentry__sys_accept4_def
  tracepoint__syscalls__sys_enter_accept4_def fexit__sys_accept4_def
  tracepoint__sched__sched_process_exec_def tracepoint__sched__sched_process_exit_def
  SSL_read_entry_nested_syscall_def SSL_read_ret_nested_syscall_def
  SSL_read_ex_entry_nested_syscall_def SSL_read_ex_ret_nested_syscall_def
  SSL_write_entry_nested_syscall_def SSL_write_ret_nested_syscall_def
  SSL_write_ex_entry_nested_syscall_def SSL_write_ex_ret_nested_syscall_def
  SSL_write_entry_offset_def SSL_write_ret_offset_def SSL_read_entry_offset_def
  SSL_read_ret_offset_def

lemma prog_step_eff: "prog_step p s s' \<Longrightarrow> eff p s s'"
  by (induction rule: prog_step.induct)
    (simp_all add: program_defs enter_eff exit_eff hook_eff go_probe_eff ssl_entry_eff ssl_ret_eff
      ssl_ret_offset_eff handle_nat_eff parse_skb_eff handle_skb_data_copy_eff dev_xmit_loop_eff
      handle_ip_queue_xmit_eff tcp_destroy_sock_eff)


end
