(* ===== verification/Agent_Invariants.thy ===== *)
theory Agent_Invariants
  imports Agent_Machine "HOL-Library.Sublist"
begin

text \<open>
  Invariants of the agent. The locale \<open>agent_invariant\<close> is the contract of an invariant:
  it holds after loading and is kept by every elementary effect and every action of user
  space. It then holds in all reachable states. \<open>agent_invariant_under\<close> is the contract of
  an invariant that is kept as long as another one holds. \<open>agent_guarantee\<close> is the contract
  of a relation between the states before and after any sequence of effects of one thread.
\<close>

section \<open>Contracts\<close>

locale agent_invariant =
  fixes I :: "bpf_state \<Rightarrow> bool"
  assumes init: "I init_state"
    and eff1: "I s \<Longrightarrow> eff1 p s s' \<Longrightarrow> I s'"
    and user: "I s \<Longrightarrow> user_step s s' \<Longrightarrow> I s'"
begin

lemma effs: "eff p s s' \<Longrightarrow> I s \<Longrightarrow> I s'"
  unfolding eff_def by (induction rule: rtranclp_induct) (auto intro: eff1)

lemma agent: "agent_step a s s' \<Longrightarrow> I s \<Longrightarrow> I s'"
  by (erule agent_step_cases) (auto intro: user effs dest: prog_step_eff)

lemma reachable: "reachable s \<Longrightarrow> I s"
  by (induction rule: reachable.induct) (auto intro: init agent)

end

locale agent_invariant_under = base: agent_invariant J for J :: "bpf_state \<Rightarrow> bool" +
  fixes I :: "bpf_state \<Rightarrow> bool"
  assumes init_under: "I init_state"
    and eff1_under: "J s \<Longrightarrow> I s \<Longrightarrow> eff1 p s s' \<Longrightarrow> I s'"
    and user_under: "J s \<Longrightarrow> I s \<Longrightarrow> user_step s s' \<Longrightarrow> I s'"

sublocale agent_invariant_under \<subseteq> both: agent_invariant "\<lambda>s. J s \<and> I s"
  by unfold_locales (auto intro: base.init init_under base.eff1 eff1_under base.user user_under)

locale agent_guarantee =
  fixes R :: "u64 \<Rightarrow> bpf_state \<Rightarrow> bpf_state \<Rightarrow> bool"
  assumes refl: "R p s s"
    and trans: "R p s s' \<Longrightarrow> R p s' s'' \<Longrightarrow> R p s s''"
    and eff1: "eff1 p s s' \<Longrightarrow> R p s s'"
begin

lemma effs: "eff p s s' \<Longrightarrow> R p s s'"
  unfolding eff_def by (induction rule: rtranclp_induct) (auto intro: refl trans eff1)

lemma program: "prog_step p s s' \<Longrightarrow> R p s s'"
  by (rule effs) (rule prog_step_eff)

end

text \<open>A relation that the effects keep where an invariant holds, so along every reachable run.\<close>

locale agent_guarantee_under = base: agent_invariant J for J :: "bpf_state \<Rightarrow> bool" +
  fixes R :: "u64 \<Rightarrow> bpf_state \<Rightarrow> bpf_state \<Rightarrow> bool"
  assumes refl_under: "R p s s"
    and trans_under: "R p s s' \<Longrightarrow> R p s' s'' \<Longrightarrow> R p s s''"
    and eff1_under: "J s \<Longrightarrow> eff1 p s s' \<Longrightarrow> R p s s'"
begin

lemma effs_under:
  assumes "eff p s s'" and "J s"
  shows "J s' \<and> R p s s'"
  using assms(1) unfolding eff_def
proof (induction rule: rtranclp_induct)
  case (step s' s'')
  then have "J s'" and "R p s s'" and "R p s' s''"
    using eff1_under by auto
  then show ?case
    using base.eff1 step.hyps(2) trans_under by blast
qed (simp add: assms(2) refl_under)

lemma program_under: "reachable s \<Longrightarrow> prog_step p s s' \<Longrightarrow> R p s s'"
  using effs_under [OF prog_step_eff] base.reachable by blast

end

section \<open>Bounded maps\<close>

text \<open>Distinct keys, and never more entries than the map was created for.\<close>

definition map_ok :: "nat \<Rightarrow> ('k, 'v) bpf_map \<Rightarrow> bool" where
  "map_ok n m \<longleftrightarrow> wf_bpf_map m \<and> max_entries m = n"

definition maps_bounded :: "bpf_state \<Rightarrow> bool" where
  "maps_bounded s \<longleftrightarrow>
     map_ok 10 (filter_mntns_map s) \<and> map_ok 10 (filter_pidns_map s) \<and>
     map_ok 10 (filter_netns_map s) \<and> map_ok 10 (filter_pid_map s) \<and>
     map_ok MAX_ENTRIES (active_ssl_read_args_map s) \<and> map_ok MAX_ENTRIES (active_ssl_write_args_map s) \<and>
     map_ok MAX_ENTRIES (ssl_user_space_call_map s) \<and> map_ok MAX_ENTRIES (conn_info_map s) \<and>
     map_ok MAX_ENTRIES (control_values s) \<and> map_ok MAX_ENTRIES (sock_xmit_map s) \<and>
     map_ok MAX_ENTRIES (sock_key_conn_id_map s) \<and> map_ok MAX_ENTRIES (nat_flow_map s) \<and>
     map_ok MAX_ENTRIES (accept_args_map s) \<and> map_ok MAX_ENTRIES (connect_args_map s) \<and>
     map_ok MAX_ENTRIES (close_args_map s) \<and> map_ok MAX_ENTRIES (write_args_map s) \<and>
     map_ok MAX_ENTRIES (active_sendfile_args_map s) \<and> map_ok MAX_ENTRIES (read_args_map s) \<and>
     map_ok MAX_ENTRIES (enabled_remote_port_map s) \<and> map_ok MAX_ENTRIES (enabled_local_port_map s) \<and>
     map_ok MAX_ENTRIES (enabled_remote_ip_map s) \<and> map_ok MAX_ENTRIES (enabled_local_ipv4_map s) \<and>
     map_ok MAX_ENTRIES (go_common_symaddrs_map s) \<and> map_ok MAX_ENTRIES (go_ssl_user_space_call_map s) \<and>
     map_ok MAX_ENTRIES (go_tls_symaddrs_map s) \<and> map_ok MAX_ENTRIES (active_tls_conn_op_map s)"

lemma map_ok_ops [simp]:
  "map_ok n m \<Longrightarrow> map_ok n (bpf_map_update_elem m k v fl)"
  "map_ok n m \<Longrightarrow> map_ok n (bpf_map_store m k v)"
  "map_ok n m \<Longrightarrow> map_ok n (bpf_map_delete_elem m k)"
  "map_ok n (bpf_map_create n)"
  by (simp_all add: map_ok_def wf_intros) (simp add: bpf_map_create_def)

lemma map_op_ok: "map_op K m m' \<Longrightarrow> map_ok n m \<Longrightarrow> map_ok n m'"
  by (induction rule: map_op.induct) simp_all

lemma report_conn_evt_bounded [simp]: "maps_bounded (report_conn_evt e ci ty ts s) = maps_bounded s"
  by (simp add: report_conn_evt_def maps_bounded_def Let_def split: option.split)

lemma close_conn_bounded:
  "maps_bounded s \<Longrightarrow> m = bpf_map_delete_elem (conn_info_map s) k \<Longrightarrow>
     maps_bounded ((report_conn_evt e ci ty ts s)\<lparr>conn_info_map := m\<rparr>)"
proof -
  assume "maps_bounded s" and m: "m = bpf_map_delete_elem (conn_info_map s) k"
  then have "maps_bounded (report_conn_evt e ci ty ts s)" and "map_ok MAX_ENTRIES m"
    by (simp, simp add: maps_bounded_def)
  then show ?thesis
    by (simp add: maps_bounded_def)
qed

lemma create_conn_info_bounded:
  "maps_bounded s \<Longrightarrow> maps_bounded (snd (create_conn_info e ci k key ts s))"
  by (simp add: create_conn_info_def Let_def) (simp add: maps_bounded_def)

interpretation bounded: agent_invariant maps_bounded
proof
  show "maps_bounded init_state"
    by (simp add: maps_bounded_def init_state_def)
next
  fix s p s'
  assume I: "maps_bounded s" and e: "eff1 p s s'"
  show "maps_bounded s'"
    using e
  proof (cases rule: eff1.cases)
    case (eff_create ci k e key ts)
    then show ?thesis using I create_conn_info_bounded by simp
  next
    case (eff_infer_evt k ci0 ci e ts)
    then show ?thesis using I by simp
  next
    case (eff_close_conn k ci m e ts)
    then show ?thesis using close_conn_bounded [OF I] by simp
  qed (use I in \<open>auto simp: maps_bounded_def remember_pid_def dest: map_op_ok\<close>)
next
  fix s s'
  assume I: "maps_bounded s" and e: "user_step s s'"
  show "maps_bounded s'"
    using e I by (cases rule: user_step.cases) (auto simp: maps_bounded_def dest: map_op_ok)
qed

section \<open>Event buffers\<close>

text \<open>
  Every per-CPU buffer exists and has its full message area; every submitted data event has
  the size of its header and payload and fits its struct.
\<close>

definition buffers_ok :: "bpf_state \<Rightarrow> bool" where
  "buffers_ok s \<longleftrightarrow>
     (\<forall>c. conn_evt_map s c \<noteq> None \<and> kern_evt_t_map s c \<noteq> None \<and> first_packet_evt_map s c \<noteq> None \<and>
        regs_heap s c \<noteq> None) \<and>
     (\<forall>c. \<exists>d. syscall_data_map s c = Some d \<and> length (kd_msg d) = MAX_MSG_SIZE) \<and>
     (\<forall>c. \<exists>d. ssl_data_map s c = Some d \<and> length (ks_msg d) = MAX_MSG_SIZE)"

definition events_fit :: "bpf_state \<Rightarrow> bool" where
  "events_fit s \<longleftrightarrow>
     (\<forall>(d, n) \<in> set (syscall_rb s). length (kd_msg d) = MAX_MSG_SIZE \<and>
        unat (kd_buf_size d) \<le> MAX_MSG_SIZE \<and> n = sizeof_kern_evt + 4 + unat (kd_buf_size d)) \<and>
     (\<forall>(d, n) \<in> set (ssl_rb s). length (ks_msg d) = MAX_MSG_SIZE \<and>
        unat (ks_buf_size d) \<le> MAX_MSG_SIZE \<and> n = sizeof_kern_evt + 16 + unat (ks_buf_size d)) \<and>
     (\<forall>(d, n) \<in> set (rb s). n = sizeof_kern_evt)"

lemma report_conn_evt_buffers [simp]: "buffers_ok s \<Longrightarrow> buffers_ok (report_conn_evt e ci ty ts s)"
  by (auto simp: report_conn_evt_def buffers_ok_def Let_def split: option.split)

lemma report_conn_evt_events [simp]: "events_fit (report_conn_evt e ci ty ts s) = events_fit s"
  by (simp add: report_conn_evt_def events_fit_def Let_def split: option.split)

lemma conn_info_map_buffers [simp]:
  "buffers_ok (s\<lparr>conn_info_map := m\<rparr>) = buffers_ok s"
  "events_fit (s\<lparr>conn_info_map := m\<rparr>) = events_fit s"
  by (simp_all add: buffers_ok_def events_fit_def)

lemma create_conn_info_buffers:
  "buffers_ok s \<Longrightarrow> buffers_ok (snd (create_conn_info e ci k key ts s))"
  "events_fit s \<Longrightarrow> events_fit (snd (create_conn_info e ci k key ts s))"
proof -
  assume b: "buffers_ok s"
  have "buffers_ok (s\<lparr>conn_info_map := m, sock_key_conn_id_map := m'\<rparr>)" for m m'
    using b by (simp add: buffers_ok_def)
  then show "buffers_ok (snd (create_conn_info e ci k key ts s))"
    using b by (auto simp: create_conn_info_def Let_def)
next
  assume b: "events_fit s"
  have "events_fit (s\<lparr>conn_info_map := m, sock_key_conn_id_map := m'\<rparr>)" for m m'
    using b by (simp add: events_fit_def)
  then show "events_fit (snd (create_conn_info e ci k key ts s))"
    using b by (auto simp: create_conn_info_def Let_def)
qed

lemma buffers_length:
  "buffers_ok s \<Longrightarrow> syscall_data_map s c = Some d \<Longrightarrow> length (kd_msg d) = MAX_MSG_SIZE"
  "buffers_ok s \<Longrightarrow> ssl_data_map s c = Some d' \<Longrightarrow> length (ks_msg d') = MAX_MSG_SIZE"
  unfolding buffers_ok_def by (metis option.inject)+

interpretation buffers: agent_invariant buffers_ok
proof
  show "buffers_ok init_state"
    by (simp add: buffers_ok_def init_state_def kern_evt_data_zero_def kern_evt_ssl_data_zero_def)
next
  fix s p s'
  assume I: "buffers_ok s" and e: "eff1 p s s'"
  show "buffers_ok s'"
    using e
  proof (cases rule: eff1.cases)
    case (eff_create ci k e key ts)
    then show ?thesis using I create_conn_info_buffers by simp
  next
    case (eff_infer_evt k ci0 ci e ts)
    then show ?thesis using I by simp
  next
    case (eff_close_conn k ci m e ts)
    then show ?thesis using I by simp
  next
    case (eff_syscall_evt c old d n)
    then have "length (kd_msg d) = MAX_MSG_SIZE"
      using buffers_length [OF I] by (simp add: syscall_evt_fits_def)
    then show ?thesis
      using I eff_syscall_evt(1) by (auto simp: buffers_ok_def)
  next
    case (eff_ssl_evt c old d n)
    then have "length (ks_msg d) = MAX_MSG_SIZE"
      using buffers_length [OF I] by (simp add: ssl_evt_fits_def)
    then show ?thesis
      using I eff_ssl_evt(1) by (auto simp: buffers_ok_def)
  qed (use I in \<open>auto simp: buffers_ok_def remember_pid_def\<close>)
next
  fix s s'
  assume "buffers_ok s" and "user_step s s'"
  then show "buffers_ok s'"
    by (auto simp: buffers_ok_def elim!: user_step.cases)
qed

interpretation fit: agent_invariant_under buffers_ok events_fit
proof
  show "events_fit init_state"
    by (simp add: events_fit_def init_state_def)
next
  fix s p s'
  assume J: "buffers_ok s" and I: "events_fit s" and e: "eff1 p s s'"
  show "events_fit s'"
    using e
  proof (cases rule: eff1.cases)
    case (eff_create ci k e key ts)
    then show ?thesis using I create_conn_info_buffers by simp
  next
    case (eff_infer_evt k ci0 ci e ts)
    then show ?thesis using I by simp
  next
    case (eff_close_conn k ci m e ts)
    then show ?thesis using I by simp
  next
    case (eff_syscall_evt c old d n)
    then have "length (kd_msg old) = MAX_MSG_SIZE"
      using buffers_length [OF J] by simp
    then show ?thesis
      using I eff_syscall_evt by (auto simp: events_fit_def syscall_evt_fits_def)
  next
    case (eff_ssl_evt c old d n)
    then have "length (ks_msg old) = MAX_MSG_SIZE"
      using buffers_length [OF J] by simp
    then show ?thesis
      using I eff_ssl_evt by (auto simp: events_fit_def ssl_evt_fits_def)
  qed (use I in \<open>auto simp: events_fit_def remember_pid_def\<close>)
next
  fix s s'
  assume "events_fit s" and "user_step s s'"
  then show "events_fit s'"
    by (auto simp: events_fit_def elim!: user_step.cases)
qed

section \<open>The buffer for new connections\<close>

text \<open>A connection that a data call creates starts with all counters at zero.\<close>

definition scratch_fresh :: "bpf_state \<Rightarrow> bool" where
  "scratch_fresh s \<longleftrightarrow>
     (\<forall>c. \<exists>ci. conn_info_t_map s c = Some ci \<and> fresh_like conn_info_zero ci)"

lemma fresh_like_trans: "fresh_like a b \<Longrightarrow> fresh_like b c \<Longrightarrow> fresh_like a c"
  by (simp add: fresh_like_def)

lemma scratch_create [simp]:
  "conn_info_t_map (snd (create_conn_info e ci k key ts s)) = conn_info_t_map s"
  "conn_info_t_map (report_conn_evt e ci ty ts s) = conn_info_t_map s"
  by (simp_all add: create_conn_info_def report_conn_evt_def Let_def split: option.split)

interpretation fresh: agent_invariant scratch_fresh
proof
  show "scratch_fresh init_state"
    by (simp add: scratch_fresh_def init_state_def fresh_like_def)
next
  fix s p s'
  assume I: "scratch_fresh s" and e: "eff1 p s s'"
  show "scratch_fresh s'"
    using e
  proof (cases rule: eff1.cases)
    case (eff_new_conn c old ci)
    then have "fresh_like conn_info_zero ci"
      using I fresh_like_trans unfolding scratch_fresh_def by (metis option.inject)
    then show ?thesis
      using I eff_new_conn(1) by (simp add: scratch_fresh_def)
  qed (use I in \<open>auto simp: scratch_fresh_def remember_pid_def\<close>)
next
  fix s s'
  assume "scratch_fresh s" and "user_step s s'"
  then show "scratch_fresh s'"
    by (auto simp: scratch_fresh_def elim!: user_step.cases)
qed

section \<open>Connections are announced before they are used\<close>

definition announced :: "bpf_state \<Rightarrow> conn_id_t \<Rightarrow> bool" where
  "announced s cid \<longleftrightarrow>
     (\<exists>ev \<in> set (conn_evt_rb s). ce_conn_type ev = kConnect \<and> conn_id (ce_conn_info ev) = cid)"

definition announced_key :: "bpf_state \<Rightarrow> u64 \<Rightarrow> bool" where
  "announced_key s k \<longleftrightarrow> (\<exists>cid. announced s cid \<and> gen_tgid_fd (ci_tgid cid) (ci_fd cid) = k)"

definition table_ok :: "bpf_state \<Rightarrow> bool" where
  "table_ok s \<longleftrightarrow>
     (\<forall>k ci. bpf_map_lookup_elem (conn_info_map s) k = Some ci \<longrightarrow>
        conn_key ci = k \<and> sin6_port (laddr ci) \<noteq> 0 \<and> announced s (conn_id ci))"

definition events_announced :: "bpf_state \<Rightarrow> bool" where
  "events_announced s \<longleftrightarrow>
     (\<forall>ev \<in> set (conn_evt_rb s). announced s (conn_id (ce_conn_info ev))) \<and>
     (\<forall>(d, n) \<in> set (syscall_rb s). announced_key s (cs_tgid_fd (ke_conn_id_s (kd_ke d)))) \<and>
     (\<forall>(d, n) \<in> set (ssl_rb s). announced_key s (cs_tgid_fd (ke_conn_id_s (ks_ke d)))) \<and>
     (\<forall>(d, n) \<in> set (rb s). announced_key s (cs_tgid_fd (ke_conn_id_s d)))"

lemma announced_mono: "conn_evt_rb s' = conn_evt_rb s @ evs \<Longrightarrow> announced s cid \<Longrightarrow> announced s' cid"
  by (auto simp: announced_def)

lemma announced_key_mono:
  "conn_evt_rb s' = conn_evt_rb s @ evs \<Longrightarrow> announced_key s k \<Longrightarrow> announced_key s' k"
  by (auto simp: announced_key_def intro: announced_mono)

lemma conn_evt_rb_report:
  "buffers_ok s \<Longrightarrow> conn_evt_rb (report_conn_evt e ci ty ts s) = conn_evt_rb s @
     [\<lparr>ce_conn_info = ci, ce_conn_type = ty, ce_ts = (if ts \<noteq> 0 then ts else ktime e KT_report_conn_evt)\<rparr>]"
  by (rule report_conn_evt_rb) (simp add: buffers_ok_def)

lemma conn_evt_rb_create:
  "buffers_ok s \<Longrightarrow> conn_evt_rb (snd (create_conn_info e ci k key ts s)) = conn_evt_rb s @
     (if admits ci s
      then [\<lparr>ce_conn_info = ci, ce_conn_type = kConnect,
             ce_ts = (if ts \<noteq> 0 then ts else ktime e KT_report_conn_evt)\<rparr>]
      else [])"
  by (rule create_conn_info_evt) (simp add: buffers_ok_def)

lemma table_ok_keep:
  assumes "table_ok s" and "conn_evt_rb s' = conn_evt_rb s @ evs"
    and "\<And>k ci. bpf_map_lookup_elem (conn_info_map s') k = Some ci \<Longrightarrow>
      (\<exists>ci0. bpf_map_lookup_elem (conn_info_map s) k = Some ci0 \<and> same_conn ci0 ci)"
  shows "table_ok s'"
  unfolding table_ok_def
proof (intro allI impI)
  fix k ci
  assume "bpf_map_lookup_elem (conn_info_map s') k = Some ci"
  then obtain ci0 where ci0: "bpf_map_lookup_elem (conn_info_map s) k = Some ci0" "same_conn ci0 ci"
    using assms(3) by blast
  then show "conn_key ci = k \<and> sin6_port (laddr ci) \<noteq> 0 \<and> announced s' (conn_id ci)"
    using assms(1) announced_mono [OF assms(2)]
    by (simp add: table_ok_def same_conn_def conn_key_def)
qed

lemma table_ok_same:
  assumes "table_ok s" and "conn_evt_rb s' = conn_evt_rb s" and "conn_info_map s' = conn_info_map s"
  shows "table_ok s'"
  by (rule table_ok_keep [OF assms(1), of _ "[]"]) (use assms(2,3) in auto)

lemma table_ok_create:
  assumes "buffers_ok s" and "table_ok s" and "conn_key ci = k"
  shows "table_ok (snd (create_conn_info e ci k key ts s))" (is "table_ok ?s")
proof (cases "admits ci s")
  case True
  show ?thesis
    unfolding table_ok_def
  proof (intro allI impI)
    fix k' c
    assume look: "bpf_map_lookup_elem (conn_info_map ?s) k' = Some c"
    have new: "announced ?s (conn_id ci)"
      using True conn_evt_rb_create [OF assms(1)] by (auto simp: announced_def)
    from look True have "(k' = k \<and> c = ci) \<or> bpf_map_lookup_elem (conn_info_map s) k' = Some c"
      by (auto simp: create_conn_info_maps dest: bm.update_range)
    then show "conn_key c = k' \<and> sin6_port (laddr c) \<noteq> 0 \<and> announced ?s (conn_id c)"
      using assms(2,3) new True announced_mono [OF conn_evt_rb_create [OF assms(1)]]
      by (auto simp: table_ok_def admits_def)
  qed
next
  case False
  then show ?thesis
    using conn_evt_rb_create [OF assms(1)]
    by (intro table_ok_same [OF assms(2)]) (simp_all add: create_conn_info_maps)
qed

interpretation tab: agent_invariant_under buffers_ok table_ok
proof
  show "table_ok init_state"
    by (simp add: table_ok_def init_state_def)
next
  fix s p s'
  assume J: "buffers_ok s" and I: "table_ok s" and e: "eff1 p s s'"
  show "table_ok s'"
    using e
  proof (cases rule: eff1.cases)
    case (eff_create ci k e key ts)
    then show ?thesis using table_ok_create [OF J I] by simp
  next
    case (eff_infer_evt k ci0 ci e ts)
    then show ?thesis
      by (intro table_ok_keep [OF I]) (simp_all add: conn_evt_rb_report [OF J])
  next
    case (eff_close_conn k ci m e ts)
    then show ?thesis
      by (intro table_ok_keep [OF I]) (auto simp: conn_evt_rb_report [OF J] bpf_lookup split: if_splits)
  next
    case (eff_store k ci0 ci)
    then show ?thesis
      by (intro table_ok_keep [OF I, of _ "[]"]) (auto simp: bpf_lookup conn_evolves_def split: if_splits)
  next
    case (eff_drop k)
    then show ?thesis
      by (intro table_ok_keep [OF I, of _ "[]"]) (auto simp: bpf_lookup split: if_splits)
  qed (auto intro!: table_ok_same [OF I] simp: remember_pid_def)
next
  fix s s'
  assume I: "table_ok s" and "user_step s s'"
  from this(2) show "table_ok s'"
    by cases (auto intro!: table_ok_keep [OF I, of _ "[]"] simp: bpf_lookup split: if_splits)
qed

text \<open>With the table in order, an event may name any connection of the table.\<close>

lemma table_announced: "table_ok s \<Longrightarrow> in_table s k \<Longrightarrow> announced_key s k"
  by (auto simp: table_ok_def in_table_def announced_key_def conn_key_def)

lemma events_announced_keep:
  assumes "events_announced s" and "conn_evt_rb s' = conn_evt_rb s @ evs"
    and "\<And>ev. ev \<in> set evs \<Longrightarrow> announced s' (conn_id (ce_conn_info ev))"
    and "\<And>d n. (d, n) \<in> set (syscall_rb s') \<Longrightarrow>
      (d, n) \<in> set (syscall_rb s) \<or> announced_key s' (cs_tgid_fd (ke_conn_id_s (kd_ke d)))"
    and "\<And>d n. (d, n) \<in> set (ssl_rb s') \<Longrightarrow>
      (d, n) \<in> set (ssl_rb s) \<or> announced_key s' (cs_tgid_fd (ke_conn_id_s (ks_ke d)))"
    and "\<And>d n. (d, n) \<in> set (rb s') \<Longrightarrow>
      (d, n) \<in> set (rb s) \<or> announced_key s' (cs_tgid_fd (ke_conn_id_s d))"
  shows "events_announced s'"
  using assms announced_mono [OF assms(2)] announced_key_mono [OF assms(2)]
  unfolding events_announced_def by fastforce

lemma rings_create [simp]:
  "syscall_rb (snd (create_conn_info e ci k key ts s)) = syscall_rb s"
  "ssl_rb (snd (create_conn_info e ci k key ts s)) = ssl_rb s"
  "rb (snd (create_conn_info e ci k key ts s)) = rb s"
  "ssl_rb (report_conn_evt e ci ty ts s) = ssl_rb s"
  "rb (report_conn_evt e ci ty ts s) = rb s"
  by (simp_all add: create_conn_info_def report_conn_evt_def Let_def split: option.split)

interpretation told: agent_invariant_under "\<lambda>s. buffers_ok s \<and> table_ok s" events_announced
proof
  show "events_announced init_state"
    by (simp add: events_announced_def init_state_def)
next
  fix s p s'
  assume J: "buffers_ok s \<and> table_ok s" and I: "events_announced s" and e: "eff1 p s s'"
  then have B: "buffers_ok s" and T: "table_ok s"
    by simp_all
  show "events_announced s'"
    using e
  proof (cases rule: eff1.cases)
    case (eff_create ci k e key ts)
    then show ?thesis
      by (intro events_announced_keep [OF I conn_evt_rb_create [OF B, of e ci k key ts, folded eff_create(1)]])
        (auto simp: announced_def conn_evt_rb_create [OF B])
  next
    case (eff_infer_evt k ci0 ci e ts)
    then have "announced s (conn_id ci)"
      using T by (simp add: table_ok_def)
    then have "announced s' (conn_id ci)"
      using announced_mono conn_evt_rb_report [OF B] eff_infer_evt(1) by metis
    then show ?thesis
      using eff_infer_evt(1)
      by (intro events_announced_keep [OF I conn_evt_rb_report [OF B, of e ci kProtocolInfer ts, folded eff_infer_evt(1)]])
        auto
  next
    case (eff_close_conn k ci m e ts)
    then have "announced s (conn_id ci)"
      using T by (simp add: table_ok_def)
    then show ?thesis
      using eff_close_conn(1)
      by (intro events_announced_keep [OF I, of _ "[\<lparr>ce_conn_info = ci, ce_conn_type = kClose,
          ce_ts = (if ts \<noteq> 0 then ts else ktime e KT_report_conn_evt)\<rparr>]"])
        (auto simp: announced_def conn_evt_rb_report [OF B])
  qed (auto intro!: events_announced_keep [OF I, of _ "[]"]
      announced_key_mono [OF _ table_announced [OF T], of _ "[]"] simp: remember_pid_def)
next
  fix s s'
  assume I: "events_announced s" and "user_step s s'"
  from this(2) show "events_announced s'"
    by cases (auto intro!: events_announced_keep [OF I, of _ "[]"])
qed

section \<open>What a program leaves alone\<close>

definition rings_grow :: "u64 \<Rightarrow> bpf_state \<Rightarrow> bpf_state \<Rightarrow> bool" where
  "rings_grow p s s' \<longleftrightarrow>
     prefix (rb s) (rb s') \<and> prefix (syscall_rb s) (syscall_rb s') \<and> prefix (ssl_rb s) (ssl_rb s') \<and>
     prefix (first_packet_rb s) (first_packet_rb s') \<and> prefix (conn_evt_rb s) (conn_evt_rb s') \<and>
     prefix (proc_exec_events s) (proc_exec_events s') \<and> prefix (proc_exit_events s) (proc_exit_events s')"

definition config_kept :: "u64 \<Rightarrow> bpf_state \<Rightarrow> bpf_state \<Rightarrow> bool" where
  "config_kept p s s' \<longleftrightarrow>
     control_values s' = control_values s \<and> filter_mntns_map s' = filter_mntns_map s \<and>
     filter_pidns_map s' = filter_pidns_map s \<and> filter_netns_map s' = filter_netns_map s \<and>
     enabled_remote_port_map s' = enabled_remote_port_map s \<and>
     enabled_local_port_map s' = enabled_local_port_map s \<and>
     enabled_remote_ip_map s' = enabled_remote_ip_map s \<and>
     enabled_local_ipv4_map s' = enabled_local_ipv4_map s \<and>
     go_common_symaddrs_map s' = go_common_symaddrs_map s \<and>
     go_tls_symaddrs_map s' = go_tls_symaddrs_map s \<and>
     bpf_map_lookup_elem (filter_pid_map s) \<subseteq>\<^sub>m bpf_map_lookup_elem (filter_pid_map s')"

text \<open>The arguments that the calls of a thread have stashed.\<close>

definition stashes ::
    "u64 \<Rightarrow> bpf_state \<Rightarrow> data_args option \<times> data_args option \<times> connect_args option \<times>
     accept_args option \<times> close_args option \<times> sendfile_args option \<times> data_args option \<times>
     data_args option \<times> nested_syscall_fd_t option" where
  "stashes q s =
     (stashed kIngress q s, stashed kEgress q s, bpf_map_lookup_elem (connect_args_map s) q,
      bpf_map_lookup_elem (accept_args_map s) q, bpf_map_lookup_elem (close_args_map s) q,
      bpf_map_lookup_elem (active_sendfile_args_map s) q,
      bpf_map_lookup_elem (active_ssl_read_args_map s) q,
      bpf_map_lookup_elem (active_ssl_write_args_map s) q,
      bpf_map_lookup_elem (ssl_user_space_call_map s) q)"

text \<open>What a running Go TLS call has recorded: its arguments and its nested system calls.\<close>

definition go_stashes :: "tgid_goid_t \<Rightarrow> bpf_state \<Rightarrow> go_tls_conn_args option \<times> nested_syscall_fd_t option" where
  "go_stashes g s =
     (bpf_map_lookup_elem (active_tls_conn_op_map s) g, bpf_map_lookup_elem (go_ssl_user_space_call_map s) g)"

definition others_kept :: "u64 \<Rightarrow> bpf_state \<Rightarrow> bpf_state \<Rightarrow> bool" where
  "others_kept p s s' \<longleftrightarrow> (\<forall>q. q \<noteq> p \<longrightarrow> stashes q s' = stashes q s) \<and>
     (\<forall>g. g \<notin> goroutines p \<longrightarrow> go_stashes g s' = go_stashes g s)"

lemma map_op_other: "map_op K m m' \<Longrightarrow> k \<notin> K \<Longrightarrow> bpf_map_lookup_elem m' k = bpf_map_lookup_elem m k"
  by (induction rule: map_op.induct) (auto simp: bpf_lookup)

lemma update_noexist_le:
  "bpf_map_lookup_elem m \<subseteq>\<^sub>m bpf_map_lookup_elem (bpf_map_update_elem m k v BPF_NOEXIST)"
  by (auto simp: map_le_def bpf_lookup)

lemma report_conn_evt_kept [simp]:
  "rings_grow p s (report_conn_evt e ci ty ts s)"
  "config_kept p s (report_conn_evt e ci ty ts s)"
  "stashes q (report_conn_evt e ci ty ts s) = stashes q s"
  "go_stashes g (report_conn_evt e ci ty ts s) = go_stashes g s"
  by (simp_all add: go_stashes_def report_conn_evt_def rings_grow_def config_kept_def stashes_def stashed_def Let_def
      split: option.split)

lemma conn_info_map_kept [simp]:
  "rings_grow p s (s'\<lparr>conn_info_map := m\<rparr>) = rings_grow p s s'"
  "config_kept p s (s'\<lparr>conn_info_map := m\<rparr>) = config_kept p s s'"
  "stashes q (s'\<lparr>conn_info_map := m\<rparr>) = stashes q s'"
  "go_stashes g (s'\<lparr>conn_info_map := m\<rparr>) = go_stashes g s'"
  by (simp_all add: go_stashes_def rings_grow_def config_kept_def stashes_def stashed_def)

lemma create_conn_info_kept [simp]:
  "rings_grow p s (snd (create_conn_info e ci k key ts s))"
  "config_kept p s (snd (create_conn_info e ci k key ts s))"
  "stashes q (snd (create_conn_info e ci k key ts s)) = stashes q s"
  "go_stashes g (snd (create_conn_info e ci k key ts s)) = go_stashes g s"
  by (simp_all add: go_stashes_def create_conn_info_def report_conn_evt_def rings_grow_def config_kept_def
      stashes_def stashed_def Let_def split: option.split)

interpretation grow: agent_guarantee rings_grow
proof
  show "rings_grow p s s" for p s
    by (simp add: rings_grow_def)
  show "rings_grow p s s''" if "rings_grow p s s'" "rings_grow p s' s''" for p s s' s''
    using that unfolding rings_grow_def by (meson prefix_order.trans)
  show "rings_grow p s s'" if "eff1 p s s'" for p s s'
    using that by cases (simp_all, simp_all add: rings_grow_def remember_pid_def)
qed

interpretation config: agent_guarantee config_kept
proof
  show "config_kept p s s" for p s
    by (simp add: config_kept_def)
  show "config_kept p s s''" if "config_kept p s s'" "config_kept p s' s''" for p s s' s''
    using that unfolding config_kept_def by (auto intro: map_le_trans)
  show "config_kept p s s'" if "eff1 p s s'" for p s s'
    using that by cases (simp_all, simp_all add: config_kept_def remember_pid_def update_noexist_le)
qed

interpretation others: agent_guarantee others_kept
proof
  show "others_kept p s s" for p s
    by (simp add: others_kept_def)
  show "others_kept p s s''" if "others_kept p s s'" "others_kept p s' s''" for p s s' s''
    using that by (simp add: others_kept_def)
  show "others_kept p s s'" if "eff1 p s s'" for p s s'
    using that
    by cases (simp_all add: others_kept_def,
      auto simp: stashes_def go_stashes_def stashed_def remember_pid_def dest: map_op_other)
qed

end
