(* ===== verification/Call_Counters.thy ===== *)
theory Call_Counters
  imports Agent_Invariants
begin

text \<open>
  What a data call does to the counters of its connection and what it leaves alone: the byte
  counter of its direction moves on by the bytes of the call, the initial sequence numbers stay.
\<close>

section \<open>Lemmas\<close>

lemma ucast_add_down: "(ucast (a + b :: u64) :: u32) = ucast a + ucast b"
  by (simp add: word_unat_eq_iff unsigned_ucast_eq take_bit_eq_mod unat_word_ariths mod_simps mod_mod_cancel)

lemma syscall_seq_add_bytes:
  "syscall_seq_of d (add_bytes direct n ci) = syscall_seq_of d ci + (if d = direct then ucast n else 0)"
  by (cases d; cases direct) (simp_all add: syscall_seq_of_def add_bytes_def ucast_add_down)

lemma process_data_conn_stream:
  assumes "process_syscall_data_with_conn_info e args k direct n sl is_ssl with_data ci s = (ci', s')"
  shows "sock_xmit_map s' = sock_xmit_map s" and "conn_info_map s' = conn_info_map s"
    and "syscall_seq_of d ci' = syscall_seq_of d ci"
  using assms [unfolded process_syscall_data_with_conn_info_cases report_syscall_evt_def report_ssl_evt_def]
  by (auto simp: syscall_seq_of_def split: if_splits)

lemma vecs_conn_stream:
  assumes "report_vecs_with_conn_info e args k direct n ci s = (ci', s')"
  shows "sock_xmit_map s' = sock_xmit_map s \<and> conn_info_map s' = conn_info_map s \<and>
    syscall_seq_of d ci' = syscall_seq_of d ci"
proof -
  have infer: "sock_xmit_map s' = sock_xmit_map s \<and> conn_info_map s' = conn_info_map s \<and>
      syscall_seq_of d c = syscall_seq_of d ci" if "infer_vecs e args direct n 0 ci s = (c, s')" for c s'
    using infer_vecs_cases [of e args direct n 0 ci s] that
    by (auto simp: infer_and_report_eq Let_def split: if_splits)
  obtain c t where vecs: "(if protocol ci = kProtocolUnset \<or> protocol ci = kProtocolUnknown
      then infer_vecs e args direct n 0 ci s else (ci, s)) = (c, t)"
    by force
  then have "sock_xmit_map t = sock_xmit_map s \<and> conn_info_map t = conn_info_map s \<and>
      syscall_seq_of d c = syscall_seq_of d ci"
    using infer by (auto split: if_splits)
  then show ?thesis
    using assms [unfolded report_vecs_with_conn_info_def Let_def vecs]
    by (auto simp: syscall_seq_of_def split: if_splits)
qed

lemma match_xmit [simp]: "sock_xmit_map (snd (match_trace_tgid e tgid s)) = sock_xmit_map s"
  by (simp add: match_trace_tgid_def remember_pid_def)

lemma find_create_match:
  assumes "control_value s kEnableFilterByPid = None" and "find_or_create_conn e args k direct n s = (found, s')"
  shows "control_value s' kEnableFilterByPid = None"
  using assms(1) config.effs [OF find_or_create_conn_eff(1) [OF assms(2)]]
  by (simp add: control_value_def config_kept_def)

lemma ssl_seq_kept [simp]:
  "ssl_seq_of d (add_bytes direct n ci) = ssl_seq_of d ci"
  "ssl_seq_of d (ci\<lparr>ssl := b\<rparr>) = ssl_seq_of d ci"
  by (simp_all add: ssl_seq_of_def add_bytes_def)

lemma process_data_conn_ssl_seq:
  assumes "process_syscall_data_with_conn_info e args k direct n sl is_ssl with_data ci s = (ci', s')"
  shows "ssl_seq_of d ci' = ssl_seq_of d ci"
  using assms [unfolded process_syscall_data_with_conn_info_cases]
  by (auto simp: ssl_seq_of_def split: if_splits)

text \<open>The entry of a connection after a data call on it.\<close>

lemma data_call_entry:
  assumes "bpf_map_lookup_elem (conn_info_map s) k = Some ci"
    and "k = gen_tgid_fd (ucast (drop_bit 32 pt)) (da_fd args)"
    and "fst (match_trace_tgid e (ucast (drop_bit 32 pt)) s) \<noteq> TARGET_TGID_UNMATCHED" and "0 < sint n"
  obtains ci' where "bpf_map_lookup_elem (conn_info_map (process_syscall_data e args pt direct n b s)) k =
      Some (add_bytes direct n ci')"
    and "conn_evolves ci ci'" and "\<And>d. syscall_seq_of d ci' = syscall_seq_of d ci"
    and "\<And>d. ssl_seq_of d ci' = ssl_seq_of d ci"
    and "sock_xmit_map (process_syscall_data e args pt direct n b s) = sock_xmit_map s"
proof -
  obtain m s0 where m: "match_trace_tgid e (ucast (drop_bit 32 pt)) s = (m, s0)"
    by force
  then have s0: "conn_info_map s0 = conn_info_map s" "sock_xmit_map s0 = sock_xmit_map s"
    using match_trace_tgid_frame(1) [of e "ucast (drop_bit 32 pt)" s] match_xmit [of e "ucast (drop_bit 32 pt)" s]
    by simp_all
  let ?c = "if b then ci\<lparr>ssl := True\<rparr> else ci"
  obtain ci' s' where r: "process_syscall_data_with_conn_info e args k direct n 0 False (\<not> ssl ?c) ?c s0 = (ci', s')"
    by force
  note p = process_data_conn_stream [OF r]
  have s': "process_syscall_data e args pt direct n b s = store_conn_info k (add_bytes direct n ci') s'"
    using assms r s0(1) by (simp add: process_syscall_data_def m find_or_create_conn_def Let_def)
  show ?thesis
  proof (rule that)
    show "bpf_map_lookup_elem (conn_info_map (process_syscall_data e args pt direct n b s)) k =
        Some (add_bytes direct n ci')"
      using assms(1) p(2) s0(1) by (simp add: s' store_conn_info_def bpf_lookup)
    have c: "conn_evolves ci ?c"
      by simp
    show "conn_evolves ci ci'"
      using process_data_conn_eff(3) [OF r _ c] assms(1) s0(1) by simp
    show "syscall_seq_of d ci' = syscall_seq_of d ci" for d
      using p(3) [of d] by (simp add: syscall_seq_of_def split: if_splits)
    show "ssl_seq_of d ci' = ssl_seq_of d ci" for d
      using process_data_conn_ssl_seq [OF r, of d] by (simp split: if_splits)
    show "sock_xmit_map (process_syscall_data e args pt direct n b s) = sock_xmit_map s"
      using p(1) s0(2) by (simp add: s' store_conn_info_def)
  qed
qed

end
