(* ===== verification/Kafka_Split.thy ===== *)
theory Kafka_Split
  imports Wire_Messages Conn_Spec Call_Counters
begin

text \<open>
  Kafka clients that write the four length bytes and the body of a request with two system calls.
  The first call tells the classifiers nothing; the second one is classified with the help of the
  four bytes that the connection has remembered, and its event gives them to user space, which puts
  them in front of the message again.
\<close>

section \<open>Specification\<close>

text \<open>The body of a request that names its client, and the requests considered.\<close>

definition named_request :: "nat \<Rightarrow> nat \<Rightarrow> nat \<Rightarrow> u8 list \<Rightarrow> u8 list \<Rightarrow> u8 list" where
  "named_request api_key api_version correlation_id client rest =
     kafka_request_body api_key api_version correlation_id (be_bytes 2 (length client) @ client @ rest)"

definition named_request_ok :: "nat \<Rightarrow> nat \<Rightarrow> nat \<Rightarrow> u8 list \<Rightarrow> u8 list \<Rightarrow> bool" where
  "named_request_ok api_key api_version correlation_id client rest \<longleftrightarrow>
     api_key \<le> 62 \<and> api_version \<le> 17 \<and> correlation_id < 2 ^ 24 \<and> client \<noteq> [] \<and> length client < 256 \<and>
     length rest < 2 ^ 23"

text \<open>A sample request, for evaluation, and the two runs that send it on descriptor 5.\<close>

definition sample_request :: "u8 list" where
  "sample_request = named_request 3 12 7 (ascii ''app'') [0]"

definition fresh_state :: bpf_state where
  "fresh_state = init_state\<lparr>conn_info_map :=
     bpf_map_update_elem (bpf_map_create 5) (gen_tgid_fd 0 5) conn_info_zero BPF_ANY\<rparr>"

definition sample_header_state :: bpf_state where
  "sample_header_state = process_syscall_data (env_of 64 (be_bytes 4 14)) (data_args_zero\<lparr>da_fd := 5, da_buf := 64\<rparr>)
     0 kEgress 4 False fresh_state"

definition sample_body_state :: bpf_state where
  "sample_body_state = process_syscall_data (env_of 64 sample_request) (data_args_zero\<lparr>da_fd := 5, da_buf := 64\<rparr>)
     0 kEgress 14 False sample_header_state"

section \<open>The two calls and the classifiers\<close>

lemma four_bytes_unknown:
  assumes "mem_holds e buf (be_bytes 4 n)" and "n < 2 ^ 24" and "prev_count ci \<noteq> 4"
  shows "first_verdict tp (verdicts e buf 4 4 ci) = \<lparr>pm_protocol = kProtocolUnknown, pm_type = kUnknown\<rparr>"
proof -
  have "probe_read e 1 buf ! 0 = 0"
    using mem_holds_at0 [OF assms(1), of 1] assms(2) by (simp add: be_bytes_4)
  then have "\<not> is_redis_protocol e buf 4"
    by (simp add: is_redis_protocol_def ascii_def)
  then show ?thesis
    using assms(3) by (simp add: verdicts_def first_verdict_simps Let_def is_http_protocol_def is_mongo_protocol_def
        is_mysql_protocol_def is_rocketmq_protocol_def kafka_short_buffer is_dns_protocol_def)
qed

text \<open>A Mongo request has four zero bytes at offset 8; a MySQL packet has at most 10000 bytes.\<close>

lemma mongo_reject_response:
  assumes "mem_holds e buf (bs @ tail)" "length bs = 16 \<longrightarrow> tail \<noteq> []" "length bs < 2 ^ 64"
    and "16 \<le> length bs \<Longrightarrow> bs ! 9 \<noteq> 0"
  shows "is_mongo_protocol e buf (word_of_nat (length bs)) = kUnknown"
proof (cases "16 \<le> length bs")
  case True
  have "take 4 (drop 8 (probe_read e 17 buf)) = [bs ! 8, bs ! 9, bs ! 10, bs ! 11]"
    using mongo_reads [OF assms(1,2) True, of 2] list4 [of "drop 8 bs"] True by simp
  have "le_nat [bs ! 8, bs ! 9, bs ! 10, bs ! 11] \<noteq> 0"
    using assms(4) [OF True] by (simp add: unat_eq_zero)
  moreover have "unat (le_word [bs ! 8, bs ! 9, bs ! 10, bs ! 11] :: u32) = le_nat [bs ! 8, bs ! 9, bs ! 10, bs ! 11]"
    by (rule unat_le_word) simp
  ultimately have "(le_word [bs ! 8, bs ! 9, bs ! 10, bs ! 11] :: u32) \<noteq> 0"
    by (metis unat_0)
  with \<open>take 4 (drop 8 (probe_read e 17 buf)) = _\<close> show ?thesis
    by (simp add: is_mongo_protocol_def Let_def)
qed (use assms(3) in \<open>simp add: is_mongo_protocol_def count_less\<close>)

lemma mysql_reject_zero:
  assumes "mem_holds e buf bs" "5 \<le> length bs" "bs ! 0 = 0" "bs ! 4 = 0"
  shows "is_mysql_protocol e buf n ci = kUnknown"
proof -
  have "probe_read e 5 buf ! 0 = 0" "probe_read e 5 buf ! 4 = 0"
    using assms by (simp_all add: mem_holds_at0 [OF assms(1)])
  then show ?thesis
    by (simp add: is_mysql_protocol_def Let_def)
qed

lemma named_request_bytes:
  assumes "named_request_ok k v c client rest"
  defines "bs \<equiv> named_request k v c client rest"
  shows "length bs = 10 + length client + length rest" "bs ! 0 = 0" "bs ! 4 = 0" "bs ! 8 = 0" "bs ! 9 \<noteq> 0"
proof -
  have bs: "bs = be_bytes 2 k @ be_bytes 2 v @ be_bytes 4 c @ be_bytes 2 (length client) @ client @ rest"
    by (simp add: bs_def named_request_def kafka_request_body_def)
  show "length bs = 10 + length client + length rest"
    by (simp add: bs)
  have "(word_of_nat (length client) :: u8) \<noteq> 0"
    using assms(1) by (auto simp: named_request_ok_def word_unat_eq_iff unat_of_nat)
  then show "bs ! 0 = 0" "bs ! 4 = 0" "bs ! 8 = 0" "bs ! 9 \<noteq> 0"
    using assms(1) by (simp_all add: bs be_bytes_2 be_bytes_4 named_request_ok_def)
qed

lemma body_is_kafka:
  fixes k v c client rest
  defines "bs \<equiv> named_request k v c client rest"
  assumes "mem_holds e buf (bs @ tail)" and "length bs = 16 \<longrightarrow> tail \<noteq> []" and "named_request_ok k v c client rest"
    and "prev_count ci = 4" and "prev_buf ci = be_bytes 4 (length bs)" and "TRACE_PROTOCOL tp kProtocolKafka"
  shows "first_verdict tp (verdicts e buf (word_of_nat (length bs)) tot ci) =
      \<lparr>pm_protocol = kProtocolKafka, pm_type = kRequest\<rparr>"
    and "kafka_uses_prev (word_of_nat (length bs)) tot ci"
proof -
  note bytes = named_request_bytes [OF assms(4), folded bs_def]
  have m: "mem_holds e buf bs"
    by (rule mem_holds_append [OF assms(2)])
  have len: "length bs < 2 ^ 64" "5 \<le> length bs"
    using assms(4) bytes(1) by (simp_all add: named_request_ok_def)
  have lim: "k \<le> 62" "v \<le> 17" "c < 2 ^ 31" "length (be_bytes 2 (length client) @ client @ rest) < 2 ^ 30"
    using assms(4) by (simp_all add: named_request_ok_def)
  have n: "8 + length (be_bytes 2 (length client) @ client @ rest) = length bs"
    by (simp add: bytes(1))
  note kafka = kafka_split_body [OF m [unfolded bs_def named_request_def] lim assms(5), unfolded n, OF assms(6)]
  show "kafka_uses_prev (word_of_nat (length bs)) tot ci"
    by (rule kafka(2))
  have "is_http_protocol e buf (word_of_nat (length bs)) = kUnknown"
    by (rule http_reject_first [OF m len(1)]) (simp add: bytes)
  moreover have "is_mongo_protocol e buf (word_of_nat (length bs)) = kUnknown"
    by (rule mongo_reject_response [OF assms(2,3) len(1)]) (simp add: bytes)
  moreover have "is_mysql_protocol e buf (word_of_nat (length bs)) ci = kUnknown"
    by (rule mysql_reject_zero [OF m len(2)]) (simp_all add: bytes)
  moreover have "is_rocketmq_protocol e buf (word_of_nat (length bs)) = kUnknown"
  proof (rule rocketmq_reject_json [OF m len(1)])
    assume "16 \<le> length bs"
    then have "take 8 (drop 8 bs) ! 0 = 0"
      by (simp add: bytes)
    then show "bs ! 4 = 0 \<and> take 8 (drop 8 bs) \<noteq> ascii ''{\"code\":''"
      using bytes(3) by (auto simp: ascii_def dest!: arg_cong [where f = "\<lambda>l. l ! 0"])
  qed
  ultimately show "first_verdict tp (verdicts e buf (word_of_nat (length bs)) tot ci) =
      \<lparr>pm_protocol = kProtocolKafka, pm_type = kRequest\<rparr>"
    using kafka(1) assms(7) by (simp add: verdicts_def first_verdict_simps Let_def)
qed

section \<open>The two calls\<close>

lemma data_call_on_entry:
  assumes "tgid_traced e pt s" and "0 < sint n" and "k = gen_tgid_fd (ucast (drop_bit 32 pt)) (da_fd args)"
    and "bpf_map_lookup_elem (conn_info_map s) k = Some ci" and "\<not> ssl ci"
  obtains m where "process_syscall_data e args pt direct n False s =
    (let (ci', s') = process_syscall_data_with_conn_info e args k direct n 0 False True ci (s\<lparr>filter_pid_map := m\<rparr>)
     in store_conn_info k (add_bytes direct n ci') s')"
proof -
  obtain m where m: "snd (match_trace_tgid e (ucast (drop_bit 32 pt)) s) = s\<lparr>filter_pid_map := m\<rparr>"
    using match_trace_tgid_shape by blast
  have "process_syscall_data e args pt direct n False s =
    (let (ci', s') = process_syscall_data_with_conn_info e args k direct n 0 False True ci (s\<lparr>filter_pid_map := m\<rparr>)
     in store_conn_info k (add_bytes direct n ci') s')"
    using assms m by (simp add: process_syscall_data_def tgid_traced_def find_or_create_conn_def case_prod_unfold Let_def)
  then show thesis
    by (rule that)
qed

lemma get_trace_protocol_pid_map [simp]: "get_trace_protocol (s\<lparr>filter_pid_map := m\<rparr>) = get_trace_protocol s"
  by (simp add: get_trace_protocol_def control_value_def)

lemma header_call:
  fixes direct :: traffic_direction_t
  assumes "tgid_traced e pt s" and "k = gen_tgid_fd (ucast (drop_bit 32 pt)) (da_fd args)"
    and "bpf_map_lookup_elem (conn_info_map s) k = Some ci" and "\<not> ssl ci"
    and "protocol ci \<in> {kProtocolUnset, kProtocolUnknown}" and "prev_count ci \<noteq> 4"
    and "mem_holds e (da_buf args) (be_bytes 4 n)" and "n < 2 ^ 24"
  defines "s1 \<equiv> process_syscall_data e args pt direct 4 False s"
  shows "syscall_rb s1 = syscall_rb s"
    and "bpf_map_lookup_elem (conn_info_map s1) k = Some (add_bytes direct 4
      (ci\<lparr>protocol := kProtocolUnknown, prepend_length_header := False, prev_count := 4, prev_buf := be_bytes 4 n\<rparr>))"
proof -
  have "0 < sint (4 :: u64)"
    by simp
  from data_call_on_entry [OF assms(1) this assms(2-4)] obtain m where s1: "s1 =
    (let (ci', s') = process_syscall_data_with_conn_info e args k direct 4 0 False True ci (s\<lparr>filter_pid_map := m\<rparr>)
     in store_conn_info k (add_bytes direct 4 ci') s')"
    unfolding s1_def by metis
  have v: "first_verdict tp (verdicts e (da_buf args) 4 4 ci) = \<lparr>pm_protocol = kProtocolUnknown, pm_type = kUnknown\<rparr>" for tp
    by (rule four_bytes_unknown [OF assms(7,8,6)])
  have ci': "conn_after_infer e (da_buf args) 4 4 direct tp ci =
      ci\<lparr>protocol := kProtocolUnknown, prepend_length_header := False, prev_count := 4, prev_buf := be_bytes 4 n\<rparr>" for tp
    using mem_holds_at0 [OF assms(7), of 4] v
    by (simp add: conn_after_infer_def snd_infer_protocol fst_infer_protocol Let_def)
  have "tries_infer True ci"
    using assms(5) by (auto simp: tries_infer_def)
  then have "process_syscall_data_with_conn_info e args k direct 4 0 False True ci (s\<lparr>filter_pid_map := m\<rparr>) =
    (ci\<lparr>protocol := kProtocolUnknown, prepend_length_header := False, prev_count := 4, prev_buf := be_bytes 4 n\<rparr>,
     if protocol ci = kProtocolUnknown then s\<lparr>filter_pid_map := m\<rparr>
     else report_conn_evt e (conn_after_infer e (da_buf args) 4 4 direct (get_trace_protocol s) ci) kProtocolInfer 0
       (s\<lparr>filter_pid_map := m\<rparr>))"
    by (simp add: process_syscall_data_with_conn_info_cases v may_report_def ci')
  then show "syscall_rb s1 = syscall_rb s"
    and "bpf_map_lookup_elem (conn_info_map s1) k = Some (add_bytes direct 4
      (ci\<lparr>protocol := kProtocolUnknown, prepend_length_header := False, prev_count := 4, prev_buf := be_bytes 4 n\<rparr>))"
    using assms(3) by (simp_all add: s1 store_conn_info_def bpf_lookup)
qed

lemma syscall_buf_evt_header:
  "ke_length_header (kd_ke (syscall_buf_evt e seq cid len step ts d buf fn True lh evt)) = lh"
  by (simp add: syscall_buf_evt_def Let_def fill_ts_def)

lemma body_call:
  fixes direct :: traffic_direction_t and k v c client rest
  defines "bs \<equiv> named_request k v c client rest"
  assumes "tgid_traced e pt s" and "key = gen_tgid_fd (ucast (drop_bit 32 pt)) (da_fd args)"
    and "bpf_map_lookup_elem (conn_info_map s) key = Some ci" and "\<not> ssl ci" and "protocol ci = kProtocolUnknown"
    and "prev_count ci = 4" and "prev_buf ci = be_bytes 4 (length bs)"
    and "mem_holds e (da_buf args) (bs @ tail)" and "length bs = 16 \<longrightarrow> tail \<noteq> []" and "named_request_ok k v c client rest"
    and "TRACE_PROTOCOL (get_trace_protocol s) kProtocolKafka" and "syscall_data_map s (cur_cpu e) \<noteq> None"
  defines "s2 \<equiv> process_syscall_data e args pt direct (word_of_nat (length bs)) False s"
  shows "\<exists>ev size. syscall_rb s2 = syscall_rb s @ [(ev, size)] \<and>
      evt_span (ev, size) = (syscall_seq_of direct ci, word_of_nat (length bs)) \<and>
      evt_payload (ev, size) = take MAX_MSG_SIZE bs \<and> ke_prepend_length_header (kd_ke ev) \<and>
      ke_length_header (kd_ke ev) = le_word (be_bytes 4 (length bs))"
    and "\<exists>ci'. bpf_map_lookup_elem (conn_info_map s2) key = Some ci' \<and> protocol ci' = kProtocolKafka \<and>
      \<not> prepend_length_header ci'"
proof -
  let ?n = "word_of_nat (length bs) :: u64"
  have len: "10 < length bs" "length bs < 2 ^ 24"
    using assms(11) named_request_bytes(1) [OF assms(11)] by (simp_all add: bs_def named_request_ok_def)
  have "sint ?n = int (length bs)"
    by (rule sint_word_of_nat) (use len(2) in simp)
  then have "0 < sint ?n"
    using len(1) by linarith
  from data_call_on_entry [OF assms(2) this assms(3-5)] obtain m where s2: "s2 =
    (let (ci', s') = process_syscall_data_with_conn_info e args key direct ?n 0 False True ci (s\<lparr>filter_pid_map := m\<rparr>)
     in store_conn_info key (add_bytes direct ?n ci') s')"
    unfolding s2_def by metis
  let ?ci = "conn_after_infer e (da_buf args) ?n ?n direct (get_trace_protocol s) ci"
  let ?t = "report_conn_evt e ?ci kProtocolInfer 0 (s\<lparr>filter_pid_map := m\<rparr>)"
  note kafka = body_is_kafka [of e "da_buf args" k v c client rest tail ci, folded bs_def,
      OF assms(9-11,7,8,12), of ?n]
  have u: "(ucast (word_of_nat (length bs) :: u32) :: u64) = ?n" "unat ?n = length bs"
    "(ucast ?n :: u32) = word_of_nat (length bs)"
    using len(2) by (simp_all add: word_unat_eq_iff unsigned_ucast_eq unat_of_nat take_bit_eq_mod mod_mod_cancel)
  have nz: "?n \<noteq> 0" "?n \<noteq> 4"
    using len(1) u(2) by (auto dest: arg_cong [where f = unat])
  have ci: "prepend_length_header ?ci" "prev_buf ?ci = be_bytes 4 (length bs)" "protocol ?ci = kProtocolKafka"
    using kafka assms(6,8) nz(2)
    by (simp_all add: conn_after_infer_def snd_infer_protocol fst_infer_protocol Let_def)
  have call: "process_syscall_data_with_conn_info e args key direct ?n 0 False True ci (s\<lparr>filter_pid_map := m\<rparr>) =
    (?ci\<lparr>prepend_length_header := False\<rparr>,
     report_syscall_evt e (syscall_seq_of direct ci) (local_conn_id_s e key) (ucast ?n) (data_step False direct) args
       True (le_word (be_bytes 4 (length bs))) ?t)"
    using assms(6) kafka(1) ci by (simp add: process_syscall_data_with_conn_info_cases tries_infer_def may_report_def)
  then show "\<exists>ci'. bpf_map_lookup_elem (conn_info_map s2) key = Some ci' \<and> protocol ci' = kProtocolKafka \<and>
      \<not> prepend_length_header ci'"
    using assms(4) ci(3) by (simp add: s2 store_conn_info_def report_syscall_evt_def bpf_lookup add_bytes_def)
  obtain evt where "syscall_data_map ?t (cur_cpu e) = Some evt"
    using assms(13) by auto
  note buf = report_syscall_buf_eq [OF nz(1) this]
  have "probe_read e (min (length bs) MAX_MSG_SIZE) (da_buf args) = take MAX_MSG_SIZE bs"
    using mem_holds_at0 [OF mem_holds_append [OF assms(9)], of "min (length bs) MAX_MSG_SIZE"] by (simp add: min_def)
  then show "\<exists>ev size. syscall_rb s2 = syscall_rb s @ [(ev, size)] \<and>
      evt_span (ev, size) = (syscall_seq_of direct ci, word_of_nat (length bs)) \<and>
      evt_payload (ev, size) = take MAX_MSG_SIZE bs \<and> ke_prepend_length_header (kd_ke ev) \<and>
      ke_length_header (kd_ke ev) = le_word (be_bytes 4 (length bs))"
    by (simp add: s2 call store_conn_info_def report_syscall_evt_def u buf Let_def syscall_buf_evt_fields [OF nz(1)]
        syscall_buf_evt_header)
qed

lemma sample_request_ok: "named_request_ok 3 12 7 (ascii ''app'') [0]" "length sample_request = 14"
  by (simp_all add: named_request_ok_def ascii_def sample_request_def named_request_def kafka_request_body_def)

section \<open>Property\<close>

text \<open>
  Property C32. A Kafka client that sends the four length bytes of a request and its body in two
  calls, on a connection that is not classified yet (fresh or unknown) and has no length header
  pending, while Kafka is traced alone or with all other protocols. The first call submits no data
  event. The second call finds the connection as the first one left it, whatever else happened in
  between: it classifies the connection as Kafka and submits one event, at the position behind the
  four bytes, with the body (its first \<open>MAX_MSG_SIZE\<close> bytes) and with the four length bytes for user space to put in front; the
  mark is taken back at once. (The request names its client, has a known key and version and a
  correlation id below \<open>2 ^ 24\<close>; a body of exactly 16 bytes is followed by a readable byte.)
\<close>

theorem kafka_split_request_detected:
  fixes direct :: traffic_direction_t and k v c client rest
  defines "bs \<equiv> named_request k v c client rest"
  assumes "named_request_ok k v c client rest"
    and "mem_holds e1 (da_buf args1) (be_bytes 4 (length bs))"
    and "mem_holds e2 (da_buf args2) (bs @ tail)" and "length bs = 16 \<longrightarrow> tail \<noteq> []"
    and "da_fd args2 = da_fd args1" and "key = gen_tgid_fd (ucast (drop_bit 32 pt)) (da_fd args1)"
    and "tgid_traced e1 pt s" and "tgid_traced e2 pt t"
    and "bpf_map_lookup_elem (conn_info_map s) key = Some ci" and "\<not> ssl ci"
    and "protocol ci \<in> {kProtocolUnset, kProtocolUnknown}" and "prev_count ci \<noteq> 4"
  defines "s1 \<equiv> process_syscall_data e1 args1 pt direct 4 False s"
    and "t1 \<equiv> process_syscall_data e2 args2 pt direct (word_of_nat (length bs)) False t"
  assumes "bpf_map_lookup_elem (conn_info_map t) key = bpf_map_lookup_elem (conn_info_map s1) key"
    and "TRACE_PROTOCOL (get_trace_protocol t) kProtocolKafka" and "syscall_data_map t (cur_cpu e2) \<noteq> None"
  shows "syscall_rb s1 = syscall_rb s \<and>
    (\<exists>ev size. syscall_rb t1 = syscall_rb t @ [(ev, size)] \<and>
      evt_span (ev, size) = (syscall_seq_of direct ci + 4, word_of_nat (length bs)) \<and>
      evt_payload (ev, size) = take MAX_MSG_SIZE bs \<and> ke_prepend_length_header (kd_ke ev) \<and>
      ke_length_header (kd_ke ev) = le_word (be_bytes 4 (length bs))) \<and>
    (\<exists>ci'. bpf_map_lookup_elem (conn_info_map t1) key = Some ci' \<and> protocol ci' = kProtocolKafka \<and>
      \<not> prepend_length_header ci')"
proof -
  have len: "length bs < 2 ^ 24"
    using assms(2) named_request_bytes(1) [OF assms(2)] by (simp add: bs_def named_request_ok_def)
  let ?ci = "add_bytes direct 4
      (ci\<lparr>protocol := kProtocolUnknown, prepend_length_header := False, prev_count := 4, prev_buf := be_bytes 4 (length bs)\<rparr>)"
  note header = header_call [OF assms(8,7,10-13,3) len, where direct = direct, folded s1_def]
  have ci: "\<not> ssl ?ci" "protocol ?ci = kProtocolUnknown" "prev_count ?ci = 4" "prev_buf ?ci = be_bytes 4 (length bs)"
    using assms(11) by (simp_all add: add_bytes_def)
  have key: "key = gen_tgid_fd (ucast (drop_bit 32 pt)) (da_fd args2)"
    using assms(6,7) by simp
  have look: "bpf_map_lookup_elem (conn_info_map t) key = Some ?ci"
    using assms(16) header(2) by simp
  have "syscall_seq_of direct ?ci = syscall_seq_of direct ci + 4"
    by (simp add: syscall_seq_add_bytes) (simp add: syscall_seq_of_def)
  then show ?thesis
    using header(1) body_call [of e2 pt t key args2 ?ci k v c client rest tail direct, folded bs_def, folded t1_def,
        OF assms(9) key look ci assms(4,5,2,17,18)] by simp
qed

theorem kafka_split_request_detected_witness:
  "syscall_rb sample_header_state = [] \<and>
   (\<exists>ev size. syscall_rb sample_body_state = [(ev, size)] \<and> evt_span (ev, size) = (5, 14) \<and>
      ke_prepend_length_header (kd_ke ev) \<and> ke_length_header (kd_ke ev) = le_word (be_bytes 4 14)) \<and>
   (\<exists>ci'. bpf_map_lookup_elem (conn_info_map sample_body_state) (gen_tgid_fd 0 5) = Some ci' \<and>
      protocol ci' = kProtocolKafka)"
proof -
  let ?args = "data_args_zero\<lparr>da_fd := 5, da_buf := 64\<rparr>" and ?k = "gen_tgid_fd 0 5"
  have m1: "mem_holds (env_of 64 (be_bytes 4 14)) (da_buf ?args) (be_bytes 4 14)"
    using mem_holds_env_of [of "be_bytes 4 14" 64] by simp
  have m2: "mem_holds (env_of 64 sample_request) (da_buf ?args) (sample_request @ [])"
    using mem_holds_env_of [of sample_request 64] sample_request_ok(2) by simp
  have cv: "control_value s c = None" if "control_values s = bpf_map_create MAX_ENTRIES" for s c
    using that by (simp add: control_value_def)
  have fresh: "control_values fresh_state = bpf_map_create MAX_ENTRIES" "syscall_rb fresh_state = []"
    "bpf_map_lookup_elem (conn_info_map fresh_state) ?k = Some conn_info_zero"
    by (simp_all add: fresh_state_def init_state_def bpf_lookup bpf_map_full_def) (simp add: bpf_map_create_def)
  have zero: "\<not> ssl conn_info_zero" "protocol conn_info_zero \<in> {kProtocolUnset, kProtocolUnknown}"
    "prev_count conn_info_zero \<noteq> 4" "syscall_seq_of kEgress conn_info_zero = 1"
    by (simp_all add: conn_info_zero_def syscall_seq_of_def)
  have eff: "eff 0 fresh_state sample_header_state"
    unfolding sample_header_state_def by (rule process_syscall_data_eff)
  have buf: "buffers_ok fresh_state"
    using buffers.reachable [OF reach_init] by (simp add: fresh_state_def buffers_ok_def)
  have "control_values sample_header_state = bpf_map_create MAX_ENTRIES"
    using config.effs [OF eff] fresh(1) by (simp add: config_kept_def)
  note cv = cv [OF fresh(1)] cv [OF this]
  then have traced: "tgid_traced e 0 fresh_state" "tgid_traced e 0 sample_header_state"
    "TRACE_PROTOCOL (get_trace_protocol sample_header_state) kProtocolKafka" for e
    by (simp_all add: tgid_traced_def match_trace_tgid_all get_trace_protocol_def TRACE_PROTOCOL_def)
  have data: "syscall_data_map sample_header_state c \<noteq> None" for c
    using buffers.effs [OF eff buf] unfolding buffers_ok_def by auto
  note two = kafka_split_request_detected [of 3 12 7 "ascii ''app''" "[0]" "env_of 64 (be_bytes 4 14)" ?args
      "env_of 64 sample_request" ?args "[]" ?k 0 fresh_state sample_header_state conn_info_zero kEgress,
      folded sample_request_def, unfolded sample_request_ok(2), OF sample_request_ok(1) m1 m2 _ _ _ traced(1,2) fresh(3) zero(1-3) _ traced(3) data]
  show ?thesis
    using two fresh(2) zero(4) by (auto simp: sample_header_state_def sample_body_state_def)
qed

end
