(* ===== verification/Openssl_Offsets.thy ===== *)
theory Openssl_Offsets
  imports Openssl
begin

text \<open>
  The offset tables of the OpenSSL objects (\<open>src/bpf/openssl_<version>.bpf.c\<close>, one list of
  macro definitions per file, in the order of the file) and the programs of \<open>src/utils\<close>
  that print them from the headers of an OpenSSL source tree, with the scripts that put a file together
  from the output of a printer. \<open>offsetof\<close> and the version strings come from those headers and are
  parameters of the printers.
\<close>

section \<open>Offset tables\<close>

datatype macro_body = Num nat | Alias string

type_synonym macro_table = "(string \<times> macro_body) list"

definition openssl_1_0_2a :: macro_table where
  "openssl_1_0_2a =
     [(''SSL_ST_VERSION'', Num 0x0),
      (''SSL_ST_SESSION'', Num 0x130),
      (''SSL_ST_S3'', Num 0x80),
      (''SSL_ST_RBIO'', Num 0x10),
      (''SSL_ST_WBIO'', Num 0x18),
      (''SSL_ST_SERVER'', Num 0x38),
      (''SSL_SESSION_ST_MASTER_KEY'', Num 0x14),
      (''SSL3_STATE_ST_CLIENT_RANDOM'', Num 0xc4),
      (''SSL_SESSION_ST_CIPHER'', Num 0xe0),
      (''SSL_SESSION_ST_CIPHER_ID'', Num 0xe8),
      (''SSL_CIPHER_ST_ID'', Num 0x10),
      (''BIO_ST_NUM'', Num 0x28),
      (''SSL_ST_HANDSHAKE_SECRET'', Num 0),
      (''SSL_ST_HANDSHAKE_TRAFFIC_HASH'', Num 0),
      (''SSL_ST_CLIENT_APP_TRAFFIC_SECRET'', Num 0),
      (''SSL_ST_SERVER_APP_TRAFFIC_SECRET'', Num 0),
      (''SSL_ST_EXPORTER_MASTER_SECRET'', Num 0)]"

definition openssl_1_1_0a :: macro_table where
  "openssl_1_1_0a =
     [(''SSL_ST_VERSION'', Num 0x0),
      (''SSL_ST_SESSION'', Num 0x178),
      (''SSL_ST_S3'', Num 0x90),
      (''SSL_ST_RBIO'', Num 0x10),
      (''SSL_ST_WBIO'', Num 0x18),
      (''SSL_ST_SERVER'', Num 0x38),
      (''SSL_SESSION_ST_MASTER_KEY'', Num 0x8),
      (''SSL3_STATE_ST_CLIENT_RANDOM'', Num 0xb0),
      (''SSL_SESSION_ST_CIPHER'', Num 0xd8),
      (''SSL_SESSION_ST_CIPHER_ID'', Num 0xe0),
      (''SSL_CIPHER_ST_ID'', Num 0x10),
      (''BIO_ST_NUM'', Num 0x28),
      (''SSL_ST_HANDSHAKE_SECRET'', Num 0),
      (''SSL_ST_HANDSHAKE_TRAFFIC_HASH'', Num 0),
      (''SSL_ST_CLIENT_APP_TRAFFIC_SECRET'', Num 0),
      (''SSL_ST_SERVER_APP_TRAFFIC_SECRET'', Num 0),
      (''SSL_ST_EXPORTER_MASTER_SECRET'', Num 0)]"

definition openssl_1_1_1a :: macro_table where
  "openssl_1_1_1a =
     [(''SSL_ST_VERSION'', Num 0x0),
      (''SSL_ST_SESSION'', Num 0x510),
      (''SSL_ST_S3'', Num 0xa8),
      (''SSL_ST_RBIO'', Num 0x10),
      (''SSL_ST_WBIO'', Num 0x18),
      (''SSL_ST_SERVER'', Num 0x38),
      (''SSL_SESSION_ST_MASTER_KEY'', Num 0x50),
      (''SSL3_STATE_ST_CLIENT_RANDOM'', Num 0xb8),
      (''SSL_SESSION_ST_CIPHER'', Num 0x1f8),
      (''SSL_SESSION_ST_CIPHER_ID'', Num 0x200),
      (''SSL_CIPHER_ST_ID'', Num 0x18),
      (''SSL_ST_HANDSHAKE_SECRET'', Num 0x174),
      (''SSL_ST_HANDSHAKE_TRAFFIC_HASH'', Num 0x2f4),
      (''SSL_ST_CLIENT_APP_TRAFFIC_SECRET'', Num 0x334),
      (''SSL_ST_SERVER_APP_TRAFFIC_SECRET'', Num 0x374),
      (''SSL_ST_EXPORTER_MASTER_SECRET'', Num 0x3b4),
      (''BIO_ST_NUM'', Num 0x30)]"

definition openssl_1_1_1b :: macro_table where
  "openssl_1_1_1b =
     [(''SSL_ST_VERSION'', Num 0x0),
      (''SSL_ST_SESSION'', Num 0x508),
      (''SSL_ST_S3'', Num 0xa8),
      (''SSL_ST_RBIO'', Num 0x10),
      (''SSL_ST_WBIO'', Num 0x18),
      (''SSL_ST_SERVER'', Num 0x38),
      (''SSL_SESSION_ST_MASTER_KEY'', Num 0x50),
      (''SSL3_STATE_ST_CLIENT_RANDOM'', Num 0xb8),
      (''SSL_SESSION_ST_CIPHER'', Num 0x1f8),
      (''SSL_SESSION_ST_CIPHER_ID'', Num 0x200),
      (''SSL_CIPHER_ST_ID'', Num 0x18),
      (''SSL_ST_HANDSHAKE_SECRET'', Num 0x174),
      (''SSL_ST_HANDSHAKE_TRAFFIC_HASH'', Num 0x2f4),
      (''SSL_ST_CLIENT_APP_TRAFFIC_SECRET'', Num 0x334),
      (''SSL_ST_SERVER_APP_TRAFFIC_SECRET'', Num 0x374),
      (''SSL_ST_EXPORTER_MASTER_SECRET'', Num 0x3b4),
      (''BIO_ST_NUM'', Num 0x30)]"

definition openssl_1_1_1d :: macro_table where
  "openssl_1_1_1d =
     [(''SSL_ST_VERSION'', Num 0x0),
      (''SSL_ST_SESSION'', Num 0x510),
      (''SSL_ST_S3'', Num 0xa8),
      (''SSL_ST_RBIO'', Num 0x10),
      (''SSL_ST_WBIO'', Num 0x18),
      (''SSL_ST_SERVER'', Num 0x38),
      (''SSL_SESSION_ST_MASTER_KEY'', Num 0x50),
      (''SSL3_STATE_ST_CLIENT_RANDOM'', Num 0xb8),
      (''SSL_SESSION_ST_CIPHER'', Num 0x1f8),
      (''SSL_SESSION_ST_CIPHER_ID'', Num 0x200),
      (''SSL_CIPHER_ST_ID'', Num 0x18),
      (''SSL_ST_HANDSHAKE_SECRET'', Num 0x17c),
      (''SSL_ST_HANDSHAKE_TRAFFIC_HASH'', Num 0x2fc),
      (''SSL_ST_CLIENT_APP_TRAFFIC_SECRET'', Num 0x33c),
      (''SSL_ST_SERVER_APP_TRAFFIC_SECRET'', Num 0x37c),
      (''SSL_ST_EXPORTER_MASTER_SECRET'', Num 0x3bc),
      (''BIO_ST_NUM'', Num 0x30)]"

definition openssl_1_1_1j :: macro_table where
  "openssl_1_1_1j =
     [(''SSL_ST_VERSION'', Num 0x0),
      (''SSL_ST_SESSION'', Num 0x510),
      (''SSL_ST_S3'', Num 0xa8),
      (''SSL_ST_RBIO'', Num 0x10),
      (''SSL_ST_WBIO'', Num 0x18),
      (''SSL_ST_SERVER'', Num 0x38),
      (''SSL_SESSION_ST_MASTER_KEY'', Num 0x50),
      (''SSL3_STATE_ST_CLIENT_RANDOM'', Num 0xb8),
      (''SSL_SESSION_ST_CIPHER'', Num 0x1f0),
      (''SSL_SESSION_ST_CIPHER_ID'', Num 0x1f8),
      (''SSL_CIPHER_ST_ID'', Num 0x18),
      (''SSL_ST_HANDSHAKE_SECRET'', Num 0x17c),
      (''SSL_ST_HANDSHAKE_TRAFFIC_HASH'', Num 0x2fc),
      (''SSL_ST_CLIENT_APP_TRAFFIC_SECRET'', Num 0x33c),
      (''SSL_ST_SERVER_APP_TRAFFIC_SECRET'', Num 0x37c),
      (''SSL_ST_EXPORTER_MASTER_SECRET'', Num 0x3bc),
      (''BIO_ST_NUM'', Num 0x30)]"

definition openssl_3_0_0 :: macro_table where
  "openssl_3_0_0 =
     [(''SSL_ST_VERSION'', Num 0x0),
      (''SSL_ST_SESSION'', Num 0x918),
      (''SSL_ST_S3'', Num 0xa8),
      (''SSL_ST_RBIO'', Num 0x10),
      (''SSL_ST_WBIO'', Num 0x18),
      (''SSL_ST_SERVER'', Num 0x38),
      (''SSL_SESSION_ST_MASTER_KEY'', Num 0x50),
      (''SSL_ST_S3_CLIENT_RANDOM'', Num 0x160),
      (''SSL_SESSION_ST_CIPHER'', Num 0x2f8),
      (''SSL_SESSION_ST_CIPHER_ID'', Num 0x300),
      (''SSL_CIPHER_ST_ID'', Num 0x18),
      (''SSL_ST_HANDSHAKE_SECRET'', Num 0x584),
      (''SSL_ST_HANDSHAKE_TRAFFIC_HASH'', Num 0x704),
      (''SSL_ST_CLIENT_APP_TRAFFIC_SECRET'', Num 0x744),
      (''SSL_ST_SERVER_APP_TRAFFIC_SECRET'', Num 0x784),
      (''SSL_ST_EXPORTER_MASTER_SECRET'', Num 0x7c4),
      (''BIO_ST_NUM'', Num 0x38)]"

definition openssl_3_1_0 :: macro_table where
  "openssl_3_1_0 =
     [(''SSL_ST_VERSION'', Num 0x0),
      (''SSL_ST_SESSION'', Num 0x918),
      (''SSL_ST_S3'', Num 0xa8),
      (''SSL_ST_RBIO'', Num 0x10),
      (''SSL_ST_WBIO'', Num 0x18),
      (''SSL_ST_SERVER'', Num 0x38),
      (''SSL_SESSION_ST_MASTER_KEY'', Num 0x50),
      (''SSL_ST_S3_CLIENT_RANDOM'', Num 0x160),
      (''SSL_SESSION_ST_CIPHER'', Num 0x2f8),
      (''SSL_SESSION_ST_CIPHER_ID'', Num 0x300),
      (''SSL_CIPHER_ST_ID'', Num 0x18),
      (''SSL_ST_HANDSHAKE_SECRET'', Num 0x584),
      (''SSL_ST_HANDSHAKE_TRAFFIC_HASH'', Num 0x704),
      (''SSL_ST_CLIENT_APP_TRAFFIC_SECRET'', Num 0x744),
      (''SSL_ST_SERVER_APP_TRAFFIC_SECRET'', Num 0x784),
      (''SSL_ST_EXPORTER_MASTER_SECRET'', Num 0x7c4),
      (''BIO_ST_NUM'', Num 0x38)]"

definition openssl_3_2_0 :: macro_table where
  "openssl_3_2_0 =
     [(''SSL_ST_TYPE'', Num 0x0),
      (''SSL_CONNECTION_ST_VERSION'', Num 0x40),
      (''SSL_CONNECTION_ST_SESSION'', Num 0x880),
      (''SSL_CONNECTION_ST_S3'', Num 0x118),
      (''SSL_CONNECTION_ST_RBIO'', Num 0x48),
      (''SSL_CONNECTION_ST_WBIO'', Num 0x50),
      (''SSL_CONNECTION_ST_SERVER'', Num 0x70),
      (''SSL_SESSION_ST_MASTER_KEY'', Num 0x50),
      (''SSL_CONNECTION_ST_S3_CLIENT_RANDOM'', Num 0x140),
      (''SSL_SESSION_ST_CIPHER'', Num 0x300),
      (''SSL_SESSION_ST_CIPHER_ID'', Num 0x308),
      (''SSL_CIPHER_ST_ID'', Num 0x18),
      (''SSL_CONNECTION_ST_HANDSHAKE_SECRET'', Num 0x53c),
      (''SSL_CONNECTION_ST_HANDSHAKE_TRAFFIC_HASH'', Num 0x6bc),
      (''SSL_CONNECTION_ST_CLIENT_APP_TRAFFIC_SECRET'', Num 0x6fc),
      (''SSL_CONNECTION_ST_SERVER_APP_TRAFFIC_SECRET'', Num 0x73c),
      (''SSL_CONNECTION_ST_EXPORTER_MASTER_SECRET'', Num 0x77c),
      (''BIO_ST_NUM'', Num 0x38),
      (''QUIC_CONN_ST_TLS'', Num 0x40),
      (''SSL_ST_VERSION'', Alias ''SSL_CONNECTION_ST_VERSION''),
      (''SSL_ST_WBIO'', Alias ''SSL_CONNECTION_ST_WBIO''),
      (''SSL_ST_RBIO'', Alias ''SSL_CONNECTION_ST_RBIO'')]"

definition openssl_3_2_3 :: macro_table where
  "openssl_3_2_3 =
     [(''SSL_ST_TYPE'', Num 0x0),
      (''SSL_CONNECTION_ST_VERSION'', Num 0x40),
      (''SSL_CONNECTION_ST_SESSION'', Num 0x880),
      (''SSL_CONNECTION_ST_S3'', Num 0x118),
      (''SSL_CONNECTION_ST_RBIO'', Num 0x48),
      (''SSL_CONNECTION_ST_WBIO'', Num 0x50),
      (''SSL_CONNECTION_ST_SERVER'', Num 0x70),
      (''SSL_SESSION_ST_MASTER_KEY'', Num 0x50),
      (''SSL_CONNECTION_ST_S3_CLIENT_RANDOM'', Num 0x140),
      (''SSL_SESSION_ST_CIPHER'', Num 0x2f8),
      (''SSL_SESSION_ST_CIPHER_ID'', Num 0x300),
      (''SSL_CIPHER_ST_ID'', Num 0x18),
      (''SSL_CONNECTION_ST_HANDSHAKE_SECRET'', Num 0x53c),
      (''SSL_CONNECTION_ST_HANDSHAKE_TRAFFIC_HASH'', Num 0x6bc),
      (''SSL_CONNECTION_ST_CLIENT_APP_TRAFFIC_SECRET'', Num 0x6fc),
      (''SSL_CONNECTION_ST_SERVER_APP_TRAFFIC_SECRET'', Num 0x73c),
      (''SSL_CONNECTION_ST_EXPORTER_MASTER_SECRET'', Num 0x77c),
      (''BIO_ST_NUM'', Num 0x38),
      (''QUIC_CONN_ST_TLS'', Num 0x40),
      (''SSL_ST_VERSION'', Alias ''SSL_CONNECTION_ST_VERSION''),
      (''SSL_ST_WBIO'', Alias ''SSL_CONNECTION_ST_WBIO''),
      (''SSL_ST_RBIO'', Alias ''SSL_CONNECTION_ST_RBIO'')]"

definition openssl_3_3_0 :: macro_table where
  "openssl_3_3_0 =
     [(''SSL_ST_TYPE'', Num 0x0),
      (''SSL_CONNECTION_ST_VERSION'', Num 0x40),
      (''SSL_CONNECTION_ST_SESSION'', Num 0x880),
      (''SSL_CONNECTION_ST_S3'', Num 0x118),
      (''SSL_CONNECTION_ST_RBIO'', Num 0x48),
      (''SSL_CONNECTION_ST_WBIO'', Num 0x50),
      (''SSL_CONNECTION_ST_SERVER'', Num 0x70),
      (''SSL_SESSION_ST_MASTER_KEY'', Num 0x50),
      (''SSL_CONNECTION_ST_S3_CLIENT_RANDOM'', Num 0x140),
      (''SSL_SESSION_ST_CIPHER'', Num 0x2f8),
      (''SSL_SESSION_ST_CIPHER_ID'', Num 0x300),
      (''SSL_CIPHER_ST_ID'', Num 0x18),
      (''SSL_CONNECTION_ST_HANDSHAKE_SECRET'', Num 0x53c),
      (''SSL_CONNECTION_ST_HANDSHAKE_TRAFFIC_HASH'', Num 0x6bc),
      (''SSL_CONNECTION_ST_CLIENT_APP_TRAFFIC_SECRET'', Num 0x6fc),
      (''SSL_CONNECTION_ST_SERVER_APP_TRAFFIC_SECRET'', Num 0x73c),
      (''SSL_CONNECTION_ST_EXPORTER_MASTER_SECRET'', Num 0x77c),
      (''BIO_ST_NUM'', Num 0x38),
      (''QUIC_CONN_ST_TLS'', Num 0x40),
      (''SSL_ST_VERSION'', Alias ''SSL_CONNECTION_ST_VERSION''),
      (''SSL_ST_WBIO'', Alias ''SSL_CONNECTION_ST_WBIO''),
      (''SSL_ST_RBIO'', Alias ''SSL_CONNECTION_ST_RBIO'')]"

definition openssl_3_4_0 :: macro_table where
  "openssl_3_4_0 =
     [(''SSL_ST_TYPE'', Num 0x0),
      (''SSL_CONNECTION_ST_VERSION'', Num 0x40),
      (''SSL_CONNECTION_ST_SESSION'', Num 0x880),
      (''SSL_CONNECTION_ST_S3'', Num 0x118),
      (''SSL_CONNECTION_ST_RBIO'', Num 0x48),
      (''SSL_CONNECTION_ST_WBIO'', Num 0x50),
      (''SSL_CONNECTION_ST_SERVER'', Num 0x70),
      (''SSL_SESSION_ST_MASTER_KEY'', Num 0x50),
      (''SSL_CONNECTION_ST_S3_CLIENT_RANDOM'', Num 0x140),
      (''SSL_SESSION_ST_CIPHER'', Num 0x2f8),
      (''SSL_SESSION_ST_CIPHER_ID'', Num 0x300),
      (''SSL_CIPHER_ST_ID'', Num 0x18),
      (''SSL_CONNECTION_ST_HANDSHAKE_SECRET'', Num 0x53c),
      (''SSL_CONNECTION_ST_HANDSHAKE_TRAFFIC_HASH'', Num 0x6bc),
      (''SSL_CONNECTION_ST_CLIENT_APP_TRAFFIC_SECRET'', Num 0x6fc),
      (''SSL_CONNECTION_ST_SERVER_APP_TRAFFIC_SECRET'', Num 0x73c),
      (''SSL_CONNECTION_ST_EXPORTER_MASTER_SECRET'', Num 0x77c),
      (''BIO_ST_NUM'', Num 0x38),
      (''QUIC_CONN_ST_TLS'', Num 0x40),
      (''SSL_ST_VERSION'', Alias ''SSL_CONNECTION_ST_VERSION''),
      (''SSL_ST_WBIO'', Alias ''SSL_CONNECTION_ST_WBIO''),
      (''SSL_ST_RBIO'', Alias ''SSL_CONNECTION_ST_RBIO'')]"

definition openssl_3_5_0 :: macro_table where
  "openssl_3_5_0 =
     [(''SSL_ST_TYPE'', Num 0x0),
      (''SSL_CONNECTION_ST_VERSION'', Num 0x48),
      (''SSL_CONNECTION_ST_SESSION'', Num 0x900),
      (''SSL_CONNECTION_ST_S3'', Num 0x160),
      (''SSL_CONNECTION_ST_RBIO'', Num 0x50),
      (''SSL_CONNECTION_ST_WBIO'', Num 0x58),
      (''SSL_CONNECTION_ST_SERVER'', Num 0x78),
      (''SSL_SESSION_ST_MASTER_KEY'', Num 0x50),
      (''SSL_CONNECTION_ST_S3_CLIENT_RANDOM'', Num 0x188),
      (''SSL_SESSION_ST_CIPHER'', Num 0x2f8),
      (''SSL_SESSION_ST_CIPHER_ID'', Num 0x300),
      (''SSL_CIPHER_ST_ID'', Num 0x18),
      (''SSL_CONNECTION_ST_HANDSHAKE_SECRET'', Num 0x5bc),
      (''SSL_CONNECTION_ST_HANDSHAKE_TRAFFIC_HASH'', Num 0x73c),
      (''SSL_CONNECTION_ST_CLIENT_APP_TRAFFIC_SECRET'', Num 0x77c),
      (''SSL_CONNECTION_ST_SERVER_APP_TRAFFIC_SECRET'', Num 0x7bc),
      (''SSL_CONNECTION_ST_EXPORTER_MASTER_SECRET'', Num 0x7fc),
      (''BIO_ST_NUM'', Num 0x38),
      (''SSL_ST_VERSION'', Alias ''SSL_CONNECTION_ST_VERSION''),
      (''SSL_ST_WBIO'', Alias ''SSL_CONNECTION_ST_WBIO''),
      (''SSL_ST_RBIO'', Alias ''SSL_CONNECTION_ST_RBIO'')]"

text \<open>The value of a macro: a number, or the number another macro of the file stands for.\<close>

definition macro_value :: "macro_table \<Rightarrow> string \<Rightarrow> nat option" where
  "macro_value ds name =
     (case map_of ds name of
        Some (Num n) \<Rightarrow> Some n
      | Some (Alias m) \<Rightarrow> (case map_of ds m of Some (Num n) \<Rightarrow> Some n | _ \<Rightarrow> None)
      | None \<Rightarrow> None)"

text \<open>The two offsets \<open>openssl.h\<close> uses, when the file defines them.\<close>

definition table_offsets :: "macro_table \<Rightarrow> ssl_offsets option" where
  "table_offsets ds =
     (case (macro_value ds ''SSL_ST_RBIO'', macro_value ds ''BIO_ST_NUM'') of
        (Some r, Some n) \<Rightarrow> Some \<lparr>off_SSL_ST_RBIO = of_nat r, off_BIO_ST_NUM = of_nat n\<rparr>
      | _ \<Rightarrow> None)"

section \<open>The printers\<close>

text \<open>\<open>toupper\<close> of the C locale, on the bits of the character: it clears bit 5 of the letters.\<close>

fun toupper :: "char \<Rightarrow> char" where
  "toupper (Char b0 b1 b2 b3 b4 b5 b6 b7) =
     (if b5 \<and> b6 \<and> \<not> b7 \<and> (b0 \<or> b1 \<or> b2 \<or> b3 \<or> b4) \<and> \<not> (b4 \<and> b3 \<and> (b2 \<or> b1 \<and> b0))
      then Char b0 b1 b2 b3 b4 False b6 b7 else Char b0 b1 b2 b3 b4 b5 b6 b7)"

text \<open>\<open>toUpper\<close> of the older printers, and of those from 3.0 on, which also replace dots.\<close>

definition toUpper :: "string \<Rightarrow> string" where
  "toUpper s = map toupper s"

definition toUpper_dot :: "string \<Rightarrow> string" where
  "toUpper_dot s = map (\<lambda>c. if c = CHR ''.'' then CHR ''_'' else toupper c) s"

definition hex_digit :: "nat \<Rightarrow> char" where
  "hex_digit n = ''0123456789abcdef'' ! n"

fun hex_string :: "nat \<Rightarrow> string" where
  "hex_string n = (if n < 16 then [hex_digit n] else hex_string (n div 16) @ [hex_digit (n mod 16)])"

declare hex_string.simps [simp del]

definition newline :: string where
  "newline = [CHR 0x0A]"

definition macro_name :: "(string \<Rightarrow> string) \<Rightarrow> string \<times> string \<Rightarrow> string" where
  "macro_name upper f = upper (fst f) @ ''_'' @ upper (snd f)"

definition format :: "(string \<Rightarrow> string) \<Rightarrow> string \<Rightarrow> string \<Rightarrow> nat \<Rightarrow> string" where
  "format upper struct_name field_name offset =
     ''// '' @ struct_name @ ''->'' @ field_name @ newline @ ''#define '' @ upper struct_name @ ''_''
       @ upper field_name @ '' 0x'' @ hex_string offset @ newline @ newline"

definition print_offsets ::
    "(string \<Rightarrow> string) \<Rightarrow> (string \<times> string) list \<Rightarrow> string \<Rightarrow> string \<Rightarrow> (string \<Rightarrow> string \<Rightarrow> nat) \<Rightarrow> string" where
  "print_offsets upper fs version_text version_number offsetof =
     ''/* OPENSSL_VERSION_TEXT: '' @ version_text @ '' */'' @ newline
       @ ''/* OPENSSL_VERSION_NUMBER: '' @ version_number @ '' */'' @ newline @ newline
       @ concat (map (\<lambda>(st, f). format upper st f (offsetof st f)) fs)"

definition openssl_1_0_2_offset_fields :: "(string \<times> string) list" where
  "openssl_1_0_2_offset_fields =
     [(''ssl_st'', ''version''),
      (''ssl_st'', ''session''),
      (''ssl_st'', ''s3''),
      (''ssl_st'', ''rbio''),
      (''ssl_st'', ''wbio''),
      (''ssl_st'', ''server''),
      (''ssl_session_st'', ''master_key''),
      (''ssl3_state_st'', ''client_random''),
      (''ssl_session_st'', ''cipher''),
      (''ssl_session_st'', ''cipher_id''),
      (''ssl_cipher_st'', ''id''),
      (''bio_st'', ''num'')]"

definition openssl_1_0_2_offset :: "string \<Rightarrow> string \<Rightarrow> (string \<Rightarrow> string \<Rightarrow> nat) \<Rightarrow> string" where
  "openssl_1_0_2_offset version_text version_number offsetof =
     print_offsets toUpper openssl_1_0_2_offset_fields version_text version_number offsetof"

definition openssl_1_1_0_offset_fields :: "(string \<times> string) list" where
  "openssl_1_1_0_offset_fields =
     [(''ssl_st'', ''version''),
      (''ssl_st'', ''session''),
      (''ssl_st'', ''s3''),
      (''ssl_st'', ''rbio''),
      (''ssl_st'', ''wbio''),
      (''ssl_st'', ''server''),
      (''ssl_session_st'', ''master_key''),
      (''ssl3_state_st'', ''client_random''),
      (''ssl_session_st'', ''cipher''),
      (''ssl_session_st'', ''cipher_id''),
      (''ssl_cipher_st'', ''id''),
      (''bio_st'', ''num'')]"

definition openssl_1_1_0_offset :: "string \<Rightarrow> string \<Rightarrow> (string \<Rightarrow> string \<Rightarrow> nat) \<Rightarrow> string" where
  "openssl_1_1_0_offset version_text version_number offsetof =
     print_offsets toUpper openssl_1_1_0_offset_fields version_text version_number offsetof"

definition openssl_1_1_1_offset_fields :: "(string \<times> string) list" where
  "openssl_1_1_1_offset_fields =
     [(''ssl_st'', ''version''),
      (''ssl_st'', ''session''),
      (''ssl_st'', ''s3''),
      (''ssl_st'', ''rbio''),
      (''ssl_st'', ''wbio''),
      (''ssl_st'', ''server''),
      (''ssl_session_st'', ''master_key''),
      (''ssl3_state_st'', ''client_random''),
      (''ssl_session_st'', ''cipher''),
      (''ssl_session_st'', ''cipher_id''),
      (''ssl_cipher_st'', ''id''),
      (''ssl_st'', ''handshake_secret''),
      (''ssl_st'', ''handshake_traffic_hash''),
      (''ssl_st'', ''client_app_traffic_secret''),
      (''ssl_st'', ''server_app_traffic_secret''),
      (''ssl_st'', ''exporter_master_secret''),
      (''bio_st'', ''num'')]"

definition openssl_1_1_1_offset :: "string \<Rightarrow> string \<Rightarrow> (string \<Rightarrow> string \<Rightarrow> nat) \<Rightarrow> string" where
  "openssl_1_1_1_offset version_text version_number offsetof =
     print_offsets toUpper openssl_1_1_1_offset_fields version_text version_number offsetof"

definition openssl_3_0_offset_fields :: "(string \<times> string) list" where
  "openssl_3_0_offset_fields =
     [(''ssl_st'', ''version''),
      (''ssl_st'', ''session''),
      (''ssl_st'', ''s3''),
      (''ssl_st'', ''rbio''),
      (''ssl_st'', ''wbio''),
      (''ssl_st'', ''server''),
      (''ssl_session_st'', ''master_key''),
      (''ssl_st'', ''s3.client_random''),
      (''ssl_session_st'', ''cipher''),
      (''ssl_session_st'', ''cipher_id''),
      (''ssl_cipher_st'', ''id''),
      (''ssl_st'', ''handshake_secret''),
      (''ssl_st'', ''handshake_traffic_hash''),
      (''ssl_st'', ''client_app_traffic_secret''),
      (''ssl_st'', ''server_app_traffic_secret''),
      (''ssl_st'', ''exporter_master_secret''),
      (''bio_st'', ''num'')]"

definition openssl_3_0_offset :: "string \<Rightarrow> string \<Rightarrow> (string \<Rightarrow> string \<Rightarrow> nat) \<Rightarrow> string" where
  "openssl_3_0_offset version_text version_number offsetof =
     print_offsets toUpper_dot openssl_3_0_offset_fields version_text version_number offsetof"

definition openssl_3_2_0_offset_fields :: "(string \<times> string) list" where
  "openssl_3_2_0_offset_fields =
     [(''ssl_st'', ''type''),
      (''ssl_connection_st'', ''version''),
      (''ssl_connection_st'', ''session''),
      (''ssl_connection_st'', ''s3''),
      (''ssl_connection_st'', ''rbio''),
      (''ssl_connection_st'', ''wbio''),
      (''ssl_connection_st'', ''server''),
      (''ssl_session_st'', ''master_key''),
      (''ssl_connection_st'', ''s3.client_random''),
      (''ssl_session_st'', ''cipher''),
      (''ssl_session_st'', ''cipher_id''),
      (''ssl_cipher_st'', ''id''),
      (''ssl_connection_st'', ''handshake_secret''),
      (''ssl_connection_st'', ''handshake_traffic_hash''),
      (''ssl_connection_st'', ''client_app_traffic_secret''),
      (''ssl_connection_st'', ''server_app_traffic_secret''),
      (''ssl_connection_st'', ''exporter_master_secret''),
      (''bio_st'', ''num''),
      (''quic_conn_st'', ''tls'')]"

definition openssl_3_2_0_offset :: "string \<Rightarrow> string \<Rightarrow> (string \<Rightarrow> string \<Rightarrow> nat) \<Rightarrow> string" where
  "openssl_3_2_0_offset version_text version_number offsetof =
     print_offsets toUpper_dot openssl_3_2_0_offset_fields version_text version_number offsetof"

definition openssl_3_5_0_offset_fields :: "(string \<times> string) list" where
  "openssl_3_5_0_offset_fields =
     [(''ssl_st'', ''type''),
      (''ssl_connection_st'', ''version''),
      (''ssl_connection_st'', ''session''),
      (''ssl_connection_st'', ''s3''),
      (''ssl_connection_st'', ''rbio''),
      (''ssl_connection_st'', ''wbio''),
      (''ssl_connection_st'', ''server''),
      (''ssl_session_st'', ''master_key''),
      (''ssl_connection_st'', ''s3.client_random''),
      (''ssl_session_st'', ''cipher''),
      (''ssl_session_st'', ''cipher_id''),
      (''ssl_cipher_st'', ''id''),
      (''ssl_connection_st'', ''handshake_secret''),
      (''ssl_connection_st'', ''handshake_traffic_hash''),
      (''ssl_connection_st'', ''client_app_traffic_secret''),
      (''ssl_connection_st'', ''server_app_traffic_secret''),
      (''ssl_connection_st'', ''exporter_master_secret''),
      (''bio_st'', ''num'')]"

definition openssl_3_5_0_offset :: "string \<Rightarrow> string \<Rightarrow> (string \<Rightarrow> string \<Rightarrow> nat) \<Rightarrow> string" where
  "openssl_3_5_0_offset version_text version_number offsetof =
     print_offsets toUpper_dot openssl_3_5_0_offset_fields version_text version_number offsetof"

section \<open>The scripts\<close>

text \<open>
  \<open>openssl_offset_<version>.sh\<close> compiles a printer against the headers of an OpenSSL version, runs it, and
  appends the lines of its \<open>echo\<close> commands to the output. A script is its printer and the macros it appends.
\<close>

record offset_script =
  gs_print :: "string \<Rightarrow> string \<Rightarrow> (string \<Rightarrow> string \<Rightarrow> nat) \<Rightarrow> string"
  gs_macros :: macro_table

definition openssl_offset_1_0_2 :: offset_script where
  "openssl_offset_1_0_2 = \<lparr>gs_print = openssl_1_0_2_offset,
     gs_macros = [(''SSL_ST_HANDSHAKE_SECRET'', Num 0), (''SSL_ST_HANDSHAKE_TRAFFIC_HASH'', Num 0),
       (''SSL_ST_CLIENT_APP_TRAFFIC_SECRET'', Num 0), (''SSL_ST_SERVER_APP_TRAFFIC_SECRET'', Num 0),
       (''SSL_ST_EXPORTER_MASTER_SECRET'', Num 0)]\<rparr>"

definition openssl_offset_1_1_0 :: offset_script where
  "openssl_offset_1_1_0 = \<lparr>gs_print = openssl_1_1_0_offset,
     gs_macros = [(''SSL_ST_HANDSHAKE_SECRET'', Num 0), (''SSL_ST_HANDSHAKE_TRAFFIC_HASH'', Num 0),
       (''SSL_ST_CLIENT_APP_TRAFFIC_SECRET'', Num 0), (''SSL_ST_SERVER_APP_TRAFFIC_SECRET'', Num 0),
       (''SSL_ST_EXPORTER_MASTER_SECRET'', Num 0)]\<rparr>"

definition openssl_offset_1_1_1 :: offset_script where
  "openssl_offset_1_1_1 = \<lparr>gs_print = openssl_1_1_1_offset, gs_macros = []\<rparr>"

definition openssl_offset_3_0 :: offset_script where
  "openssl_offset_3_0 = \<lparr>gs_print = openssl_3_0_offset, gs_macros = []\<rparr>"

definition openssl_offset_3_1 :: offset_script where
  "openssl_offset_3_1 = \<lparr>gs_print = openssl_3_0_offset, gs_macros = []\<rparr>"

definition openssl_offset_3_2 :: offset_script where
  "openssl_offset_3_2 = \<lparr>gs_print = openssl_3_2_0_offset,
     gs_macros = [(''SSL_ST_VERSION'', Alias ''SSL_CONNECTION_ST_VERSION''),
       (''SSL_ST_WBIO'', Alias ''SSL_CONNECTION_ST_WBIO''), (''SSL_ST_RBIO'', Alias ''SSL_CONNECTION_ST_RBIO'')]\<rparr>"

definition openssl_offset_3_3 :: offset_script where
  "openssl_offset_3_3 = \<lparr>gs_print = openssl_3_2_0_offset,
     gs_macros = [(''SSL_ST_VERSION'', Alias ''SSL_CONNECTION_ST_VERSION''),
       (''SSL_ST_WBIO'', Alias ''SSL_CONNECTION_ST_WBIO''), (''SSL_ST_RBIO'', Alias ''SSL_CONNECTION_ST_RBIO'')]\<rparr>"

definition openssl_offset_3_4 :: offset_script where
  "openssl_offset_3_4 = \<lparr>gs_print = openssl_3_2_0_offset,
     gs_macros = [(''SSL_ST_VERSION'', Alias ''SSL_CONNECTION_ST_VERSION''),
       (''SSL_ST_WBIO'', Alias ''SSL_CONNECTION_ST_WBIO''), (''SSL_ST_RBIO'', Alias ''SSL_CONNECTION_ST_RBIO'')]\<rparr>"

definition openssl_offset_3_5 :: offset_script where
  "openssl_offset_3_5 = \<lparr>gs_print = openssl_3_5_0_offset,
     gs_macros = [(''SSL_ST_VERSION'', Alias ''SSL_CONNECTION_ST_VERSION''),
       (''SSL_ST_WBIO'', Alias ''SSL_CONNECTION_ST_WBIO''), (''SSL_ST_RBIO'', Alias ''SSL_CONNECTION_ST_RBIO'')]\<rparr>"

section \<open>Specification\<close>

text \<open>Reading macro definitions back, as the preprocessor does, one per line.\<close>

fun split_lines :: "string \<Rightarrow> string list" where
  "split_lines [] = [[]]"
| "split_lines (c # cs) =
     (if c = CHR 0x0A then [] # split_lines cs
      else case split_lines cs of [] \<Rightarrow> [[c]] | l # ls \<Rightarrow> (c # l) # ls)"

fun hex_digit_value :: "char \<Rightarrow> nat" where
  "hex_digit_value c =
     (let n = of_char c :: nat in if n < 58 then n - 48 else n - 87)"

definition hex_value :: "string \<Rightarrow> nat" where
  "hex_value cs = foldl (\<lambda>a c. 16 * a + hex_digit_value c) 0 cs"

definition read_define :: "string \<Rightarrow> (string \<times> nat) option" where
  "read_define l =
     (if take 8 l = ''#define ''
      then (let name = takeWhile (\<lambda>c. c \<noteq> CHR '' '') (drop 8 l)
            in Some (name, hex_value (drop (length name + 11) l)))
      else None)"

definition read_defines :: "string \<Rightarrow> (string \<times> nat) list" where
  "read_defines s = List.map_filter read_define (split_lines s)"

text \<open>Names as the printers use them: no separator in them, before or after \<open>toUpper\<close>.\<close>

definition plain_fields :: "(string \<Rightarrow> string) \<Rightarrow> (string \<times> string) list \<Rightarrow> bool" where
  "plain_fields upper fs \<longleftrightarrow>
     list_all (\<lambda>(st, f). CHR 0x0A \<notin> set (st @ f @ upper st @ upper f) \<and>
       CHR '' '' \<notin> set (upper st @ upper f)) fs"

text \<open>The macros of the file that a script generates from headers with the layout \<open>offsetof\<close>.\<close>

definition generated_table ::
    "offset_script \<Rightarrow> string \<Rightarrow> string \<Rightarrow> (string \<Rightarrow> string \<Rightarrow> nat) \<Rightarrow> macro_table" where
  "generated_table sc version_text version_number offsetof =
     map (\<lambda>(name, n). (name, Num n)) (read_defines (gs_print sc version_text version_number offsetof)) @ gs_macros sc"

text \<open>
  The file names to which the scripts write, with the script of each file and the structure that holds
  the read BIO of a connection: from 3.2 on \<open>struct ssl_connection_st\<close>.
\<close>

definition offset_files :: "(macro_table \<times> offset_script \<times> string) list" where
  "offset_files =
     [(openssl_1_0_2a, openssl_offset_1_0_2, ''ssl_st''),
      (openssl_1_1_0a, openssl_offset_1_1_0, ''ssl_st''),
      (openssl_1_1_1a, openssl_offset_1_1_1, ''ssl_st''),
      (openssl_1_1_1b, openssl_offset_1_1_1, ''ssl_st''),
      (openssl_1_1_1d, openssl_offset_1_1_1, ''ssl_st''),
      (openssl_1_1_1j, openssl_offset_1_1_1, ''ssl_st''),
      (openssl_3_0_0, openssl_offset_3_0, ''ssl_st''),
      (openssl_3_1_0, openssl_offset_3_1, ''ssl_st''),
      (openssl_3_2_0, openssl_offset_3_2, ''ssl_connection_st''),
      (openssl_3_2_3, openssl_offset_3_2, ''ssl_connection_st''),
      (openssl_3_3_0, openssl_offset_3_3, ''ssl_connection_st''),
      (openssl_3_4_0, openssl_offset_3_4, ''ssl_connection_st''),
      (openssl_3_5_0, openssl_offset_3_5, ''ssl_connection_st'')]"

text \<open>Where the macros of \<open>openssl.h\<close> come from, and the layout that a table describes.\<close>

definition field_of_macro :: "(string \<Rightarrow> string) \<Rightarrow> (string \<times> string) list \<Rightarrow> string \<Rightarrow> (string \<times> string) option" where
  "field_of_macro upper fs name = find (\<lambda>f. macro_name upper f = name) fs"

definition table_layout :: "(string \<times> string) list \<Rightarrow> macro_table \<Rightarrow> string \<Rightarrow> string \<Rightarrow> nat" where
  "table_layout fs table st f =
     (case map_of (zip fs (map snd table)) (st, f) of Some (Num n) \<Rightarrow> n | _ \<Rightarrow> 0)"

definition printer_fits :: "(string \<Rightarrow> string) \<Rightarrow> (string \<times> string) list \<Rightarrow> macro_table \<Rightarrow> string \<Rightarrow> bool" where
  "printer_fits upper fs macros st \<longleftrightarrow>
     plain_fields upper fs \<and>
     (field_of_macro upper fs ''SSL_ST_RBIO'' = Some (st, ''rbio'') \<or>
      field_of_macro upper fs ''SSL_ST_RBIO'' = None \<and>
      map_of macros ''SSL_ST_RBIO'' = Some (Alias ''SSL_CONNECTION_ST_RBIO'') \<and>
      field_of_macro upper fs ''SSL_CONNECTION_ST_RBIO'' = Some (st, ''rbio'')) \<and>
     field_of_macro upper fs ''BIO_ST_NUM'' = Some (''bio_st'', ''num'')"

definition table_fits :: "(string \<Rightarrow> string) \<Rightarrow> (string \<times> string) list \<Rightarrow> macro_table \<Rightarrow> macro_table \<Rightarrow> bool" where
  "table_fits upper fs macros table \<longleftrightarrow>
     map (\<lambda>f. (macro_name upper f, Num (table_layout fs table (fst f) (snd f)))) fs @ macros = table"

section \<open>Reading back what was printed\<close>

lemma toupper_ascii:
  "(of_char (toupper c) :: nat) =
     (if 97 \<le> (of_char c :: nat) \<and> (of_char c :: nat) \<le> 122 then of_char c - 32 else of_char c)"
proof (cases c)
  case (Char b0 b1 b2 b3 b4 b5 b6 b7)
  then show ?thesis
    by (cases b0; cases b1; cases b2; cases b3; cases b4; cases b5; cases b6; cases b7) simp_all
qed

lemma split_lines_not_Nil [simp]: "split_lines s \<noteq> []"
  by (induction s) (auto split: list.split)

lemma split_lines_append:
  "CHR 0x0A \<notin> set l \<Longrightarrow> split_lines (l @ newline @ s) = l # split_lines s"
  by (induction l) (auto simp: newline_def)

lemma hex_digit_value_hex_digit: "n < 16 \<Longrightarrow> hex_digit_value (hex_digit n) = n"
proof -
  have "\<forall>n < 16. hex_digit_value (hex_digit n) = n"
    by code_simp
  then show "n < 16 \<Longrightarrow> hex_digit_value (hex_digit n) = n" by blast
qed

lemma hex_value_hex_string: "hex_value (hex_string n) = n"
proof (induction n rule: hex_string.induct)
  case (1 n)
  then show ?case
    by (subst hex_string.simps)
      (simp add: hex_value_def hex_digit_value_hex_digit del: hex_digit_value.simps)
qed

lemma hex_digit_no_newline: "n < 16 \<Longrightarrow> hex_digit n \<noteq> CHR 0x0A"
proof -
  have "\<forall>n < 16. hex_digit n \<noteq> CHR 0x0A"
    by code_simp
  then show "n < 16 \<Longrightarrow> hex_digit n \<noteq> CHR 0x0A" by blast
qed

lemma hex_string_no_newline: "CHR 0x0A \<notin> set (hex_string n)"
proof (induction n rule: hex_string.induct)
  case (1 n)
  then show ?case
    by (subst hex_string.simps) (auto simp: hex_digit_no_newline dest: sym)
qed

lemma read_define_line:
  assumes "CHR '' '' \<notin> set name"
  shows "read_define (''#define '' @ name @ '' 0x'' @ hex_string n) = Some (name, n)"
proof -
  let ?p = "''#define '' @ name @ '' 0x''"
  let ?l = "''#define '' @ name @ '' 0x'' @ hex_string n"
  have tw: "takeWhile (\<lambda>c. c \<noteq> CHR '' '') (name @ '' 0x'' @ hex_string n) = name"
    using assms by (induction name) auto
  have h: "take 8 ?l = ''#define ''" "drop 8 ?l = name @ '' 0x'' @ hex_string n"
    by simp_all
  have "drop (length ?p) (?p @ hex_string n) = hex_string n"
    by (metis append_eq_conv_conj)
  moreover have "length ?p = length name + 11" "?p @ hex_string n = ?l"
    by simp_all
  ultimately have d: "drop (length name + 11) ?l = hex_string n"
    by metis
  show ?thesis
    unfolding read_define_def h tw Let_def d hex_value_hex_string by simp
qed

lemma read_defines_format:
  assumes "CHR 0x0A \<notin> set st" "CHR 0x0A \<notin> set f" "CHR 0x0A \<notin> set (upper st)" "CHR 0x0A \<notin> set (upper f)"
    and "CHR '' '' \<notin> set (upper st)" "CHR '' '' \<notin> set (upper f)"
  shows "read_defines (format upper st f n @ s) = (macro_name upper (st, f), n) # read_defines s"
proof -
  let ?c = "''// '' @ st @ ''->'' @ f"
  let ?d = "''#define '' @ macro_name upper (st, f) @ '' 0x'' @ hex_string n"
  have eq: "format upper st f n @ s = ?c @ newline @ ?d @ newline @ [] @ newline @ s"
    by (simp add: format_def macro_name_def)
  have "split_lines (format upper st f n @ s) = ?c # ?d # [] # split_lines s"
    unfolding eq
    using assms(1-4) hex_string_no_newline [of n]
    by (subst split_lines_append, force simp: macro_name_def,
        subst split_lines_append, force simp: macro_name_def,
        subst split_lines_append, simp_all)
  moreover have "read_define ?d = Some (macro_name upper (st, f), n)"
    using assms(5,6) by (intro read_define_line) (simp add: macro_name_def)
  moreover have "read_define ?c = None" "read_define [] = None"
    by (simp_all add: read_define_def)
  ultimately show ?thesis
    by (simp add: read_defines_def List.map_filter_simps)
qed

lemma read_defines_fields:
  "plain_fields upper fs \<Longrightarrow>
   read_defines (concat (map (\<lambda>(st, f). format upper st f (offsetof st f)) fs)) =
     map (\<lambda>(st, f). (macro_name upper (st, f), offsetof st f)) fs"
proof (induction fs)
  case Nil
  then show ?case
    by (simp add: read_defines_def read_define_def List.map_filter_simps)
next
  case (Cons x fs)
  then show ?case
    by (cases x) (simp add: plain_fields_def read_defines_format)
qed

lemma read_print_offsets:
  assumes "plain_fields upper fs" and "CHR 0x0A \<notin> set version_text" and "CHR 0x0A \<notin> set version_number"
  shows "read_defines (print_offsets upper fs version_text version_number offsetof) =
    map (\<lambda>(st, f). (macro_name upper (st, f), offsetof st f)) fs"
proof -
  let ?a = "''/* OPENSSL_VERSION_TEXT: '' @ version_text @ '' */''"
  let ?b = "''/* OPENSSL_VERSION_NUMBER: '' @ version_number @ '' */''"
  let ?r = "concat (map (\<lambda>(st, f). format upper st f (offsetof st f)) fs)"
  have eq: "print_offsets upper fs version_text version_number offsetof =
      ?a @ newline @ ?b @ newline @ [] @ newline @ ?r"
    by (simp add: print_offsets_def)
  have "split_lines (print_offsets upper fs version_text version_number offsetof) =
      ?a # ?b # [] # split_lines ?r"
    unfolding eq using assms(2,3)
    by (subst split_lines_append, force, subst split_lines_append, force,
        subst split_lines_append, simp_all)
  then show ?thesis
    using read_defines_fields [OF assms(1), of offsetof]
    by (simp add: read_defines_def read_define_def List.map_filter_simps)
qed

lemma map_of_fields:
  "map_of (map (\<lambda>f. (macro_name upper f, Num (offsetof (fst f) (snd f)))) fs @ macros) name =
     (case field_of_macro upper fs name of Some f \<Rightarrow> Some (Num (offsetof (fst f) (snd f))) | None \<Rightarrow> map_of macros name)"
  by (induction fs) (auto simp: field_of_macro_def)

lemma generated_print_offsets:
  assumes "plain_fields upper fs" and "CHR 0x0A \<notin> set version_text" and "CHR 0x0A \<notin> set version_number"
  shows "map (\<lambda>(name, n). (name, Num n)) (read_defines (print_offsets upper fs version_text version_number offsetof)) =
    map (\<lambda>f. (macro_name upper f, Num (offsetof (fst f) (snd f)))) fs"
  unfolding read_print_offsets [OF assms] by (simp add: comp_def case_prod_unfold)

lemma script_fits_table:
  assumes "printer_fits upper fs macros st" and "table_fits upper fs macros table"
    and "CHR 0x0A \<notin> set version_text" and "CHR 0x0A \<notin> set version_number"
  shows "table_offsets (map (\<lambda>(name, n). (name, Num n))
        (read_defines (print_offsets upper fs version_text version_number offsetof)) @ macros) =
      Some \<lparr>off_SSL_ST_RBIO = of_nat (offsetof st ''rbio''), off_BIO_ST_NUM = of_nat (offsetof ''bio_st'' ''num'')\<rparr>"
    and "\<exists>layout. map (\<lambda>(name, n). (name, Num n))
        (read_defines (print_offsets upper fs version_text version_number layout)) @ macros = table"
proof -
  have plain: "plain_fields upper fs"
    using assms(1) by (simp add: printer_fits_def)
  note gen = generated_print_offsets [OF plain assms(3,4)]
  show "table_offsets (map (\<lambda>(name, n). (name, Num n))
        (read_defines (print_offsets upper fs version_text version_number offsetof)) @ macros) =
      Some \<lparr>off_SSL_ST_RBIO = of_nat (offsetof st ''rbio''), off_BIO_ST_NUM = of_nat (offsetof ''bio_st'' ''num'')\<rparr>"
    unfolding gen using assms(1) by (auto simp: printer_fits_def table_offsets_def macro_value_def map_of_fields simp del: map_of_append)
  show "\<exists>layout. map (\<lambda>(name, n). (name, Num n))
        (read_defines (print_offsets upper fs version_text version_number layout)) @ macros = table"
    unfolding gen using assms(2) by (intro exI [of _ "table_layout fs table"]) (simp add: table_fits_def)
qed

lemma printers:
  "openssl_1_0_2_offset = print_offsets toUpper openssl_1_0_2_offset_fields"
  "openssl_1_1_0_offset = print_offsets toUpper openssl_1_1_0_offset_fields"
  "openssl_1_1_1_offset = print_offsets toUpper openssl_1_1_1_offset_fields"
  "openssl_3_0_offset = print_offsets toUpper_dot openssl_3_0_offset_fields"
  "openssl_3_2_0_offset = print_offsets toUpper_dot openssl_3_2_0_offset_fields"
  "openssl_3_5_0_offset = print_offsets toUpper_dot openssl_3_5_0_offset_fields"
  by (simp_all add: fun_eq_iff openssl_1_0_2_offset_def openssl_1_1_0_offset_def openssl_1_1_1_offset_def
      openssl_3_0_offset_def openssl_3_2_0_offset_def openssl_3_5_0_offset_def)

lemmas scripts = openssl_offset_1_0_2_def openssl_offset_1_1_0_def openssl_offset_1_1_1_def openssl_offset_3_0_def
  openssl_offset_3_1_def openssl_offset_3_2_def openssl_offset_3_3_def openssl_offset_3_4_def openssl_offset_3_5_def

lemma printers_fit:
  "printer_fits toUpper openssl_1_0_2_offset_fields (gs_macros openssl_offset_1_0_2) ''ssl_st''"
  "printer_fits toUpper openssl_1_1_0_offset_fields (gs_macros openssl_offset_1_1_0) ''ssl_st''"
  "printer_fits toUpper openssl_1_1_1_offset_fields [] ''ssl_st''"
  "printer_fits toUpper_dot openssl_3_0_offset_fields [] ''ssl_st''"
  "printer_fits toUpper_dot openssl_3_2_0_offset_fields (gs_macros openssl_offset_3_2) ''ssl_connection_st''"
  "printer_fits toUpper_dot openssl_3_5_0_offset_fields (gs_macros openssl_offset_3_5) ''ssl_connection_st''"
  by code_simp+

lemma tables_fit:
  "table_fits toUpper openssl_1_0_2_offset_fields (gs_macros openssl_offset_1_0_2) openssl_1_0_2a"
  "table_fits toUpper openssl_1_1_0_offset_fields (gs_macros openssl_offset_1_1_0) openssl_1_1_0a"
  "table_fits toUpper openssl_1_1_1_offset_fields [] openssl_1_1_1a"
  "table_fits toUpper openssl_1_1_1_offset_fields [] openssl_1_1_1b"
  "table_fits toUpper openssl_1_1_1_offset_fields [] openssl_1_1_1d"
  "table_fits toUpper openssl_1_1_1_offset_fields [] openssl_1_1_1j"
  "table_fits toUpper_dot openssl_3_0_offset_fields [] openssl_3_0_0"
  "table_fits toUpper_dot openssl_3_0_offset_fields [] openssl_3_1_0"
  by code_simp+

lemma connection_tables_fit:
  "table_fits toUpper_dot openssl_3_2_0_offset_fields (gs_macros openssl_offset_3_2) openssl_3_2_0"
  "table_fits toUpper_dot openssl_3_2_0_offset_fields (gs_macros openssl_offset_3_2) openssl_3_2_3"
  "table_fits toUpper_dot openssl_3_2_0_offset_fields (gs_macros openssl_offset_3_3) openssl_3_3_0"
  "table_fits toUpper_dot openssl_3_2_0_offset_fields (gs_macros openssl_offset_3_4) openssl_3_4_0"
  "table_fits toUpper_dot openssl_3_5_0_offset_fields (gs_macros openssl_offset_3_5) openssl_3_5_0"
  by code_simp+

lemma script_simps:
  "gs_print openssl_offset_1_0_2 = print_offsets toUpper openssl_1_0_2_offset_fields"
  "gs_print openssl_offset_1_1_0 = print_offsets toUpper openssl_1_1_0_offset_fields"
  "gs_print openssl_offset_1_1_1 = print_offsets toUpper openssl_1_1_1_offset_fields"
  "gs_print openssl_offset_3_0 = print_offsets toUpper_dot openssl_3_0_offset_fields"
  "gs_print openssl_offset_3_1 = print_offsets toUpper_dot openssl_3_0_offset_fields"
  "gs_print openssl_offset_3_2 = print_offsets toUpper_dot openssl_3_2_0_offset_fields"
  "gs_print openssl_offset_3_3 = print_offsets toUpper_dot openssl_3_2_0_offset_fields"
  "gs_print openssl_offset_3_4 = print_offsets toUpper_dot openssl_3_2_0_offset_fields"
  "gs_print openssl_offset_3_5 = print_offsets toUpper_dot openssl_3_5_0_offset_fields"
  "gs_macros openssl_offset_1_1_1 = []" "gs_macros openssl_offset_3_0 = []" "gs_macros openssl_offset_3_1 = []"
  "gs_macros openssl_offset_3_3 = gs_macros openssl_offset_3_2"
  "gs_macros openssl_offset_3_4 = gs_macros openssl_offset_3_2"
  by (simp_all add: scripts printers)

lemma offset_files_fit:
  assumes "(table, sc, st) \<in> set offset_files"
  shows "\<exists>upper fs. gs_print sc = print_offsets upper fs \<and> printer_fits upper fs (gs_macros sc) st \<and>
    table_fits upper fs (gs_macros sc) table"
proof -
  have fits: "\<exists>upper' fs'. print_offsets upper fs = print_offsets upper' fs' \<and> printer_fits upper' fs' ms st' \<and>
      table_fits upper' fs' ms table'" if "printer_fits upper fs ms st'" "table_fits upper fs ms table'"
    for upper fs ms st' table'
    using that by blast
  show ?thesis
    using assms tables_fit connection_tables_fit [unfolded script_simps] unfolding offset_files_def
    by (auto simp: script_simps intro!: fits printers_fit)
qed

section \<open>Properties\<close>

text \<open>
  Property C39. What a printer prints, read back as macro definitions, is exactly its list of
  fields with their offsets, in order: the header lines and comments define nothing.
\<close>

theorem printed_offsets_read_back:
  assumes "plain_fields upper fs" and "CHR 0x0A \<notin> set version_text" and "CHR 0x0A \<notin> set version_number"
  shows "read_defines (print_offsets upper fs version_text version_number offsetof) =
    map (\<lambda>(st, f). (macro_name upper (st, f), offsetof st f)) fs"
  using assms by (rule read_print_offsets)

theorem printed_offsets_read_back_witness:
  "read_defines (openssl_3_0_offset ''OpenSSL 3.0.0'' ''805306368'' (\<lambda>_ _. 0x160)) =
     map (\<lambda>(st, f). (macro_name toUpper_dot (st, f), 0x160)) openssl_3_0_offset_fields"
  unfolding openssl_3_0_offset_def
proof (rule printed_offsets_read_back)
  show "plain_fields toUpper_dot openssl_3_0_offset_fields"
    by code_simp
qed simp_all

text \<open>
  Property C40. The pipeline from the headers of OpenSSL to the descriptor of a connection. For every table
  under \<open>src/bpf\<close> and the script that writes it: whatever the layout of the structures in the headers is, the
  two offsets that \<open>openssl.h\<close> takes from the generated file are those of the read BIO in the connection
  structure and of the descriptor in the BIO, so that \<open>get_fd_symaddrs\<close> follows exactly these two fields; and
  the table in the repository is what the script generates for some layout (same macros, in the same
  order, with the same appended lines). (The version strings have no line break.)
\<close>

theorem generated_tables_find_descriptor:
  assumes "(table, sc, st) \<in> set offset_files"
    and "CHR 0x0A \<notin> set version_text" and "CHR 0x0A \<notin> set version_number"
  shows "(\<exists>off. table_offsets (generated_table sc version_text version_number offsetof) = Some off \<and>
      get_fd_symaddrs off e sslp =
        read_u32 e (read_u64 e (sslp + of_nat (offsetof st ''rbio'')) + of_nat (offsetof ''bio_st'' ''num''))) \<and>
    (\<exists>layout. generated_table sc version_text version_number layout = table)"
proof -
  obtain upper fs where sc: "gs_print sc = print_offsets upper fs" "printer_fits upper fs (gs_macros sc) st"
    "table_fits upper fs (gs_macros sc) table"
    using offset_files_fit [OF assms(1)] by blast
  from script_fits_table [OF sc(2,3) assms(2,3)] show ?thesis
    by (simp add: generated_table_def sc(1) get_fd_symaddrs_def Let_def)
qed

theorem generated_tables_find_descriptor_witness:
  "\<exists>off. table_offsets (generated_table openssl_offset_3_2 ''OpenSSL 3.2.0'' ''807403520''
      (\<lambda>st f. if f = ''rbio'' then 0x48 else 0x38)) = Some off \<and>
    get_fd_symaddrs off (env_of 0 []) 64 = read_u32 (env_of 0 []) (read_u64 (env_of 0 []) (64 + 0x48) + 0x38)"
proof -
  have "(openssl_3_2_0, openssl_offset_3_2, ''ssl_connection_st'') \<in> set offset_files"
    by (simp add: offset_files_def)
  from generated_tables_find_descriptor [OF this, of "''OpenSSL 3.2.0''" "''807403520''"
      "\<lambda>st f. if f = ''rbio'' then 0x48 else 0x38" "env_of 0 []" 64] show ?thesis
    by simp
qed

end
