(* ===== verification/Syscall_Calls.thy ===== *)
theory Syscall_Calls
  imports Agent_Invariants
begin

text \<open>
  Whole system calls: a call is its entry program, then whatever other threads and user space
  do, possibly the socket hook of the call, again other threads, and its exit program. The
  stash of the entry reaches the exit unchanged, the exit consumes it, a call that never
  reached the socket layer is ignored and a call on a traced connection is reported.
\<close>

section \<open>Specification\<close>

text \<open>Any number of steps of actors other than the thread \<open>p\<close>.\<close>

definition others_run :: "u64 \<Rightarrow> bpf_state \<Rightarrow> bpf_state \<Rightarrow> bool" where
  "others_run p = rtranclp (\<lambda>s s'. \<exists>a. a \<noteq> Thread p \<and> agent_step a s s')"

text \<open>The arguments a read call hands from its entry to its exit.\<close>

definition read_call_args :: "bpf_env \<Rightarrow> u32 \<Rightarrow> u64 \<Rightarrow> data_args" where
  "read_call_args e fd buf = data_args_zero\<lparr>da_fd := fd, da_buf := buf,
     da_source_fn := kSyscallRead, da_start_ts := ktime e KT_enter\<rparr>"

text \<open>The record of a system-call tracepoint: the registers of the call as 64-bit words.\<close>

definition reg_bytes :: "u64 list \<Rightarrow> u8 list" where
  "reg_bytes args = concat (map (\<lambda>r. nat_bytes 8 (unat r)) args)"

definition tp_record :: "bpf_env \<Rightarrow> u64 \<Rightarrow> u64 list \<Rightarrow> bool" where
  "tp_record e ctx args \<longleftrightarrow> mem_holds e (ctx + 16) (reg_bytes args)"

text \<open>A state with one classified connection, for evaluation.\<close>

definition http_state :: bpf_state where
  "http_state = init_state\<lparr>conn_info_map := bpf_map_update_elem (bpf_map_create 5) (gen_tgid_fd 0 5)
     (conn_info_zero\<lparr>protocol := kProtocolHTTP\<rparr>) BPF_ANY\<rparr>"

text \<open>
  The maps in which the calls of a thread keep their arguments between entry and exit, and those in which
  thread \<open>p\<close> has an entry.
\<close>

datatype args_map = Read_args | Write_args | Connect_args | Accept_args | Close_args | Sendfile_args

fun has_args :: "u64 \<Rightarrow> bpf_state \<Rightarrow> args_map \<Rightarrow> bool" where
  "has_args p s Read_args \<longleftrightarrow> stashed kIngress p s \<noteq> None"
| "has_args p s Write_args \<longleftrightarrow> stashed kEgress p s \<noteq> None"
| "has_args p s Connect_args \<longleftrightarrow> bpf_map_lookup_elem (connect_args_map s) p \<noteq> None"
| "has_args p s Accept_args \<longleftrightarrow> bpf_map_lookup_elem (accept_args_map s) p \<noteq> None"
| "has_args p s Close_args \<longleftrightarrow> bpf_map_lookup_elem (close_args_map s) p \<noteq> None"
| "has_args p s Sendfile_args \<longleftrightarrow> bpf_map_lookup_elem (active_sendfile_args_map s) p \<noteq> None"

definition open_args :: "u64 \<Rightarrow> bpf_state \<Rightarrow> args_map set" where
  "open_args p s = {m. has_args p s m}"

definition args_of :: "traffic_direction_t \<Rightarrow> args_map" where
  "args_of d = (if d = kIngress then Read_args else Write_args)"

text \<open>
  The system calls with the arguments their entry programs read and the result, last, that their exit
  programs read; the maps each of them uses. The last three are the tracepoint programs that have
  handlers of their own.
\<close>

datatype sys_call =
    Sys_recvfrom u32 u64 u64 u32 u64
  | Sys_read u32 u64 u64
  | Sys_recvmmsg u32 u64 u32 u32
  | Sys_recvmsg u32 u64 u32 u64
  | Sys_readv u32 u64 u32 u64
  | Sys_sendfile64 u32 u32 u64 u64
  | Sys_sendto u32 u64 u64 u64
  | Sys_write u32 u64 u64
  | Sys_sendmmsg u32 u64 u32 u32
  | Sys_sendmsg u32 u64 u64
  | Sys_writev u32 u64 u32 u64
  | Sys_close u32 u64
  | Sys_connect u32 u64 u32
  | Sys_accept4 u64 u64
  | Tp_write u64 u64
  | Tp_writev u64 u64
  | Tp_accept4 u64 u64

fun call_enter :: "sys_call \<Rightarrow> bpf_env \<Rightarrow> bpf_state \<Rightarrow> bpf_state" where
  "call_enter (Sys_recvfrom fd buf addr flags ret) e s = handle_syscall_enter_recvfrom e fd buf addr flags s"
| "call_enter (Sys_read fd buf ret) e s = handle_syscall_enter_read e fd buf s"
| "call_enter (Sys_recvmmsg fd msgvec vlen ret) e s = handle_syscall_enter_recvmmsg e fd msgvec vlen s"
| "call_enter (Sys_recvmsg fd msghdr flags ret) e s = handle_syscall_enter_recvmsg e fd msghdr flags s"
| "call_enter (Sys_readv fd iov iovlen ret) e s = handle_syscall_enter_readv e fd iov iovlen s"
| "call_enter (Sys_sendfile64 out_fd in_fd n ret) e s = handle_syscall_enter_sendfile e out_fd in_fd n s"
| "call_enter (Sys_sendto fd buf addr ret) e s = handle_syscall_enter_sendto e fd buf addr s"
| "call_enter (Sys_write fd buf ret) e s = handle_syscall_enter_write e fd buf s"
| "call_enter (Sys_sendmmsg fd msgvec vlen ret) e s = handle_syscall_enter_sendmmsg e fd msgvec vlen s"
| "call_enter (Sys_sendmsg fd msghdr ret) e s = handle_syscall_enter_sendmsg e fd msghdr s"
| "call_enter (Sys_writev fd iov iovlen ret) e s = handle_syscall_enter_writev e fd iov iovlen s"
| "call_enter (Sys_close fd ret) e s = handle_syscall_enter_close e fd s"
| "call_enter (Sys_connect fd addr ret) e s = handle_syscall_enter_connect e fd addr s"
| "call_enter (Sys_accept4 addr ret) e s = handle_syscall_enter_accept4 e addr s"
| "call_enter (Tp_write ctx ctx') e s = tracepoint__syscalls__sys_enter_write e ctx s"
| "call_enter (Tp_writev ctx ctx') e s = tracepoint__syscalls__sys_enter_writev e ctx s"
| "call_enter (Tp_accept4 ctx ctx') e s = tracepoint__syscalls__sys_enter_accept4 e ctx s"

fun call_exit :: "sys_call \<Rightarrow> bpf_env \<Rightarrow> bpf_state \<Rightarrow> bpf_state" where
  "call_exit (Sys_recvfrom fd buf addr flags ret) e s = handle_syscall_exit_recvfrom e ret s"
| "call_exit (Sys_read fd buf ret) e s = handle_syscall_exit_read e ret s"
| "call_exit (Sys_recvmmsg fd msgvec vlen ret) e s = handle_syscall_exit_recvmmsg e ret s"
| "call_exit (Sys_recvmsg fd msghdr flags ret) e s = handle_syscall_exit_recvmsg e ret s"
| "call_exit (Sys_readv fd iov iovlen ret) e s = handle_syscall_exit_readv e ret s"
| "call_exit (Sys_sendfile64 out_fd in_fd n ret) e s = handle_syscall_exit_sendfile64 e ret s"
| "call_exit (Sys_sendto fd buf addr ret) e s = handle_syscall_exit_sendto e ret s"
| "call_exit (Sys_write fd buf ret) e s = handle_syscall_exit_write e ret s"
| "call_exit (Sys_sendmmsg fd msgvec vlen ret) e s = handle_syscall_exit_sendmmsg e ret s"
| "call_exit (Sys_sendmsg fd msghdr ret) e s = handle_syscall_exit_sendmsg e ret s"
| "call_exit (Sys_writev fd iov iovlen ret) e s = handle_syscall_exit_writev e ret s"
| "call_exit (Sys_close fd ret) e s = handle_syscall_exit_close e ret s"
| "call_exit (Sys_connect fd addr ret) e s = handle_syscall_exit_connect e ret s"
| "call_exit (Sys_accept4 addr ret) e s = handle_syscall_exit_accept4 e ret s"
| "call_exit (Tp_write ctx ctx') e s = tracepoint__syscalls__sys_exit_write e ctx' s"
| "call_exit (Tp_writev ctx ctx') e s = tracepoint__syscalls__sys_exit_writev e ctx' s"
| "call_exit (Tp_accept4 ctx ctx') e s = tracepoint__syscalls__sys_exit_accept4 e ctx' s"

fun call_args :: "sys_call \<Rightarrow> args_map set" where
  "call_args (Sys_recvfrom fd buf addr flags ret) = {Read_args, Connect_args}"
| "call_args (Sys_read fd buf ret) = {Read_args}"
| "call_args (Sys_recvmmsg fd msgvec vlen ret) = {Read_args, Connect_args}"
| "call_args (Sys_recvmsg fd msghdr flags ret) = {Read_args, Connect_args}"
| "call_args (Sys_readv fd iov iovlen ret) = {Read_args}"
| "call_args (Sys_sendfile64 out_fd in_fd n ret) = {Sendfile_args}"
| "call_args (Sys_sendto fd buf addr ret) = {Write_args, Connect_args}"
| "call_args (Sys_write fd buf ret) = {Write_args}"
| "call_args (Sys_sendmmsg fd msgvec vlen ret) = {Write_args, Connect_args}"
| "call_args (Sys_sendmsg fd msghdr ret) = {Write_args, Connect_args}"
| "call_args (Sys_writev fd iov iovlen ret) = {Write_args}"
| "call_args (Sys_close fd ret) = {Close_args}"
| "call_args (Sys_connect fd addr ret) = {Connect_args}"
| "call_args (Sys_accept4 addr ret) = {Accept_args}"
| "call_args (Tp_write ctx ctx') = {Write_args}"
| "call_args (Tp_writev ctx ctx') = {Write_args}"
| "call_args (Tp_accept4 ctx ctx') = {Accept_args}"

text \<open>What happens between entry and exit: steps of other actors and the hooks that the call passes.\<close>

inductive during :: "u64 \<Rightarrow> bpf_state \<Rightarrow> bpf_state \<Rightarrow> bool" for p where
  during_start: "during p s s"
| during_other: "during p s t \<Longrightarrow> a \<noteq> Thread p \<Longrightarrow> agent_step a t u \<Longrightarrow> during p s u"
| during_sendmsg: "during p s t \<Longrightarrow> pid_tgid e = p \<Longrightarrow> during p s (handle_security_socket_sendmsg e t)"
| during_recvmsg: "during p s t \<Longrightarrow> pid_tgid e = p \<Longrightarrow> during p s (handle_security_socket_recvmsg e t)"
| during_sock_alloc: "during p s t \<Longrightarrow> pid_tgid e = p \<Longrightarrow> during p s (sock_alloc_ret e regs t)"

section \<open>Stashes across other threads\<close>

lemma user_step_stashes: "user_step s s' \<Longrightarrow> stashes p s' = stashes p s"
  by (auto simp: stashes_def stashed_def elim!: user_step.cases)

lemma others_run_stashes: "others_run p s s' \<Longrightarrow> stashes p s' = stashes p s"
  unfolding others_run_def
proof (induction rule: rtranclp_induct)
  case (step t u)
  then obtain a where a: "a \<noteq> Thread p" "agent_step a t u"
    by blast
  from a(2) have "stashes p u = stashes p t"
    using others.program a(1) by (cases) (auto simp: others_kept_def user_step_stashes)
  with step show ?case
    by simp
qed simp

lemma others_run_stashed: "others_run p s s' \<Longrightarrow> stashed d p s' = stashed d p s"
  using others_run_stashes [of p s s'] by (cases d) (simp_all add: stashes_def)

lemma stashed_ops [simp]:
  "stashed d p (unstash d p s) = None"
  "stashed d p s \<noteq> None \<Longrightarrow> stashed d p (stash_write d p args s) = Some args"
  by (cases d; simp add: stashed_def unstash_def stash_write_def bpf_lookup)+

lemma stashed_stash:
  "\<not> bpf_map_full (if d = kIngress then read_args_map s else write_args_map s) \<Longrightarrow>
     stashed d p (stash d p args s) = Some args"
  by (cases d; cases "stashed d p s") (simp_all add: stashed_def stash_def bpf_lookup)

text \<open>What the exit of a read call finds, without and with the socket hook in between.\<close>

lemma read_call_stash:
  assumes "pid_tgid e1 = p" and "\<not> bpf_map_full (read_args_map s)"
    and "others_run p (handle_syscall_enter_read e1 fd buf s) s1"
  shows "stashed kIngress p s1 = Some (read_call_args e1 fd buf)"
  using others_run_stashed [OF assms(3), of kIngress] assms(1,2)
  by (simp add: handle_syscall_enter_read_def read_call_args_def stashed_stash)

lemma read_call_hooked:
  assumes "stashed kIngress p s1 = Some args" and "pid_tgid e2 = p"
    and "others_run p (handle_security_socket_recvmsg e2 s1) s2"
  shows "stashed kIngress p s2 = Some (args\<lparr>da_sock_event := True\<rparr>)"
  using others_run_stashed [OF assms(3), of kIngress] assms(1,2)
  by (simp add: handle_security_socket_recvmsg_def)

section \<open>Properties\<close>

text \<open>
  A read call that passes the socket hook is processed at its exit with exactly the
  arguments of its entry, whatever other threads and user space did in between; a read call
  that never reached the socket layer (a file or a pipe) leaves nothing but the removal of its
  stash.
\<close>

theorem read_call_interleaved:
  fixes e1 e2 e3 :: bpf_env
  assumes "pid_tgid e1 = p" "pid_tgid e2 = p" "pid_tgid e3 = p"
    and "\<not> bpf_map_full (read_args_map s)"
    and "others_run p (handle_syscall_enter_read e1 fd buf s) s1"
    and "others_run p (handle_security_socket_recvmsg e2 s1) s2"
  shows "handle_syscall_exit_read e3 ret s1 = unstash kIngress p s1 \<and>
    handle_syscall_exit_read e3 ret s2 = unstash kIngress p
      (finish_data e3 kIngress False ret ((read_call_args e1 fd buf)\<lparr>da_sock_event := True\<rparr>) s2)"
proof -
  note s1 = read_call_stash [OF assms(1,4,5)]
  from read_call_hooked [OF s1 assms(2,6)] s1 show ?thesis
    using assms(3) by (simp add: handle_syscall_exit_read_def read_call_args_def data_args_zero_def)
qed

theorem read_call_interleaved_witness:
  "let e = env_of 0 []; s1 = handle_syscall_enter_read e 5 64 init_state in
   handle_syscall_exit_read e 10 s1 = unstash kIngress 0 s1"
proof -
  let ?e = "env_of 0 []"
  let ?s1 = "handle_syscall_enter_read ?e 5 64 init_state"
  have e: "pid_tgid ?e = 0"
    by (simp add: env_of_def)
  have "\<not> bpf_map_full (read_args_map init_state)"
    by (simp add: init_state_def bpf_map_full_def bpf_map_create_def MAX_ENTRIES_def)
  moreover have "others_run 0 ?s1 ?s1" "others_run 0 (handle_security_socket_recvmsg ?e ?s1)
      (handle_security_socket_recvmsg ?e ?s1)"
    by (simp_all add: others_run_def)
  ultimately show ?thesis
    using read_call_interleaved [OF e e e] by (simp add: Let_def)
qed

section \<open>Arguments of whole calls\<close>

lemma open_args_iff: "m \<in> open_args p s \<longleftrightarrow> has_args p s m"
  by (simp add: open_args_def)

lemma open_args_eqI: "(\<And>m. has_args p s' m \<longleftrightarrow> has_args p s m) \<Longrightarrow> open_args p s' = open_args p s"
  by (simp add: open_args_def)

lemma open_args_stashes: "stashes p s' = stashes p s \<Longrightarrow> open_args p s' = open_args p s"
proof (rule open_args_eqI)
  fix m
  assume "stashes p s' = stashes p s"
  then show "has_args p s' m \<longleftrightarrow> has_args p s m"
    by (cases m) (simp_all add: stashes_def)
qed

text \<open>An operation that could run in any thread leaves the arguments of every thread alone.\<close>

lemma open_args_eff: "(\<And>q. eff q s s') \<Longrightarrow> open_args p s' = open_args p s"
  using others.effs [of "p + 1" s s'] by (intro open_args_stashes) (simp add: others_kept_def)

lemma open_args_processed [simp]:
  "open_args p (process_syscall_data e args pt d n b s) = open_args p s"
  "open_args p (process_syscall_data_vecs e args pt d n b s) = open_args p s"
  "open_args p (process_syscall_sendfile e pt sargs n s) = open_args p s"
  "open_args p (process_syscall_close e r cl pt s) = open_args p s"
  "open_args p (process_syscall_connect e r co pt s) = open_args p s"
  "open_args p (process_syscall_accept e n ac pt s) = open_args p s"
  "open_args p (process_implicit_conn e pt co fn role' s) = open_args p s"
  by (rule open_args_eff, rule eff_intros)+

text \<open>The operations on the maps: an entry touches only its own map, a removal removes exactly it.\<close>

lemma has_args_update [simp]:
  "has_args p (s\<lparr>read_args_map := rd\<rparr>) m = (if m = Read_args then bpf_map_lookup_elem rd p \<noteq> None else has_args p s m)"
  "has_args p (s\<lparr>write_args_map := wr\<rparr>) m = (if m = Write_args then bpf_map_lookup_elem wr p \<noteq> None else has_args p s m)"
  "has_args p (s\<lparr>connect_args_map := co\<rparr>) m = (if m = Connect_args then bpf_map_lookup_elem co p \<noteq> None else has_args p s m)"
  "has_args p (s\<lparr>accept_args_map := ac\<rparr>) m = (if m = Accept_args then bpf_map_lookup_elem ac p \<noteq> None else has_args p s m)"
  "has_args p (s\<lparr>close_args_map := cl\<rparr>) m = (if m = Close_args then bpf_map_lookup_elem cl p \<noteq> None else has_args p s m)"
  "has_args p (s\<lparr>active_sendfile_args_map := sf\<rparr>) m =
     (if m = Sendfile_args then bpf_map_lookup_elem sf p \<noteq> None else has_args p s m)"
  "has_args p (s\<lparr>ssl_user_space_call_map := us\<rparr>) m = has_args p s m"
  "has_args p (s\<lparr>go_ssl_user_space_call_map := gs\<rparr>) m = has_args p s m"
  by (cases m; simp add: stashed_def)+

lemma open_args_stash [simp]:
  "args_of d \<in> M \<Longrightarrow> open_args p (stash d q args s) - M = open_args p s - M"
  "Connect_args \<in> M \<Longrightarrow> open_args p (stash_connect q co s) - M = open_args p s - M"
  "Connect_args \<in> M \<Longrightarrow> open_args p (stash_peer q fd addr s) - M = open_args p s - M"
  "Sendfile_args \<in> M \<Longrightarrow> open_args p (s\<lparr>active_sendfile_args_map := m1\<rparr>) - M = open_args p s - M"
  "Close_args \<in> M \<Longrightarrow> open_args p (s\<lparr>close_args_map := m2\<rparr>) - M = open_args p s - M"
  "Accept_args \<in> M \<Longrightarrow> open_args p (s\<lparr>accept_args_map := m3\<rparr>) - M = open_args p s - M"
  by (auto simp: open_args_def stash_def stash_peer_def stash_connect_def args_of_def split: if_splits)

lemma open_args_unstash [simp]:
  "open_args p (unstash d p s) = open_args p s - {args_of d}"
  "open_args p (unstash_connect p s) = open_args p s - {Connect_args}"
  "open_args p (s\<lparr>active_sendfile_args_map := bpf_map_delete_elem sf p\<rparr>) = open_args p s - {Sendfile_args}"
  "open_args p (s\<lparr>close_args_map := bpf_map_delete_elem cl p\<rparr>) = open_args p s - {Close_args}"
  "open_args p (s\<lparr>accept_args_map := bpf_map_delete_elem ac p\<rparr>) = open_args p s - {Accept_args}"
  by (auto simp: open_args_def unstash_def unstash_connect_def args_of_def bpf_lookup)

text \<open>A write through a pointer found in a map neither adds nor removes an entry.\<close>

lemma has_args_store [simp]:
  "has_args p (stash_write d q args s) m = has_args p s m"
  "has_args p (s\<lparr>active_sendfile_args_map := bpf_map_store (active_sendfile_args_map s) q sf\<rparr>) m = has_args p s m"
  "has_args p (s\<lparr>accept_args_map := bpf_map_store (accept_args_map s) q ac\<rparr>) m = has_args p s m"
  by (auto simp: stash_write_def stashed_def bpf_lookup)

lemma open_args_store [simp]:
  "open_args p (stash_write d q args s) = open_args p s"
  "open_args p (s\<lparr>active_sendfile_args_map := bpf_map_store (active_sendfile_args_map s) q sf\<rparr>) = open_args p s"
  "open_args p (s\<lparr>accept_args_map := bpf_map_store (accept_args_map s) q ac\<rparr>) = open_args p s"
  by (simp_all only: open_args_def has_args_store)

lemma open_args_propagate: "propagate_fd_to_uprobe e q fd n s = (b, s') \<Longrightarrow> open_args p s' = open_args p s"
  by (auto simp: propagate_fd_to_uprobe_def open_args_def Let_def split: option.splits if_splits)

lemma open_args_finish [simp]:
  "open_args p (finish_data e d vecs n args s) = open_args p s"
  "open_args (pid_tgid e) (finish_peer e ok fn role' s) = open_args (pid_tgid e) s - {Connect_args}"
proof -
  show "open_args p (finish_data e d vecs n args s) = open_args p s"
  proof -
    let ?s = "stash_write d (pid_tgid e) (args\<lparr>da_end_ts := ktime e KT_exit\<rparr>) s"
    obtain b s' where pr: "propagate_fd_to_uprobe e (pid_tgid e) (da_fd args) (ucast n) ?s = (b, s')"
      by force
    show ?thesis
      using open_args_propagate [OF pr, of p] by (simp add: finish_data_def Let_def pr)
  qed
  show "open_args (pid_tgid e) (finish_peer e ok fn role' s) = open_args (pid_tgid e) s - {Connect_args}"
    by (simp add: finish_peer_def Let_def split: option.split)
qed

lemma open_args_hooks [simp]:
  "open_args p (handle_security_socket_sendmsg e s) = open_args p s"
  "open_args p (handle_security_socket_recvmsg e s) = open_args p s"
  "open_args p (sock_alloc_ret e regs s) = open_args p s"
  by (simp_all add: handle_security_socket_sendmsg_def handle_security_socket_recvmsg_def sock_alloc_ret_def
      split: option.split)

lemma during_open_args: "during p s t \<Longrightarrow> open_args p t = open_args p s"
proof (induction rule: during.induct)
  case (during_other s t a u)
  then have "others_run p t u"
    unfolding others_run_def by blast
  then show ?case
    using during_other.IH open_args_stashes [OF others_run_stashes] by simp
qed simp_all

lemma call_enter_open_args: "open_args p (call_enter c e s) - call_args c = open_args p s - call_args c"
  by (cases c)
    (simp_all add: handle_syscall_enter_recvfrom_def handle_syscall_enter_read_def handle_syscall_enter_recvmmsg_def
      handle_syscall_enter_recvmsg_def handle_syscall_enter_readv_def handle_syscall_enter_sendfile_def
      handle_syscall_enter_sendto_def handle_syscall_enter_write_def handle_syscall_enter_sendmmsg_def
      handle_syscall_enter_sendmsg_def handle_syscall_enter_writev_def handle_syscall_enter_close_def
      handle_syscall_enter_connect_def handle_syscall_enter_accept4_def tracepoint__syscalls__sys_enter_write_def
      tracepoint__syscalls__sys_enter_writev_def tracepoint__syscalls__sys_enter_accept4_def args_of_def Let_def)

lemma call_exit_open_args: "open_args (pid_tgid e) (call_exit c e s) = open_args (pid_tgid e) s - call_args c"
  by (cases c)
    (auto simp: handle_syscall_exit_recvfrom_def handle_syscall_exit_read_def handle_syscall_exit_recvmmsg_def
      handle_syscall_exit_recvmsg_def handle_syscall_exit_readv_def handle_syscall_exit_sendfile64_def
      handle_syscall_exit_sendto_def handle_syscall_exit_write_def handle_syscall_exit_sendmmsg_def
      handle_syscall_exit_sendmsg_def handle_syscall_exit_writev_def handle_syscall_exit_close_def
      handle_syscall_exit_connect_def handle_syscall_exit_accept4_def tracepoint__syscalls__sys_exit_write_def
      tracepoint__syscalls__sys_exit_writev_def tracepoint__syscalls__sys_exit_accept4_def args_of_def Let_def
      split: option.split)

text \<open>
  Property C28. A system call leaves none of its arguments behind. Whatever happens between its
  entry and its exit (programs of other threads, user space, the socket hooks and the socket
  allocation of the call itself), after the exit the thread has entries in exactly the argument maps
  in which it had one before the call, without the maps of the call: the receiving calls use
  \<open>read_args_map\<close>, the sending calls \<open>write_args_map\<close>, those that may carry an address also
  \<open>connect_args_map\<close>, and close, connect, accept4 and sendfile64 their own map.
\<close>

theorem exits_consume_stash:
  assumes "pid_tgid e1 = p" and "pid_tgid e2 = p" and "during p (call_enter c e1 s) s1"
  shows "open_args p (call_exit c e2 s1) = open_args p s - call_args c"
  using call_exit_open_args [of e2 c s1] during_open_args [OF assms(3)] call_enter_open_args [of p c e1 s] assms(2) by simp

theorem exits_consume_stash_witness:
  "let e = env_of 0 []; c = Sys_recvfrom 5 64 128 0 10; s = call_enter c e init_state in
   open_args 0 s = {Read_args, Connect_args} \<and>
   open_args 0 (call_exit c e (handle_security_socket_recvmsg e s)) = {}"
proof -
  let ?e = "env_of 0 []" and ?c = "Sys_recvfrom 5 64 128 0 10"
  let ?s = "call_enter ?c ?e init_state"
  have e: "pid_tgid ?e = 0"
    by (simp add: env_of_def)
  have "has_args 0 init_state m \<longleftrightarrow> False" for m
    by (cases m) (simp_all add: init_state_def stashed_def)
  then have init: "open_args 0 init_state = {}"
    by (simp add: open_args_def)
  have "has_args 0 ?s m \<longleftrightarrow> m \<in> {Read_args, Connect_args}" for m
    by (cases m) (simp_all add: handle_syscall_enter_recvfrom_def stash_peer_def stash_connect_def stash_def e
        stashed_def init_state_def bpf_lookup bpf_map_full_def, simp_all add: bpf_map_create_def MAX_ENTRIES_def)
  then have "open_args 0 ?s = {Read_args, Connect_args}"
    by (auto simp: open_args_def)
  moreover have "during 0 ?s (handle_security_socket_recvmsg ?e ?s)"
    by (rule during_recvmsg [OF during_start e])
  from exits_consume_stash [OF e e this] init have "open_args 0 (call_exit ?c ?e (handle_security_socket_recvmsg ?e ?s)) = {}"
    by simp
  ultimately show ?thesis
    by (simp add: Let_def)
qed

section \<open>Tracepoint records\<close>

lemma take_drop_reg_bytes:
  "i < length args \<Longrightarrow> n \<le> 8 \<Longrightarrow> take n (drop (8 * i) (reg_bytes args)) = take n (nat_bytes 8 (unat (args ! i)))"
proof (induction args arbitrary: i)
  case (Cons r args)
  show ?case
  proof (cases i)
    case 0
    then show ?thesis using Cons.prems by (simp add: reg_bytes_def)
  next
    case (Suc j)
    then show ?thesis using Cons by (simp add: reg_bytes_def)
  qed
qed simp

lemma take_nat_bytes: "n \<le> m \<Longrightarrow> take n (nat_bytes m x) = nat_bytes n x"
  by (induction m arbitrary: n x) (auto simp: take_Cons split: nat.split)

lemma length_reg_bytes [simp]: "length (reg_bytes args) = 8 * length args"
  by (induction args) (simp_all add: reg_bytes_def)

lemma tp_record_args:
  assumes "tp_record e ctx args" and "i < length args"
  shows "TP_ARGS64 e ctx i = args ! i" and "TP_ARGS32 e ctx i = ucast (args ! i)"
proof -
  have read: "probe_read e n (ctx + 16 + word_of_nat i * 8) = nat_bytes n (unat (args ! i))" if "n \<le> 8" for n
  proof -
    have "probe_read e n (ctx + 16 + word_of_nat (8 * i)) = take n (drop (8 * i) (reg_bytes args))"
      by (rule mem_holdsD [OF assms(1) [unfolded tp_record_def]]) (use assms(2) that in simp)
    then show ?thesis
      using take_drop_reg_bytes [OF assms(2) that] that by (simp add: take_nat_bytes mult.commute)
  qed
  show "TP_ARGS64 e ctx i = args ! i"
    by (simp add: TP_ARGS64_def read_u64_def read le_word_nat_bytes)
  show "TP_ARGS32 e ctx i = ucast (args ! i)"
    by (simp add: TP_ARGS32_def read_u32_def read le_word_def le_nat_nat_bytes)
      (simp add: word_unat_eq_iff unsigned_ucast_eq take_bit_eq_mod unat_of_nat)
qed

text \<open>
  Property C29. Both ways to attach to a system call see the same call: when the record of the
  tracepoint holds the registers of the call, the tracepoint program at its entry does what the
  fentry program does. The one exception is write with a null buffer, which the fentry program
  ignores and the tracepoint program stashes.
\<close>

theorem tracepoints_match_fentry:
  assumes "tp_record e ctx [a0, a1, a2, a3, a4]"
    and "parm1 regs = a0" "parm2 regs = a1" "parm3 regs = a2" "parm4 regs = a3"
  shows "tracepoint__syscalls__sys_enter_read e ctx s = fentry__sys_read e regs s \<and>
    tracepoint__syscalls__sys_enter_recvmmsg e ctx s = fentry__sys_recvmmsg e regs s \<and>
    tracepoint__syscalls__sys_enter_recvmsg e ctx s = fentry__sys_recvmsg e regs s \<and>
    tracepoint__syscalls__sys_enter_readv e ctx s = fentry__sys_readv e regs s \<and>
    tracepoint__syscalls__sys_enter_sendfile64 e ctx s = fentry__sys_sendfile64 e regs s \<and>
    tracepoint__syscalls__sys_enter_writev e ctx s = fentry__sys_writev e regs s \<and>
    tracepoint__syscalls__sys_enter_close e ctx s = fentry__sys_close e regs s \<and>
    tracepoint__syscalls__sys_enter_recvfrom e ctx s = fentry__sys_recvfrom e (ucast a0) a1 (ucast a3) a4 s \<and>
    tracepoint__syscalls__sys_enter_sendto e ctx s = fentry__sys_sendto e (ucast a0) a1 a4 s \<and>
    tracepoint__syscalls__sys_enter_sendmmsg e ctx s = fentry__sys_sendmmsg e (ucast a0) a1 (ucast a2) s \<and>
    tracepoint__syscalls__sys_enter_sendmsg e ctx s = fentry__sys_sendmsg e (ucast a0) a1 s \<and>
    tracepoint__syscalls__sys_enter_connect e ctx s = fentry__sys_connect e (ucast a0) a1 s \<and>
    tracepoint__syscalls__sys_enter_accept4 e ctx s = fentry__sys_accept4 e a1 s \<and>
    (a1 \<noteq> 0 \<longrightarrow> tracepoint__syscalls__sys_enter_write e ctx s = fentry__sys_write e regs s) \<and>
    (a1 = 0 \<longrightarrow> fentry__sys_write e regs s = s \<and>
       tracepoint__syscalls__sys_enter_write e ctx s = stash kEgress (pid_tgid e)
         (data_args_zero\<lparr>da_fd := ucast a0, da_source_fn := kSyscallWrite,
            da_start_ts := ktime e KT_enter\<rparr>) s)"
proof -
  note args = tp_record_args [OF assms(1)]
  have a: "TP_ARGS64 e ctx 1 = a1" "TP_ARGS64 e ctx 3 = a3" "TP_ARGS64 e ctx 4 = a4"
    "TP_ARGS64 e ctx (Suc 0) = a1"
    "TP_ARGS32 e ctx 0 = ucast a0" "TP_ARGS32 e ctx 1 = ucast a1" "TP_ARGS32 e ctx 2 = ucast a2"
    "TP_ARGS32 e ctx 3 = ucast a3" "TP_ARGS32 e ctx (Suc 0) = ucast a1"
    using args(1) [of 1] args(1) [of 3] args(1) [of 4] args(2) [of 0] args(2) [of 1] args(2) [of 2]
      args(2) [of 3] by simp_all
  have "data_args_zero\<lparr>da_buf := 0\<rparr> = data_args_zero"
    by (simp add: data_args_zero_def)
  then show ?thesis
    using assms(2-5)
    by (simp add: tracepoint__syscalls__sys_enter_read_def fentry__sys_read_def
      tracepoint__syscalls__sys_enter_recvmmsg_def fentry__sys_recvmmsg_def
      tracepoint__syscalls__sys_enter_recvmsg_def fentry__sys_recvmsg_def
      tracepoint__syscalls__sys_enter_readv_def fentry__sys_readv_def
      tracepoint__syscalls__sys_enter_sendfile64_def fentry__sys_sendfile64_def
      tracepoint__syscalls__sys_enter_writev_def fentry__sys_writev_def
      tracepoint__syscalls__sys_enter_close_def fentry__sys_close_def
      tracepoint__syscalls__sys_enter_recvfrom_def fentry__sys_recvfrom_def
      tracepoint__syscalls__sys_enter_sendto_def fentry__sys_sendto_def
      tracepoint__syscalls__sys_enter_sendmmsg_def fentry__sys_sendmmsg_def
      tracepoint__syscalls__sys_enter_sendmsg_def fentry__sys_sendmsg_def
      tracepoint__syscalls__sys_enter_connect_def fentry__sys_connect_def
      tracepoint__syscalls__sys_enter_accept4_def fentry__sys_accept4_def
      tracepoint__syscalls__sys_enter_write_def fentry__sys_write_def handle_syscall_enter_write_def
      a data_args_zero_def)
qed

theorem tracepoints_match_fentry_witness:
  "let e = env_of 16 (reg_bytes [5, 64, 3, 0, 0]);
       regs = \<lparr>parm1 = 5, parm2 = 64, parm3 = 3, parm4 = 0, parm5 = 0, pt_rc = 0, pt_sp = 0, pt_go_regs = []\<rparr>
   in tracepoint__syscalls__sys_enter_write e 0 init_state = fentry__sys_write e regs init_state"
proof -
  have "tp_record (env_of 16 (reg_bytes [5, 64, 3, 0, 0])) 0 [5, 64, 3, 0, 0]"
    using mem_holds_env_of [of "reg_bytes [5, 64, 3, 0, 0]" 16] by (simp add: tp_record_def)
  from tracepoints_match_fentry [OF this, of "\<lparr>parm1 = 5, parm2 = 64, parm3 = 3, parm4 = 0, parm5 = 0,
      pt_rc = 0, pt_sp = 0, pt_go_regs = []\<rparr>" init_state]
  show ?thesis
    by (simp add: Let_def)
qed

section \<open>A traced call is reported\<close>

lemma process_syscall_data_traced:
  fixes pt args direct
  defines "k \<equiv> gen_tgid_fd (ucast (drop_bit 32 pt)) (da_fd args)"
  assumes t: "traced_conn s k ci" and n: "0 < sint n" "unat n < 2 ^ 32"
  shows "emits e (syscall_seq_of direct ci) (unat n) s (process_syscall_data e args pt direct n b s)"
proof -
  let ?ci = "if b then ci\<lparr>ssl := True\<rparr> else ci"
  let ?r = "process_syscall_data_with_conn_info e args k direct n 0 False (\<not> ssl ?ci) ?ci s"
  have s': "process_syscall_data e args pt direct n b s =
      store_conn_info k (add_bytes direct n (fst ?r)) (snd ?r)"
    using t n by (simp add: process_syscall_data_def traced_conn_def match_trace_tgid_all Let_def
        find_or_create_conn_def case_prod_unfold k_def)
  have ci: "\<not> tries_infer wd ?ci" "may_report False ?ci" for wd
    using t by (simp_all add: traced_conn_def tries_infer_def may_report_def should_trace_conn_def)
  have m: "syscall_data_map s (cur_cpu e) \<noteq> None"
    using t by (simp add: traced_conn_def)
  have "may_report False (fst ?r)" "syscall_seq_of direct ?ci = syscall_seq_of direct ci"
    using ci by (auto simp: process_syscall_data_with_conn_info_cases syscall_seq_of_def)
  then have "emits e (syscall_seq_of direct ci) (unat n) s (snd ?r)"
    using process_syscall_data_emits_aux [OF n(2) m, of args ?ci "\<not> ssl ?ci" k direct 0] ci(1)
    by (simp add: Let_def)
  then show ?thesis
    by (simp add: s' emits_def store_conn_info_def)
qed

lemma propagate_frame:
  assumes "propagate_fd_to_uprobe e pt fd n s = (b, s')"
  shows "traced_conn s' k ci = traced_conn s k ci" and "syscall_rb s' = syscall_rb s"
  using assms
  by (auto simp: propagate_fd_to_uprobe_def traced_conn_def control_value_def Let_def
      split: option.splits if_splits)

lemma stash_frame [simp]:
  "traced_conn (stash_write d p args s) k ci = traced_conn s k ci"
  "syscall_rb (stash_write d p args s) = syscall_rb s"
  "syscall_rb (unstash d p s) = syscall_rb s"
  by (simp_all add: stash_write_def unstash_def traced_conn_def control_value_def)

lemma finish_data_traced:
  assumes "traced_conn s (gen_tgid_fd (current_tgid e) (da_fd args)) ci"
    and "0 < sint n" "unat n < 2 ^ 32"
  shows "emits e (syscall_seq_of direct ci) (unat n) s (finish_data e direct False n args s)"
proof -
  let ?args = "args\<lparr>da_end_ts := ktime e KT_exit\<rparr>" and ?p = "pid_tgid e"
  obtain b s1 where b: "propagate_fd_to_uprobe e ?p (da_fd ?args) (ucast n) (stash_write direct ?p ?args s) = (b, s1)"
    by force
  have "traced_conn s1 (gen_tgid_fd (ucast (drop_bit 32 ?p)) (da_fd ?args)) ci"
    using propagate_frame(1) [OF b] assms(1) by (simp add: current_tgid_def)
  from process_syscall_data_traced [OF this assms(2,3), of e direct b]
  show ?thesis
    using propagate_frame(2) [OF b] b by (simp add: finish_data_def Let_def emits_def)
qed

text \<open>
  Property C13. A read call on a traced connection is reported: whatever other threads and user
  space do between its entry, its socket hook and its exit, if the connection is traced at the
  exit then the exit submits events that cover exactly the bytes the call returned, from the
  byte after those already counted.
\<close>

theorem read_call_reported:
  assumes "pid_tgid e1 = p" "pid_tgid e2 = p" "pid_tgid e3 = p"
    and "\<not> bpf_map_full (read_args_map s)"
    and "others_run p (handle_syscall_enter_read e1 fd buf s) s1"
    and "others_run p (handle_security_socket_recvmsg e2 s1) s2"
    and "traced_conn s2 (gen_tgid_fd (current_tgid e3) fd) ci" and "0 < sint ret" "unat ret < 2 ^ 32"
  shows "tiles (syscall_seq_of kIngress ci) (unat ret)
    (map evt_span (new_syscall_evts s2 (handle_syscall_exit_read e3 ret s2)))"
proof -
  from read_call_hooked [OF read_call_stash [OF assms(1,4,5)] assms(2,6)]
  have exit: "handle_syscall_exit_read e3 ret s2 = unstash kIngress p
      (finish_data e3 kIngress False ret ((read_call_args e1 fd buf)\<lparr>da_sock_event := True\<rparr>) s2)"
    using assms(3) by (simp add: handle_syscall_exit_read_def)
  have "emits e3 (syscall_seq_of kIngress ci) (unat ret) s2
      (finish_data e3 kIngress False ret ((read_call_args e1 fd buf)\<lparr>da_sock_event := True\<rparr>) s2)"
    using assms(7) by (intro finish_data_traced assms(8,9)) (simp add: read_call_args_def)
  then show ?thesis
    unfolding exit by (auto simp: emits_def new_syscall_evts_def)
qed

lemma http_state_traced:
  "traced_conn http_state (gen_tgid_fd 0 5) (conn_info_zero\<lparr>protocol := kProtocolHTTP\<rparr>)"
  by (simp add: http_state_def traced_conn_def bpf_lookup bpf_map_full_def conn_info_zero_def
      should_trace_conn_def enum_order_defs control_value_def)
    (simp add: init_state_def, simp add: bpf_map_create_def)

theorem read_call_reported_witness:
  "let e = env_of 0 [];
       s2 = handle_security_socket_recvmsg e (handle_syscall_enter_read e 5 64 http_state)
   in tiles 1 10 (map evt_span (new_syscall_evts s2 (handle_syscall_exit_read e 10 s2)))"
proof -
  let ?e = "env_of 0 []" and ?ci = "conn_info_zero\<lparr>protocol := kProtocolHTTP\<rparr>"
  let ?s1 = "handle_syscall_enter_read ?e 5 64 http_state"
  let ?s2 = "handle_security_socket_recvmsg ?e ?s1"
  have e: "pid_tgid ?e = 0" "current_tgid ?e = 0"
    by (simp_all add: env_of_def current_tgid_def)
  have room: "\<not> bpf_map_full (read_args_map http_state)"
    by (simp add: http_state_def init_state_def bpf_map_full_def bpf_map_create_def MAX_ENTRIES_def)
  have run: "others_run 0 ?s1 ?s1" "others_run 0 ?s2 ?s2"
    by (simp_all add: others_run_def)
  have "traced_conn (stash d 0 a http_state) (gen_tgid_fd 0 5) ?ci" for d a
    using http_state_traced by (simp add: stash_def traced_conn_def control_value_def)
  then have "traced_conn ?s2 (gen_tgid_fd (current_tgid ?e) 5) ?ci"
    by (simp add: e handle_security_socket_recvmsg_def handle_syscall_enter_read_def split: option.split)
  from read_call_reported [OF e(1) e(1) e(1) room run this, of 10] show ?thesis
    by (simp add: Let_def syscall_seq_of_def conn_info_zero_def)
qed

end
