(* ===== verification/Conn_Log.thy ===== *)
theory Conn_Log
  imports Agent_Invariants
begin

text \<open>
  The connection events as the log that user space reads. A connection is opened by a
  \<open>kConnect\<close> event and closed by a \<open>kClose\<close> event; the log is read by a small automaton
  that keeps the set of open connections and rejects an event of a connection that is not
  open. The lemmas show that the automaton accepts the log of every reachable state and that
  the entries of \<open>conn_info_map\<close> are connections it has open, and how an entry changes from
  one run of a program to the next.
\<close>

section \<open>The log automaton\<close>

definition evt_conn :: "conn_evt_t \<Rightarrow> conn_id_t" where
  "evt_conn ev = conn_id (ce_conn_info ev)"

definition log_next :: "conn_evt_t \<Rightarrow> conn_id_t set \<Rightarrow> conn_id_t set" where
  "log_next ev opened =
     (case ce_conn_type ev of
        kConnect \<Rightarrow> insert (evt_conn ev) opened
      | kClose \<Rightarrow> opened - {evt_conn ev}
      | kProtocolInfer \<Rightarrow> opened)"

fun log_accepts :: "conn_id_t set \<Rightarrow> conn_evt_t list \<Rightarrow> bool" where
  "log_accepts opened [] = True"
| "log_accepts opened (ev # evs) =
     ((ce_conn_type ev = kConnect \<or> evt_conn ev \<in> opened) \<and> log_accepts (log_next ev opened) evs)"

text \<open>Whether some events contain one of a kind for a connection, and whether they leave it open.\<close>

definition evts_have :: "conn_type_t \<Rightarrow> conn_id_t \<Rightarrow> conn_evt_t list \<Rightarrow> bool" where
  "evts_have ty cid evs \<longleftrightarrow> (\<exists>ev \<in> set evs. ce_conn_type ev = ty \<and> evt_conn ev = cid)"

definition opened_in :: "conn_evt_t list \<Rightarrow> conn_id_t \<Rightarrow> bool" where
  "opened_in evs cid \<longleftrightarrow>
     (\<exists>us ev vs. evs = us @ ev # vs \<and> ce_conn_type ev = kConnect \<and> evt_conn ev = cid \<and>
        \<not> evts_have kClose cid vs)"

definition open_conns :: "bpf_state \<Rightarrow> conn_id_t set" where
  "open_conns s = fold log_next (conn_evt_rb s) {}"

definition log_ok :: "bpf_state \<Rightarrow> bool" where
  "log_ok s \<longleftrightarrow> log_accepts {} (conn_evt_rb s) \<and>
     (\<forall>k ci. bpf_map_lookup_elem (conn_info_map s) k = Some ci \<longrightarrow> conn_id ci \<in> open_conns s)"

text \<open>
  How the table changes while one program runs: the entry of a key has evolved from the
  entry of that key before, or it was announced by this program, and an entry that is gone
  was closed by this program or replaced by a connection it announced.
\<close>

definition table_evolves :: "u64 \<Rightarrow> bpf_state \<Rightarrow> bpf_state \<Rightarrow> bool" where
  "table_evolves p s s' \<longleftrightarrow>
     (\<exists>evs. conn_evt_rb s' = conn_evt_rb s @ evs \<and>
       (\<forall>k ci'. bpf_map_lookup_elem (conn_info_map s') k = Some ci' \<longrightarrow>
          evts_have kConnect (conn_id ci') evs \<or>
          (\<exists>ci. bpf_map_lookup_elem (conn_info_map s) k = Some ci \<and> conn_evolves ci ci')) \<and>
       (\<forall>k ci. bpf_map_lookup_elem (conn_info_map s) k = Some ci \<longrightarrow>
          bpf_map_lookup_elem (conn_info_map s') k = None \<longrightarrow>
          (\<exists>cid. evts_have kClose cid evs \<and> gen_tgid_fd (ci_tgid cid) (ci_fd cid) = k)))"

text \<open>A socket that is destroyed while its connection is in the table.\<close>

definition open_sock :: sock_obj where
  "open_sock = v4_sock\<lparr>inet_sport := 0x901f, write_seq := 10\<rparr>"

definition closed_sock :: sock_obj where
  "closed_sock = v4_sock\<lparr>inet_sport := 0x901f, write_seq := 30, skc_num := 0\<rparr>"

definition destroy_state :: bpf_state where
  "destroy_state = init_state\<lparr>
     conn_info_map := bpf_map_update_elem (conn_info_map init_state) 5 conn_info_zero BPF_ANY,
     sock_key_conn_id_map := bpf_map_update_elem (sock_key_conn_id_map init_state)
       (socket_key (sock_env open_sock) 768) \<lparr>cs_tgid_fd = 5, cs_no_trace = trace_unset\<rparr> BPF_ANY\<rparr>"

text \<open>
  Two readings of one socket, while it is open and when it is destroyed: the addresses, the remote port and
  \<open>inet_sport\<close> stay. The local port number \<open>skc_num\<close> need not: the kernel clears it when it
  releases the port. Everything else of the socket (sequence numbers, flags) may change as well.
\<close>

definition same_endpoints :: "sock_obj \<Rightarrow> sock_obj \<Rightarrow> bool" where
  "same_endpoints so so' \<longleftrightarrow>
     skc_family so' = skc_family so \<and> skc_dport so' = skc_dport so \<and> inet_sport so' = inet_sport so \<and>
     skc_daddr so' = skc_daddr so \<and> skc_rcv_saddr so' = skc_rcv_saddr so \<and>
     skc_v6_daddr so' = skc_v6_daddr so \<and> skc_v6_rcv_saddr so' = skc_v6_rcv_saddr so"

section \<open>The log is well formed\<close>

lemma log_accepts_append:
  "log_accepts opened (xs @ ys) \<longleftrightarrow> log_accepts opened xs \<and> log_accepts (fold log_next xs opened) ys"
  by (induction xs arbitrary: opened) auto

lemma evts_have_append [simp]:
  "evts_have ty cid (xs @ ys) \<longleftrightarrow> evts_have ty cid xs \<or> evts_have ty cid ys"
  by (auto simp: evts_have_def)

lemma evts_have_single [simp]:
  "evts_have ty cid [] = False"
  "evts_have ty cid [ev] \<longleftrightarrow> ce_conn_type ev = ty \<and> evt_conn ev = cid"
  by (auto simp: evts_have_def)

lemma opened_in_Nil [simp]: "\<not> opened_in [] cid"
  by (simp add: opened_in_def)

lemma opened_in_snoc:
  "opened_in (evs @ [ev]) cid \<longleftrightarrow>
     ce_conn_type ev = kConnect \<and> evt_conn ev = cid \<or>
     opened_in evs cid \<and> \<not> (ce_conn_type ev = kClose \<and> evt_conn ev = cid)"
  (is "?l \<longleftrightarrow> ?new \<or> ?old")
proof
  assume ?l
  then obtain us c vs where split: "evs @ [ev] = us @ c # vs"
    and c: "ce_conn_type c = kConnect" "evt_conn c = cid" "\<not> evts_have kClose cid vs"
    unfolding opened_in_def by blast
  show "?new \<or> ?old"
  proof (cases vs rule: rev_cases)
    case (snoc ws w)
    then have "evs = us @ c # ws" "w = ev"
      using split by simp_all
    then show ?thesis
      using c snoc unfolding opened_in_def by auto
  qed (use split c in simp)
next
  assume "?new \<or> ?old"
  then show ?l
  proof
    assume ?new
    then show ?l
      unfolding opened_in_def by (intro exI [of _ evs] exI [of _ ev] exI [of _ "[]"]) simp
  next
    assume ?old
    then obtain us c vs where "evs = us @ c # vs" "ce_conn_type c = kConnect" "evt_conn c = cid"
      "\<not> evts_have kClose cid (vs @ [ev])"
      unfolding opened_in_def by auto
    then show ?l
      unfolding opened_in_def by (intro exI [of _ us] exI [of _ c] exI [of _ "vs @ [ev]"]) simp
  qed
qed

text \<open>The open connections of the automaton are those with a connect event and no later close event.\<close>

lemma fold_log_next: "cid \<in> fold log_next evs {} \<longleftrightarrow> opened_in evs cid"
  by (induction evs rule: rev_induct)
    (auto simp: opened_in_snoc log_next_def split: conn_type_t.splits)

lemma log_ok_events:
  assumes "log_ok s" and "conn_evt_rb s = xs @ ev # ys" and "ce_conn_type ev \<noteq> kConnect"
  shows "opened_in xs (evt_conn ev)"
  using assms by (simp add: log_ok_def log_accepts_append fold_log_next)

lemma log_ok_table:
  "log_ok s \<Longrightarrow> bpf_map_lookup_elem (conn_info_map s) k = Some ci \<Longrightarrow>
     opened_in (conn_evt_rb s) (conn_id ci)"
  by (auto simp: log_ok_def open_conns_def fold_log_next)

lemma log_ok_keep:
  assumes "log_ok s" and "conn_evt_rb s' = conn_evt_rb s"
    and "\<And>k ci. bpf_map_lookup_elem (conn_info_map s') k = Some ci \<Longrightarrow>
      \<exists>ci0. bpf_map_lookup_elem (conn_info_map s) k = Some ci0 \<and> conn_id ci = conn_id ci0"
  shows "log_ok s'"
  using assms unfolding log_ok_def open_conns_def by metis

lemma log_ok_same:
  "log_ok s \<Longrightarrow> conn_evt_rb s' = conn_evt_rb s \<Longrightarrow> conn_info_map s' = conn_info_map s \<Longrightarrow> log_ok s'"
  by (rule log_ok_keep) auto

lemma open_conns_snoc:
  "conn_evt_rb s' = conn_evt_rb s @ [ev] \<Longrightarrow> open_conns s' = log_next ev (open_conns s)"
  by (simp add: open_conns_def)

lemma log_ok_snoc:
  assumes "log_ok s" and "conn_evt_rb s' = conn_evt_rb s @ [ev]"
    and "ce_conn_type ev = kConnect \<or> evt_conn ev \<in> open_conns s"
    and "\<And>k ci. bpf_map_lookup_elem (conn_info_map s') k = Some ci \<Longrightarrow>
      conn_id ci \<in> log_next ev (open_conns s)"
  shows "log_ok s'"
  using assms by (auto simp: log_ok_def log_accepts_append open_conns_snoc open_conns_def)

lemma log_ok_create:
  assumes "buffers_ok s" and "log_ok s"
  shows "log_ok (snd (create_conn_info e ci k key ts s))"
proof (cases "admits ci s")
  case True
  show ?thesis
    using assms(2) True
    by (intro log_ok_snoc [OF assms(2), where ev = "\<lparr>ce_conn_info = ci, ce_conn_type = kConnect,
          ce_ts = (if ts \<noteq> 0 then ts else ktime e KT_report_conn_evt)\<rparr>"])
      (auto simp: conn_evt_rb_create [OF assms(1)] create_conn_info_maps log_next_def evt_conn_def
        log_ok_def dest: bm.update_range)
next
  case False
  then show ?thesis
    using conn_evt_rb_create [OF assms(1)]
    by (intro log_ok_same [OF assms(2)]) (simp_all add: create_conn_info_maps)
qed

text \<open>Two entries of the table are never the same connection, so closing one keeps the others open.\<close>

lemma table_ids_differ:
  assumes "table_ok s" and "bpf_map_lookup_elem (conn_info_map s) k = Some ci"
    and "bpf_map_lookup_elem (conn_info_map s) k' = Some ci'" and "k \<noteq> k'"
  shows "conn_id ci \<noteq> conn_id ci'"
  using assms by (metis table_ok_def conn_key_def)

interpretation conn_log: agent_invariant_under "\<lambda>s. buffers_ok s \<and> table_ok s" log_ok
proof
  show "log_ok init_state"
    by (simp add: log_ok_def init_state_def)
next
  fix s p s'
  assume J: "buffers_ok s \<and> table_ok s" and I: "log_ok s" and e: "eff1 p s s'"
  then have B: "buffers_ok s" and T: "table_ok s"
    by simp_all
  show "log_ok s'"
    using e
  proof (cases rule: eff1.cases)
    case (eff_create ci k e key ts)
    then show ?thesis using log_ok_create [OF B I] by simp
  next
    case (eff_infer_evt k ci0 ci e ts)
    have ev: "conn_evt_rb s' = conn_evt_rb s @ [\<lparr>ce_conn_info = ci, ce_conn_type = kProtocolInfer,
          ce_ts = (if ts \<noteq> 0 then ts else ktime e KT_report_conn_evt)\<rparr>]"
      using eff_infer_evt(1) conn_evt_rb_report [OF B] by simp
    show ?thesis
      using I eff_infer_evt
      by (intro log_ok_snoc [OF I ev]) (auto simp: log_ok_def log_next_def evt_conn_def)
  next
    case (eff_close_conn k ci m e ts)
    have ev: "conn_evt_rb s' = conn_evt_rb s @ [\<lparr>ce_conn_info = ci, ce_conn_type = kClose,
          ce_ts = (if ts \<noteq> 0 then ts else ktime e KT_report_conn_evt)\<rparr>]"
      using eff_close_conn(1) conn_evt_rb_report [OF B] by simp
    show ?thesis
      using I eff_close_conn table_ids_differ [OF T]
      by (intro log_ok_snoc [OF I ev])
        (auto simp: log_ok_def log_next_def evt_conn_def bpf_lookup split: if_splits)
  next
    case (eff_store k ci0 ci)
    then show ?thesis
      by (intro log_ok_keep [OF I]) (auto simp: bpf_lookup conn_evolves_def same_conn_def split: if_splits)
  next
    case (eff_drop k)
    then show ?thesis
      by (intro log_ok_keep [OF I]) (auto simp: bpf_lookup split: if_splits)
  qed (auto intro!: log_ok_same [OF I] simp: remember_pid_def)
next
  fix s s'
  assume I: "log_ok s" and "user_step s s'"
  from this(2) show "log_ok s'"
    by cases (auto intro!: log_ok_keep [OF I] simp: bpf_lookup same_conn_def split: if_splits)
qed

section \<open>Entries evolve\<close>

lemma table_evolvesI:
  assumes "conn_evt_rb s' = conn_evt_rb s @ evs"
    and "\<And>k ci'. bpf_map_lookup_elem (conn_info_map s') k = Some ci' \<Longrightarrow>
      evts_have kConnect (conn_id ci') evs \<or>
      (\<exists>ci. bpf_map_lookup_elem (conn_info_map s) k = Some ci \<and> conn_evolves ci ci')"
    and "\<And>k ci. bpf_map_lookup_elem (conn_info_map s) k = Some ci \<Longrightarrow>
      bpf_map_lookup_elem (conn_info_map s') k = None \<Longrightarrow>
      \<exists>cid. evts_have kClose cid evs \<and> gen_tgid_fd (ci_tgid cid) (ci_fd cid) = k"
  shows "table_evolves p s s'"
  using assms unfolding table_evolves_def by blast

lemma table_evolves_same:
  "conn_evt_rb s' = conn_evt_rb s \<Longrightarrow> conn_info_map s' = conn_info_map s \<Longrightarrow> table_evolves p s s'"
  by (rule table_evolvesI [where evs = "[]"]) (auto intro: exI)

lemma table_evolves_trans:
  assumes "table_evolves p s s'" and "table_evolves p s' s''"
  shows "table_evolves p s s''"
proof -
  obtain xs where xs: "conn_evt_rb s' = conn_evt_rb s @ xs"
    "\<And>k ci'. bpf_map_lookup_elem (conn_info_map s') k = Some ci' \<Longrightarrow>
      evts_have kConnect (conn_id ci') xs \<or>
      (\<exists>ci. bpf_map_lookup_elem (conn_info_map s) k = Some ci \<and> conn_evolves ci ci')"
    "\<And>k ci. bpf_map_lookup_elem (conn_info_map s) k = Some ci \<Longrightarrow>
      bpf_map_lookup_elem (conn_info_map s') k = None \<Longrightarrow>
      \<exists>cid. evts_have kClose cid xs \<and> gen_tgid_fd (ci_tgid cid) (ci_fd cid) = k"
    using assms(1) unfolding table_evolves_def by blast
  obtain ys where ys: "conn_evt_rb s'' = conn_evt_rb s' @ ys"
    "\<And>k ci'. bpf_map_lookup_elem (conn_info_map s'') k = Some ci' \<Longrightarrow>
      evts_have kConnect (conn_id ci') ys \<or>
      (\<exists>ci. bpf_map_lookup_elem (conn_info_map s') k = Some ci \<and> conn_evolves ci ci')"
    "\<And>k ci. bpf_map_lookup_elem (conn_info_map s') k = Some ci \<Longrightarrow>
      bpf_map_lookup_elem (conn_info_map s'') k = None \<Longrightarrow>
      \<exists>cid. evts_have kClose cid ys \<and> gen_tgid_fd (ci_tgid cid) (ci_fd cid) = k"
    using assms(2) unfolding table_evolves_def by blast
  have id: "conn_id c = conn_id b" if "conn_evolves b c" for b c
    using that by (simp add: conn_evolves_def same_conn_def)
  show ?thesis
  proof (rule table_evolvesI [where evs = "xs @ ys"])
    fix k ci
    assume "bpf_map_lookup_elem (conn_info_map s'') k = Some ci"
    from ys(2) [OF this] consider "evts_have kConnect (conn_id ci) ys"
      | c where "bpf_map_lookup_elem (conn_info_map s') k = Some c" "conn_evolves c ci"
      by blast
    then show "evts_have kConnect (conn_id ci) (xs @ ys) \<or>
        (\<exists>ci0. bpf_map_lookup_elem (conn_info_map s) k = Some ci0 \<and> conn_evolves ci0 ci)"
    proof cases
      case (2 c)
      from xs(2) [OF 2(1)] show ?thesis
        using id [OF 2(2)] conn_evolves_trans [OF _ 2(2)] by auto
    qed simp
  next
    fix k ci
    assume "bpf_map_lookup_elem (conn_info_map s) k = Some ci"
      and "bpf_map_lookup_elem (conn_info_map s'') k = None"
    then show "\<exists>cid. evts_have kClose cid (xs @ ys) \<and> gen_tgid_fd (ci_tgid cid) (ci_fd cid) = k"
      using xs(3) [of k ci] ys(3) [of k] by (cases "bpf_map_lookup_elem (conn_info_map s') k") auto
  qed (simp add: xs(1) ys(1))
qed

lemma table_evolves_create:
  assumes "buffers_ok s"
  shows "table_evolves p s (snd (create_conn_info e ci k key ts s))"
proof (cases "admits ci s")
  case True
  then show ?thesis
    by (intro table_evolvesI [OF conn_evt_rb_create [OF assms]])
      (auto simp: create_conn_info_maps evt_conn_def bpf_lookup split: if_splits)
next
  case False
  then show ?thesis
    using conn_evt_rb_create [OF assms]
    by (intro table_evolves_same) (simp_all add: create_conn_info_maps)
qed

interpretation evolve: agent_guarantee_under "\<lambda>s. buffers_ok s \<and> table_ok s" table_evolves
proof
  show "table_evolves p s s" for p s
    by (rule table_evolves_same) simp_all
  show "table_evolves p s s''" if "table_evolves p s s'" "table_evolves p s' s''" for p s s' s''
    using that by (rule table_evolves_trans)
next
  fix s p s'
  assume J: "buffers_ok s \<and> table_ok s" and e: "eff1 p s s'"
  then have B: "buffers_ok s" and T: "table_ok s"
    by simp_all
  show "table_evolves p s s'"
    using e
  proof (cases rule: eff1.cases)
    case (eff_create ci k e key ts)
    then show ?thesis using table_evolves_create [OF B] by simp
  next
    case (eff_infer_evt k ci0 ci e ts)
    then have "conn_evt_rb s' = conn_evt_rb s @ [\<lparr>ce_conn_info = ci, ce_conn_type = kProtocolInfer,
          ce_ts = (if ts \<noteq> 0 then ts else ktime e KT_report_conn_evt)\<rparr>]"
      using conn_evt_rb_report [OF B] by simp
    then show ?thesis
      using eff_infer_evt(1) by (intro table_evolvesI) auto
  next
    case (eff_close_conn k ci m e ts)
    have "conn_evt_rb s' = conn_evt_rb s @ [\<lparr>ce_conn_info = ci, ce_conn_type = kClose,
          ce_ts = (if ts \<noteq> 0 then ts else ktime e KT_report_conn_evt)\<rparr>]"
      using eff_close_conn(1) conn_evt_rb_report [OF B] by simp
    moreover have "gen_tgid_fd (ci_tgid (conn_id ci)) (ci_fd (conn_id ci)) = k"
      using T eff_close_conn(2) by (auto simp: table_ok_def conn_key_def)
    ultimately show ?thesis
      using eff_close_conn
      by (intro table_evolvesI) (auto simp: bpf_lookup evt_conn_def split: if_splits)
  next
    case (eff_store k ci0 ci)
    then show ?thesis
      by (intro table_evolvesI [where evs = "[]"]) (auto simp: bpf_lookup split: if_splits)
  next
    case (eff_drop k)
    then show ?thesis
      by (intro table_evolvesI [where evs = "[]"]) (auto simp: bpf_lookup split: if_splits)
  qed (auto intro!: table_evolves_same simp: remember_pid_def)
qed

section \<open>Destroyed sockets\<close>

lemma destroyed_key:
  assumes "same_endpoints (sock_read e0 sk) (sock_read e sk)"
    and "skc_family (sock_read e0 sk) \<in> {AF_INET, AF_INET6}"
    and "bpf_ntohs (inet_sport (sock_read e0 sk)) = skc_num (sock_read e0 sk)"
  shows "(snd (parse_sock_key_sk e sk sock_key_zero))\<lparr>sport := bpf_ntohs (inet_sport (sock_read e sk))\<rparr> =
    socket_key e0 sk"
  using assms by (auto simp: same_endpoints_def socket_key_def parse_sock_key_sk_def Let_def)

text \<open>
  Property C27. Destroying a socket closes its connection, also when the process never called close and
  when the kernel has already cleared the local port number of the socket. Let \<open>key\<close> be the key of
  the socket while it was open (run \<open>e0\<close>; its source port \<open>inet_sport\<close> was the bound port number then).
  At destruction the addresses, the remote port and \<open>inet_sport\<close> are as they were, everything else of the
  socket is arbitrary. Then the connection filed under \<open>key\<close> leaves the table together with one
  close event that carries its final counters, the key and the initial number of the send direction
  are forgotten, and every other connection, key and number stays. (The number of the receive
  direction stays in the table.)
\<close>

theorem destroyed_socket_closes_connection:
  fixes e0 e sk s
  defines "key \<equiv> socket_key e0 sk" and "s' \<equiv> tcp_destroy_sock e sk s"
  assumes "same_endpoints (sock_read e0 sk) (sock_read e sk)"
    and "skc_family (sock_read e0 sk) \<in> {AF_INET, AF_INET6}"
    and "bpf_ntohs (inet_sport (sock_read e0 sk)) = skc_num (sock_read e0 sk)"
    and "bpf_map_lookup_elem (sock_key_conn_id_map s) key = Some cid"
    and "bpf_map_lookup_elem (conn_info_map s) (cs_tgid_fd cid) = Some ci"
    and "conn_evt_map s (cur_cpu e) \<noteq> None"
  shows "(\<exists>ev. conn_evt_rb s' = conn_evt_rb s @ [ev] \<and> ce_conn_type ev = kClose \<and> ce_conn_info ev = ci) \<and>
    bpf_map_lookup_elem (conn_info_map s') = (bpf_map_lookup_elem (conn_info_map s))(cs_tgid_fd cid := None) \<and>
    bpf_map_lookup_elem (sock_key_conn_id_map s') = (bpf_map_lookup_elem (sock_key_conn_id_map s))(key := None) \<and>
    bpf_map_lookup_elem (sock_xmit_map s') = (bpf_map_lookup_elem (sock_xmit_map s))(key := None)"
proof -
  let ?s = "s\<lparr>sock_xmit_map := bpf_map_delete_elem (sock_xmit_map s) key\<rparr>"
  let ?t = "report_conn_evt e ci kClose 0 ?s"
  have s': "s' = ?t\<lparr>conn_info_map := bpf_map_delete_elem (conn_info_map ?t) (cs_tgid_fd cid),
      sock_key_conn_id_map := bpf_map_delete_elem (sock_key_conn_id_map ?t) key\<rparr>"
    using assms(6,7) by (simp add: s'_def tcp_destroy_sock_def destroyed_key [OF assms(3-5)] key_def Let_def)
  have rb: "conn_evt_rb ?t = conn_evt_rb s @ [\<lparr>ce_conn_info = ci, ce_conn_type = kClose,
      ce_ts = ktime e KT_report_conn_evt\<rparr>]"
    using report_conn_evt_rb [of ?s e ci kClose 0] assms(8) by simp
  have maps: "sock_key_conn_id_map ?t = sock_key_conn_id_map s" "conn_info_map ?t = conn_info_map s"
    "sock_xmit_map ?t = bpf_map_delete_elem (sock_xmit_map s) key"
    by simp_all
  show ?thesis
    using rb maps unfolding s' by (auto simp: bpf_lookup fun_eq_iff)
qed

theorem destroyed_socket_closes_connection_witness:
  "(\<exists>ev. conn_evt_rb (tcp_destroy_sock (sock_env closed_sock) 768 destroy_state) = [ev] \<and>
      ce_conn_type ev = kClose \<and> ce_conn_info ev = conn_info_zero) \<and>
   bpf_map_lookup_elem (conn_info_map (tcp_destroy_sock (sock_env closed_sock) 768 destroy_state)) 5 = None \<and>
   skc_num (sock_read (sock_env closed_sock) 768) = 0"
proof -
  have "same_endpoints (sock_read (sock_env open_sock) 768) (sock_read (sock_env closed_sock) 768)"
    "skc_family (sock_read (sock_env open_sock) 768) \<in> {AF_INET, AF_INET6}"
    "bpf_ntohs (inet_sport (sock_read (sock_env open_sock) 768)) = skc_num (sock_read (sock_env open_sock) 768)"
    "skc_num (sock_read (sock_env closed_sock) 768) = 0"
    by (simp_all add: same_endpoints_def open_sock_def closed_sock_def v4_sock_def bpf_ntohs_def nat_bytes_numeral le_word_def)
  moreover have "\<not> bpf_map_full (conn_info_map init_state)" "\<not> bpf_map_full (sock_key_conn_id_map init_state)"
    by (simp_all add: init_state_def bpf_map_full_def bpf_map_create_def MAX_ENTRIES_def)
  then have "bpf_map_lookup_elem (sock_key_conn_id_map destroy_state) (socket_key (sock_env open_sock) 768) =
      Some \<lparr>cs_tgid_fd = 5, cs_no_trace = trace_unset\<rparr>"
    and "bpf_map_lookup_elem (conn_info_map destroy_state) 5 = Some conn_info_zero"
    by (simp_all add: destroy_state_def bpf_lookup)
  moreover have "conn_evt_map destroy_state c \<noteq> None" "conn_evt_rb destroy_state = []" for c
    by (simp_all add: destroy_state_def init_state_def)
  ultimately show ?thesis
    using destroyed_socket_closes_connection [of "sock_env open_sock" 768 "sock_env closed_sock" destroy_state
        "\<lparr>cs_tgid_fd = 5, cs_no_trace = trace_unset\<rparr>" conn_info_zero] by simp
qed

end
