(* ===== verification/Packet_Stream.thy ===== *)
theory Packet_Stream
  imports Agent_Invariants
begin

text \<open>
  What the packet path and the system-call path share: both number the bytes of a stream
  from 1, the system calls by counting, the packets by their TCP sequence number relative to
  the initial number recorded when the connection was first seen. The lemmas say what a data call
  that creates a connection records for its socket.
\<close>

section \<open>Specification\<close>

text \<open>
  The key under which packets of one direction of a socket are looked up, and the sequence
  number that the next byte of that direction will have.
\<close>

definition packet_key :: "bpf_env \<Rightarrow> u64 \<Rightarrow> traffic_direction_t \<Rightarrow> sock_key" where
  "packet_key e sk direct =
     (if direct = kEgress then socket_key e sk else reverse_sock_key_no_copy (socket_key e sk))"

definition next_seq :: "bpf_env \<Rightarrow> u64 \<Rightarrow> traffic_direction_t \<Rightarrow> u32" where
  "next_seq e sk direct =
     (if direct = kEgress then write_seq (sock_read e sk) else copied_seq (sock_read e sk))"

text \<open>The sequence number in the TCP header at an address.\<close>

definition tcp_seq :: "bpf_env \<Rightarrow> u64 \<Rightarrow> u32" where
  "tcp_seq e tcp = bpf_ntohl (read_u32 e (tcp + 4))"

text \<open>Whether packets of a flow are reported: its connection is known, traced and not unclassifiable.\<close>

definition flow_traced :: "sock_key \<Rightarrow> conn_id_s_t \<Rightarrow> bpf_state \<Rightarrow> bool" where
  "flow_traced key cid s \<longleftrightarrow>
     bpf_map_lookup_elem (sock_key_conn_id_map s) key = Some cid \<and> cs_no_trace cid \<le> traceable \<and>
     (\<exists>ci. bpf_map_lookup_elem (conn_info_map s) (cs_tgid_fd cid) = Some ci \<and>
       protocol ci \<noteq> kProtocolUnknown)"

text \<open>A data call on an unknown socket, for evaluation.\<close>

definition write_env :: bpf_env where
  "write_env = sock_env v4_sock"

definition write_call :: data_args where
  "write_call = data_args_zero\<lparr>da_fd := 5\<rparr>"

section \<open>Lemmas\<close>

lemma socket_key_again: "snd (parse_sock_key_sk e sk (socket_key e sk)) = socket_key e sk"
  by (simp add: socket_key_def parse_sock_key_sk_def sock_key_zero_def AF_INET_def AF_INET6_def Let_def)

lemma rcv_key: "parse_sock_key_rcv_sk e sk (socket_key e sk) = reverse_sock_key_no_copy (socket_key e sk)"
  by (simp add: parse_sock_key_rcv_sk_def socket_key_again)

lemma relative_seq_eq: "tcp_relative_seq e param = tcp_seq e (kb_tcp param) - kb_inital_seq param"
  by (simp add: tcp_relative_seq_def tcp_seq_def)

lemma xmit_create: "create_conn_info e ci k key ts s = (b, s') \<Longrightarrow> sock_xmit_map s' = sock_xmit_map s"
  by (auto simp: create_conn_info_def Let_def split: if_splits)

text \<open>The initial sequence numbers a data call records: before its own bytes, and at the other end.\<close>

lemma created_initial_seqs:
  assumes "create_conn_info_in_data_syscall e sk k direct n ci ts s = (True, ci', s')"
    and "bpf_map_room 2 (sock_xmit_map s)"
    and "socket_key e sk \<noteq> reverse_sock_key_no_copy (socket_key e sk)"
  shows "bpf_map_lookup_elem (sock_xmit_map s') (packet_key e sk d) =
    Some (next_seq e sk d - (if d = direct then ucast n else 0) - 1)"
proof -
  let ?key = "socket_key e sk" and ?rev = "reverse_sock_key_no_copy (socket_key e sk)"
  let ?send = "if direct = kEgress then write_seq (sock_read e sk) - ucast n - 1 else write_seq (sock_read e sk) - 1"
  let ?rcv = "if direct = kEgress then copied_seq (sock_read e sk) - 1 else copied_seq (sock_read e sk) - ucast n - 1"
  have map: "sock_xmit_map s' = bpf_map_update_elem
      (bpf_map_update_elem (sock_xmit_map s) ?key ?send BPF_ANY) ?rev ?rcv BPF_ANY"
    using assms(1)
    by (auto simp: create_conn_info_in_data_syscall_def socket_key_def [symmetric] rcv_key Let_def
        split: prod.splits if_splits dest!: xmit_create)
  have room: "bpf_map_room (Suc 0) (bpf_map_update_elem (sock_xmit_map s) ?key ?send BPF_ANY)"
    using assms(2) by (intro bpf_map_room_update) (simp add: numeral_2_eq_2)
  have room': "bpf_map_room (Suc (Suc 0)) (sock_xmit_map s)"
    using assms(2) by (simp add: numeral_2_eq_2)
  show ?thesis
    using assms(3) unfolding map update_any_room [OF room] update_any_room [OF room']
    by (cases d; cases direct) (simp_all add: packet_key_def next_seq_def)
qed

lemma created_initial_seq:
  assumes "create_conn_info_in_data_syscall e sk k direct n ci ts s = (True, ci', s')"
    and "bpf_map_room 2 (sock_xmit_map s)"
    and "socket_key e sk \<noteq> reverse_sock_key_no_copy (socket_key e sk)"
  shows "bpf_map_lookup_elem (sock_xmit_map s') (packet_key e sk direct) =
    Some (next_seq e sk direct - ucast n - 1)"
  using created_initial_seqs [OF assms, of direct] by simp

text \<open>A connection that a data call creates.\<close>

lemma find_or_create_new:
  fixes e args k s
  defines "sk \<equiv> get_socket_from_fd e (da_fd args)"
  assumes none: "bpf_map_lookup_elem (conn_info_map s) k = None"
    and find: "find_or_create_conn e args k direct n s = (Some ci, s')"
  obtains old s1 where "conn_info_t_map s (cur_cpu e) = Some old"
    and "ci = data_conn_info e sk k (socket_key e sk) (old\<lparr>protocol := kProtocolUnset\<rparr>)"
    and "create_conn_info_in_data_syscall e sk k direct n (old\<lparr>protocol := kProtocolUnset\<rparr>)
      (da_end_ts args - 1) s = (True, ci, s1)"
    and "s' = s1\<lparr>conn_info_t_map := (conn_info_t_map s1)(cur_cpu e := Some ci)\<rparr>"
proof -
  obtain old where old: "sk \<noteq> 0" "conn_info_t_map s (cur_cpu e) = Some old"
    using none find by (auto simp: find_or_create_conn_def Let_def sk_def split: option.splits if_splits)
  let ?c = "data_conn_info e sk k (socket_key e sk) (old\<lparr>protocol := kProtocolUnset\<rparr>)"
  obtain created c s1 where new: "create_conn_info_in_data_syscall e sk k direct n
      (old\<lparr>protocol := kProtocolUnset\<rparr>) (da_end_ts args - 1) s = (created, c, s1)"
    using prod_cases3 by blast
  then have c: "c = ?c"
    by (auto simp: create_conn_info_in_data_syscall_def socket_key_def Let_def split: prod.splits if_splits)
  have created: "created" and look: "bpf_map_lookup_elem (conn_info_map s1) k = Some ci"
    and s': "s' = s1\<lparr>conn_info_t_map := (conn_info_t_map s1)(cur_cpu e := Some c)\<rparr>"
    using none find old new by (auto simp: find_or_create_conn_def Let_def sk_def split: if_splits)
  have "conn_info_map s1 = conn_info_map (snd (create_conn_info e ?c k (socket_key e sk) (da_end_ts args - 1) s))"
    using new by (auto simp: create_conn_info_in_data_syscall_def socket_key_def [symmetric] Let_def
        split: prod.splits if_splits)
  with look none have "ci = ?c"
    by (auto simp: create_conn_info_maps split: if_splits dest: bm.update_range)
  with that old(2) new created c s' show ?thesis
    by simp
qed

lemma created_seq:
  assumes "scratch_fresh s" and "conn_info_t_map s c = Some old"
  shows "syscall_seq_of d (data_conn_info e sk k key (old\<lparr>protocol := p\<rparr>)) = 1"
proof -
  have "fresh_like conn_info_zero old"
    using assms unfolding scratch_fresh_def by (metis option.inject)
  then show ?thesis
    by (simp add: syscall_seq_of_def fresh_like_def data_conn_info_def init_conn_info_def
        conn_info_zero_def Let_def)
qed

lemma write_sample_key:
  "get_socket_from_fd write_env (da_fd write_call) = 768"
  "socket_key write_env 768 \<noteq> reverse_sock_key_no_copy (socket_key write_env 768)"
  "write_seq (sock_read write_env 768) = 0" "next_seq write_env 768 kEgress = 0"
  by (simp_all add: write_env_def write_call_def socket_key_simps v4_sock_def sock_obj_zero_def
      next_seq_def) (simp add: reverse_sock_key_no_copy_def)

lemma le_word_zeros: "le_word (replicate n 0) = 0"
proof -
  have "le_nat (replicate n 0) = 0"
    by (induction n) simp_all
  then show ?thesis
    by (simp add: le_word_def)
qed

lemma ntohl_zero: "bpf_ntohl 0 = 0"
  using bpf_ntohl_le_word [of "replicate 4 0"] by (simp add: le_word_zeros)

lemma write_sample_admitted:
  "admits (data_conn_info write_env 768 k (socket_key write_env 768) (conn_info_zero\<lparr>protocol := kProtocolUnset\<rparr>))
     init_state"
  by (simp add: admits_def write_env_def data_conn_info_def Let_def init_conn_info_def conn_info_zero_def
      should_trace_conn_def filter_conn_info_def socket_key_simps v4_sock_def set_addr32_0_def
      enum_order_defs use_ipv6_def control_value_def)
    (simp add: init_state_def)

lemma write_sample_found:
  "\<exists>ci s'. find_or_create_conn write_env write_call (gen_tgid_fd 0 5) d n init_state = (Some ci, s')"
proof -
  have "conn_info_t_map init_state c = Some conn_info_zero" for c
    by (simp add: init_state_def)
  then show ?thesis
    by (simp add: find_or_create_conn_def create_conn_info_in_data_syscall_def Let_def case_prod_unfold
        write_sample_key socket_key_def [symmetric] create_conn_info_maps write_sample_admitted bpf_lookup)
qed

lemma init_room: "bpf_map_room 2 (sock_xmit_map init_state)" "\<not> bpf_map_full (sock_key_conn_id_map init_state)"
  by (simp_all add: init_state_def bpf_map_room_def bpf_map_full_def bpf_map_create_def MAX_ENTRIES_def)

lemma created_registered:
  assumes "create_conn_info_in_data_syscall e sk k direct n ci ts s = (True, ci', s')"
    and "bpf_map_lookup_elem (sock_key_conn_id_map s) (socket_key e sk) = None"
    and "\<not> bpf_map_full (sock_key_conn_id_map s)"
  shows "bpf_map_lookup_elem (sock_key_conn_id_map s') (socket_key e sk) =
    Some \<lparr>cs_tgid_fd = k, cs_no_trace = trace_unset\<rparr>"
proof -
  let ?c = "create_conn_info e (data_conn_info e sk k (socket_key e sk) ci) k (socket_key e sk) ts s"
  have "admits (data_conn_info e sk k (socket_key e sk) ci) s"
    and "sock_key_conn_id_map s' = sock_key_conn_id_map (snd ?c)"
    using assms(1) create_conn_info_maps(3) [of e "data_conn_info e sk k (socket_key e sk) ci" k
      "socket_key e sk" ts s]
    by (auto simp: create_conn_info_in_data_syscall_def socket_key_def [symmetric] Let_def
        split: prod.splits if_splits)
  with assms(2,3) show ?thesis
    by (simp add: create_conn_info_maps bpf_lookup)
qed

end
