(* ===== verification/Packet_Path.thy ===== *)
theory Packet_Path
  imports Packet_Stream Call_Counters
begin

text \<open>
  The packet path as a whole. A packet is seen by several programs on its way through the
  kernel; user space joins their events with the data events of the calls by the position in the
  stream. The lemmas show that every way of creating a connection aligns the two numberings,
  that every data call keeps them aligned, and that for an aligned connection all programs of
  the receive path and all programs of the send path report a packet with the connection and
  the position that the calls give to its bytes.
\<close>

section \<open>Specification\<close>

text \<open>
  The key of one direction of a flow; the connection \<open>k\<close> with socket key \<open>key\<close> is aligned at
  \<open>nxt\<close> if \<open>nxt\<close> is the TCP sequence number of the next byte that a call in that direction
  transfers: the recorded initial number and the byte counter then describe the same stream.
\<close>

definition dir_key :: "traffic_direction_t \<Rightarrow> sock_key \<Rightarrow> sock_key" where
  "dir_key direct key = (if direct = kEgress then key else reverse_sock_key_no_copy key)"

definition aligned :: "traffic_direction_t \<Rightarrow> sock_key \<Rightarrow> u64 \<Rightarrow> u32 \<Rightarrow> bpf_state \<Rightarrow> bool" where
  "aligned direct key k nxt s \<longleftrightarrow>
     (case bpf_map_lookup_elem (conn_info_map s) k of
        None \<Rightarrow> False
      | Some ci \<Rightarrow> bpf_map_lookup_elem (sock_xmit_map s) (dir_key direct key) =
          Some (nxt - syscall_seq_of direct ci))"

text \<open>An aligned connection whose packets are reported.\<close>

definition traced_stream :: "traffic_direction_t \<Rightarrow> sock_key \<Rightarrow> u64 \<Rightarrow> u32 \<Rightarrow> bpf_state \<Rightarrow> bool" where
  "traced_stream direct key k nxt s \<longleftrightarrow> aligned direct key k nxt s \<and>
     (\<exists>cid. flow_traced key cid s \<and> cs_tgid_fd cid = k) \<and> (\<forall>c. kern_evt_t_map s c \<noteq> None)"

text \<open>The position that the calls of a connection give to the byte with a TCP sequence number.\<close>

definition stream_pos :: "traffic_direction_t \<Rightarrow> u64 \<Rightarrow> u32 \<Rightarrow> u32 \<Rightarrow> bpf_state \<Rightarrow> u32" where
  "stream_pos direct k nxt seq s =
     (case bpf_map_lookup_elem (conn_info_map s) k of
        None \<Rightarrow> 0
      | Some ci \<Rightarrow> syscall_seq_of direct ci + (seq - nxt))"

text \<open>
  The flow in the headers of a TCP packet with the address of its TCP header and the length of
  its segment; whether a buffer holds a TCP packet of a flow with a sequence number.
\<close>

definition packet_tcp :: "bpf_env \<Rightarrow> sk_buff_obj \<Rightarrow> (sock_key \<times> u64 \<times> u32) option" where
  "packet_tcp e skb =
     (case skb_l3_proto e skb of
        None \<Rightarrow> None
      | Some l3 \<Rightarrow>
          (let (ip, tcp, len, proto) = skb_l4 e skb l3 in
           if proto \<noteq> IPPROTO_TCP then None
           else Some (if l3 = ETH_P_IP then parse_sock_key_from_ipv4_tcp_hdr e ip tcp sock_key_zero
             else parse_sock_key_from_ipv6_tcp_hdr e ip tcp sock_key_zero, tcp, len)))"

definition carries :: "bpf_env \<Rightarrow> u64 \<Rightarrow> sock_key \<Rightarrow> u32 \<Rightarrow> bool" where
  "carries e skb key seq \<longleftrightarrow> skb \<noteq> 0 \<and>
     (case packet_tcp e (skb_read e skb) of
        None \<Rightarrow> False
      | Some (hdr, tcp, len) \<Rightarrow> hdr = key \<and> tcp_seq e tcp = seq)"

text \<open>Whether the socket of a packet is usable for finding its flow.\<close>

definition sock_ready :: "bpf_env \<Rightarrow> u64 \<Rightarrow> bool" where
  "sock_ready e skb \<longleftrightarrow> skb_sk (skb_read e skb) \<noteq> 0 \<and>
     (skc_daddr (sock_read e (skb_sk (skb_read e skb))) \<noteq> 0 \<or>
      skc_rcv_saddr (sock_read e (skb_sk (skb_read e skb))) \<noteq> 0)"

text \<open>What user space needs of a packet event.\<close>

definition pkt_view :: "kern_evt \<times> nat \<Rightarrow> step_t \<times> u32 \<times> u64" where
  "pkt_view = (\<lambda>(ev, n). (ke_step ev, ke_seq ev, cs_tgid_fd (ke_conn_id_s ev)))"

text \<open>A run that submits one packet event and leaves everything but the event buffer alone.\<close>

definition reports :: "step_t \<times> u32 \<times> u64 \<Rightarrow> bpf_state \<Rightarrow> bpf_state \<Rightarrow> bool" where
  "reports v s s' \<longleftrightarrow>
     (\<exists>ev m. s' = s\<lparr>kern_evt_t_map := m, rb := rb s @ [(ev, sizeof_kern_evt)]\<rparr> \<and>
        pkt_view (ev, sizeof_kern_evt) = v \<and> (\<forall>c. kern_evt_t_map s c \<noteq> None \<longrightarrow> m c \<noteq> None))"

text \<open>
  A packet from port 20480 of host 7 to port 8080 of a host with sequence number 0, in a buffer
  whose tracepoint context is at 1000, for evaluation.
\<close>

definition packet_bytes :: "u8 \<Rightarrow> u8 list" where
  "packet_bytes host = [0, 0, 0, 0, 0, 0, 0, 0, 1, 0, 0, 0, 0, 0, 0, 0,
     0x45, 0, 0, 60, 0, 0, 0, 0, 64, 6, 0, 0, 7, 0, 0, 0, host, 0, 0, 0,
     0x50, 0, 0x1f, 0x90, 0, 0, 0, 0, 0, 0, 0, 0, 0x50, 0x18, 0, 0, 0, 0, 0, 0]"

definition packet_env :: "u8 \<Rightarrow> bpf_env" where
  "packet_env host = (sock_env v4_sock)\<lparr>probe_mem := mem_of 1000 (packet_bytes host),
     skb_at := (\<lambda>_. sk_buff_obj_zero\<lparr>skb_sk := 768, skb_head := 1016, transport_header := 20,
       skb_protocol := 8, skb_data := 1036\<rparr>)\<rparr>"

text \<open>The conntrack entry that redirects that packet from host 8 to host 9.\<close>

definition redirect_env :: bpf_env where
  "redirect_env = (env_of 0 [])\<lparr>ct_at := (\<lambda>_. \<lparr>ct_tuplehash = Some
     (\<lparr>ct_src_u3 = in6_addr_zero\<lparr>u6_addr32_0 := 7\<rparr>, ct_dst_u3 = in6_addr_zero\<lparr>u6_addr32_0 := 8\<rparr>,
        ct_src_port = 80, ct_dst_port = 0x901f\<rparr>,
      \<lparr>ct_src_u3 = in6_addr_zero\<lparr>u6_addr32_0 := 9\<rparr>, ct_dst_u3 = in6_addr_zero\<lparr>u6_addr32_0 := 7\<rparr>,
        ct_src_port = 0x901f, ct_dst_port = 80\<rparr>), ct_tuplehash_old = None\<rparr>)\<rparr>"

text \<open>A client socket whose first byte will have sequence number 100.\<close>

definition open_env :: bpf_env where
  "open_env = sock_env (v4_sock\<lparr>write_seq := 100\<rparr>)"

section \<open>Single programs\<close>

lemma dir_key_simps [simp]:
  "dir_key kEgress key = key" "dir_key kIngress key = reverse_sock_key_no_copy key"
  by (simp_all add: dir_key_def)

lemma dir_key_packet_key: "packet_key e sk d = dir_key d (socket_key e sk)"
  by (simp add: packet_key_def dir_key_def)

lemma reports_keeps:
  assumes "reports v s s'"
  shows "traced_stream d key k nxt s \<Longrightarrow> traced_stream d key k nxt s'"
    and "stream_pos d k nxt seq s' = stream_pos d k nxt seq s"
    and "translate_flow step hdr s' = translate_flow step hdr s"
    and "bpf_map_lookup_elem (sock_xmit_map s') key' = bpf_map_lookup_elem (sock_xmit_map s) key'"
proof -
  have maps: "conn_info_map s' = conn_info_map s" "sock_xmit_map s' = sock_xmit_map s"
    "sock_key_conn_id_map s' = sock_key_conn_id_map s" "nat_flow_map s' = nat_flow_map s"
    and "(\<forall>c. kern_evt_t_map s c \<noteq> None) \<longrightarrow> (\<forall>c. kern_evt_t_map s' c \<noteq> None)"
    using assms by (auto simp: reports_def)
  then show "traced_stream d key k nxt s \<Longrightarrow> traced_stream d key k nxt s'"
    by (simp add: traced_stream_def aligned_def flow_traced_def cong: option.case_cong)
  from maps show "stream_pos d k nxt seq s' = stream_pos d k nxt seq s"
    and "translate_flow step hdr s' = translate_flow step hdr s"
    and "bpf_map_lookup_elem (sock_xmit_map s') key' = bpf_map_lookup_elem (sock_xmit_map s) key'"
    by (simp_all add: stream_pos_def translate_flow_def)
qed

text \<open>The recorded initial number of a traced stream, and the connection its packets are reported for.\<close>

lemma traced_streamE:
  assumes "traced_stream d key k nxt s"
  obtains i cid where "bpf_map_lookup_elem (sock_xmit_map s) (dir_key d key) = Some i"
    and "\<And>seq. seq - i = stream_pos d k nxt seq s" and "flow_traced key cid s" and "cs_tgid_fd cid = k"
    and "\<forall>c. kern_evt_t_map s c \<noteq> None"
  using assms by (auto simp: traced_stream_def aligned_def stream_pos_def split: option.splits)

lemma reportsI:
  "s' = s\<lparr>kern_evt_t_map := (kern_evt_t_map s)(c := Some ev), rb := rb s @ [(ev, sizeof_kern_evt)]\<rparr> \<Longrightarrow>
     pkt_view (ev, sizeof_kern_evt) = v \<Longrightarrow> reports v s s'"
  unfolding reports_def by (intro exI [of _ ev] exI [of _ "(kern_evt_t_map s)(c := Some ev)"]) simp

lemma report_kern_evt_reports:
  assumes "flow_traced (kb_key param) cid s" and "\<forall>c. kern_evt_t_map s c \<noteq> None"
  shows "reports (kb_step param, tcp_relative_seq e param, cs_tgid_fd cid) s (report_kern_evt e param s)"
proof -
  obtain evt where "kern_evt_t_map s (cur_cpu e) = Some evt"
    using assms(2) by auto
  with assms(1) show ?thesis
    by (auto simp: flow_traced_def report_kern_evt_def pkt_view_def Let_def intro!: reportsI)
qed

lemma parse_kern_evt_body_reports:
  assumes "flow_traced (kb_key param) cid s" and "\<forall>c. kern_evt_t_map s c \<noteq> None"
  shows "reports (kb_step param, kb_cur_seq param, cs_tgid_fd cid) s (parse_kern_evt_body e param s)"
proof -
  obtain evt where "kern_evt_t_map s (cur_cpu e) = Some evt"
    using assms(2) by auto
  with assms(1) show ?thesis
    by (auto simp: flow_traced_def parse_kern_evt_body_def pkt_view_def Let_def not_less intro!: reportsI)
qed

lemma parse_skb_headers:
  assumes "skb \<noteq> 0" and "packet_tcp e (skb_read e skb) = Some (hdr, tcp, len)"
  shows "snd (parse_skb e skb True step s) =
    (let key = translate_flow step hdr s; (found, t) = packet_initial_seq e step tcp key s in
     case found of None \<Rightarrow> t
     | Some i \<Rightarrow> report_kern_evt e
         \<lparr>kb_inital_seq = i, kb_key = (if step \<ge> NIC_IN then reverse_sock_key_no_copy key else key),
          kb_cur_seq = 0, kb_len = len, kb_func_name = 0, kb_step = step, kb_tcp = tcp,
          kb_ifindex = skb_ifindex (skb_read e skb)\<rparr> t)"
proof -
  obtain l3 ip where l3: "skb_l3_proto e (skb_read e skb) = Some l3"
      "skb_l4 e (skb_read e skb) l3 = (ip, tcp, len, IPPROTO_TCP)"
    and "hdr = (if l3 = ETH_P_IP then parse_sock_key_from_ipv4_tcp_hdr e ip tcp sock_key_zero
      else parse_sock_key_from_ipv6_tcp_hdr e ip tcp sock_key_zero)"
    using assms(2) unfolding packet_tcp_def Let_def by (auto split: option.splits prod.splits if_split_asm)
  then show ?thesis
    using assms(1) by (simp add: parse_skb_def parse_skb_l3_def Let_def split: prod.split option.split)
qed

text \<open>A packet that is not TCP is ignored by every program that reads its headers.\<close>

lemma parse_skb_not_tcp:
  "packet_tcp e (skb_read e skb) = None \<Longrightarrow> snd (parse_skb e skb b step s) = s"
proof (cases "skb_l3_proto e (skb_read e skb)")
  case (Some l3)
  obtain ip tcp len proto where l4: "skb_l4 e (skb_read e skb) l3 = (ip, tcp, len, proto)"
    by (metis prod_cases4)
  assume "packet_tcp e (skb_read e skb) = None"
  then have "proto \<noteq> IPPROTO_TCP"
    by (auto simp: packet_tcp_def Some l4)
  then show ?thesis
    by (simp add: parse_skb_def parse_skb_l3_def Some l4 Let_def split: option.split)
qed (simp add: parse_skb_def Let_def split: option.split)

lemma received_packet_reports:
  assumes "traced_stream kIngress key k nxt s" and "carries e skb hdr seq"
    and "translate_flow step hdr s = reverse_sock_key_no_copy key" and "NIC_IN \<le> step"
  shows "reports (step, stream_pos kIngress k nxt seq s, k) s (snd (parse_skb e skb True step s))"
proof -
  obtain tcp len where p: "skb \<noteq> 0" "packet_tcp e (skb_read e skb) = Some (hdr, tcp, len)"
    "tcp_seq e tcp = seq"
    using assms(2) by (auto simp: carries_def split: option.splits)
  obtain i cid where t: "bpf_map_lookup_elem (sock_xmit_map s) (reverse_sock_key_no_copy key) = Some i"
    "seq - i = stream_pos kIngress k nxt seq s" "flow_traced key cid s" "cs_tgid_fd cid = k"
    "\<forall>c. kern_evt_t_map s c \<noteq> None"
    using assms(1) by (auto elim: traced_streamE)
  show ?thesis
    using report_kern_evt_reports [OF _ t(5), of "\<lparr>kb_inital_seq = i, kb_key = key, kb_cur_seq = 0,
        kb_len = len, kb_func_name = 0, kb_step = step, kb_tcp = tcp,
        kb_ifindex = skb_ifindex (skb_read e skb)\<rparr>" cid e] assms(3,4) t p(3)
    by (simp add: parse_skb_headers [OF p(1,2)] packet_initial_seq_def relative_seq_eq)
qed

lemma copied_packet_reports:
  assumes "traced_stream kIngress key k nxt s"
    and "parse_sock_key_rcv e skb sock_key_zero = reverse_sock_key_no_copy key"
  shows "reports (USER_COPY, stream_pos kIngress k nxt (skb_cb_seq (skb_read e skb) + off) s, k) s
    (handle_skb_data_copy e skb off len s)"
proof -
  let ?seq = "skb_cb_seq (skb_read e skb) + off"
  obtain i cid where t: "bpf_map_lookup_elem (sock_xmit_map s) (reverse_sock_key_no_copy key) = Some i"
    "?seq - i = stream_pos kIngress k nxt ?seq s" "flow_traced key cid s" "cs_tgid_fd cid = k"
    "\<forall>c. kern_evt_t_map s c \<noteq> None"
    using assms(1) by (auto elim: traced_streamE)
  show ?thesis
    using parse_kern_evt_body_reports [OF _ t(5), of "\<lparr>kb_inital_seq = i, kb_key = key,
        kb_cur_seq = ?seq - i, kb_len = len, kb_func_name = 0, kb_step = USER_COPY, kb_tcp = 0,
        kb_ifindex = 0\<rparr>" cid e] assms(2) t
    by (simp add: handle_skb_data_copy_def Let_def)
qed

lemma sent_packet_reports:
  assumes "traced_stream kEgress key k nxt s" and "parse_sock_key e skb sock_key_zero = key"
    and "tcp_seq e (skb_data (skb_read e skb)) = seq"
  shows "reports (IP_OUT, stream_pos kEgress k nxt seq s, k) s (handle_ip_queue_xmit e skb s)"
proof -
  obtain i cid where t: "bpf_map_lookup_elem (sock_xmit_map s) key = Some i"
    "seq - i = stream_pos kEgress k nxt seq s" "flow_traced key cid s" "cs_tgid_fd cid = k"
    "\<forall>c. kern_evt_t_map s c \<noteq> None"
    using assms(1) by (auto elim: traced_streamE)
  show ?thesis
    using report_kern_evt_reports [OF _ t(5), of "\<lparr>kb_inital_seq = i, kb_key = key, kb_cur_seq = 0,
        kb_len = skb_len (skb_read e skb), kb_func_name = 0, kb_step = IP_OUT,
        kb_tcp = skb_data (skb_read e skb), kb_ifindex = 0\<rparr>" cid e] assms(2,3) t
    by (simp add: handle_ip_queue_xmit_def relative_seq_eq Let_def)
qed

text \<open>Below the IP layer the flow is still taken from the socket, the sequence number from the headers.\<close>

lemma queued_packet_reports:
  assumes "traced_stream kEgress key k nxt s" and "sock_ready e skb"
    and "parse_sock_key e skb sock_key_zero = key" and "carries e skb hdr seq"
    and "bpf_map_lookup_elem (sock_xmit_map s) key \<noteq> Some 0" and "\<not> NIC_IN \<le> step"
  shows "reports (step, stream_pos kEgress k nxt seq s, k) s (snd (parse_skb e skb False step s))"
proof -
  obtain tcp len where p: "skb \<noteq> 0" "packet_tcp e (skb_read e skb) = Some (hdr, tcp, len)"
    "tcp_seq e tcp = seq"
    using assms(4) by (auto simp: carries_def split: option.splits)
  obtain l3 ip where l3: "skb_l3_proto e (skb_read e skb) = Some l3"
      "skb_l4 e (skb_read e skb) l3 = (ip, tcp, len, IPPROTO_TCP)"
    using p(2) unfolding packet_tcp_def Let_def by (auto split: option.splits prod.splits if_split_asm)
  obtain i cid where t: "bpf_map_lookup_elem (sock_xmit_map s) key = Some i"
    "seq - i = stream_pos kEgress k nxt seq s" "flow_traced key cid s" "cs_tgid_fd cid = k"
    "\<forall>c. kern_evt_t_map s c \<noteq> None"
    using assms(1) by (auto elim: traced_streamE)
  show ?thesis
    using report_kern_evt_reports [OF _ t(5), of "\<lparr>kb_inital_seq = i, kb_key = key, kb_cur_seq = 0,
        kb_len = len, kb_func_name = 0, kb_step = step, kb_tcp = tcp,
        kb_ifindex = skb_ifindex (skb_read e skb)\<rparr>" cid e] assms(2,3,5,6) t p(1,3)
    by (simp add: parse_skb_def parse_skb_l3_def sock_ready_def l3 relative_seq_eq Let_def)
qed

lemma reports_view: "reports v s s' \<Longrightarrow> \<exists>ev. rb s' = rb s @ [ev] \<and> pkt_view ev = v"
  by (auto simp: reports_def)

section \<open>Alignment\<close>

text \<open>Storing the entry of a found connection with the bytes of a call counted moves the alignment on.\<close>

lemma aligned_store:
  assumes "aligned d key k nxt s" and "bpf_map_lookup_elem (conn_info_map s) k = Some ci"
    and "sock_xmit_map s' = sock_xmit_map s" and "conn_info_map s' = conn_info_map s"
    and "\<And>d. syscall_seq_of d ci' = syscall_seq_of d ci"
  shows "aligned d key k (nxt + (if d = direct then ucast n else 0))
    (store_conn_info k (add_bytes direct n ci') s')"
  using assms by (simp add: aligned_def store_conn_info_def bpf_lookup syscall_seq_add_bytes)

lemma aligned_frame:
  "aligned d key k nxt s \<Longrightarrow> sock_xmit_map s' = sock_xmit_map s \<Longrightarrow> conn_info_map s' = conn_info_map s \<Longrightarrow>
     aligned d key k nxt s'"
  by (simp add: aligned_def cong: option.case_cong)

lemma match_aligned:
  "match_trace_tgid e tgid s = (m, s') \<Longrightarrow> aligned d key k nxt s \<Longrightarrow> aligned d key k nxt s'"
  using match_xmit [of e tgid s] match_trace_tgid_frame(1) [of e tgid s]
  by (auto intro: aligned_frame)

lemma aligned_entry: "aligned d key k nxt s \<Longrightarrow> \<exists>ci. bpf_map_lookup_elem (conn_info_map s) k = Some ci"
  by (auto simp: aligned_def split: option.splits)

lemma data_call_aligned:
  assumes "aligned d key k nxt s" and "k = gen_tgid_fd (ucast (drop_bit 32 pt)) (da_fd args)"
    and "fst (match_trace_tgid e (ucast (drop_bit 32 pt)) s) \<noteq> TARGET_TGID_UNMATCHED" and "0 < sint n"
  shows "aligned d key k (nxt + (if d = direct then ucast n else 0))
    (process_syscall_data e args pt direct n b s)"
proof -
  obtain ci where ci: "bpf_map_lookup_elem (conn_info_map s) k = Some ci"
    using aligned_entry [OF assms(1)] by blast
  from data_call_entry [OF ci assms(2-4), of direct b] obtain ci' where
    "bpf_map_lookup_elem (conn_info_map (process_syscall_data e args pt direct n b s)) k = Some (add_bytes direct n ci')"
    "syscall_seq_of d ci' = syscall_seq_of d ci"
    "sock_xmit_map (process_syscall_data e args pt direct n b s) = sock_xmit_map s"
    by metis
  then show ?thesis
    using assms(1) ci by (simp add: aligned_def syscall_seq_add_bytes)
qed

lemma vecs_call_aligned:
  assumes "aligned d key k nxt s" and "k = gen_tgid_fd (ucast (drop_bit 32 pt)) (da_fd args)"
    and "da_iov args \<noteq> 0" "da_iovlen args \<noteq> 0" "0 \<le> sint (da_fd args)" and "0 < sint n"
  shows "aligned d key k (nxt + (if d = direct then ucast n else 0))
    (process_syscall_data_vecs e args pt direct n b s)"
proof -
  obtain ci where ci: "bpf_map_lookup_elem (conn_info_map s) k = Some ci"
    using aligned_entry [OF assms(1)] by blast
  let ?c = "if b then ci\<lparr>ssl := True\<rparr> else ci"
  obtain ci' s' where r: "report_vecs_with_conn_info e args k direct n ?c s = (ci', s')"
    by force
  note v = vecs_conn_stream [OF r]
  have "syscall_seq_of x ci' = syscall_seq_of x ci" for x
    using v [of x] by (simp add: syscall_seq_of_def split: if_splits)
  from aligned_store [OF assms(1) ci v [THEN conjunct1] v [THEN conjunct2, THEN conjunct1] this, of direct n]
  show ?thesis
    using assms(3-) ci r
    by (simp add: process_syscall_data_vecs_def find_or_create_conn_def assms(2) Let_def)
qed

lemma sendfile_call_aligned:
  assumes "aligned d key k nxt s" and "k = gen_tgid_fd (ucast (drop_bit 32 pt)) (sf_out_fd args)"
    and "fst (match_trace_tgid e (ucast (drop_bit 32 pt)) s) \<noteq> TARGET_TGID_UNMATCHED"
    and "0 \<le> sint (sf_out_fd args)" and "0 < sint n"
  shows "aligned d key k (nxt + (if d = kEgress then ucast n else 0))
    (process_syscall_sendfile e pt args n s)"
proof -
  obtain m s0 where m: "match_trace_tgid e (ucast (drop_bit 32 pt)) s = (m, s0)"
    by force
  note a = match_aligned [OF m assms(1)]
  obtain ci where ci: "bpf_map_lookup_elem (conn_info_map s0) k = Some ci"
    using aligned_entry [OF a] by blast
  let ?s = "process_sendfile_with_conn_info e args k kEgress n ci False s0"
  have "sock_xmit_map ?s = sock_xmit_map s0" "conn_info_map ?s = conn_info_map s0"
    by (simp_all add: process_sendfile_with_conn_info_def)
  from aligned_store [OF a ci this refl, of kEgress n] show ?thesis
    using assms(3-) ci
    by (simp add: process_syscall_sendfile_def m assms(2) Let_def add_bytes_def)
qed

lemma created_aligned:
  fixes e args k s
  defines "sk \<equiv> get_socket_from_fd e (da_fd args)"
  assumes "reachable s" and "bpf_map_lookup_elem (conn_info_map s) k = None"
    and "find_or_create_conn e args k direct n s = (Some ci, s')"
    and "bpf_map_room 2 (sock_xmit_map s)"
    and "socket_key e sk \<noteq> reverse_sock_key_no_copy (socket_key e sk)"
  shows "aligned d (socket_key e sk) k (next_seq e sk d - (if d = direct then ucast n else 0)) s'"
    and "bpf_map_lookup_elem (sock_key_conn_id_map s) (socket_key e sk) = None \<Longrightarrow>
      \<not> bpf_map_full (sock_key_conn_id_map s) \<Longrightarrow>
      flow_traced (socket_key e sk) \<lparr>cs_tgid_fd = k, cs_no_trace = trace_unset\<rparr> s'"
proof -
  obtain old s1 where new: "conn_info_t_map s (cur_cpu e) = Some old"
      "ci = data_conn_info e sk k (socket_key e sk) (old\<lparr>protocol := kProtocolUnset\<rparr>)"
      "create_conn_info_in_data_syscall e sk k direct n (old\<lparr>protocol := kProtocolUnset\<rparr>)
        (da_end_ts args - 1) s = (True, ci, s1)"
      "s' = s1\<lparr>conn_info_t_map := (conn_info_t_map s1)(cur_cpu e := Some ci)\<rparr>"
    using find_or_create_new [OF assms(3,4)] unfolding sk_def by blast
  have look: "bpf_map_lookup_elem (conn_info_map s') k = Some ci"
    using find_or_create_conn_eff(2) [OF assms(4) refl] .
  have seq: "syscall_seq_of d ci = 1"
    unfolding new(2) by (rule created_seq [OF fresh.reachable [OF assms(2)] new(1)])
  show "aligned d (socket_key e sk) k (next_seq e sk d - (if d = direct then ucast n else 0)) s'"
    using created_initial_seqs [OF new(3) assms(5,6), of d] new(4) look seq
    by (simp add: aligned_def dir_key_packet_key)
  have "protocol ci = kProtocolUnset"
    by (simp add: new(2) data_conn_info_def init_conn_info_def Let_def)
  then show "flow_traced (socket_key e sk) \<lparr>cs_tgid_fd = k, cs_no_trace = trace_unset\<rparr> s'"
    if "bpf_map_lookup_elem (sock_key_conn_id_map s) (socket_key e sk) = None"
      "\<not> bpf_map_full (sock_key_conn_id_map s)"
    using created_registered [OF new(3) that] new(4) look by (simp add: flow_traced_def enum_order_defs)
qed


lemma packet_sample_reads:
  "probe_read (packet_env host) 8 1008 = [1, 0, 0, 0, 0, 0, 0, 0]"
  "read_u8 (packet_env host) 1016 = 0x45" "probe_read (packet_env host) 2 1018 = [0, 60]"
  "read_u8 (packet_env host) 1025 = 6"
  "probe_read (packet_env host) 4 1028 = [7, 0, 0, 0]" "probe_read (packet_env host) 4 1032 = [host, 0, 0, 0]"
  "probe_read (packet_env host) 2 1036 = [0x50, 0]" "probe_read (packet_env host) 2 1038 = [0x1f, 0x90]"
  "probe_read (packet_env host) 4 1040 = [0, 0, 0, 0]"
  by (simp_all add: read_u8_def probe_read_def packet_env_def mem_of_def packet_bytes_def upt_rec le_word_def)

lemma packet_sample:
  "packet_tcp (packet_env host) (skb_read (packet_env host) 1) =
     Some ((reverse_sock_key_no_copy (socket_key (packet_env host) 768))\<lparr>dip0 := ucast (ucast host :: u32)\<rparr>, 1036, 40)"
  "tcp_seq (packet_env host) 1036 = 0" "read_u64 (packet_env host) 1008 = 1"
proof -
  have skb: "skb_read (packet_env host) 1 = sk_buff_obj_zero\<lparr>skb_sk := 768, skb_head := 1016,
      transport_header := 20, skb_protocol := 8, skb_data := 1036\<rparr>"
    by (simp add: skb_read_def packet_env_def)
  have l3: "skb_l3_proto (packet_env host) (skb_read (packet_env host) 1) = Some ETH_P_IP"
    by (simp add: skb skb_l3_proto_def skb_l2_check_def sk_buff_obj_zero_def ETH_P_IP_def bpf_ntohs_def
        nat_bytes_numeral le_word_def)
  have l4: "skb_l4 (packet_env host) (skb_read (packet_env host) 1) ETH_P_IP = (1016, 1036, 40, IPPROTO_TCP)"
    by (simp add: skb skb_l4_def skb_l4_check_def sk_buff_obj_zero_def read_u16_def
        packet_sample_reads get_ip_header_len_def IP_H_LEN_def IPPROTO_IPIP_def IPPROTO_TCP_def
        bpf_ntohs_def nat_bytes_numeral le_word_def Let_def)
  have sk: "sock_read (packet_env host) 768 = v4_sock"
    by (simp add: sock_read_def packet_env_def sock_env_def)
  have key: "parse_sock_key_from_ipv4_tcp_hdr (packet_env host) 1016 1036 sock_key_zero =
      (reverse_sock_key_no_copy (socket_key (packet_env host) 768))\<lparr>dip0 := ucast (ucast host :: u32)\<rparr>"
    by (rule sock_key_eqI) (simp_all add: parse_sock_key_from_ipv4_tcp_hdr_def read_u32_def read_u16_def
        packet_sample_reads socket_key_def parse_sock_key_sk_def sk v4_sock_def sock_obj_zero_def
        sock_key_zero_def AF_INET_def bpf_ntohs_def nat_bytes_numeral le_word_def)
  show "packet_tcp (packet_env host) (skb_read (packet_env host) 1) =
     Some ((reverse_sock_key_no_copy (socket_key (packet_env host) 768))\<lparr>dip0 := ucast (ucast host :: u32)\<rparr>, 1036, 40)"
    by (simp add: packet_tcp_def l3 l4 key)
qed (simp_all add: tcp_seq_def read_u32_def read_u64_def packet_sample_reads le_word_def ntohl_zero)

lemma submit_conn_seq: "syscall_seq_of d (submit_conn_info e tgid fd addr socket r) = 1"
proof -
  let ?ci = "submit_conn_info e tgid fd addr socket r"
  have "write_bytes ?ci = 0" and "read_bytes ?ci = 0"
    by (simp_all add: submit_conn_info_def conn_addr_from_key_def conn_addr_from_args_def
        read_sockaddr_kernel_def init_conn_info_def conn_info_zero_def Let_def)
  then show ?thesis
    by (simp add: syscall_seq_of_def)
qed

lemma submit_new_conn_xmit:
  assumes "create_conn_info e (submit_conn_info e tgid fd addr socket r) (gen_tgid_fd tgid fd)
      (socket_key e (submit_sk e fd socket)) ts s = (True, t)" and "submit_sk e fd socket \<noteq> 0"
  shows "sock_xmit_map (submit_new_conn e tgid fd addr socket r ts s) =
    (let sk = submit_sk e fd socket; wseq = write_seq (sock_read e sk); cseq = copied_seq (sock_read e sk);
       m = (if wseq \<noteq> 0 then bpf_map_update_elem (sock_xmit_map s) (socket_key e sk) (wseq - 1) BPF_ANY
            else sock_xmit_map s)
     in if cseq \<noteq> 0 then bpf_map_update_elem m (reverse_sock_key_no_copy (socket_key e sk)) (cseq - 1) BPF_ANY
        else m)"
  unfolding submit_new_conn_def Let_def socket_key_def [symmetric] submit_sk_def [unfolded Let_def, symmetric]
    submit_conn_info_def [unfolded Let_def, symmetric]
  using assms xmit_create [OF assms(1)] by (simp add: rcv_key)

lemma opened_aligned:
  fixes e tgid fd addr socket role' ts s
  defines "sk \<equiv> submit_sk e fd socket" and "ci \<equiv> submit_conn_info e tgid fd addr socket role'"
    and "s' \<equiv> submit_new_conn e tgid fd addr socket role' ts s"
  assumes "sk \<noteq> 0" and "admits ci s" and "\<not> bpf_map_full (conn_info_map s)"
    and "bpf_map_room 2 (sock_xmit_map s)"
    and "socket_key e sk \<noteq> reverse_sock_key_no_copy (socket_key e sk)" and "next_seq e sk d \<noteq> 0"
  shows "aligned d (socket_key e sk) (gen_tgid_fd tgid fd) (next_seq e sk d) s'"
    and "bpf_map_lookup_elem (sock_key_conn_id_map s) (socket_key e sk) = None \<Longrightarrow>
      \<not> bpf_map_full (sock_key_conn_id_map s) \<Longrightarrow>
      flow_traced (socket_key e sk) \<lparr>cs_tgid_fd = gen_tgid_fd tgid fd, cs_no_trace = trace_unset\<rparr> s'"
    and "bpf_map_lookup_elem (sock_xmit_map s') (dir_key d (socket_key e sk)) = Some (next_seq e sk d - 1)"
proof -
  let ?key = "socket_key e sk" and ?rev = "reverse_sock_key_no_copy (socket_key e sk)"
  let ?k = "gen_tgid_fd tgid fd"
  let ?c = "create_conn_info e ci ?k ?key ts s"
  let ?m = "if write_seq (sock_read e sk) \<noteq> 0
    then bpf_map_update_elem (sock_xmit_map s) ?key (write_seq (sock_read e sk) - 1) BPF_ANY else sock_xmit_map s"
  have created: "fst ?c"
    using assms(5) create_conn_info_maps(3) [of e ci ?k ?key ts s] by simp
  have map: "sock_xmit_map s' = (if copied_seq (sock_read e sk) \<noteq> 0
      then bpf_map_update_elem ?m ?rev (copied_seq (sock_read e sk) - 1) BPF_ANY else ?m)"
    using submit_new_conn_xmit [of e tgid fd addr socket role' ts s] created assms(4)
    by (cases ?c) (simp add: s'_def sk_def ci_def Let_def)
  have room: "bpf_map_room (Suc (Suc 0)) (sock_xmit_map s)"
    using assms(7) by (simp add: numeral_2_eq_2)
  then have "bpf_map_room (Suc 0) ?m"
    using bpf_map_room_update [OF room] by (auto simp: bpf_map_room_def)
  then show seqs: "bpf_map_lookup_elem (sock_xmit_map s') (dir_key d ?key) = Some (next_seq e sk d - 1)"
    using assms(8,9) update_any_room [OF room]
    by (cases d) (simp_all add: map update_any_room next_seq_def)
  have look: "bpf_map_lookup_elem (conn_info_map s') ?k = Some ci"
    using assms(5,6) by (auto simp: s'_def submit_new_conn_maps create_conn_info_maps ci_def [symmetric] bpf_lookup)
  have new: "syscall_seq_of d ci = 1" "protocol ci \<noteq> kProtocolUnknown"
    using assms(5) submit_conn_seq [of d e tgid fd addr socket role']
    by (simp_all add: ci_def admits_def should_trace_conn_def)
  show "aligned d ?key ?k (next_seq e sk d) s'"
    by (simp add: aligned_def look seqs new)
  show "flow_traced ?key \<lparr>cs_tgid_fd = ?k, cs_no_trace = trace_unset\<rparr> s'"
    if "bpf_map_lookup_elem (sock_key_conn_id_map s) ?key = None" "\<not> bpf_map_full (sock_key_conn_id_map s)"
    using that assms(5) look new(2)
    by (simp add: flow_traced_def s'_def submit_new_conn_maps create_conn_info_maps ci_def [symmetric]
        sk_def [symmetric] bpf_lookup enum_order_defs)
qed

lemma create_nat: "create_conn_info e ci k key ts s = (b, s') \<Longrightarrow> nat_flow_map s' = nat_flow_map s"
proof -
  have "nat_flow_map (report_conn_evt e ci ty ts s) = nat_flow_map s" for s ty
    by (simp add: report_conn_evt_def Let_def split: option.split)
  then show "create_conn_info e ci k key ts s = (b, s') \<Longrightarrow> nat_flow_map s' = nat_flow_map s"
    by (auto simp: create_conn_info_def Let_def split: if_splits)
qed

lemma find_create_nat:
  "find_or_create_conn e args k direct n s = (found, s') \<Longrightarrow> nat_flow_map s' = nat_flow_map s"
  by (auto simp: find_or_create_conn_def create_conn_info_in_data_syscall_def Let_def
      split: option.splits prod.splits if_splits dest!: create_nat)

lemma traced_streamI:
  "aligned d key k nxt s \<Longrightarrow> flow_traced key \<lparr>cs_tgid_fd = k, cs_no_trace = t\<rparr> s \<Longrightarrow> buffers_ok s \<Longrightarrow>
     traced_stream d key k nxt s"
  by (auto simp: traced_stream_def buffers_ok_def)

text \<open>A read call of ten bytes that creates the sample connection, and the packet that brought the bytes after it.\<close>

lemma sample_stream:
  "\<exists>ci s'. find_or_create_conn write_env write_call (gen_tgid_fd 0 5) d 10 init_state = (Some ci, s') \<and>
     traced_stream d (socket_key write_env 768) (gen_tgid_fd 0 5) (- 10) s' \<and> syscall_seq_of d ci = 1 \<and>
     bpf_map_lookup_elem (conn_info_map s') (gen_tgid_fd 0 5) = Some ci \<and>
     nat_flow_map s' = nat_flow_map init_state"
proof -
  obtain ci s' where find: "find_or_create_conn write_env write_call (gen_tgid_fd 0 5) d 10 init_state = (Some ci, s')"
    using write_sample_found by blast
  note new = created_aligned [OF reach_init init_state_maps(1) find init_room(1),
      unfolded write_sample_key(1), OF write_sample_key(2)]
  have "next_seq write_env 768 d = 0"
    by (cases d) (simp_all add: write_sample_key next_seq_def write_env_def sock_env_def sock_read_def
        v4_sock_def sock_obj_zero_def)
  then have "aligned d (socket_key write_env 768) (gen_tgid_fd 0 5) (- 10) s'"
    using new(1) [of d] by simp
  moreover have "buffers_ok s'"
    using buffers.effs [OF find_or_create_conn_eff(1) [OF find] buffers.reachable [OF reach_init]] .
  ultimately have "traced_stream d (socket_key write_env 768) (gen_tgid_fd 0 5) (- 10) s'"
    using new(2) [OF init_state_maps(2) init_room(2)] by (intro traced_streamI)
  moreover have "syscall_seq_of d ci = 1"
    using find_or_create_new [OF init_state_maps(1) find] created_seq [OF fresh.reachable [OF reach_init]] by metis
  moreover have "nat_flow_map s' = nat_flow_map init_state"
    by (rule find_create_nat [OF find])
  ultimately show ?thesis
    using find find_or_create_conn_eff(2) [OF find refl] by blast
qed

lemma packet_sample_carries:
  "carries (packet_env 9) 1 (reverse_sock_key_no_copy (socket_key write_env 768)) 0"
  "parse_sock_key (packet_env 9) 1 sock_key_zero = socket_key write_env 768"
  "parse_sock_key_rcv (packet_env 9) 1 sock_key_zero = reverse_sock_key_no_copy (socket_key write_env 768)"
  "sock_ready (packet_env 9) 1"
  "skb_cb_seq (skb_read (packet_env 9) 1) = 0" "skb_next (skb_read (packet_env 9) 1) = 0" 
  "skb_data (skb_read (packet_env 9) 1) = 1036"
proof -
  have sk: "sock_read (packet_env 9) 768 = sock_read write_env 768"
    by (simp add: sock_read_def packet_env_def write_env_def sock_env_def)
  then have key: "socket_key (packet_env 9) 768 = socket_key write_env 768"
    by (simp add: socket_key_def parse_sock_key_sk_def)
  have hdr: "(reverse_sock_key_no_copy (socket_key write_env 768))\<lparr>dip0 := 9\<rparr> =
      reverse_sock_key_no_copy (socket_key write_env 768)"
    by (rule sock_key_eqI) (simp_all add: write_env_def socket_key_simps v4_sock_def)
  have skb: "skb_sk (skb_read (packet_env 9) 1) = 768"
    by (simp add: skb_read_def packet_env_def)
  show "carries (packet_env 9) 1 (reverse_sock_key_no_copy (socket_key write_env 768)) 0"
    by (simp add: carries_def packet_sample key hdr)
  show "parse_sock_key (packet_env 9) 1 sock_key_zero = socket_key write_env 768"
    by (simp add: parse_sock_key_def skb socket_key_def [symmetric] key)
  then show "parse_sock_key_rcv (packet_env 9) 1 sock_key_zero = reverse_sock_key_no_copy (socket_key write_env 768)"
    by (simp add: parse_sock_key_rcv_def parse_sock_key_rcv_sk_def parse_sock_key_def)
  show "sock_ready (packet_env 9) 1"
    by (simp add: sock_ready_def skb sk) (simp add: write_env_def sock_env_def sock_read_def v4_sock_def)
qed (simp_all add: skb_read_def packet_env_def sk_buff_obj_zero_def)

section \<open>Properties\<close>

text \<open>
  Property C7. The first data call on an unknown connection aligns calls and packets in both
  directions: after the call, the recorded initial numbers and the byte counters are such that
  the next byte of either direction, whose TCP sequence number the socket holds, has the position
  that the next call gives to it.
\<close>

theorem first_call_aligns:
  fixes e args pt s
  defines "sk \<equiv> get_socket_from_fd e (da_fd args)"
    and "k \<equiv> gen_tgid_fd (ucast (drop_bit 32 pt)) (da_fd args)"
  assumes "reachable s" and "control_value s kEnableFilterByPid = None"
    and "bpf_map_lookup_elem (conn_info_map s) k = None"
    and "find_or_create_conn e args k direct n s = (Some ci, s1)" and "0 < sint n"
    and "bpf_map_room 2 (sock_xmit_map s)"
    and "socket_key e sk \<noteq> reverse_sock_key_no_copy (socket_key e sk)"
  shows "aligned d (socket_key e sk) k (next_seq e sk d) (process_syscall_data e args pt direct n b s)"
proof -
  note cv = find_create_match [OF assms(4,6)]
  have "find_or_create_conn e args k direct n s1 = (Some ci, s1)"
    using find_or_create_conn_eff(2) [OF assms(6) refl] by (simp add: find_or_create_conn_def)
  then have "process_syscall_data e args pt direct n b s = process_syscall_data e args pt direct n b s1"
    using assms(6,7) by (simp add: process_syscall_data_def match_trace_tgid_all assms(4) cv k_def Let_def)
  moreover have match: "fst (match_trace_tgid e (ucast (drop_bit 32 pt)) s1) \<noteq> TARGET_TGID_UNMATCHED"
    by (simp add: match_trace_tgid_all cv)
  have "aligned d (socket_key e sk) k (next_seq e sk d - (if d = direct then ucast n else 0)) s1"
    using created_aligned(1) [OF assms(3,5,6,8)] assms(9) by (simp add: sk_def)
  from data_call_aligned [OF this _ match assms(7), of args direct b]
  have "aligned d (socket_key e sk) k (next_seq e sk d) (process_syscall_data e args pt direct n b s1)"
    by (simp add: k_def)
  ultimately show ?thesis
    by simp
qed

theorem first_call_aligns_witness:
  "aligned kEgress (socket_key write_env 768) (gen_tgid_fd 0 5) 0
     (process_syscall_data write_env write_call 0 kEgress 10 False init_state) \<and>
   aligned kIngress (socket_key write_env 768) (gen_tgid_fd 0 5) 0
     (process_syscall_data write_env write_call 0 kEgress 10 False init_state)"
proof -
  obtain ci s1 where find: "find_or_create_conn write_env write_call (gen_tgid_fd 0 5) kEgress 10 init_state =
      (Some ci, s1)"
    using write_sample_found by blast
  have fd: "da_fd write_call = 5"
    by (simp add: write_call_def)
  have seq: "next_seq write_env 768 d = 0" for d
    by (cases d) (simp_all add: next_seq_def write_env_def sock_env_def sock_read_def v4_sock_def sock_obj_zero_def)
  have cv: "control_value init_state kEnableFilterByPid = None"
    by (simp add: control_value_def init_state_def)
  have "aligned d (socket_key write_env 768) (gen_tgid_fd 0 5) 0
      (process_syscall_data write_env write_call 0 kEgress 10 False init_state)" for d
    using first_call_aligns [of init_state 0 write_call write_env kEgress 10 ci s1 d False] find reach_init cv
      init_room(1) write_sample_key(1,2) init_state_maps(1) fd seq
    by simp
  then show ?thesis
    by blast
qed

text \<open>
  Property C24. Connecting or accepting aligns calls and packets, in each direction for which the
  socket has a sequence number: the byte the socket is about to send or to deliver has
  position 1.
\<close>

theorem opening_aligns:
  fixes e tgid fd addr socket role' ts s
  defines "sk \<equiv> submit_sk e fd socket"
  assumes "sk \<noteq> 0" and "admits (submit_conn_info e tgid fd addr socket role') s"
    and "\<not> bpf_map_full (conn_info_map s)" and "bpf_map_room 2 (sock_xmit_map s)"
    and "socket_key e sk \<noteq> reverse_sock_key_no_copy (socket_key e sk)" and "next_seq e sk d \<noteq> 0"
  shows "bpf_map_lookup_elem (sock_xmit_map (submit_new_conn e tgid fd addr socket role' ts s))
      (dir_key d (socket_key e sk)) = Some (next_seq e sk d - 1) \<and>
    aligned d (socket_key e sk) (gen_tgid_fd tgid fd) (next_seq e sk d)
      (submit_new_conn e tgid fd addr socket role' ts s)"
  using opened_aligned(1,3) [OF assms(2-) [unfolded sk_def]] by (simp add: sk_def)

theorem opening_aligns_witness:
  "bpf_map_lookup_elem (sock_xmit_map (submit_new_conn open_env 0 5 0 0 kRoleClient 1000 init_state))
     (socket_key open_env 768) = Some 99 \<and>
   aligned kEgress (socket_key open_env 768) (gen_tgid_fd 0 5) 100
     (submit_new_conn open_env 0 5 0 0 kRoleClient 1000 init_state)"
proof -
  have sk: "submit_sk open_env 5 0 = 768"
    by (simp add: submit_sk_def open_env_def)
  have key: "socket_key open_env 768 \<noteq> reverse_sock_key_no_copy (socket_key open_env 768)"
    by (simp add: open_env_def socket_key_simps v4_sock_def) (simp add: reverse_sock_key_no_copy_def)
  have seq: "next_seq open_env 768 kEgress = 100"
    by (simp add: next_seq_def open_env_def sock_env_def sock_read_def)
  have "admits (submit_conn_info open_env 0 5 0 0 kRoleClient) init_state"
    by (simp add: open_env_def admits_def submit_conn_info_def Let_def submit_sk_def conn_addr_from_args_def
        conn_addr_from_key_def init_conn_info_def conn_info_zero_def should_trace_conn_def
        filter_conn_info_def socket_key_simps v4_sock_def set_addr32_0_def enum_order_defs control_value_def)
      (simp add: init_state_def)
  then show ?thesis
    using opening_aligns [of open_env 5 0 0 0 kRoleClient init_state kEgress 1000] init_room(1) sk key seq
    by (simp add: init_state_def bpf_map_full_def bpf_map_create_def MAX_ENTRIES_def)
qed

text \<open>
  Property C8. Every later data call of the process keeps them aligned, whatever it transfers
  and whether it uses one buffer, a vector or a file: the next sequence number moves on by the
  bytes of the call in its own direction and stays in the other.
\<close>

theorem calls_keep_alignment:
  assumes "aligned d key (gen_tgid_fd (ucast (drop_bit 32 pt)) fd) nxt s" and "0 < sint n" and "0 \<le> sint fd"
    and "fst (match_trace_tgid e (ucast (drop_bit 32 pt)) s) \<noteq> TARGET_TGID_UNMATCHED"
    and "da_fd args = fd" and "da_iov args \<noteq> 0" "da_iovlen args \<noteq> 0" and "sf_out_fd sargs = fd"
  shows "aligned d key (gen_tgid_fd (ucast (drop_bit 32 pt)) fd) (nxt + (if d = direct then ucast n else 0))
      (process_syscall_data e args pt direct n b s) \<and>
    aligned d key (gen_tgid_fd (ucast (drop_bit 32 pt)) fd) (nxt + (if d = direct then ucast n else 0))
      (process_syscall_data_vecs e args pt direct n b s) \<and>
    aligned d key (gen_tgid_fd (ucast (drop_bit 32 pt)) fd) (nxt + (if d = kEgress then ucast n else 0))
      (process_syscall_sendfile e pt sargs n s)"
  using assms by (intro conjI data_call_aligned vecs_call_aligned sendfile_call_aligned) simp_all

theorem calls_keep_alignment_witness:
  "\<exists>ci s. find_or_create_conn write_env write_call (gen_tgid_fd 0 5) kEgress 10 init_state = (Some ci, s) \<and>
     aligned kEgress (socket_key write_env 768) (gen_tgid_fd 0 5) (- 3)
       (process_syscall_data write_env (write_call\<lparr>da_iov := 1, da_iovlen := 1\<rparr>) 0 kEgress 7 False s) \<and>
     aligned kEgress (socket_key write_env 768) (gen_tgid_fd 0 5) (- 3)
       (process_syscall_data_vecs write_env (write_call\<lparr>da_iov := 1, da_iovlen := 1\<rparr>) 0 kEgress 7 False s) \<and>
     aligned kEgress (socket_key write_env 768) (gen_tgid_fd 0 5) (- 3)
       (process_syscall_sendfile write_env 0
         \<lparr>sf_out_fd = 5, sf_in_fd = 0, sf_count = 0, sf_start_ts = 0, sf_end_ts = 0\<rparr> 7 s)"
proof -
  obtain ci s where st: "find_or_create_conn write_env write_call (gen_tgid_fd 0 5) kEgress 10 init_state = (Some ci, s)"
    "traced_stream kEgress (socket_key write_env 768) (gen_tgid_fd 0 5) (- 10) s"
    using sample_stream [of kEgress] by blast
  have "control_value init_state kEnableFilterByPid = None"
    by (simp add: control_value_def init_state_def)
  from find_create_match [OF this st(1)]
  have "fst (match_trace_tgid write_env (ucast (drop_bit 32 (0 :: u64))) s) \<noteq> TARGET_TGID_UNMATCHED"
    by (simp add: match_trace_tgid_all)
  from calls_keep_alignment [OF _ _ _ this, of kEgress "socket_key write_env 768" 5 "- 10" 7
      "write_call\<lparr>da_iov := 1, da_iovlen := 1\<rparr>"
      "\<lparr>sf_out_fd = 5, sf_in_fd = 0, sf_count = 0, sf_start_ts = 0, sf_end_ts = 0\<rparr>" kEgress False] st
  show ?thesis
    by (intro exI [of _ ci] exI [of _ s]) (simp add: traced_stream_def write_call_def)
qed

text \<open>
  Property C5. All programs on the receive path agree with the read calls: for an aligned
  connection, a packet with sequence number \<open>seq\<close> is reported when it leaves the device (also
  when its addresses are translated only after that), in the IP layer, in the TCP layer and when it is
  copied to the process, each time once, under the connection, and with the position that the
  read calls give to its first byte (plus the offset of the copied part).
\<close>

theorem receive_path_positions_agree:
  assumes "traced_stream kIngress key k nxt s"
    and "translate_flow DEV_IN hdr s = dir_key kIngress key"
    and "carries e1 (read_u64 e1 (ctx + 8)) hdr seq"
    and "carries e2 skb (dir_key kIngress key) seq" and "carries e3 skb (dir_key kIngress key) seq"
    and "parse_sock_key_rcv e4 skb sock_key_zero = dir_key kIngress key"
    and "skb_cb_seq (skb_read e4 skb) = seq"
  shows "\<exists>evs. rb (skb_copy_datagram_iter e4 skb off len (tcp_v4_do_rcv e3 skb (ip_rcv_core e2 skb
        (tracepoint__netif_receive_skb e1 ctx s)))) = rb s @ evs \<and>
    map pkt_view evs =
      [(DEV_IN, stream_pos kIngress k nxt seq s, k), (IP_IN, stream_pos kIngress k nxt seq s, k),
       (TCP_IN, stream_pos kIngress k nxt seq s, k), (USER_COPY, stream_pos kIngress k nxt (seq + off) s, k)]"
proof -
  let ?s1 = "tracepoint__netif_receive_skb e1 ctx s"
  let ?s2 = "ip_rcv_core e2 skb ?s1"
  let ?s3 = "tcp_v4_do_rcv e3 skb ?s2"
  let ?s4 = "skb_copy_datagram_iter e4 skb off len ?s3"
  let ?p = "stream_pos kIngress k nxt seq s"
  have steps: "NIC_IN \<le> DEV_IN" "NIC_IN \<le> IP_IN" "NIC_IN \<le> TCP_IN"
    by (simp_all add: enum_order_defs)
  have tr: "translate_flow IP_IN f t = f" "translate_flow TCP_IN f t = f" for f t
    by (simp_all add: translate_flow_def)
  have r1: "reports (DEV_IN, ?p, k) s ?s1"
    unfolding tracepoint__netif_receive_skb_def
    using received_packet_reports [OF assms(1,3) _ steps(1)] assms(2) by simp
  note t1 = reports_keeps(1) [OF r1 assms(1)]
  have r2: "reports (IP_IN, ?p, k) ?s1 ?s2"
    unfolding ip_rcv_core_def
    using received_packet_reports [OF t1 assms(4) _ steps(2)] reports_keeps(2) [OF r1] tr by simp
  note t2 = reports_keeps(1) [OF r2 t1]
  have r3: "reports (TCP_IN, ?p, k) ?s2 ?s3"
    unfolding tcp_v4_do_rcv_def
    using received_packet_reports [OF t2 assms(5) _ steps(3)] reports_keeps(2) [OF r1] reports_keeps(2) [OF r2] tr
    by simp
  note t3 = reports_keeps(1) [OF r3 t2]
  have r4: "reports (USER_COPY, stream_pos kIngress k nxt (seq + off) s, k) ?s3 ?s4"
    unfolding skb_copy_datagram_iter_def
    using copied_packet_reports [OF t3, of e4 skb off len] reports_keeps(2) [OF r1] reports_keeps(2) [OF r2]
      reports_keeps(2) [OF r3] assms(6,7) by simp
  show ?thesis
    using reports_view [OF r1] reports_view [OF r2] reports_view [OF r3] reports_view [OF r4] by auto
qed

theorem receive_path_positions_agree_witness:
  "\<exists>ci s evs. find_or_create_conn write_env write_call (gen_tgid_fd 0 5) kIngress 10 init_state = (Some ci, s) \<and>
     rb (skb_copy_datagram_iter (packet_env 9) 1 4 8 (tcp_v4_do_rcv (packet_env 9) 1 (ip_rcv_core (packet_env 9) 1
       (tracepoint__netif_receive_skb (packet_env 9) 1000 s)))) = rb s @ evs \<and>
     map pkt_view evs = [(DEV_IN, 11, gen_tgid_fd 0 5), (IP_IN, 11, gen_tgid_fd 0 5),
       (TCP_IN, 11, gen_tgid_fd 0 5), (USER_COPY, 15, gen_tgid_fd 0 5)]"
proof -
  obtain ci s where st: "find_or_create_conn write_env write_call (gen_tgid_fd 0 5) kIngress 10 init_state = (Some ci, s)"
    "traced_stream kIngress (socket_key write_env 768) (gen_tgid_fd 0 5) (- 10) s"
    "bpf_map_lookup_elem (conn_info_map s) (gen_tgid_fd 0 5) = Some ci" "syscall_seq_of kIngress ci = 1"
    "nat_flow_map s = nat_flow_map init_state"
    using sample_stream [of kIngress] by blast
  have "translate_flow DEV_IN (reverse_sock_key_no_copy (socket_key write_env 768)) s =
      dir_key kIngress (socket_key write_env 768)"
    by (simp add: translate_flow_def st(5)) (simp add: init_state_def)
  moreover have "stream_pos kIngress (gen_tgid_fd 0 5) (- 10) 0 s = 11"
    "stream_pos kIngress (gen_tgid_fd 0 5) (- 10) 4 s = 15"
    by (simp_all add: stream_pos_def st)
  ultimately show ?thesis
    using receive_path_positions_agree [OF st(2), of "reverse_sock_key_no_copy (socket_key write_env 768)"
        "packet_env 9" 1000 0 "packet_env 9" 1 "packet_env 9" "packet_env 9" 4 8] packet_sample_carries packet_sample st(1)
    by fastforce
qed

text \<open>
  Property C6. All programs on the send path agree with the write calls: for an aligned
  connection, a packet with sequence number \<open>seq\<close> is reported when TCP hands it to IP, when it
  is queued and when the device driver takes it, each time once, under the connection and with the
  position that the write calls give to its first byte.
\<close>

theorem send_path_positions_agree:
  assumes "traced_stream kEgress key k nxt s"
    and "bpf_map_lookup_elem (sock_xmit_map s) key \<noteq> Some 0"
    and "parse_sock_key e1 skb sock_key_zero = key" "parse_sock_key e2 skb sock_key_zero = key"
      "parse_sock_key e3 skb sock_key_zero = key"
    and "tcp_seq e1 (skb_data (skb_read e1 skb)) = seq" "carries e2 skb hdr seq" "carries e3 skb hdr' seq"
    and "sock_ready e2 skb" "sock_ready e3 skb" and "skb_next (skb_read e3 skb) = 0"
  shows "\<exists>evs. rb (dev_hard_start_xmit e3 skb (dev_queue_xmit e2 skb (ip_queue_xmit e1 skb s))) = rb s @ evs \<and>
    map pkt_view evs =
      [(IP_OUT, stream_pos kEgress k nxt seq s, k), (QDISC_OUT, stream_pos kEgress k nxt seq s, k),
       (DEV_OUT, stream_pos kEgress k nxt seq s, k)]"
proof -
  let ?s1 = "ip_queue_xmit e1 skb s"
  let ?s2 = "dev_queue_xmit e2 skb ?s1"
  let ?s3 = "dev_hard_start_xmit e3 skb ?s2"
  let ?p = "stream_pos kEgress k nxt seq s"
  have steps: "\<not> NIC_IN \<le> QDISC_OUT" "\<not> NIC_IN \<le> DEV_OUT"
    by (simp_all add: enum_order_defs)
  have r1: "reports (IP_OUT, ?p, k) s ?s1"
    unfolding ip_queue_xmit_def by (rule sent_packet_reports [OF assms(1,3,6)])
  note t1 = reports_keeps(1) [OF r1 assms(1)]
  have r2: "reports (QDISC_OUT, ?p, k) ?s1 ?s2"
    unfolding dev_queue_xmit_def
    using queued_packet_reports [OF t1 assms(9,4,7) _ steps(1)] reports_keeps(2,4) [OF r1] assms(2) by simp
  note t2 = reports_keeps(1) [OF r2 t1]
  have "?s3 = snd (parse_skb e3 skb False DEV_OUT ?s2)"
    using assms(11) by (simp add: dev_hard_start_xmit_def numeral_2_eq_2 Let_def)
  then have r3: "reports (DEV_OUT, ?p, k) ?s2 ?s3"
    using queued_packet_reports [OF t2 assms(10,5,8) _ steps(2)] reports_keeps(2,4) [OF r1] reports_keeps(2,4) [OF r2]
      assms(2) by simp
  show ?thesis
    using reports_view [OF r1] reports_view [OF r2] reports_view [OF r3] by auto
qed

theorem send_path_positions_agree_witness:
  "\<exists>ci s evs. find_or_create_conn write_env write_call (gen_tgid_fd 0 5) kEgress 10 init_state = (Some ci, s) \<and>
     rb (dev_hard_start_xmit (packet_env 9) 1 (dev_queue_xmit (packet_env 9) 1 (ip_queue_xmit (packet_env 9) 1 s))) =
       rb s @ evs \<and>
     map pkt_view evs = [(IP_OUT, 11, gen_tgid_fd 0 5), (QDISC_OUT, 11, gen_tgid_fd 0 5),
       (DEV_OUT, 11, gen_tgid_fd 0 5)]"
proof -
  obtain ci s where st: "find_or_create_conn write_env write_call (gen_tgid_fd 0 5) kEgress 10 init_state = (Some ci, s)"
    "traced_stream kEgress (socket_key write_env 768) (gen_tgid_fd 0 5) (- 10) s"
    "bpf_map_lookup_elem (conn_info_map s) (gen_tgid_fd 0 5) = Some ci" "syscall_seq_of kEgress ci = 1"
    using sample_stream [of kEgress] by blast
  then have "bpf_map_lookup_elem (sock_xmit_map s) (socket_key write_env 768) \<noteq> Some 0"
    by (simp add: traced_stream_def aligned_def)
  moreover have "stream_pos kEgress (gen_tgid_fd 0 5) (- 10) 0 s = 11"
    by (simp add: stream_pos_def st)
  ultimately show ?thesis
    using send_path_positions_agree [OF st(2) _ packet_sample_carries(2) packet_sample_carries(2)
        packet_sample_carries(2) _ packet_sample_carries(1) packet_sample_carries(1) packet_sample_carries(4)
        packet_sample_carries(4) packet_sample_carries(6)] packet_sample_carries packet_sample st(1)
    by fastforce
qed

text \<open>
  Property C25. A packet whose destination is translated is reported under the connection it
  really belongs to: once the conntrack entry of the flow was observed, the packet that leaves the
  device with the original addresses is reported for the connection whose socket has the addresses
  of the reply flow, with the position that the read calls give to its first byte.
\<close>

theorem translated_packet_reported:
  assumes "traced_stream kIngress reply k nxt s"
    and "nat_tuples (ct_at e0 ct) = Some (orig, reply)" and "bpf_map_room 2 (nat_flow_map s)"
    and "carries e (read_u64 e (ctx + 8)) orig seq"
  shows "\<exists>ev. rb (tracepoint__netif_receive_skb e ctx (kprobe__nf_nat_packet e0 ct s)) = rb s @ [ev] \<and>
    pkt_view ev = (DEV_IN, stream_pos kIngress k nxt seq s, k)"
proof -
  let ?s = "handle_nat e0 ct s"
  have maps: "conn_info_map ?s = conn_info_map s" "sock_xmit_map ?s = sock_xmit_map s"
    "sock_key_conn_id_map ?s = sock_key_conn_id_map s" "kern_evt_t_map ?s = kern_evt_t_map s" "rb ?s = rb s"
    by (simp_all add: handle_nat_eq split: option.split)
  then have t: "traced_stream kIngress reply k nxt ?s"
    and p: "stream_pos kIngress k nxt seq ?s = stream_pos kIngress k nxt seq s"
    using assms(1)
    by (simp_all add: traced_stream_def aligned_def flow_traced_def stream_pos_def cong: option.case_cong)
  have "translate_flow DEV_IN orig ?s = reverse_sock_key_no_copy reply"
    using handle_nat_lookup [OF assms(2,3), of orig] by (simp add: translate_flow_def)
  from received_packet_reports [OF t assms(4) this] reports_view p maps(5) show ?thesis
    by (force simp: tracepoint__netif_receive_skb_def kprobe__nf_nat_packet_def enum_order_defs)
qed

theorem translated_packet_reported_witness:
  "\<exists>ci s ev. find_or_create_conn write_env write_call (gen_tgid_fd 0 5) kIngress 10 init_state = (Some ci, s) \<and>
     rb (tracepoint__netif_receive_skb (packet_env 8) 1000 (kprobe__nf_nat_packet redirect_env 0 s)) = rb s @ [ev] \<and>
     pkt_view ev = (DEV_IN, 11, gen_tgid_fd 0 5)"
proof -
  obtain ci s where st: "find_or_create_conn write_env write_call (gen_tgid_fd 0 5) kIngress 10 init_state = (Some ci, s)"
    "traced_stream kIngress (socket_key write_env 768) (gen_tgid_fd 0 5) (- 10) s"
    "bpf_map_lookup_elem (conn_info_map s) (gen_tgid_fd 0 5) = Some ci" "syscall_seq_of kIngress ci = 1"
    "nat_flow_map s = nat_flow_map init_state"
    using sample_stream [of kIngress] by blast
  let ?orig = "\<lparr>sip0 = 7, sip1 = 0, dip0 = 8, dip1 = 0, sport = 20480, dport = 8080\<rparr>"
  have key: "socket_key (packet_env 8) 768 = socket_key write_env 768"
    by (simp add: packet_env_def write_env_def sock_env_def socket_key_def parse_sock_key_sk_def sock_read_def)
  have reply: "socket_key write_env 768 =
      \<lparr>sip0 = 9, sip1 = 0, dip0 = 7, dip1 = 0, sport = 8080, dport = 20480\<rparr>"
    by (rule sock_key_eqI) (simp_all add: write_env_def socket_key_simps v4_sock_def bpf_ntohs_def nat_bytes_numeral
        le_word_def)
  have tuples: "nat_tuples (ct_at redirect_env 0) = Some (?orig, socket_key write_env 768)"
    by (simp add: reply nat_tuples_def redirect_env_def parse_conntrack_tuple_def in6_lo_def in6_hi_def
        join32_def in6_addr_zero_def sock_key_zero_def bpf_ntohs_def nat_bytes_numeral le_word_def)
  have carries: "carries (packet_env 8) (read_u64 (packet_env 8) (1000 + 8)) ?orig 0"
    by (simp add: carries_def packet_sample key reply reverse_sock_key_no_copy_def)
  have "bpf_map_room 2 (nat_flow_map s)"
    by (simp add: st(5) bpf_map_room_def init_state_def bpf_map_create_def MAX_ENTRIES_def)
  from translated_packet_reported [OF st(2) tuples this carries] st(1) show ?thesis
    by (auto simp: stream_pos_def st(3,4))
qed

text \<open>
  The first packet of a flow that no program has seen is recorded and announced: when
  it leaves the device and carries data, its sequence number minus one becomes the initial number
  of the flow (so its first byte has position 1, as for the read call that will deliver it), and one
  first-packet event with the key of the receiving socket and the length of the payload is
  submitted; the other rings stay as they are.
\<close>

theorem first_packet_recorded:
  fixes e skb s hdr
  defines "key \<equiv> translate_flow DEV_IN hdr s" and "s' \<equiv> snd (parse_skb e skb True DEV_IN s)"
  assumes "skb \<noteq> 0" and "packet_tcp e (skb_read e skb) = Some (hdr, tcp, len)"
    and "bpf_map_lookup_elem (sock_xmit_map s) key = None" and "\<not> bpf_map_full (sock_xmit_map s)"
    and "bpf_map_lookup_elem (sock_key_conn_id_map s) (reverse_sock_key_no_copy key) = None"
    and "first_packet_evt_map s (cur_cpu e) \<noteq> None" and "read_u8 e (tcp + 13) AND 2 = 0"
    and "kb_tcp param = tcp" "kb_len param = len" "0 < tcp_payload_len e param"
  shows "bpf_map_lookup_elem (sock_xmit_map s') key = Some (tcp_seq e tcp - 1) \<and>
    (\<exists>fp. first_packet_rb s' = first_packet_rb s @ [fp] \<and> fp_key fp = reverse_sock_key_no_copy key \<and>
       fp_step fp = DEV_IN \<and> fp_len fp = tcp_payload_len e param) \<and>
    rb s' = rb s"
proof -
  let ?i = "tcp_seq e tcp - 1"
  let ?t = "s\<lparr>sock_xmit_map := bpf_map_update_elem (sock_xmit_map s) key ?i BPF_NOEXIST\<rparr>"
  let ?p = "\<lparr>kb_inital_seq = ?i, kb_key = reverse_sock_key_no_copy key, kb_cur_seq = 0, kb_len = len,
    kb_func_name = 0, kb_step = DEV_IN, kb_tcp = tcp, kb_ifindex = skb_ifindex (skb_read e skb)\<rparr>"
  have seq: "packet_initial_seq e DEV_IN tcp key s = (Some ?i, ?t)"
    using assms(5,9) by (simp add: packet_initial_seq_def tcp_seq_def Let_def)
  have s': "s' = report_kern_evt e ?p ?t"
    by (simp add: s'_def parse_skb_headers [OF assms(3,4)] key_def [symmetric] seq enum_order_defs)
  have len: "tcp_payload_len e ?p = tcp_payload_len e param"
    using assms(10,11) by (simp add: tcp_payload_len_def)
  have rel: "tcp_relative_seq e ?p = 1"
    by (simp add: relative_seq_eq)
  show ?thesis
    using assms(5-8,12) unfolding s' by (auto simp: report_kern_evt_def len rel bpf_lookup Let_def)
qed

theorem first_packet_recorded_witness:
  "bpf_map_lookup_elem (sock_xmit_map (snd (parse_skb (packet_env 9) 1 True DEV_IN init_state)))
     (reverse_sock_key_no_copy (socket_key write_env 768)) = Some (- 1) \<and>
   length (first_packet_rb (snd (parse_skb (packet_env 9) 1 True DEV_IN init_state))) = 1"
proof -
  let ?hdr = "reverse_sock_key_no_copy (socket_key write_env 768)"
  let ?p = "\<lparr>kb_inital_seq = 0, kb_key = ?hdr, kb_cur_seq = 0, kb_len = 40, kb_func_name = 0,
    kb_step = DEV_IN, kb_tcp = 1036, kb_ifindex = 0\<rparr>"
  have tcp: "packet_tcp (packet_env 9) (skb_read (packet_env 9) 1) = Some (?hdr, 1036, 40)"
    using packet_sample_carries(1) packet_sample(1) [of 9] by (simp add: carries_def)
  have key: "translate_flow DEV_IN ?hdr init_state = ?hdr"
    by (simp add: translate_flow_def init_state_def)
  have flags: "read_u8 (packet_env 9) (1036 + 13) AND 2 = 0"
    by (simp add: read_u8_def probe_read_def packet_env_def mem_of_def packet_bytes_def le_word_def)
  have word: "read_u32 (packet_env 9) 1048 = 0x1850"
    by (simp add: read_u32_def probe_read_def packet_env_def mem_of_def packet_bytes_def upt_rec le_word_def)
  have payload: "tcp_payload_len (packet_env 9) ?p = 20"
    by (simp add: tcp_payload_len_def word)
  have "bpf_map_lookup_elem (sock_xmit_map init_state) ?hdr = None"
    "\<not> bpf_map_full (sock_xmit_map init_state)" "first_packet_rb init_state = []"
    "bpf_map_lookup_elem (sock_key_conn_id_map init_state) (reverse_sock_key_no_copy ?hdr) = None"
    "first_packet_evt_map init_state c \<noteq> None" for c
    by (simp_all add: init_state_def bpf_map_full_def bpf_map_create_def MAX_ENTRIES_def) 
      (simp_all add: bpf_map_lookup_elem_def)
  then show ?thesis
    using first_packet_recorded [OF _ tcp, of init_state, unfolded key, OF _ _ _ _ _ flags, of ?p]
      payload packet_sample(2) by fastforce
qed

end
