(* ===== verification/Tls_Calls.thy ===== *)
theory Tls_Calls
  imports Agent_Invariants
begin

text \<open>
  Calls of the TLS libraries: what a finished \<open>SSL_read\<close>, \<open>SSL_write\<close> or Go \<open>Conn.Read\<close>,
  \<open>Conn.Write\<close> reports and counts, and what it leaves in the tables of running calls.
\<close>

section \<open>OpenSSL\<close>

text \<open>A connection whose protocol is known and that is traced.\<close>

definition classified :: "conn_info_t \<Rightarrow> bool" where
  "classified ci \<longleftrightarrow> protocol ci \<noteq> kProtocolUnset \<and> should_trace_conn ci"

text \<open>A state with one classified connection, for evaluation.\<close>

definition tls_state :: bpf_state where
  "tls_state = init_state\<lparr>conn_info_map := bpf_map_update_elem (bpf_map_create 5) (gen_tgid_fd 0 5)
     (conn_info_zero\<lparr>protocol := kProtocolHTTP\<rparr>) BPF_ANY\<rparr>"

text \<open>A process whose symbol addresses are known, with a memory full of ones.\<close>

definition go_env :: bpf_env where
  "go_env = (env_of 0 [])\<lparr>task_ptr := 1, probe_mem := (\<lambda>a n. replicate n 1)\<rparr>"

definition go_symaddrs :: go_common_symaddrs_t where
  "go_symaddrs = \<lparr>internal_syscallConn = 0, tls_Conn = 0, net_TCPConn = 0, FD_Sysfd_offset = 0,
     tlsConn_conn_offset = 0, syscallConn_conn_offset = 0, g_goid_offset = 0, g_addr_offset = 0\<rparr>"

definition go_state :: bpf_state where
  "go_state = init_state\<lparr>go_common_symaddrs_map :=
     bpf_map_update_elem (bpf_map_create 5) 0 go_symaddrs BPF_ANY\<rparr>"

text \<open>The registers at the return of a library call that returned 100, for evaluation.\<close>

definition sample_ret :: pt_regs where
  "sample_ret = \<lparr>parm1 = 0, parm2 = 0, parm3 = 0, parm4 = 0, parm5 = 0, pt_rc = 100, pt_sp = 0,
     pt_go_regs = []\<rparr>"

lemma scast_up_down [simp]: "(ucast (scast (n :: u32) :: u64) :: u32) = n"
  by (rule bit_word_eqI) (simp add: bit_simps)

lemma unat_ucast_up [simp]: "unat (ucast (n :: u32) :: u64) = unat n"
  by transfer simp

lemma ucast_up_zero [simp]: "(ucast (n :: u32) :: u64) = 0 \<longleftrightarrow> n = 0"
  by (metis unat_ucast_up unat_0 unat_eq_zero)

text \<open>A finished TLS call on a classified connection, before it is stored.\<close>

lemma tls_report_classified:
  assumes "classified ci" and "n \<noteq> 0" and "ssl_data_map s (cur_cpu e) \<noteq> None"
  shows "\<exists>ev s'. process_syscall_data_with_conn_info e args k direct (scast n) sl True True (ci\<lparr>ssl := True\<rparr>) s =
      (ci\<lparr>ssl := True\<rparr>, s') \<and> conn_info_map s' = conn_info_map s \<and> ssl_rb s' = ssl_rb s @ [ev] \<and>
      ke_seq (ks_ke (fst ev)) = ssl_seq_of direct ci \<and> ke_len (ks_ke (fst ev)) = n \<and>
      cs_tgid_fd (ke_conn_id_s (ks_ke (fst ev))) = k \<and>
      take (min (unat n) MAX_MSG_SIZE) (ks_msg (fst ev)) =
        probe_read e (min (unat n) MAX_MSG_SIZE) (da_buf args) \<and>
      (0 \<le> sint sl \<longrightarrow>
        ks_syscall_seq (fst ev) = syscall_seq_of direct ci - sl \<and> ks_syscall_len (fst ev) = sl)"
proof -
  obtain old where old: "ssl_data_map s (cur_cpu e) = Some old"
    using assms(3) by auto
  have ci: "\<not> tries_infer True (ci\<lparr>ssl := True\<rparr>)" "may_report False (ci\<lparr>ssl := True\<rparr>)"
    using assms(1) by (simp_all add: classified_def tries_infer_def may_report_def should_trace_conn_def)
  have "ssl_seq_of direct (ci\<lparr>ssl := True\<rparr>) = ssl_seq_of direct ci"
    "syscall_seq_of direct (ci\<lparr>ssl := True\<rparr>) = syscall_seq_of direct ci"
    by (simp_all add: ssl_seq_of_def syscall_seq_of_def)
  then show ?thesis
    using ci assms(2)
    by (auto simp: process_syscall_data_with_conn_info_cases report_ssl_evt_def report_ssl_buf_eq [OF _ old]
        Let_def fill_ts_def fill_kern_evt_def local_conn_id_s_def
        intro!: take_write_prefix [of "probe_read e _ _", simplified])
qed

text \<open>
  Processing the data is the same in every thread, so it touches no thread's stash: it is a
  sequence of effects of any thread, and the effects of one thread keep the stashes of others.
\<close>

lemma process_ssl_data_stashes: "stashes q (process_ssl_data e ctx pt direct args sl s) = stashes q s"
proof -
  have "q \<noteq> q + 1"
    by simp
  then show ?thesis
    using others.effs [OF process_ssl_data_eff [of "q + 1"]] by (simp add: others_kept_def)
qed

lemma process_ssl_data_args [simp]:
  "bpf_map_lookup_elem (active_ssl_read_args_map (process_ssl_data e ctx pt direct args sl s)) q =
     bpf_map_lookup_elem (active_ssl_read_args_map s) q"
  "bpf_map_lookup_elem (active_ssl_write_args_map (process_ssl_data e ctx pt direct args sl s)) q =
     bpf_map_lookup_elem (active_ssl_write_args_map s) q"
  using process_ssl_data_stashes [of q e ctx pt direct args sl s] by (simp_all add: stashes_def)

text \<open>
  Property C33. Stale arguments of OpenSSL calls: the return programs that read the descriptor from
  the SSL object remove the arguments their entry stashed; the ones that take it from the nested
  system call leave them in the table, so an entry per thread stays behind after the call.
\<close>

theorem nested_ssl_return_keeps_arguments:
  assumes "pid_tgid e = p" "pid_tgid e' = p"
    and "\<not> bpf_map_full (active_ssl_read_args_map s)" "\<not> bpf_map_full (active_ssl_write_args_map s)"
  shows "bpf_map_lookup_elem (active_ssl_read_args_map
      (do_SSL_read_ret e' ctx' (do_SSL_read_entry off e ctx is_ex s))) p \<noteq> None \<and>
    bpf_map_lookup_elem (active_ssl_write_args_map
      (do_SSL_write_ret e' ctx' (do_SSL_write_entry off e ctx is_ex s))) p \<noteq> None \<and>
    bpf_map_lookup_elem (active_ssl_read_args_map
      (do_SSL_read_ret_offset e' ctx' (do_SSL_read_entry_offset off e ctx s))) p = None \<and>
    bpf_map_lookup_elem (active_ssl_write_args_map
      (do_SSL_write_ret_offset e' ctx' (do_SSL_write_entry_offset off e ctx s))) p = None"
proof -
  have new: "bpf_map_lookup_elem (bpf_map_update_elem m p v BPF_ANY) p = Some v"
    if "\<not> bpf_map_full m" for m :: "(u64, data_args) bpf_map" and v
    using that by (auto simp: bpf_lookup)
  show ?thesis
    using assms
    by (auto simp: do_SSL_read_ret_def do_SSL_read_entry_def do_SSL_write_ret_def do_SSL_write_entry_def
        do_SSL_read_ret_offset_def do_SSL_write_ret_offset_def Let_def new bpf_lookup split: option.split)
qed

theorem nested_ssl_return_keeps_arguments_witness:
  "bpf_map_lookup_elem (active_ssl_read_args_map
     (do_SSL_read_ret (env_of 0 []) sample_ret (do_SSL_read_entry \<lparr>off_SSL_ST_RBIO = 16, off_BIO_ST_NUM = 40\<rparr>
       (env_of 0 []) sample_ret False init_state))) 0 \<noteq> None"
proof -
  have e: "pid_tgid (env_of 0 []) = 0"
    by (simp add: env_of_def)
  have "\<not> bpf_map_full (active_ssl_read_args_map init_state)"
    "\<not> bpf_map_full (active_ssl_write_args_map init_state)"
    by (simp_all add: init_state_def bpf_map_full_def bpf_map_create_def MAX_ENTRIES_def)
  from nested_ssl_return_keeps_arguments [OF e e this] show ?thesis
    by blast
qed

section \<open>Go\<close>

lemma get_goid_cong: "go_common_symaddrs_map s' = go_common_symaddrs_map s \<Longrightarrow> get_goid e s' = get_goid e s"
  by (simp add: get_goid_def)

text \<open>What the entry program leaves for its goroutine: both records, or nothing.\<close>

lemma tls_conn_entry_records:
  assumes "get_goid e s \<noteq> 0" and "\<not> bpf_map_full (active_tls_conn_op_map s)"
  defines "g \<equiv> \<lparr>tg_tgid = current_tgid e, tg_goid = get_goid e s\<rparr>"
  shows "go_common_symaddrs_map (tls_conn_entry e ctx c b s) = go_common_symaddrs_map s"
    and "bpf_map_lookup_elem (active_tls_conn_op_map (tls_conn_entry e ctx c b s)) g \<noteq> None \<or>
      active_tls_conn_op_map (tls_conn_entry e ctx c b s) = active_tls_conn_op_map s \<and>
      go_ssl_user_space_call_map (tls_conn_entry e ctx c b s) = go_ssl_user_space_call_map s"
  using assms(1,2)
  by (auto simp: tls_conn_entry_def go_regabi_regs_def g_def Let_def bpf_lookup split: option.split)

text \<open>
  Property C34. A Go TLS call leaves nothing behind: when a goroutine without running call enters
  \<open>Read\<close> or \<open>Write\<close> and returns from it, neither the table of running calls nor the table of
  nested system calls has an entry of the goroutine, whether the call was recorded, reported or
  ignored.
\<close>

theorem go_tls_call_leaves_nothing:
  fixes e s
  defines "g \<equiv> \<lparr>tg_tgid = current_tgid e, tg_goid = get_goid e s\<rparr>"
  assumes "get_goid e s \<noteq> 0" and "current_tgid e' = current_tgid e" "get_goid e' s = get_goid e s"
    and "\<not> bpf_map_full (active_tls_conn_op_map s)"
    and "bpf_map_lookup_elem (active_tls_conn_op_map s) g = None"
    and "bpf_map_lookup_elem (go_ssl_user_space_call_map s) g = None"
  shows "let r = probe_return_tls_conn_read e' ctx' (probe_entry_tls_conn_read e ctx s);
      w = probe_return_tls_conn_write e' ctx' (probe_entry_tls_conn_write e ctx s) in
    bpf_map_lookup_elem (active_tls_conn_op_map r) g = None \<and>
    bpf_map_lookup_elem (go_ssl_user_space_call_map r) g = None \<and>
    bpf_map_lookup_elem (active_tls_conn_op_map w) g = None \<and>
    bpf_map_lookup_elem (go_ssl_user_space_call_map w) g = None"
proof -
  have goid: "get_goid e' (tls_conn_entry e ctx c b s) = get_goid e s" for c b
    using get_goid_cong [OF tls_conn_entry_records(1) [OF assms(2,5)]] assms(4) by simp
  have rec: "bpf_map_lookup_elem (active_tls_conn_op_map (tls_conn_entry e ctx c b s)) g \<noteq> None \<or>
      bpf_map_lookup_elem (active_tls_conn_op_map (tls_conn_entry e ctx c b s)) g = None \<and>
      bpf_map_lookup_elem (go_ssl_user_space_call_map (tls_conn_entry e ctx c b s)) g = None" for c b
    using tls_conn_entry_records(2) [OF assms(2,5)] assms(6,7) unfolding g_def by metis
  show ?thesis
    using rec [of Read_c_loc Read_b_loc] rec [of Write_c_loc Write_b_loc] assms(2,3)
    by (auto simp: probe_return_tls_conn_read_def probe_return_tls_conn_write_def
        probe_entry_tls_conn_read_def probe_entry_tls_conn_write_def goid close_tls_op_def Let_def
        bpf_lookup g_def split: option.split)
qed

lemma le_word_eight: "256 ^ 8 \<le> (2 :: nat) ^ LENGTH(64)"
  by simp

lemma go_sample_goid: "get_goid go_env go_state \<noteq> 0"
proof -
  have "probe_read go_env 8 a = replicate 8 1" for a
    by (simp add: go_env_def probe_read_def)
  then have r: "read_u64 go_env a = le_word (replicate 8 1)" for a
    by (simp add: read_u64_def)
  have "bpf_map_lookup_elem (go_common_symaddrs_map go_state) (current_tgid go_env) = Some go_symaddrs"
    by (simp add: go_state_def bpf_lookup bpf_map_full_def current_tgid_def go_env_def env_of_def)
      (simp add: bpf_map_create_def)
  then have "get_goid go_env go_state = le_word (replicate 8 1)"
    by (simp add: get_goid_def r) (simp add: go_env_def)
  moreover have "replicate 8 (1 :: u8) = 1 # replicate 7 1"
    using replicate_Suc [of 7 "1 :: u8"] by simp
  then have "le_nat (replicate 8 1) \<noteq> 0"
    by simp
  then have "le_word (replicate 8 1) \<noteq> (0 :: u64)"
    using unat_le_word [where 'a = 64, of "replicate 8 1"] by (metis length_replicate le_word_eight unat_0)
  ultimately show ?thesis by simp
qed

theorem go_tls_call_leaves_nothing_witness:
  "bpf_map_lookup_elem (go_ssl_user_space_call_map
     (probe_return_tls_conn_read go_env sample_ret (probe_entry_tls_conn_read go_env sample_ret go_state)))
     \<lparr>tg_tgid = current_tgid go_env, tg_goid = get_goid go_env go_state\<rparr> = None"
proof -
  have "\<not> bpf_map_full (active_tls_conn_op_map go_state)"
    "bpf_map_lookup_elem (active_tls_conn_op_map go_state) k = None"
    "bpf_map_lookup_elem (go_ssl_user_space_call_map go_state) k = None" for k
    by (simp_all add: go_state_def init_state_def bpf_map_full_def bpf_map_create_def MAX_ENTRIES_def
        bpf_map_lookup_elem_def)
  from go_tls_call_leaves_nothing [OF go_sample_goid refl refl this] show ?thesis
    by (simp add: Let_def)
qed

end
