(* ===== verification/Tls_Nested.thy ===== *)
theory Tls_Nested
  imports Tls_Calls Call_Counters
begin

text \<open>
  A whole OpenSSL call with the system calls it makes: the entry program opens a record, the exit
  program of every system call that the library makes adds its bytes to the record, and the return
  program submits the TLS event. The event then says which bytes of the encrypted stream carried
  the plaintext. Programs of other threads may run between these runs.
\<close>

section \<open>Specification\<close>

text \<open>The two programs of a library call, by direction.\<close>

definition ssl_entry ::
    "traffic_direction_t \<Rightarrow> ssl_offsets \<Rightarrow> bpf_env \<Rightarrow> pt_regs \<Rightarrow> bool \<Rightarrow> bpf_state \<Rightarrow> bpf_state" where
  "ssl_entry direct off e ctx is_ex s =
     (if direct = kIngress then do_SSL_read_entry off e ctx is_ex s else do_SSL_write_entry off e ctx is_ex s)"

definition ssl_return :: "traffic_direction_t \<Rightarrow> bpf_env \<Rightarrow> pt_regs \<Rightarrow> bpf_state \<Rightarrow> bpf_state" where
  "ssl_return direct e ctx s =
     (if direct = kIngress then do_SSL_read_ret e ctx s else do_SSL_write_ret e ctx s)"

definition ssl_args :: "traffic_direction_t \<Rightarrow> bpf_state \<Rightarrow> (u64, data_args) bpf_map" where
  "ssl_args direct s = (if direct = kIngress then active_ssl_read_args_map s else active_ssl_write_args_map s)"

text \<open>The exits of the system calls inside it, and the calls considered: of the thread, on the descriptor.\<close>

fun nested_calls ::
    "traffic_direction_t \<Rightarrow> (bpf_env \<times> data_args \<times> u64) list \<Rightarrow> bpf_state \<Rightarrow> bpf_state" where
  "nested_calls direct [] s = s"
| "nested_calls direct ((e, args, n) # calls) s =
     nested_calls direct calls (finish_data e direct False n args s)"

definition nested_ok :: "u64 \<Rightarrow> u32 \<Rightarrow> bpf_env \<times> data_args \<times> u64 \<Rightarrow> bool" where
  "nested_ok p fd = (\<lambda>(e, args, n). pid_tgid e = p \<and> da_fd args = fd \<and> 0 < sint n \<and> 0 < sint (ucast n :: u32))"

definition nested_bytes :: "(bpf_env \<times> data_args \<times> u64) list \<Rightarrow> u32" where
  "nested_bytes calls = sum_list (map (\<lambda>(e, args, n). ucast n) calls)"

text \<open>
  The entry of a connection after system calls that moved \<open>len\<close> bytes in one direction: only the
  byte counter of that direction has moved.
\<close>

definition moved :: "traffic_direction_t \<Rightarrow> u32 \<Rightarrow> conn_info_t \<Rightarrow> conn_info_t \<Rightarrow> bool" where
  "moved direct len ci ci' \<longleftrightarrow> conn_evolves ci ci' \<and>
     (\<forall>d. syscall_seq_of d ci' = syscall_seq_of d ci + (if d = direct then len else 0) \<and> ssl_seq_of d ci' = ssl_seq_of d ci)"

text \<open>
  A library call in progress in thread \<open>p\<close>: its record has counted \<open>len\<close> bytes and names the
  descriptor or none yet, and the entry of the connection has counted them as well.
\<close>

definition in_ssl_call ::
    "traffic_direction_t \<Rightarrow> u64 \<Rightarrow> u32 \<Rightarrow> u64 \<Rightarrow> conn_info_t \<Rightarrow> u32 \<Rightarrow> u32 set \<Rightarrow> bpf_state \<Rightarrow> bool" where
  "in_ssl_call direct p fd k ci len fds s \<longleftrightarrow>
     (\<exists>ns. bpf_map_lookup_elem (ssl_user_space_call_map s) p = Some ns \<and> ns_fd ns \<in> fds \<and> ns_syscall_len ns = len) \<and>
     (\<exists>ci'. bpf_map_lookup_elem (conn_info_map s) k = Some ci' \<and> moved direct len ci ci') \<and>
     control_value s kEnableFilterByPid = None \<and> buffers_ok s"

text \<open>A connection whose plaintext is reported, in a state where no process filter is on.\<close>

definition tls_conn :: "u64 \<Rightarrow> conn_info_t \<Rightarrow> bpf_state \<Rightarrow> bool" where
  "tls_conn k ci s \<longleftrightarrow> bpf_map_lookup_elem (conn_info_map s) k = Some ci \<and> classified ci \<and>
     control_value s kEnableFilterByPid = None \<and> buffers_ok s"

text \<open>
  An event on \<open>m\<close> bytes of plaintext and \<open>len\<close> bytes of the encrypted stream of a connection: both
  ranges start where the counters of the connection stand. The entry afterwards: the counters of
  that direction stand behind both ranges, the ones of the other direction where they stood.
\<close>

definition tls_event ::
    "traffic_direction_t \<Rightarrow> u64 \<Rightarrow> conn_info_t \<Rightarrow> u32 \<Rightarrow> u32 \<Rightarrow> kern_evt_ssl_data \<Rightarrow> bool" where
  "tls_event direct k ci m len ev \<longleftrightarrow>
     ke_seq (ks_ke ev) = ssl_seq_of direct ci \<and> ke_len (ks_ke ev) = m \<and>
     ks_syscall_seq ev = syscall_seq_of direct ci \<and> ks_syscall_len ev = len \<and>
     cs_tgid_fd (ke_conn_id_s (ks_ke ev)) = k"

definition tls_advanced :: "traffic_direction_t \<Rightarrow> conn_info_t \<Rightarrow> u32 \<Rightarrow> u32 \<Rightarrow> conn_info_t \<Rightarrow> bool" where
  "tls_advanced direct ci m len ci' \<longleftrightarrow> ssl ci' \<and> conn_evolves ci ci' \<and>
     (\<forall>d. ssl_seq_of d ci' = ssl_seq_of d ci + (if d = direct then m else 0) \<and>
        syscall_seq_of d ci' = syscall_seq_of d ci + (if d = direct then len else 0))"

text \<open>The maps in which the library calls keep their records, and room in them.\<close>

definition tls_maps ::
    "bpf_state \<Rightarrow> (u64, nested_syscall_fd_t) bpf_map \<times> (u64, data_args) bpf_map \<times> (u64, data_args) bpf_map \<times>
     (tgid_goid_t, go_tls_conn_args) bpf_map \<times> (tgid_goid_t, nested_syscall_fd_t) bpf_map" where
  "tls_maps s = (ssl_user_space_call_map s, active_ssl_read_args_map s, active_ssl_write_args_map s,
     active_tls_conn_op_map s, go_ssl_user_space_call_map s)"

definition tls_room :: "nat \<Rightarrow> bpf_state \<Rightarrow> bool" where
  "tls_room n s \<longleftrightarrow> (case tls_maps s of (user, rd, wr, conn_op, go_user) \<Rightarrow>
     bpf_map_room n user \<and> bpf_map_room n rd \<and> bpf_map_room n wr \<and> bpf_map_room n conn_op \<and> bpf_map_room n go_user)"

text \<open>
  A whole library call: the runs of the entry and of the return program, the exits of its system
  calls and the count it returns; and the calls considered, in which the descriptor in the SSL
  object is the socket or not known yet.
\<close>

record ssl_call =
  sc_entry :: bpf_env
  sc_entry_regs :: pt_regs
  sc_is_ex :: bool
  sc_nested :: "(bpf_env \<times> data_args \<times> u64) list"
  sc_return :: bpf_env
  sc_return_regs :: pt_regs
  sc_count :: u32

definition ssl_call_run :: "traffic_direction_t \<Rightarrow> ssl_offsets \<Rightarrow> ssl_call \<Rightarrow> bpf_state \<Rightarrow> bpf_state" where
  "ssl_call_run direct off c s = ssl_return direct (sc_return c) (sc_return_regs c)
     (nested_calls direct (sc_nested c) (ssl_entry direct off (sc_entry c) (sc_entry_regs c) (sc_is_ex c) s))"

definition ssl_call_ok :: "ssl_offsets \<Rightarrow> u64 \<Rightarrow> u32 \<Rightarrow> ssl_call \<Rightarrow> bool" where
  "ssl_call_ok off p fd c \<longleftrightarrow>
     pid_tgid (sc_entry c) = p \<and> pid_tgid (sc_return c) = p \<and>
     get_fd off (sc_entry c) (parm1 (sc_entry_regs c)) \<in> {kInvalidFD, fd} \<and>
     sc_nested c \<noteq> [] \<and> list_all (nested_ok p fd) (sc_nested c) \<and> 0 \<le> sint (nested_bytes (sc_nested c)) \<and>
     ssl_bytes_count (sc_return c) (sc_return_regs c)
       (data_args_zero\<lparr>da_ssl_ex_len := if sc_is_ex c then parm4 (sc_entry_regs c) else 0\<rparr>) = Some (sc_count c) \<and>
     sc_count c \<noteq> 0"

text \<open>A sample call that reads 100 bytes through two system calls, for evaluation.\<close>

definition sample_offsets :: ssl_offsets where
  "sample_offsets = \<lparr>off_SSL_ST_RBIO = 16, off_BIO_ST_NUM = 40\<rparr>"

definition sample_ssl_call :: ssl_call where
  "sample_ssl_call = \<lparr>sc_entry = env_of 0 [], sc_entry_regs = sample_ret, sc_is_ex = False,
     sc_nested = [(env_of 0 [], data_args_zero\<lparr>da_fd := 5\<rparr>, 29), (env_of 0 [], data_args_zero\<lparr>da_fd := 5\<rparr>, 100)],
     sc_return = env_of 0 [], sc_return_regs = sample_ret, sc_count = 100\<rparr>"

text \<open>
  The same system calls with programs of other threads in between: \<open>mine\<close> are the threads of the call, and
  the other threads leave the entry of connection \<open>k\<close> as it is (they work on other connections).
\<close>

inductive nested_run ::
    "traffic_direction_t \<Rightarrow> (bpf_env \<times> data_args \<times> u64 \<Rightarrow> bool) \<Rightarrow> u64 set \<Rightarrow> u64 \<Rightarrow>
     (bpf_env \<times> data_args \<times> u64) list \<Rightarrow> bpf_state \<Rightarrow> bpf_state \<Rightarrow> bool"
  for direct ok mine k where
  run_start: "nested_run direct ok mine k [] s s"
| run_call: "nested_run direct ok mine k calls s t \<Longrightarrow> ok (e, args, n) \<Longrightarrow>
    nested_run direct ok mine k (calls @ [(e, args, n)]) s (finish_data e direct False n args t)"
| run_other: "nested_run direct ok mine k calls s t \<Longrightarrow> prog_step q t u \<Longrightarrow> q \<notin> mine \<Longrightarrow>
    bpf_map_lookup_elem (conn_info_map u) k = bpf_map_lookup_elem (conn_info_map t) k \<Longrightarrow>
    nested_run direct ok mine k calls s u"

text \<open>The sample call, during which another thread enters a system call of its own.\<close>

definition sample_interleaved :: bpf_state where
  "sample_interleaved = finish_data (env_of 0 []) kIngress False 100 (data_args_zero\<lparr>da_fd := 5\<rparr>)
     (fentry__sys_close ((env_of 0 [])\<lparr>pid_tgid := 1\<rparr>) sample_ret
       (finish_data (env_of 0 []) kIngress False 29 (data_args_zero\<lparr>da_fd := 5\<rparr>)
         (ssl_entry kIngress sample_offsets (env_of 0 []) sample_ret False tls_state)))"

section \<open>Lemmas\<close>

lemma classified_evolves: "classified ci \<Longrightarrow> conn_evolves ci ci' \<Longrightarrow> classified ci'"
  by (auto simp: classified_def conn_evolves_def unclassified_def should_trace_conn_def)

lemma moved_refl: "moved direct 0 ci ci"
  by (simp add: moved_def)

lemma moved_step:
  assumes "moved direct len ci ci'" and "conn_evolves ci' c"
    and "\<And>d. syscall_seq_of d c = syscall_seq_of d ci'" and "\<And>d. ssl_seq_of d c = ssl_seq_of d ci'"
  shows "moved direct (len + ucast n) ci (add_bytes direct n c)"
  using assms conn_evolves_trans [of ci ci' c]
  by (simp add: moved_def syscall_seq_add_bytes add.assoc)

lemma process_data_stashes: "stashes q (process_syscall_data e args pt direct n b s) = stashes q s"
proof -
  have "q \<noteq> q + 1"
    by simp
  then show ?thesis
    using others.effs [OF process_syscall_data_eff [of "q + 1"]] by (simp add: others_kept_def)
qed

lemma stashes_ssl_args:
  "stashes p s' = stashes p s \<Longrightarrow> bpf_map_lookup_elem (ssl_args d s') p = bpf_map_lookup_elem (ssl_args d s) p"
  by (simp add: stashes_def ssl_args_def)

lemma ssl_bytes_count_cong:
  "da_ssl_ex_len a = da_ssl_ex_len b \<Longrightarrow> ssl_bytes_count e ctx a = ssl_bytes_count e ctx b"
  by (simp add: ssl_bytes_count_def Let_def)

lemma update_nested_fd:
  "fd \<noteq> kInvalidFD \<Longrightarrow> ns_fd ns \<in> {kInvalidFD, fd} \<Longrightarrow> 0 < sint n \<Longrightarrow>
     ns_fd (update_fd_and_syscall_len_to_uprobe fd n ns) = fd \<and>
     ns_syscall_len (update_fd_and_syscall_len_to_uprobe fd n ns) = ns_syscall_len ns + n"
  by (auto simp: update_fd_and_syscall_len_to_uprobe_def Let_def)

lemma propagate_nested:
  assumes "propagate_fd_to_uprobe e p fd n s = (b, s')"
    and "bpf_map_lookup_elem (ssl_user_space_call_map s) p = Some ns"
  shows "bpf_map_lookup_elem (ssl_user_space_call_map s') p = Some (update_fd_and_syscall_len_to_uprobe fd n ns)"
    and "conn_info_map s' = conn_info_map s" and "control_values s' = control_values s"
    and "ssl_args d s' = ssl_args d s"
  using assms
  by (auto simp: propagate_fd_to_uprobe_def ssl_args_def Let_def bpf_lookup split: option.splits if_splits)

lemma nested_call_step:
  assumes "in_ssl_call direct p fd k ci len {kInvalidFD, fd} s" and "nested_ok p fd (e, args, n)"
    and "k = gen_tgid_fd (ucast (drop_bit 32 p)) fd" and "fd \<noteq> kInvalidFD"
  shows "in_ssl_call direct p fd k ci (len + ucast n) {fd} (finish_data e direct False n args s)"
    and "bpf_map_lookup_elem (ssl_args direct (finish_data e direct False n args s)) p =
      bpf_map_lookup_elem (ssl_args direct s) p"
proof -
  let ?a = "args\<lparr>da_end_ts := ktime e KT_exit\<rparr>"
  let ?s1 = "stash_write direct p ?a s" and ?s' = "finish_data e direct False n args s"
  have ok: "pid_tgid e = p" "da_fd args = fd" "0 < sint n" "0 < sint (ucast n :: u32)"
    using assms(2) by (simp_all add: nested_ok_def)
  obtain ns ci' where st: "bpf_map_lookup_elem (ssl_user_space_call_map s) p = Some ns" "ns_fd ns \<in> {kInvalidFD, fd}"
    "ns_syscall_len ns = len" "bpf_map_lookup_elem (conn_info_map s) k = Some ci'" "moved direct len ci ci'"
    "control_value s kEnableFilterByPid = None" "buffers_ok s"
    using assms(1) unfolding in_ssl_call_def by blast
  have s1: "ssl_user_space_call_map ?s1 = ssl_user_space_call_map s" "conn_info_map ?s1 = conn_info_map s"
    "control_values ?s1 = control_values s" "ssl_args direct ?s1 = ssl_args direct s"
    by (simp_all add: stash_write_def ssl_args_def)
  obtain b s2 where pr: "propagate_fd_to_uprobe e p fd (ucast n) ?s1 = (b, s2)"
    by force
  note s2 = propagate_nested [OF pr, unfolded s1, OF st(1)]
  have s': "?s' = process_syscall_data e ?a p direct n b s2"
    using ok(1,2) pr by (simp add: finish_data_def Let_def)
  have cv: "control_value s2 kEnableFilterByPid = None"
    using st(6) s2(3) by (simp add: control_value_def)
  have look: "bpf_map_lookup_elem (conn_info_map s2) k = Some ci'"
    using st(4) s2(2) by simp
  have match: "fst (match_trace_tgid e (ucast (drop_bit 32 p)) s2) \<noteq> TARGET_TGID_UNMATCHED"
    by (simp add: match_trace_tgid_all [OF cv])
  have k: "k = gen_tgid_fd (ucast (drop_bit 32 p)) (da_fd ?a)"
    using assms(3) ok(2) by simp
  obtain c where c: "bpf_map_lookup_elem (conn_info_map ?s') k = Some (add_bytes direct n c)" "conn_evolves ci' c"
    "\<And>d. syscall_seq_of d c = syscall_seq_of d ci'" "\<And>d. ssl_seq_of d c = ssl_seq_of d ci'"
    unfolding s' using data_call_entry [OF look k match ok(3)] by metis
  have stash: "stashes p ?s' = stashes p s2"
    unfolding s' by (rule process_data_stashes)
  then have user: "bpf_map_lookup_elem (ssl_user_space_call_map ?s') p =
      Some (update_fd_and_syscall_len_to_uprobe fd (ucast n) ns)"
    using s2(1) by (simp add: stashes_def)
  have "control_value ?s' kEnableFilterByPid = None"
    using config.effs [OF process_syscall_data_eff] cv by (simp add: s' control_value_def config_kept_def)
  moreover have "buffers_ok ?s'"
    by (rule buffers.effs [OF finish_data_eff [OF ok(1)] st(7)])
  ultimately show "in_ssl_call direct p fd k ci (len + ucast n) {fd} ?s'"
    using user update_nested_fd [OF assms(4) st(2) ok(4)] c(1) st(3) moved_step [OF st(5) c(2-4)]
    by (simp add: in_ssl_call_def)
  show "bpf_map_lookup_elem (ssl_args direct ?s') p = bpf_map_lookup_elem (ssl_args direct s) p"
    using stashes_ssl_args [OF stash] s2(4) s1(4) by simp
qed

lemma report_ssl_rb [simp]:
  "ssl_rb (report_syscall_buf e q c n st ts d b f ph lh s) = ssl_rb s"
  "ssl_rb (report_syscall_buf_without_data e q c n st ts d f s) = ssl_rb s"
  by (simp_all add: report_syscall_buf_def report_syscall_buf_without_data_def Let_def split: option.split prod.split)

lemma process_data_conn_ssl_rb:
  assumes "process_syscall_data_with_conn_info e args k direct n sl False with_data ci s = (ci', s')"
  shows "ssl_rb s' = ssl_rb s"
  using assms [unfolded process_syscall_data_with_conn_info_cases report_syscall_evt_def]
  by (auto split: if_splits)

lemma process_data_ssl_rb: "ssl_rb (process_syscall_data e args pt direct n b s) = ssl_rb s"
proof -
  let ?tgid = "ucast (drop_bit 32 pt) :: u32" and ?k = "gen_tgid_fd (ucast (drop_bit 32 pt)) (da_fd args)"
  obtain m s0 where m: "match_trace_tgid e ?tgid s = (m, s0)"
    by force
  then have s0: "ssl_rb s0 = ssl_rb s"
    by (auto simp: match_trace_tgid_def remember_pid_def Let_def split: if_splits option.splits)
  obtain found s1 where f: "find_or_create_conn e args ?k direct n s0 = (found, s1)"
    by force
  have "ssl_rb s1 = ssl_rb s0"
    using f by (auto simp: find_or_create_conn_def create_conn_info_in_data_syscall_def create_conn_info_def Let_def
        split: option.splits prod.splits if_splits)
  then show ?thesis
    using s0 m f process_data_conn_ssl_rb
    by (auto simp: process_syscall_data_def store_conn_info_def Let_def split: option.split prod.split)
qed

lemma nested_calls_ssl_rb: "ssl_rb (nested_calls direct calls s) = ssl_rb s"
proof (induction calls arbitrary: s)
  case (Cons c calls)
  obtain e args n where c: "c = (e, args, n)"
    by (metis prod_cases3)
  have "ssl_rb (finish_data e direct False n args s) = ssl_rb s"
    by (auto simp: finish_data_def stash_write_def propagate_fd_to_uprobe_def process_data_ssl_rb Let_def
        split: option.split prod.split)
  then show ?case
    by (simp add: c Cons.IH)
qed simp

lemma in_ssl_call_mono: "in_ssl_call direct p fd k ci len fds s \<Longrightarrow> fds \<subseteq> fds' \<Longrightarrow>
    in_ssl_call direct p fd k ci len fds' s"
  by (auto simp: in_ssl_call_def)

lemma nested_calls_run:
  assumes "nested_run direct ok mine k calls s t" and "list_all ok calls'"
  shows "nested_run direct ok mine k (calls @ calls') s (nested_calls direct calls' t)"
  using assms
proof (induction calls' arbitrary: calls t)
  case (Cons c calls')
  obtain e args n where c: "c = (e, args, n)"
    by (metis prod_cases3)
  have "nested_run direct ok mine k (calls @ [(e, args, n)]) s (finish_data e direct False n args t)"
    using run_call [OF Cons.prems(1)] Cons.prems(2) c by simp
  from Cons.IH [OF this] Cons.prems(2) show ?case
    by (simp add: c)
qed simp

lemma nested_bytes_snoc [simp]: "nested_bytes (calls @ [(e, args, n)]) = nested_bytes calls + ucast n"
  by (simp add: nested_bytes_def)

text \<open>A program of another thread does not disturb a call in progress.\<close>

lemma in_ssl_call_stable:
  assumes "in_ssl_call direct p fd k ci len fds s" and "prog_step q s s'" and "q \<noteq> p"
    and "bpf_map_lookup_elem (conn_info_map s') k = bpf_map_lookup_elem (conn_info_map s) k"
  shows "in_ssl_call direct p fd k ci len fds s'"
    and "bpf_map_lookup_elem (ssl_args d s') p = bpf_map_lookup_elem (ssl_args d s) p"
proof -
  have st: "stashes p s' = stashes p s"
    using others.program [OF assms(2)] assms(3) by (simp add: others_kept_def)
  then show "bpf_map_lookup_elem (ssl_args d s') p = bpf_map_lookup_elem (ssl_args d s) p"
    by (rule stashes_ssl_args)
  have "control_values s' = control_values s"
    using config.program [OF assms(2)] by (simp add: config_kept_def)
  moreover have "buffers_ok s \<Longrightarrow> buffers_ok s'"
    by (rule buffers.effs [OF prog_step_eff [OF assms(2)]])
  ultimately show "in_ssl_call direct p fd k ci len fds s'"
    using assms(1,4) st by (auto simp: in_ssl_call_def stashes_def control_value_def)
qed

lemma nested_run_record:
  assumes "nested_run direct (nested_ok p fd) {p} k calls s t"
    and "k = gen_tgid_fd (ucast (drop_bit 32 p)) fd" and "fd \<noteq> kInvalidFD"
    and "in_ssl_call direct p fd k ci 0 {kInvalidFD, fd} s"
  shows "in_ssl_call direct p fd k ci (nested_bytes calls) (if calls = [] then {kInvalidFD, fd} else {fd}) t \<and>
    bpf_map_lookup_elem (ssl_args direct t) p = bpf_map_lookup_elem (ssl_args direct s) p"
  using assms(1,4)
proof (induction rule: nested_run.induct)
  case (run_start s)
  then show ?case
    by (simp add: nested_bytes_def)
next
  case (run_call calls s t e args n)
  then have "in_ssl_call direct p fd k ci (nested_bytes calls) {kInvalidFD, fd} t"
    by (auto intro: in_ssl_call_mono split: if_splits)
  from nested_call_step [OF this run_call.hyps(2) assms(2,3)] run_call.IH [OF run_call.prems] show ?case
    by simp
next
  case (run_other calls s t q u)
  have ih: "in_ssl_call direct p fd k ci (nested_bytes calls) (if calls = [] then {kInvalidFD, fd} else {fd}) t"
    "bpf_map_lookup_elem (ssl_args direct t) p = bpf_map_lookup_elem (ssl_args direct s) p"
    using run_other.IH [OF run_other.prems] by blast+
  then show ?case
    using in_ssl_call_stable [OF ih(1) run_other.hyps(2) _ run_other.hyps(4)] run_other.hyps(3) by simp
qed

lemma update_any_lookup:
  "\<not> bpf_map_full m \<Longrightarrow> bpf_map_lookup_elem (bpf_map_update_elem m k v BPF_ANY) k = Some v"
  by (auto simp: bpf_lookup)

lemma ssl_entry_record:
  fixes direct off e ctx is_ex s
  defines "s' \<equiv> ssl_entry direct off e ctx is_ex s"
  assumes "pid_tgid e = p" and "\<not> bpf_map_full (ssl_user_space_call_map s)" and "\<not> bpf_map_full (ssl_args direct s)"
    and "get_fd off e (parm1 ctx) \<in> {kInvalidFD, fd}"
    and "bpf_map_lookup_elem (conn_info_map s) k = Some ci"
    and "control_value s kEnableFilterByPid = None" and "buffers_ok s"
  shows "in_ssl_call direct p fd k ci 0 {kInvalidFD, fd} s'"
    and "\<exists>args. bpf_map_lookup_elem (ssl_args direct s') p = Some args \<and>
      da_ssl_ex_len args = (if is_ex then parm4 ctx else 0) \<and> da_buf args = parm2 ctx"
proof -
  have "buffers_ok s'"
    using buffers.effs [OF ssl_entry_eff(3) [OF assms(2)] assms(8)]
      buffers.effs [OF ssl_entry_eff(4) [OF assms(2)] assms(8)] by (simp add: s'_def ssl_entry_def)
  moreover have "conn_info_map s' = conn_info_map s" "control_values s' = control_values s"
    by (simp_all add: s'_def ssl_entry_def do_SSL_read_entry_def do_SSL_write_entry_def Let_def)
  moreover have "bpf_map_lookup_elem (ssl_user_space_call_map s') p =
      Some \<lparr>ns_fd = get_fd off e (parm1 ctx), ns_mismatched_fds = False, ns_syscall_len = 0\<rparr>"
    using assms(2) update_any_lookup [OF assms(3)]
    by (simp add: s'_def ssl_entry_def do_SSL_read_entry_def do_SSL_write_entry_def Let_def)
  ultimately show "in_ssl_call direct p fd k ci 0 {kInvalidFD, fd} s'"
    using assms(5-7) by (simp add: in_ssl_call_def control_value_def moved_refl)
  show "\<exists>args. bpf_map_lookup_elem (ssl_args direct s') p = Some args \<and>
      da_ssl_ex_len args = (if is_ex then parm4 ctx else 0) \<and> da_buf args = parm2 ctx"
    using assms(2,4)
    by (cases direct) (simp_all add: update_any_lookup s'_def ssl_entry_def ssl_args_def do_SSL_read_entry_def
        do_SSL_write_entry_def data_args_zero_def Let_def)
qed

lemma process_ssl_data_ring:
  assumes "ssl_bytes_count e ctx a = Some m" and "k = gen_tgid_fd (ucast (drop_bit 32 p)) (da_fd a)"
    and "bpf_map_lookup_elem (conn_info_map u) k = Some ci"
    and "process_syscall_data_with_conn_info e a k direct (scast m) len True True (ci\<lparr>ssl := True\<rparr>) u = (ci', s')"
  shows "ssl_rb (process_ssl_data e ctx p direct a len u) = ssl_rb s'"
    and "conn_info_map (process_ssl_data e ctx p direct a len u) =
      bpf_map_store (conn_info_map s') k (add_ssl_bytes direct (scast m) ci')"
  using assms by (simp_all add: process_ssl_data_def Let_def)

lemma tls_advanced_count:
  assumes "moved direct len ci ci'"
  shows "tls_advanced direct ci m len (add_ssl_bytes direct (scast m) (ci'\<lparr>ssl := True\<rparr>))"
proof -
  let ?c = "add_ssl_bytes direct (scast m) (ci'\<lparr>ssl := True\<rparr>)"
  have "conn_evolves ci' ?c"
    by (simp add: conn_evolves_def same_conn_def add_ssl_bytes_def)
  moreover have "ssl_seq_of d ?c = ssl_seq_of d ci' + (if d = direct then m else 0)" for d
    by (cases d; cases direct) (simp_all add: ssl_seq_of_def add_ssl_bytes_def ucast_add_down)
  moreover have "syscall_seq_of d ?c = syscall_seq_of d ci'" for d
    by (simp add: syscall_seq_of_def add_ssl_bytes_def)
  ultimately show ?thesis
    using assms conn_evolves_trans [of ci ci' ?c] by (simp add: tls_advanced_def moved_def add_ssl_bytes_def)
qed

lemma ssl_return_event:
  assumes "in_ssl_call direct p fd k ci len {fd} s" and "classified ci"
    and "k = gen_tgid_fd (ucast (drop_bit 32 p)) fd" and "0 \<le> sint len" and "pid_tgid e = p"
    and "bpf_map_lookup_elem (ssl_args direct s) p = Some args" and "ssl_bytes_count e ctx args = Some m" and "m \<noteq> 0"
  shows "\<exists>ev n ci'. ssl_rb (ssl_return direct e ctx s) = ssl_rb s @ [(ev, n)] \<and> tls_event direct k ci m len ev \<and>
    take (min (unat m) MAX_MSG_SIZE) (ks_msg ev) = probe_read e (min (unat m) MAX_MSG_SIZE) (da_buf args) \<and>
    tls_conn k ci' (ssl_return direct e ctx s) \<and> tls_advanced direct ci m len ci'"
proof -
  let ?a = "args\<lparr>da_end_ts := ktime e KT_exit, da_fd := fd\<rparr>"
  obtain ns ci' where st: "bpf_map_lookup_elem (ssl_user_space_call_map s) p = Some ns" "ns_fd ns = fd"
    "ns_syscall_len ns = len" "bpf_map_lookup_elem (conn_info_map s) k = Some ci'" "moved direct len ci ci'"
    "buffers_ok s" "control_value s kEnableFilterByPid = None"
    using assms(1) unfolding in_ssl_call_def by blast
  then have mv: "conn_evolves ci ci'" "syscall_seq_of direct ci' = syscall_seq_of direct ci + len"
    "ssl_seq_of direct ci' = ssl_seq_of direct ci"
    by (simp_all add: moved_def)
  let ?t = "s\<lparr>ssl_user_space_call_map := bpf_map_delete_elem (ssl_user_space_call_map s) p\<rparr>"
  let ?u = "if direct = kIngress
    then ?t\<lparr>active_ssl_read_args_map := bpf_map_store (active_ssl_read_args_map s) p ?a\<rparr>
    else ?t\<lparr>active_ssl_write_args_map := bpf_map_store (active_ssl_write_args_map s) p ?a\<rparr>"
  have ret: "ssl_return direct e ctx s = process_ssl_data e ctx p direct ?a len ?u"
    using st(1-3) assms(5,6)
    by (cases direct) (simp_all add: ssl_return_def ssl_args_def do_SSL_read_ret_def do_SSL_write_ret_def Let_def)
  have u: "ssl_rb ?u = ssl_rb s" "conn_info_map ?u = conn_info_map s" "ssl_data_map ?u = ssl_data_map s"
    by simp_all
  have "ssl_data_map ?u (cur_cpu e) \<noteq> None"
    using st(6) unfolding u(3) buffers_ok_def by (metis option.distinct(1))
  from tls_report_classified [OF classified_evolves [OF assms(2) mv(1)] assms(8) this, of ?a k direct len]
  obtain ev s' where r: "process_syscall_data_with_conn_info e ?a k direct (scast m) len True True (ci'\<lparr>ssl := True\<rparr>) ?u =
      (ci'\<lparr>ssl := True\<rparr>, s')" "conn_info_map s' = conn_info_map s" "ssl_rb s' = ssl_rb s @ [ev]"
    "ke_seq (ks_ke (fst ev)) = ssl_seq_of direct ci'" "ke_len (ks_ke (fst ev)) = m"
    "cs_tgid_fd (ke_conn_id_s (ks_ke (fst ev))) = k"
    "take (min (unat m) MAX_MSG_SIZE) (ks_msg (fst ev)) = probe_read e (min (unat m) MAX_MSG_SIZE) (da_buf args)"
    "ks_syscall_seq (fst ev) = syscall_seq_of direct ci' - len" "ks_syscall_len (fst ev) = len"
    unfolding u(1,2) using assms(4) by auto
  have "ssl_bytes_count e ctx ?a = Some m"
    using assms(7) ssl_bytes_count_cong [of ?a args] by simp
  note p = process_ssl_data_ring [OF this _ _ r(1)]
  let ?c = "add_ssl_bytes direct (scast m) (ci'\<lparr>ssl := True\<rparr>)"
  have adv: "tls_advanced direct ci m len ?c"
    by (rule tls_advanced_count [OF st(5)])
  have "eff p s (ssl_return direct e ctx s)"
    using ssl_ret_eff [OF assms(5)] by (simp add: ssl_return_def)
  then have "control_value (ssl_return direct e ctx s) kEnableFilterByPid = None" "buffers_ok (ssl_return direct e ctx s)"
    using config.effs buffers.effs st(6,7) by (auto simp: control_value_def config_kept_def)
  then have "tls_conn k ?c (ssl_return direct e ctx s)"
    using p(2) st(4) u(2) assms(3) r(2) classified_evolves [OF assms(2)] adv
    by (simp add: tls_conn_def ret tls_advanced_def bpf_lookup)
  moreover have "ssl_rb (ssl_return direct e ctx s) = ssl_rb s @ [ev]"
    using p(1) st(4) u(2) assms(3) r(3) by (simp add: ret)
  moreover have "tls_event direct k ci m len (fst ev)"
    using r(4-) mv(2,3) by (simp add: tls_event_def)
  ultimately show ?thesis
    using adv r(7) by (metis prod.collapse)
qed

text \<open>On memory that reads as zero the library's structures name no descriptor.\<close>

lemma get_fd_zero: "get_fd off (env_of 0 []) a = kInvalidFD"
  by (simp add: get_fd_def get_fd_symaddrs_def read_u32_def read_u64_def probe_read_def env_of_def mem_of_def
      fill_buf_def le_word_def upt_rec Let_def kInvalidFD_def)

section \<open>Room in the maps of the library calls\<close>

lemma room_store [simp]: "bpf_map_room n (bpf_map_store m k v) = bpf_map_room n m"
  by (simp add: bpf_map_room_def bpf_map_store_def length_map_entry)

lemma room_delete: "bpf_map_room n m \<Longrightarrow> bpf_map_room n (bpf_map_delete_elem m k)"
  using length_delete_le [of k "entries m"] by (simp add: bpf_map_room_def bpf_map_delete_elem_def)

lemma room_less: "bpf_map_room (Suc n) m \<Longrightarrow> bpf_map_room n m"
  by (simp add: bpf_map_room_def)

lemma report_tls_maps [simp]:
  "tls_maps (report_conn_evt e ci ty ts s) = tls_maps s"
  "tls_maps (report_syscall_buf e q c n st ts d b f ph lh s) = tls_maps s"
  "tls_maps (report_syscall_buf_without_data e q c n st ts d f s) = tls_maps s"
  "tls_maps (report_ssl_buf e q c n st ts d b f sq sl s) = tls_maps s"
  "tls_maps (s\<lparr>conn_info_map := m\<rparr>) = tls_maps s"
  by (simp_all add: tls_maps_def report_conn_evt_def report_syscall_buf_def report_syscall_buf_without_data_def
      report_ssl_buf_def Let_def case_prod_unfold split: option.split)

lemma process_data_conn_tls_maps:
  assumes "process_syscall_data_with_conn_info e args k direct n sl is_ssl with_data ci s = (ci', s')"
  shows "tls_maps s' = tls_maps s"
  using assms [unfolded process_syscall_data_with_conn_info_cases report_syscall_evt_def report_ssl_evt_def]
  by (auto split: if_splits)

lemma process_data_tls_maps: "tls_maps (process_syscall_data e args pt direct n b s) = tls_maps s"
proof -
  let ?tgid = "ucast (drop_bit 32 pt) :: u32" and ?k = "gen_tgid_fd (ucast (drop_bit 32 pt)) (da_fd args)"
  obtain m s0 where m: "match_trace_tgid e ?tgid s = (m, s0)"
    by force
  then have s0: "tls_maps s0 = tls_maps s"
    by (auto simp: match_trace_tgid_def remember_pid_def tls_maps_def Let_def split: if_splits option.splits)
  obtain found s1 where f: "find_or_create_conn e args ?k direct n s0 = (found, s1)"
    by force
  have "tls_maps s1 = tls_maps s0"
    using f by (auto simp: find_or_create_conn_def create_conn_info_in_data_syscall_def create_conn_info_def Let_def
        tls_maps_def report_conn_evt_def split: option.splits prod.splits if_splits)
  then show ?thesis
    using s0 m f process_data_conn_tls_maps
    by (auto simp: process_syscall_data_def store_conn_info_def Let_def split: option.split prod.split)
qed

lemma tls_room_cong: "tls_maps s' = tls_maps s \<Longrightarrow> tls_room n s' = tls_room n s"
  by (simp add: tls_room_def)

lemma nested_calls_room: "tls_room n (nested_calls direct calls s) = tls_room n s"
proof (induction calls arbitrary: s)
  case (Cons c calls)
  obtain e args n' where c: "c = (e, args, n')"
    by (metis prod_cases3)
  have "tls_room n (snd (propagate_fd_to_uprobe e p fd l s)) = tls_room n s" for p fd l s
    by (auto simp: propagate_fd_to_uprobe_def tls_room_def tls_maps_def Let_def split: option.split)
  moreover have "tls_room n (stash_write direct p a s) = tls_room n s" for p a
    by (simp add: stash_write_def tls_room_def tls_maps_def)
  ultimately have "tls_room n (finish_data e direct False n' args s) = tls_room n s"
    by (simp add: finish_data_def Let_def case_prod_unfold tls_room_cong [OF process_data_tls_maps])
  then show ?case
    by (simp add: c Cons.IH)
qed simp

lemma ssl_entry_room: "tls_room (Suc n) s \<Longrightarrow> tls_room n (ssl_entry direct off e ctx is_ex s)"
  by (auto simp: ssl_entry_def do_SSL_read_entry_def do_SSL_write_entry_def tls_room_def tls_maps_def Let_def
      intro: room_less bpf_map_room_update)

lemma ssl_return_room: "tls_room n s \<Longrightarrow> tls_room n (ssl_return direct e ctx s)"
proof -
  have "tls_maps (process_ssl_data e ctx p d args sl s) = tls_maps s" for p d args sl s
    by (auto simp: process_ssl_data_def Let_def process_data_conn_tls_maps split: option.split prod.split)
  note this [THEN tls_room_cong, simp]
  show "tls_room n s \<Longrightarrow> tls_room n (ssl_return direct e ctx s)"
    by (auto simp: ssl_return_def do_SSL_read_ret_def do_SSL_write_ret_def Let_def split: option.split)
      (auto simp: tls_room_def tls_maps_def intro: room_delete)
qed

lemma ssl_run_event:
  fixes direct off c s
  defines "s1 \<equiv> ssl_entry direct off (sc_entry c) (sc_entry_regs c) (sc_is_ex c) s"
  assumes "tls_conn k ci s" and "ssl_call_ok off p fd c" and "tls_room (Suc j) s"
    and "k = gen_tgid_fd (ucast (drop_bit 32 p)) fd" and "fd \<noteq> kInvalidFD"
    and "nested_run direct (nested_ok p fd) {p} k (sc_nested c) s1 s2"
  defines "s' \<equiv> ssl_return direct (sc_return c) (sc_return_regs c) s2"
  shows "\<exists>ev n ci'. ssl_rb s' = ssl_rb s2 @ [(ev, n)] \<and> tls_event direct k ci (sc_count c) (nested_bytes (sc_nested c)) ev \<and>
    take (min (unat (sc_count c)) MAX_MSG_SIZE) (ks_msg ev) =
      probe_read (sc_return c) (min (unat (sc_count c)) MAX_MSG_SIZE) (parm2 (sc_entry_regs c)) \<and>
    tls_conn k ci' s' \<and> tls_advanced direct ci (sc_count c) (nested_bytes (sc_nested c)) ci'"
proof -
  have ok: "pid_tgid (sc_entry c) = p" "pid_tgid (sc_return c) = p"
    "get_fd off (sc_entry c) (parm1 (sc_entry_regs c)) \<in> {kInvalidFD, fd}"
    "sc_nested c \<noteq> []" "0 \<le> sint (nested_bytes (sc_nested c))"
    "ssl_bytes_count (sc_return c) (sc_return_regs c)
       (data_args_zero\<lparr>da_ssl_ex_len := if sc_is_ex c then parm4 (sc_entry_regs c) else 0\<rparr>) = Some (sc_count c)"
    "sc_count c \<noteq> 0"
    using assms(3) by (simp_all add: ssl_call_ok_def)
  have conn: "bpf_map_lookup_elem (conn_info_map s) k = Some ci" "classified ci"
    "control_value s kEnableFilterByPid = None" "buffers_ok s"
    using assms(2) by (simp_all add: tls_conn_def)
  have room: "\<not> bpf_map_full (ssl_user_space_call_map s)" "\<not> bpf_map_full (ssl_args direct s)"
    using assms(4) by (auto simp: tls_room_def tls_maps_def ssl_args_def bpf_map_room_def bpf_map_full_def)
  note entry = ssl_entry_record [OF ok(1) room ok(3) conn(1,3,4), where is_ex = "sc_is_ex c", folded s1_def]
  obtain args where args: "bpf_map_lookup_elem (ssl_args direct s1) p = Some args"
    "da_ssl_ex_len args = (if sc_is_ex c then parm4 (sc_entry_regs c) else 0)" "da_buf args = parm2 (sc_entry_regs c)"
    using entry(2) by blast
  have "in_ssl_call direct p fd k ci (nested_bytes (sc_nested c)) {fd} s2"
    and args2: "bpf_map_lookup_elem (ssl_args direct s2) p = Some args"
    using nested_run_record [OF assms(7,5,6) entry(1)] ok(4) args(1) by simp_all
  note event = ssl_return_event [OF this(1) conn(2) assms(5) ok(5,2) args2 _ ok(7)]
  have "ssl_bytes_count (sc_return c) (sc_return_regs c) args = Some (sc_count c)"
    using ok(6) args(2) ssl_bytes_count_cong [of args
      "data_args_zero\<lparr>da_ssl_ex_len := if sc_is_ex c then parm4 (sc_entry_regs c) else 0\<rparr>"] by simp
  then show ?thesis
    using event [of "sc_return_regs c"] args(3) by (simp add: s'_def)
qed

lemma ssl_call_event:
  fixes direct off c s
  defines "s' \<equiv> ssl_call_run direct off c s"
  assumes "tls_conn k ci s" and "ssl_call_ok off p fd c" and "tls_room (Suc j) s"
    and "k = gen_tgid_fd (ucast (drop_bit 32 p)) fd" and "fd \<noteq> kInvalidFD"
  shows "\<exists>ev n ci'. ssl_rb s' = ssl_rb s @ [(ev, n)] \<and> tls_event direct k ci (sc_count c) (nested_bytes (sc_nested c)) ev \<and>
    tls_conn k ci' s' \<and> tls_advanced direct ci (sc_count c) (nested_bytes (sc_nested c)) ci' \<and> tls_room j s'"
proof -
  let ?s1 = "ssl_entry direct off (sc_entry c) (sc_entry_regs c) (sc_is_ex c) s"
  have "list_all (nested_ok p fd) (sc_nested c)"
    using assms(3) by (simp add: ssl_call_ok_def)
  from nested_calls_run [OF run_start this, of direct "{p}" k ?s1]
  have "nested_run direct (nested_ok p fd) {p} k (sc_nested c) ?s1 (nested_calls direct (sc_nested c) ?s1)"
    by simp
  note event = ssl_run_event [OF assms(2-6) this]
  have "ssl_rb (nested_calls direct (sc_nested c) ?s1) = ssl_rb s"
    by (simp add: nested_calls_ssl_rb ssl_entry_def do_SSL_read_entry_def do_SSL_write_entry_def Let_def)
  moreover have "tls_room j s'"
    using assms(4) by (simp add: s'_def ssl_call_run_def ssl_return_room nested_calls_room ssl_entry_room)
  ultimately show ?thesis
    using event by (simp add: s'_def ssl_call_run_def) blast
qed

lemma tls_state_conn: "tls_conn (gen_tgid_fd 0 5) (conn_info_zero\<lparr>protocol := kProtocolHTTP\<rparr>) tls_state"
proof -
  have "bpf_map_lookup_elem (conn_info_map tls_state) (gen_tgid_fd 0 5) = Some (conn_info_zero\<lparr>protocol := kProtocolHTTP\<rparr>)"
    by (simp add: tls_state_def bpf_lookup bpf_map_full_def) (simp add: bpf_map_create_def)
  moreover have "control_value tls_state kEnableFilterByPid = None"
    by (simp add: tls_state_def init_state_def control_value_def)
  moreover have "buffers_ok tls_state"
    using buffers.reachable [OF reach_init] by (simp add: tls_state_def)
  ultimately show ?thesis
    by (simp add: tls_conn_def classified_def should_trace_conn_def conn_info_zero_def enum_order_defs)
qed

lemma sample_key: "gen_tgid_fd 0 5 = gen_tgid_fd (ucast (drop_bit 32 (0 :: u64))) 5" "5 \<noteq> (kInvalidFD :: u32)"
  by (simp_all add: kInvalidFD_def)

lemma sample_ssl_call_ok: "ssl_call_ok sample_offsets 0 5 sample_ssl_call"
proof -
  have "pid_tgid (env_of 0 []) = 0"
    by (simp add: env_of_def)
  then show ?thesis
    by (simp add: ssl_call_ok_def sample_ssl_call_def get_fd_zero nested_ok_def nested_bytes_def
        ssl_bytes_count_def sample_ret_def)
qed

lemma tls_state_room: "tls_room 5 tls_state"
  by (simp add: tls_room_def tls_maps_def tls_state_def init_state_def bpf_map_room_def bpf_map_create_def MAX_ENTRIES_def)

lemma tls_room_mono: "tls_room n s \<Longrightarrow> j \<le> n \<Longrightarrow> tls_room j s"
  by (auto simp: tls_room_def bpf_map_room_def)

lemma sample_interleaved_run:
  "nested_run kIngress (nested_ok 0 5) {0} (gen_tgid_fd 0 5) (sc_nested sample_ssl_call)
     (ssl_entry kIngress sample_offsets (sc_entry sample_ssl_call) (sc_entry_regs sample_ssl_call)
       (sc_is_ex sample_ssl_call) tls_state) sample_interleaved"
proof -
  let ?e = "env_of 0 []" and ?a = "data_args_zero\<lparr>da_fd := 5\<rparr>"
  have ok: "nested_ok 0 5 (?e, ?a, 29)" "nested_ok 0 5 (?e, ?a, 100)"
    by (simp_all add: nested_ok_def env_of_def)
  have close: "prog_step 1 s (fentry__sys_close (?e\<lparr>pid_tgid := 1\<rparr>) regs s)" for regs s
    by (auto intro!: prog_step.intros)
  have same: "conn_info_map (fentry__sys_close (?e\<lparr>pid_tgid := 1\<rparr>) regs s) = conn_info_map s" for regs s
    by (simp add: fentry__sys_close_def handle_syscall_enter_close_def)
  let ?run = "nested_run kIngress (nested_ok 0 5) {0} (gen_tgid_fd 0 5)"
    and ?s = "ssl_entry kIngress sample_offsets ?e sample_ret False tls_state"
  let ?t = "finish_data ?e kIngress False 29 ?a ?s"
  have "?run [(?e, ?a, 29)] ?s ?t"
    using run_call [where ok = "nested_ok 0 5", OF run_start ok(1)] by simp
  then have "?run [(?e, ?a, 29)] ?s (fentry__sys_close (?e\<lparr>pid_tgid := 1\<rparr>) sample_ret ?t)"
    by (rule run_other [OF _ close]) (simp_all add: same)
  from run_call [OF this ok(2)] show ?thesis
    by (simp add: sample_ssl_call_def sample_interleaved_def)
qed

section \<open>Property\<close>

text \<open>
  Property C11. A TLS event names exactly the encrypted bytes that carried it: when an OpenSSL call on
  a classified connection makes system calls on its socket and returns a positive count, while programs
  of other threads on other connections run in between, the TLS event gives the position in the
  plaintext stream and its first bytes, the connection of the descriptor, and as range of the
  encrypted stream the bytes of these system calls, from the first byte of the first one on.
\<close>

theorem tls_event_names_nested_calls:
  assumes "tls_conn k ci s" and "ssl_call_ok off p fd c" and "tls_room 1 s"
    and "k = gen_tgid_fd (ucast (drop_bit 32 p)) fd" and "fd \<noteq> kInvalidFD"
    and "nested_run direct (nested_ok p fd) {p} k (sc_nested c)
      (ssl_entry direct off (sc_entry c) (sc_entry_regs c) (sc_is_ex c) s) s2"
  shows "\<exists>ev n. ssl_rb (ssl_return direct (sc_return c) (sc_return_regs c) s2) = ssl_rb s2 @ [(ev, n)] \<and>
    tls_event direct k ci (sc_count c) (nested_bytes (sc_nested c)) ev \<and>
    take (min (unat (sc_count c)) MAX_MSG_SIZE) (ks_msg ev) =
      probe_read (sc_return c) (min (unat (sc_count c)) MAX_MSG_SIZE) (parm2 (sc_entry_regs c))"
  using ssl_run_event [OF assms(1,2) _ assms(4-6)] assms(3) by fastforce

theorem tls_event_names_nested_calls_witness:
  "\<exists>ev n. ssl_rb (ssl_return kIngress (env_of 0 []) sample_ret sample_interleaved) = ssl_rb sample_interleaved @ [(ev, n)] \<and>
     ks_syscall_seq ev = 1 \<and> ks_syscall_len ev = 129 \<and> ke_len (ks_ke ev) = 100"
  using tls_event_names_nested_calls [OF tls_state_conn sample_ssl_call_ok tls_room_mono [OF tls_state_room] sample_key
      sample_interleaved_run]
  by (auto simp: tls_event_def sample_ssl_call_def nested_bytes_def syscall_seq_of_def conn_info_zero_def)

end
