(* ===== verification/Go_Nested.thy ===== *)
theory Go_Nested
  imports Tls_Nested
begin

text \<open>
  A whole call of Go's \<open>crypto/tls\<close> with the system calls it makes. The runtime may move the
  goroutine to another thread at any time, so the system calls are matched by process and goroutine
  and each of them may run in a thread of its own.
\<close>

section \<open>Specification\<close>

text \<open>The two programs of a call and the locations they use, by direction.\<close>

definition go_entry :: "traffic_direction_t \<Rightarrow> bpf_env \<Rightarrow> pt_regs \<Rightarrow> bpf_state \<Rightarrow> bpf_state" where
  "go_entry direct e ctx s =
     (if direct = kIngress then probe_entry_tls_conn_read e ctx s else probe_entry_tls_conn_write e ctx s)"

definition go_return :: "traffic_direction_t \<Rightarrow> bpf_env \<Rightarrow> pt_regs \<Rightarrow> bpf_state \<Rightarrow> bpf_state" where
  "go_return direct e ctx s =
     (if direct = kIngress then probe_return_tls_conn_read e ctx s else probe_return_tls_conn_write e ctx s)"

definition go_c_loc :: "traffic_direction_t \<Rightarrow> go_tls_symaddrs_t \<Rightarrow> location_t" where
  "go_c_loc direct = (if direct = kIngress then Read_c_loc else Write_c_loc)"

definition go_b_loc :: "traffic_direction_t \<Rightarrow> go_tls_symaddrs_t \<Rightarrow> location_t" where
  "go_b_loc direct = (if direct = kIngress then Read_b_loc else Write_b_loc)"

definition go_retval0_loc :: "traffic_direction_t \<Rightarrow> go_tls_symaddrs_t \<Rightarrow> location_t" where
  "go_retval0_loc direct = (if direct = kIngress then Read_retval0_loc else Write_retval0_loc)"

definition go_retval1_loc :: "traffic_direction_t \<Rightarrow> go_tls_symaddrs_t \<Rightarrow> location_t" where
  "go_retval1_loc direct = (if direct = kIngress then Read_retval1_loc else Write_retval1_loc)"

definition go_locations_known :: "traffic_direction_t \<Rightarrow> go_tls_symaddrs_t \<Rightarrow> bool" where
  "go_locations_known direct syms \<longleftrightarrow>
     list_all (\<lambda>loc. loc_type (loc direct syms) \<noteq> kLocationTypeInvalid)
       [go_c_loc, go_b_loc, go_retval0_loc, go_retval1_loc]"

text \<open>A value the program finds at a location, and the error that \<open>Read\<close> and \<open>Write\<close> return.\<close>

definition go_value :: "bpf_env \<Rightarrow> pt_regs \<Rightarrow> location_t \<Rightarrow> u64" where
  "go_value e ctx loc = assign_u64 e loc (pt_sp ctx) (pt_go_regs ctx)"

definition go_error :: "bpf_env \<Rightarrow> pt_regs \<Rightarrow> location_t \<Rightarrow> u64" where
  "go_error e ctx loc = le_word (drop 8 (assign_arg e 16 loc (pt_sp ctx) (pt_go_regs ctx) (replicate 16 0)))"

text \<open>
  A run in goroutine \<open>g\<close>, in some thread; the system calls considered: of the goroutine, on the
  descriptor. The symbol table \<open>s\<close> gives the way to the goroutine id.
\<close>

definition in_goroutine :: "tgid_goid_t \<Rightarrow> bpf_state \<Rightarrow> bpf_env \<Rightarrow> bool" where
  "in_goroutine g s e \<longleftrightarrow> current_tgid e = tg_tgid g \<and> get_goid e s = tg_goid g \<and> tg_goid g \<noteq> 0"

definition go_nested_ok :: "tgid_goid_t \<Rightarrow> u32 \<Rightarrow> bpf_state \<Rightarrow> bpf_env \<times> data_args \<times> u64 \<Rightarrow> bool" where
  "go_nested_ok g fd s = (\<lambda>(e, args, n). in_goroutine g s e \<and> da_fd args = fd \<and> 0 < sint n \<and> 0 < sint (ucast n :: u32))"

text \<open>A call in progress in goroutine \<open>g\<close>, entered in state \<open>s0\<close>, whose system calls moved \<open>len\<close> bytes.\<close>

definition in_go_call ::
    "traffic_direction_t \<Rightarrow> tgid_goid_t \<Rightarrow> u64 \<Rightarrow> conn_info_t \<Rightarrow> go_tls_conn_args \<Rightarrow> bpf_state \<Rightarrow> u32 \<Rightarrow> bpf_state \<Rightarrow> bool" where
  "in_go_call direct g k ci args s0 len s \<longleftrightarrow>
     (\<exists>ns. go_stashes g s = (Some args, Some ns) \<and> ns_syscall_len ns = len) \<and>
     (\<exists>ci'. bpf_map_lookup_elem (conn_info_map s) k = Some ci' \<and> moved direct len ci ci') \<and>
     go_common_symaddrs_map s = go_common_symaddrs_map s0 \<and> go_tls_symaddrs_map s = go_tls_symaddrs_map s0 \<and>
     control_value s kEnableFilterByPid = None \<and> buffers_ok s"

text \<open>
  A whole call: the runs of the entry and of the return program, the exits of its system calls
  and the count it returns; and the calls considered. The state is only consulted for the argument
  locations and symbol addresses of the binary, which user space has stored.
\<close>

record go_call =
  gc_entry :: bpf_env
  gc_entry_regs :: pt_regs
  gc_nested :: "(bpf_env \<times> data_args \<times> u64) list"
  gc_return :: bpf_env
  gc_return_regs :: pt_regs
  gc_count :: u32

definition go_call_run :: "traffic_direction_t \<Rightarrow> go_call \<Rightarrow> bpf_state \<Rightarrow> bpf_state" where
  "go_call_run direct c s = go_return direct (gc_return c) (gc_return_regs c)
     (nested_calls direct (gc_nested c) (go_entry direct (gc_entry c) (gc_entry_regs c) s))"

definition go_call_ok ::
    "traffic_direction_t \<Rightarrow> tgid_goid_t \<Rightarrow> go_tls_symaddrs_t \<Rightarrow> go_common_symaddrs_t \<Rightarrow> u32 \<Rightarrow> go_call \<Rightarrow> bpf_state \<Rightarrow> bool" where
  "go_call_ok direct g syms common fd c s \<longleftrightarrow>
     in_goroutine g s (gc_entry c) \<and> in_goroutine g s (gc_return c) \<and>
     bpf_map_lookup_elem (go_tls_symaddrs_map s) (tg_tgid g) = Some syms \<and> go_locations_known direct syms \<and>
     bpf_map_lookup_elem (go_common_symaddrs_map s) (tg_tgid g) = Some common \<and>
     list_all (go_nested_ok g fd s) (gc_nested c) \<and> 0 \<le> sint (nested_bytes (gc_nested c)) \<and>
     get_fd_from_conn_intf_core (gc_return c) \<lparr>gi_type = tls_Conn common,
       gi_ptr = go_value (gc_entry c) (gc_entry_regs c) (go_c_loc direct syms)\<rparr> common = fd \<and>
     go_error (gc_return c) (gc_return_regs c) (go_retval1_loc direct syms) = 0 \<and>
     go_value (gc_return c) (gc_return_regs c) (go_retval0_loc direct syms) = scast (gc_count c) \<and> gc_count c \<noteq> 0"

text \<open>
  A sample call, for evaluation: memory reads as ones, the \<open>Conn\<close> object leads to descriptor
  \<open>0x01010101\<close>, the goroutine moves to another thread between two system calls, and the call returns 100.
\<close>

definition go_call_common :: go_common_symaddrs_t where
  "go_call_common = go_symaddrs\<lparr>internal_syscallConn := 1, tls_Conn := 2, net_TCPConn := 0x0101010101010101\<rparr>"

definition reg_loc :: "u32 \<Rightarrow> location_t" where
  "reg_loc n = \<lparr>loc_type = kLocationTypeRegisters, loc_offset = n\<rparr>"

definition go_call_syms :: go_tls_symaddrs_t where
  "go_call_syms = \<lparr>Write_c_loc = reg_loc 0, Write_b_loc = reg_loc 8, Write_retval0_loc = reg_loc 0,
     Write_retval1_loc = reg_loc 16, Read_c_loc = reg_loc 0, Read_b_loc = reg_loc 8,
     Read_retval0_loc = reg_loc 0, Read_retval1_loc = reg_loc 16\<rparr>"

definition go_call_regs :: pt_regs where
  "go_call_regs = sample_ret\<lparr>pt_go_regs := [100, 0, 0, 0, 0, 0, 0, 0, 0]\<rparr>"

definition go_call_conn :: conn_info_t where
  "go_call_conn = conn_info_zero\<lparr>protocol := kProtocolHTTP\<rparr>"

definition go_call_state :: bpf_state where
  "go_call_state = init_state\<lparr>
     go_common_symaddrs_map := bpf_map_update_elem (bpf_map_create 5) 0 go_call_common BPF_ANY,
     go_tls_symaddrs_map := bpf_map_update_elem (bpf_map_create 5) 0 go_call_syms BPF_ANY,
     conn_info_map := bpf_map_update_elem (bpf_map_create 5) (gen_tgid_fd 0 0x01010101) go_call_conn BPF_ANY\<rparr>"

definition sample_go_call :: go_call where
  "sample_go_call = \<lparr>gc_entry = go_env, gc_entry_regs = go_call_regs,
     gc_nested = [(go_env, data_args_zero\<lparr>da_fd := 0x01010101\<rparr>, 29),
       (go_env\<lparr>pid_tgid := 1\<rparr>, data_args_zero\<lparr>da_fd := 0x01010101\<rparr>, 100)],
     gc_return = go_env, gc_return_regs = go_call_regs, gc_count = 100\<rparr>"

section \<open>Lemmas\<close>

lemma some_other_process: "\<exists>p. g \<notin> goroutines p"
proof (cases "tg_tgid g = 0")
  case True
  then have "g \<notin> goroutines (push_bit 32 1)"
    by (simp add: goroutines_def)
  then show ?thesis ..
next
  case False
  then have "g \<notin> goroutines 0"
    by (simp add: goroutines_def)
  then show ?thesis ..
qed

lemma process_data_go_stashes: "go_stashes g (process_syscall_data e args pt direct n b s) = go_stashes g s"
proof -
  obtain p where "g \<notin> goroutines p"
    using some_other_process by blast
  then show ?thesis
    using others.effs [OF process_syscall_data_eff [of p]] by (simp add: others_kept_def)
qed

lemma in_goroutine_cong: "go_common_symaddrs_map s' = go_common_symaddrs_map s \<Longrightarrow> in_goroutine g s' e = in_goroutine g s e"
  using get_goid_cong [of s' s e] by (simp add: in_goroutine_def)

lemma goroutine_eta: "in_goroutine g s e \<Longrightarrow> \<lparr>tg_tgid = current_tgid e, tg_goid = get_goid e s\<rparr> = g"
  by (cases g) (auto simp: in_goroutine_def)

lemma propagate_go:
  assumes "propagate_fd_to_uprobe e (pid_tgid e) fd n s = (b, s')" and "in_goroutine g s e"
    and "go_stashes g s = (Some args, Some ns)"
  shows "go_stashes g s' = (Some args, Some (update_fd_and_syscall_len_to_uprobe fd n ns))"
    and "conn_info_map s' = conn_info_map s" and "control_values s' = control_values s"
    and "go_common_symaddrs_map s' = go_common_symaddrs_map s" and "go_tls_symaddrs_map s' = go_tls_symaddrs_map s"
proof -
  have g: "\<lparr>tg_tgid = ucast (drop_bit 32 (pid_tgid e)), tg_goid = get_goid e s\<rparr> = g"
    using goroutine_eta [OF assms(2)] by (simp only: current_tgid_def)
  have goid: "get_goid e (s\<lparr>ssl_user_space_call_map := m\<rparr>) = get_goid e s" for m
    by (rule get_goid_cong) simp
  have nz: "get_goid e s \<noteq> 0"
    using assms(2) by (simp add: in_goroutine_def)
  have look: "bpf_map_lookup_elem (go_ssl_user_space_call_map s) g = Some ns"
    using assms(3) by (simp add: go_stashes_def)
  have "\<exists>m. s' = s\<lparr>ssl_user_space_call_map := m, go_ssl_user_space_call_map :=
      bpf_map_store (go_ssl_user_space_call_map s) g (update_fd_and_syscall_len_to_uprobe fd n ns)\<rparr>"
  proof (cases "bpf_map_lookup_elem (ssl_user_space_call_map s) (pid_tgid e)")
    case None
    then have "s' = s\<lparr>go_ssl_user_space_call_map :=
        bpf_map_store (go_ssl_user_space_call_map s) g (update_fd_and_syscall_len_to_uprobe fd n ns)\<rparr>"
      using assms(1) nz look by (simp add: propagate_fd_to_uprobe_def Let_def g)
    then show ?thesis
      by (intro exI [of _ "ssl_user_space_call_map s"]) simp
  next
    case (Some a)
    then show ?thesis
      using assms(1) nz look by (auto simp: propagate_fd_to_uprobe_def Let_def goid g)
  qed
  then obtain m where s': "s' = s\<lparr>ssl_user_space_call_map := m, go_ssl_user_space_call_map :=
      bpf_map_store (go_ssl_user_space_call_map s) g (update_fd_and_syscall_len_to_uprobe fd n ns)\<rparr>" ..
  show "go_stashes g s' = (Some args, Some (update_fd_and_syscall_len_to_uprobe fd n ns))"
    "conn_info_map s' = conn_info_map s" "control_values s' = control_values s"
    "go_common_symaddrs_map s' = go_common_symaddrs_map s" "go_tls_symaddrs_map s' = go_tls_symaddrs_map s"
    using assms(3) by (simp_all add: s' go_stashes_def bpf_lookup)
qed

lemma go_nested_step:
  assumes "in_go_call direct g k ci ga s0 len s" and "go_nested_ok g fd s0 (e, args, n)"
    and "k = gen_tgid_fd (tg_tgid g) fd"
  shows "in_go_call direct g k ci ga s0 (len + ucast n) (finish_data e direct False n args s)"
proof -
  let ?a = "args\<lparr>da_end_ts := ktime e KT_exit\<rparr>" and ?p = "pid_tgid e"
  let ?s1 = "stash_write direct ?p ?a s" and ?s' = "finish_data e direct False n args s"
  have ok: "in_goroutine g s0 e" "da_fd args = fd" "0 < sint n" "0 < sint (ucast n :: u32)"
    using assms(2) by (simp_all add: go_nested_ok_def)
  obtain ns ci' where st: "go_stashes g s = (Some ga, Some ns)" "ns_syscall_len ns = len"
    "bpf_map_lookup_elem (conn_info_map s) k = Some ci'" "moved direct len ci ci'"
    "go_common_symaddrs_map s = go_common_symaddrs_map s0" "go_tls_symaddrs_map s = go_tls_symaddrs_map s0"
    "control_value s kEnableFilterByPid = None" "buffers_ok s"
    using assms(1) unfolding in_go_call_def by blast
  have s1: "go_stashes g ?s1 = go_stashes g s" "conn_info_map ?s1 = conn_info_map s" "control_values ?s1 = control_values s"
    "go_common_symaddrs_map ?s1 = go_common_symaddrs_map s" "go_tls_symaddrs_map ?s1 = go_tls_symaddrs_map s"
    by (simp_all add: stash_write_def go_stashes_def)
  obtain b s2 where pr: "propagate_fd_to_uprobe e ?p fd (ucast n) ?s1 = (b, s2)"
    by force
  have "in_goroutine g ?s1 e"
    using ok(1) in_goroutine_cong [of ?s1 s0] st(5) s1(4) by simp
  note s2 = propagate_go [OF pr this, unfolded s1, OF st(1)]
  have s': "?s' = process_syscall_data e ?a ?p direct n b s2"
    using ok(2) pr by (simp add: finish_data_def Let_def)
  have kept: "config_kept ?p s2 ?s'"
    unfolding s' by (rule config.effs [OF process_syscall_data_eff])
  have cv: "control_value s2 kEnableFilterByPid = None"
    using st(7) s2(3) by (simp add: control_value_def)
  have look: "bpf_map_lookup_elem (conn_info_map s2) k = Some ci'"
    using st(3) s2(2) by simp
  have match: "fst (match_trace_tgid e (ucast (drop_bit 32 ?p)) s2) \<noteq> TARGET_TGID_UNMATCHED"
    by (simp add: match_trace_tgid_all [OF cv])
  have k: "k = gen_tgid_fd (ucast (drop_bit 32 ?p)) (da_fd ?a)"
    using assms(3) ok(1,2) by (simp add: in_goroutine_def current_tgid_def)
  obtain c where c: "bpf_map_lookup_elem (conn_info_map ?s') k = Some (add_bytes direct n c)" "conn_evolves ci' c"
    "\<And>d. syscall_seq_of d c = syscall_seq_of d ci'" "\<And>d. ssl_seq_of d c = ssl_seq_of d ci'"
    unfolding s' using data_call_entry [OF look k match ok(3)] by metis
  have "go_stashes g ?s' = (Some ga, Some (update_fd_and_syscall_len_to_uprobe fd (ucast n) ns))"
    unfolding s' process_data_go_stashes by (rule s2(1))
  moreover have "ns_syscall_len (update_fd_and_syscall_len_to_uprobe fd (ucast n) ns) = len + ucast n"
    using st(2) ok(4) by (simp add: update_fd_and_syscall_len_to_uprobe_def Let_def)
  moreover have "buffers_ok ?s'"
    by (rule buffers.effs [OF finish_data_eff [OF refl] st(8)])
  ultimately show ?thesis
    using c(1) st(5,6) s2(4,5) cv kept moved_step [OF st(4) c(2-4)]
    by (simp add: in_go_call_def config_kept_def control_value_def)
qed

lemma go_nested_steps:
  assumes "k = gen_tgid_fd (tg_tgid g) fd" and "in_go_call direct g k ci ga s0 len s"
    and "list_all (go_nested_ok g fd s0) calls"
  shows "in_go_call direct g k ci ga s0 (len + nested_bytes calls) (nested_calls direct calls s)"
  using assms(2,3)
proof (induction calls arbitrary: s len)
  case (Cons c calls)
  obtain e args n where c: "c = (e, args, n)"
    by (metis prod_cases3)
  have "in_go_call direct g k ci ga s0 (len + ucast n) (finish_data e direct False n args s)"
    using go_nested_step [OF Cons.prems(1) _ assms(1)] Cons.prems(2) c by simp
  from Cons.IH [OF this] Cons.prems(2) show ?case
    by (simp add: c nested_bytes_def add.assoc)
qed (simp add: nested_bytes_def)

lemma go_entry_eq: "go_entry direct e ctx s = tls_conn_entry e ctx (go_c_loc direct) (go_b_loc direct) s"
  by (simp add: go_entry_def probe_entry_tls_conn_read_def probe_entry_tls_conn_write_def go_c_loc_def go_b_loc_def)

lemma go_return_eq:
  assumes "in_goroutine g s e" and "bpf_map_lookup_elem (active_tls_conn_op_map s) g = Some ga"
  shows "go_return direct e ctx s = close_tls_op g (tls_conn_return_core e ctx (go_retval0_loc direct)
    (go_retval1_loc direct) direct (if direct = kIngress then kSSLRead else kSSLWrite) ga g s)"
proof -
  have "\<lparr>tg_tgid = current_tgid e, tg_goid = get_goid e s\<rparr> = g" "get_goid e s \<noteq> 0"
    using assms(1) goroutine_eta by (auto simp: in_goroutine_def)
  then show ?thesis
    using assms(2)
    by (cases direct) (simp_all add: go_return_def probe_return_tls_conn_read_def probe_return_tls_conn_write_def
        probe_return_tls_conn_read_core_def probe_return_tls_conn_write_core_def go_retval0_loc_def
        go_retval1_loc_def Let_def)
qed

lemma go_entry_record:
  assumes "in_goroutine g s e" and "bpf_map_lookup_elem (go_tls_symaddrs_map s) (tg_tgid g) = Some syms"
    and "go_locations_known direct syms" and "\<not> bpf_map_full (active_tls_conn_op_map s)"
    and "\<not> bpf_map_full (go_ssl_user_space_call_map s)"
    and "bpf_map_lookup_elem (conn_info_map s) k = Some ci"
    and "control_value s kEnableFilterByPid = None" and "buffers_ok s"
  shows "in_go_call direct g k ci \<lparr>conn_ptr = go_value e ctx (go_c_loc direct syms),
      plaintext_ptr = go_value e ctx (go_b_loc direct syms)\<rparr> s 0 (go_entry direct e ctx s)"
proof -
  let ?ga = "\<lparr>conn_ptr = go_value e ctx (go_c_loc direct syms), plaintext_ptr = go_value e ctx (go_b_loc direct syms)\<rparr>"
  have goid: "get_goid e s \<noteq> 0" and syms: "bpf_map_lookup_elem (go_tls_symaddrs_map s) (current_tgid e) = Some syms"
    using assms(1,2) by (simp_all add: in_goroutine_def)
  obtain old where old: "regs_heap s (cur_cpu e) = Some old"
    using assms(8) unfolding buffers_ok_def by blast
  have entry: "go_entry direct e ctx s = s\<lparr>regs_heap := (regs_heap s)(cur_cpu e := Some (pt_go_regs ctx)),
      active_tls_conn_op_map := bpf_map_update_elem (active_tls_conn_op_map s) g ?ga BPF_ANY,
      go_ssl_user_space_call_map := bpf_map_update_elem (go_ssl_user_space_call_map s) g
        \<lparr>ns_fd = kInvalidFD, ns_mismatched_fds = False, ns_syscall_len = 0\<rparr> BPF_ANY\<rparr>"
    using assms(3) goid syms old
    by (simp add: goroutine_eta [OF assms(1)] go_entry_eq tls_conn_entry_def go_regabi_regs_def go_value_def go_locations_known_def Let_def)
  have "buffers_ok (go_entry direct e ctx s)"
    unfolding entry using assms(8) by (simp add: buffers_ok_def)
  then show ?thesis
    using assms(4-7) unfolding entry
    by (simp add: in_go_call_def go_stashes_def update_any_lookup control_value_def moved_refl)
qed

text \<open>What the return program reports, once every lookup on its way succeeds.\<close>

lemma go_return_event:
  assumes "in_go_call direct g k ci ga s0 len s" and "classified ci" and "in_goroutine g s0 e"
    and "k = gen_tgid_fd (tg_tgid g) fd" and "fd \<noteq> kInvalidFD" and "0 \<le> sint len"
    and "bpf_map_lookup_elem (go_tls_symaddrs_map s0) (tg_tgid g) = Some syms" and "go_locations_known direct syms"
    and "bpf_map_lookup_elem (go_common_symaddrs_map s0) (tg_tgid g) = Some common"
    and "get_fd_from_conn_intf_core e \<lparr>gi_type = tls_Conn common, gi_ptr = conn_ptr ga\<rparr> common = fd"
    and "go_error e ctx (go_retval1_loc direct syms) = 0" and "go_value e ctx (go_retval0_loc direct syms) = scast m"
    and "m \<noteq> 0"
  shows "\<exists>ev n ci'. ssl_rb (go_return direct e ctx s) = ssl_rb s @ [(ev, n)] \<and> tls_event direct k ci m len ev \<and>
    take (min (unat m) MAX_MSG_SIZE) (ks_msg ev) = probe_read e (min (unat m) MAX_MSG_SIZE) (plaintext_ptr ga) \<and>
    tls_conn k ci' (go_return direct e ctx s) \<and> tls_advanced direct ci m len ci'"
proof -
  obtain ns ci' where st: "go_stashes g s = (Some ga, Some ns)" "ns_syscall_len ns = len"
    "bpf_map_lookup_elem (conn_info_map s) k = Some ci'" "moved direct len ci ci'"
    "go_common_symaddrs_map s = go_common_symaddrs_map s0" "go_tls_symaddrs_map s = go_tls_symaddrs_map s0" "buffers_ok s"
    "control_value s kEnableFilterByPid = None"
    using assms(1) unfolding in_go_call_def by blast
  then have mv: "conn_evolves ci ci'" "syscall_seq_of direct ci' = syscall_seq_of direct ci + len"
    "ssl_seq_of direct ci' = ssl_seq_of direct ci"
    by (simp_all add: moved_def)
  let ?fn = "if direct = kIngress then kSSLRead else kSSLWrite"
  let ?a = "data_args_zero\<lparr>da_source_fn := ?fn, da_buf := plaintext_ptr ga, da_fd := fd\<rparr>"
  let ?u = "s\<lparr>regs_heap := (regs_heap s)(cur_cpu e := Some (pt_go_regs ctx))\<rparr>"
  obtain old where old: "regs_heap s (cur_cpu e) = Some old"
    using st(7) unfolding buffers_ok_def by blast
  have "ssl_data_map ?u (cur_cpu e) \<noteq> None"
    using st(7) unfolding buffers_ok_def by simp (metis option.distinct(1))
  from tls_report_classified [OF classified_evolves [OF assms(2) mv(1)] assms(13) this, of ?a k direct len]
  obtain ev s' where r: "process_syscall_data_with_conn_info e ?a k direct (scast m) len True True (ci'\<lparr>ssl := True\<rparr>) ?u =
      (ci'\<lparr>ssl := True\<rparr>, s')" "conn_info_map s' = conn_info_map s" "ssl_rb s' = ssl_rb s @ [ev]"
    "ke_seq (ks_ke (fst ev)) = ssl_seq_of direct ci'" "ke_len (ks_ke (fst ev)) = m"
    "cs_tgid_fd (ke_conn_id_s (ks_ke (fst ev))) = k"
    "take (min (unat m) MAX_MSG_SIZE) (ks_msg (fst ev)) = probe_read e (min (unat m) MAX_MSG_SIZE) (plaintext_ptr ga)"
    "ks_syscall_seq (fst ev) = syscall_seq_of direct ci' - len" "ks_syscall_len (fst ev) = len"
    using assms(6) by auto
  have tgid: "current_tgid e = tg_tgid g"
    using assms(3) by (simp add: in_goroutine_def)
  have look: "bpf_map_lookup_elem (go_ssl_user_space_call_map s) g = Some ns"
    "bpf_map_lookup_elem (active_tls_conn_op_map s) g = Some ga"
    using st(1) by (simp_all add: go_stashes_def)
  let ?core = "tls_conn_return_core e ctx (go_retval0_loc direct) (go_retval1_loc direct) direct ?fn ga g s"
  let ?c = "add_ssl_bytes direct (scast m) (ci'\<lparr>ssl := True\<rparr>)"
  have core: "?core = s'\<lparr>conn_info_map := bpf_map_store (conn_info_map s') k ?c\<rparr>"
    using r(1) st(2,3,5,6) look(1) old assms(4,5,7-12) tgid
    by (simp add: tls_conn_return_core_def go_regabi_regs_def go_locations_known_def go_value_def go_error_def
        add_ssl_bytes_def Let_def) auto
  have "in_goroutine g s e"
    using in_goroutine_cong [OF st(5)] assms(3) by simp
  then have ret: "go_return direct e ctx s = close_tls_op g ?core"
    by (rule go_return_eq [OF _ look(2)])
  have adv: "tls_advanced direct ci m len ?c"
    by (rule tls_advanced_count [OF st(4)])
  have "eff (pid_tgid e) s (go_return direct e ctx s)"
    using go_probe_eff [OF refl] by (simp add: go_return_def)
  then have "control_value (go_return direct e ctx s) kEnableFilterByPid = None" "buffers_ok (go_return direct e ctx s)"
    using config.effs buffers.effs st(7,8) by (auto simp: control_value_def config_kept_def)
  then have "tls_conn k ?c (go_return direct e ctx s)"
    using st(3) r(2) classified_evolves [OF assms(2)] adv
    by (simp add: tls_conn_def ret core close_tls_op_def tls_advanced_def bpf_lookup)
  moreover have "ssl_rb (go_return direct e ctx s) = ssl_rb s @ [ev]"
    using r(3) by (simp add: ret core close_tls_op_def)
  moreover have "tls_event direct k ci m len (fst ev)"
    using r(4-) mv(2,3) by (simp add: tls_event_def)
  ultimately show ?thesis
    using adv r(7) by (metis prod.collapse)
qed

lemma go_entry_ssl_rb: "ssl_rb (go_entry direct e ctx s) = ssl_rb s"
  by (simp add: go_entry_eq tls_conn_entry_def go_regabi_regs_def Let_def split: option.split prod.split)

lemma go_entry_room: "tls_room (Suc n) s \<Longrightarrow> tls_room n (go_entry direct e ctx s)"
  by (auto simp: go_entry_eq tls_conn_entry_def go_regabi_regs_def tls_room_def tls_maps_def Let_def
      intro: room_less bpf_map_room_update split: option.split prod.split)

lemma go_return_room: "tls_room n s \<Longrightarrow> tls_room n (go_return direct e ctx s)"
proof -
  have core: "tls_maps (tls_conn_return_core e ctx r0 r1 d fn ga g s) = tls_maps s" for r0 r1 d fn ga g
  proof -
    have "tls_maps (s\<lparr>regs_heap := h\<rparr>) = tls_maps s" for h
      by (simp add: tls_maps_def)
    then show ?thesis
      by (auto simp: tls_conn_return_core_def go_regabi_regs_def Let_def dest!: process_data_conn_tls_maps
          split: option.split prod.split)
  qed
  have "tls_room n (close_tls_op g s)" if "tls_room n s" for g s
    using that by (auto simp: close_tls_op_def tls_room_def tls_maps_def intro: room_delete)
  then show "tls_room n s \<Longrightarrow> tls_room n (go_return direct e ctx s)"
    using core [THEN tls_room_cong]
    by (auto simp: go_return_def probe_return_tls_conn_read_def probe_return_tls_conn_write_def
        probe_return_tls_conn_read_core_def probe_return_tls_conn_write_core_def Let_def split: option.split)
qed

lemma go_call_event:
  fixes direct c s
  defines "s' \<equiv> go_call_run direct c s"
  assumes "tls_conn k ci s" and "go_call_ok direct g syms common fd c s" and "tls_room (Suc j) s"
    and "k = gen_tgid_fd (tg_tgid g) fd" and "fd \<noteq> kInvalidFD"
  shows "\<exists>ev n ci'. ssl_rb s' = ssl_rb s @ [(ev, n)] \<and> tls_event direct k ci (gc_count c) (nested_bytes (gc_nested c)) ev \<and>
    take (min (unat (gc_count c)) MAX_MSG_SIZE) (ks_msg ev) = probe_read (gc_return c) (min (unat (gc_count c)) MAX_MSG_SIZE)
      (go_value (gc_entry c) (gc_entry_regs c) (go_b_loc direct syms)) \<and>
    tls_conn k ci' s' \<and> tls_advanced direct ci (gc_count c) (nested_bytes (gc_nested c)) ci' \<and> tls_room j s'"
proof -
  let ?s1 = "go_entry direct (gc_entry c) (gc_entry_regs c) s"
  let ?s2 = "nested_calls direct (gc_nested c) ?s1"
  let ?ga = "\<lparr>conn_ptr = go_value (gc_entry c) (gc_entry_regs c) (go_c_loc direct syms),
    plaintext_ptr = go_value (gc_entry c) (gc_entry_regs c) (go_b_loc direct syms)\<rparr>"
  have ok: "in_goroutine g s (gc_entry c)" "in_goroutine g s (gc_return c)"
    "bpf_map_lookup_elem (go_tls_symaddrs_map s) (tg_tgid g) = Some syms" "go_locations_known direct syms"
    "bpf_map_lookup_elem (go_common_symaddrs_map s) (tg_tgid g) = Some common"
    "list_all (go_nested_ok g fd s) (gc_nested c)" "0 \<le> sint (nested_bytes (gc_nested c))"
    "get_fd_from_conn_intf_core (gc_return c) \<lparr>gi_type = tls_Conn common, gi_ptr = conn_ptr ?ga\<rparr> common = fd"
    "go_error (gc_return c) (gc_return_regs c) (go_retval1_loc direct syms) = 0"
    "go_value (gc_return c) (gc_return_regs c) (go_retval0_loc direct syms) = scast (gc_count c)" "gc_count c \<noteq> 0"
    using assms(3) by (simp_all add: go_call_ok_def)
  have conn: "bpf_map_lookup_elem (conn_info_map s) k = Some ci" "classified ci"
    "control_value s kEnableFilterByPid = None" "buffers_ok s"
    using assms(2) by (simp_all add: tls_conn_def)
  have room: "\<not> bpf_map_full (active_tls_conn_op_map s)" "\<not> bpf_map_full (go_ssl_user_space_call_map s)"
    using assms(4) by (auto simp: tls_room_def tls_maps_def bpf_map_room_def bpf_map_full_def)
  have "in_go_call direct g k ci ?ga s (0 + nested_bytes (gc_nested c)) ?s2"
    by (rule go_nested_steps [OF assms(5) go_entry_record [OF ok(1,3,4) room conn(1,3,4)] ok(6)])
  then have "in_go_call direct g k ci ?ga s (nested_bytes (gc_nested c)) ?s2"
    by simp
  note event = go_return_event [OF this conn(2) ok(2) assms(5,6) ok(7,3-5,8-11)]
  have "ssl_rb ?s2 = ssl_rb s"
    by (simp add: nested_calls_ssl_rb go_entry_ssl_rb)
  moreover have "tls_room j s'"
    using assms(4) by (simp add: s'_def go_call_run_def go_return_room nested_calls_room go_entry_room)
  ultimately show ?thesis
    using event by (simp add: s'_def go_call_run_def)
qed

lemma go_call_maps:
  "bpf_map_lookup_elem (go_common_symaddrs_map go_call_state) 0 = Some go_call_common"
  "bpf_map_lookup_elem (go_tls_symaddrs_map go_call_state) 0 = Some go_call_syms"
  "bpf_map_lookup_elem (conn_info_map go_call_state) (gen_tgid_fd 0 0x01010101) = Some go_call_conn"
  using update_any_lookup [of "bpf_map_create 5"]
  by (simp_all add: go_call_state_def update_any_lookup bpf_map_full_def bpf_map_create_def)

lemma ones: "le_word (replicate 8 1) = (0x0101010101010101 :: u64)"
proof -
  have "replicate 8 (1 :: u8) = [1, 1, 1, 1, 1, 1, 1, 1]"
    by (simp add: numeral_eq_Suc)
  then show ?thesis
    by (simp add: le_word_def)
qed

lemma go_call_reads: "read_u64 (go_env\<lparr>pid_tgid := p\<rparr>) a = 0x0101010101010101" "read_u64 go_env a = 0x0101010101010101"
  by (simp_all add: read_u64_def probe_read_def go_env_def ones)

lemma go_call_goroutine:
  "in_goroutine \<lparr>tg_tgid = 0, tg_goid = 0x0101010101010101\<rparr> go_call_state go_env"
  "in_goroutine \<lparr>tg_tgid = 0, tg_goid = 0x0101010101010101\<rparr> go_call_state (go_env\<lparr>pid_tgid := 1\<rparr>)"
proof -
  have "current_tgid go_env = 0" "current_tgid (go_env\<lparr>pid_tgid := 1\<rparr>) = 0" "task_ptr go_env \<noteq> 0"
    by (simp_all add: current_tgid_def go_env_def env_of_def)
  then show "in_goroutine \<lparr>tg_tgid = 0, tg_goid = 0x0101010101010101\<rparr> go_call_state go_env"
    "in_goroutine \<lparr>tg_tgid = 0, tg_goid = 0x0101010101010101\<rparr> go_call_state (go_env\<lparr>pid_tgid := 1\<rparr>)"
    by (simp_all add: in_goroutine_def get_goid_def go_call_maps go_call_reads Let_def)
qed

lemma go_call_state_conn: "tls_conn (gen_tgid_fd 0 0x01010101) go_call_conn go_call_state"
proof -
  have "control_value go_call_state kEnableFilterByPid = None"
    by (simp add: go_call_state_def init_state_def control_value_def)
  moreover have "buffers_ok go_call_state"
    using buffers.reachable [OF reach_init] by (simp add: go_call_state_def buffers_ok_def)
  ultimately show ?thesis
    by (simp add: tls_conn_def go_call_maps classified_def should_trace_conn_def go_call_conn_def conn_info_zero_def
        enum_order_defs)
qed

lemma go_call_state_room: "tls_room 5 go_call_state"
  by (simp add: tls_room_def tls_maps_def go_call_state_def init_state_def bpf_map_room_def bpf_map_create_def MAX_ENTRIES_def)

lemma sample_go_key:
  "gen_tgid_fd 0 0x01010101 = gen_tgid_fd (tg_tgid \<lparr>tg_tgid = 0, tg_goid = 0x0101010101010101\<rparr>) 0x01010101"
  "0x01010101 \<noteq> (kInvalidFD :: u32)"
  by (simp_all add: kInvalidFD_def)

lemma sample_go_call_ok:
  "go_call_ok kIngress \<lparr>tg_tgid = 0, tg_goid = 0x0101010101010101\<rparr> go_call_syms go_call_common 0x01010101
     sample_go_call go_call_state"
proof -
  have "go_locations_known kIngress go_call_syms"
    by (simp add: go_locations_known_def go_call_syms_def reg_loc_def go_c_loc_def go_b_loc_def go_retval0_loc_def
        go_retval1_loc_def)
  moreover have "get_fd_from_conn_intf_core go_env \<lparr>gi_type = tls_Conn go_call_common, gi_ptr = a\<rparr> go_call_common = 0x01010101" for a
    by (simp add: get_fd_from_conn_intf_core_def go_call_common_def go_symaddrs_def read_go_interface_def go_call_reads)
  moreover have "go_error go_env go_call_regs (go_retval1_loc kIngress go_call_syms) = 0"
    "go_value go_env go_call_regs (go_retval0_loc kIngress go_call_syms) = scast (100 :: u32)"
    by (simp_all add: go_error_def go_value_def go_retval1_loc_def go_retval0_loc_def go_call_syms_def reg_loc_def
        go_call_regs_def assign_u64_def assign_arg_def regs_memory_def go_env_def env_of_def fill_buf_def
        nat_bytes_numeral le_word_def)
  ultimately show ?thesis
    by (simp add: go_call_ok_def sample_go_call_def go_call_goroutine go_call_maps go_nested_ok_def nested_bytes_def)
qed

section \<open>Property\<close>

text \<open>
  Property C12. The TLS event of a Go call names the bytes that carried it: when a goroutine calls
  \<open>Read\<close> or \<open>Write\<close> on a classified connection, makes any number of system calls on the socket, in
  whatever threads the runtime puts it, and returns a positive count and no error, the
  event has the position and the first bytes of the plaintext, the connection of the descriptor found
  through the \<open>Conn\<close> object, and as range of the encrypted stream the bytes of these system calls.
\<close>

theorem go_event_names_nested_calls:
  assumes "tls_conn k ci s" and "go_call_ok direct g syms common fd c s" and "tls_room 1 s"
    and "k = gen_tgid_fd (tg_tgid g) fd" and "fd \<noteq> kInvalidFD"
  shows "\<exists>ev n. ssl_rb (go_call_run direct c s) = ssl_rb s @ [(ev, n)] \<and>
    tls_event direct k ci (gc_count c) (nested_bytes (gc_nested c)) ev \<and>
    take (min (unat (gc_count c)) MAX_MSG_SIZE) (ks_msg ev) = probe_read (gc_return c) (min (unat (gc_count c)) MAX_MSG_SIZE)
      (go_value (gc_entry c) (gc_entry_regs c) (go_b_loc direct syms))"
  using go_call_event [OF assms(1,2) _ assms(4,5)] assms(3) by fastforce

theorem go_event_names_nested_calls_witness:
  "\<exists>ev n. ssl_rb (go_call_run kIngress sample_go_call go_call_state) = [(ev, n)] \<and>
     ks_syscall_seq ev = 1 \<and> ks_syscall_len ev = 129 \<and> ke_len (ks_ke ev) = 100"
proof -
  have "ssl_rb go_call_state = []"
    by (simp add: go_call_state_def init_state_def)
  then show ?thesis
    using go_event_names_nested_calls [OF go_call_state_conn sample_go_call_ok tls_room_mono [OF go_call_state_room] sample_go_key]
    by (auto simp: tls_event_def sample_go_call_def nested_bytes_def syscall_seq_of_def conn_info_zero_def
        go_call_conn_def)
qed

end
