(* ===== verification/Tls_Stream.thy ===== *)
theory Tls_Stream
  imports Go_Nested
begin

text \<open>
  Successive TLS calls on a connection. What the agent relies on to put plaintext and packets side
  by side is stated once as a contract of a TLS library, and both libraries fulfil it: the events of
  the calls of a connection follow each other without gap in the plaintext stream and in the
  encrypted stream, in each direction.
\<close>

section \<open>Specification\<close>

text \<open>Ranges of a stream, as start and length, that follow each other from one position to another.\<close>

fun consecutive :: "u32 \<Rightarrow> (u32 \<times> u32) list \<Rightarrow> u32 \<Rightarrow> bool" where
  "consecutive q [] r \<longleftrightarrow> r = q"
| "consecutive q ((a, n) # spans) r \<longleftrightarrow> a = q \<and> consecutive (q + n) spans r"

definition plain_span :: "kern_evt_ssl_data \<times> nat \<Rightarrow> u32 \<times> u32" where
  "plain_span ev = (ke_seq (ks_ke (fst ev)), ke_len (ks_ke (fst ev)))"

definition cipher_span :: "kern_evt_ssl_data \<times> nat \<Rightarrow> u32 \<times> u32" where
  "cipher_span ev = (ks_syscall_seq (fst ev), ks_syscall_len (fst ev))"

definition tls_evt_conn :: "kern_evt_ssl_data \<times> nat \<Rightarrow> u64" where
  "tls_evt_conn ev = cs_tgid_fd (ke_conn_id_s (ks_ke (fst ev)))"

text \<open>The events of the calls in one direction, given the events of all calls.\<close>

definition in_direction :: "('c \<Rightarrow> traffic_direction_t) \<Rightarrow> traffic_direction_t \<Rightarrow> 'c list \<Rightarrow> 'e list \<Rightarrow> 'e list" where
  "in_direction dir d cs evs = map snd (filter (\<lambda>(c, ev). dir c = d) (zip cs evs))"

text \<open>
  What the events \<open>evs\<close> of a sequence of calls on connection \<open>k\<close> say, from entry \<open>ci\<close> on to entry
  \<open>ci'\<close>: one event per call, with its connection and its counts; and in each direction the plaintext
  ranges and the encrypted ranges follow each other, from the counters before to the counters after.
\<close>

definition streams_covered ::
    "u64 \<Rightarrow> ('c \<Rightarrow> traffic_direction_t) \<Rightarrow> ('c \<Rightarrow> u32) \<Rightarrow> ('c \<Rightarrow> u32) \<Rightarrow> 'c list \<Rightarrow> conn_info_t \<Rightarrow>
     (kern_evt_ssl_data \<times> nat) list \<Rightarrow> conn_info_t \<Rightarrow> bool" where
  "streams_covered k dir plain cipher cs ci evs ci' \<longleftrightarrow>
     map tls_evt_conn evs = map (\<lambda>_. k) cs \<and> map (snd \<circ> plain_span) evs = map plain cs \<and>
     map (snd \<circ> cipher_span) evs = map cipher cs \<and>
     (\<forall>d. consecutive (ssl_seq_of d ci) (map plain_span (in_direction dir d cs evs)) (ssl_seq_of d ci') \<and>
       consecutive (syscall_seq_of d ci) (map cipher_span (in_direction dir d cs evs)) (syscall_seq_of d ci'))"

text \<open>The calls of the two libraries, with their direction.\<close>

type_synonym 'c directed = "traffic_direction_t \<times> 'c"

definition openssl_run :: "ssl_offsets \<Rightarrow> ssl_call directed \<Rightarrow> bpf_state \<Rightarrow> bpf_state" where
  "openssl_run off = (\<lambda>(direct, c). ssl_call_run direct off c)"

definition openssl_ok :: "ssl_offsets \<Rightarrow> u32 \<Rightarrow> u32 \<Rightarrow> ssl_call directed \<Rightarrow> bool" where
  "openssl_ok off tgid fd = (\<lambda>(direct, c). fd \<noteq> kInvalidFD \<and> current_tgid (sc_entry c) = tgid \<and>
     ssl_call_ok off (pid_tgid (sc_entry c)) fd c)"

definition go_run :: "(tgid_goid_t \<times> go_call) directed \<Rightarrow> bpf_state \<Rightarrow> bpf_state" where
  "go_run = (\<lambda>(direct, g, c). go_call_run direct c)"

definition go_ok ::
    "bpf_state \<Rightarrow> go_tls_symaddrs_t \<Rightarrow> go_common_symaddrs_t \<Rightarrow> u32 \<Rightarrow> u32 \<Rightarrow> (tgid_goid_t \<times> go_call) directed \<Rightarrow> bool" where
  "go_ok s syms common tgid fd = (\<lambda>(direct, g, c). fd \<noteq> kInvalidFD \<and> tg_tgid g = tgid \<and>
     go_call_ok direct g syms common fd c s)"

text \<open>Room for \<open>n\<close> calls, and for Go the symbols that were known at the start.\<close>

definition same_symbols :: "bpf_state \<Rightarrow> bpf_state \<Rightarrow> bool" where
  "same_symbols s0 s \<longleftrightarrow> go_common_symaddrs_map s = go_common_symaddrs_map s0 \<and> go_tls_symaddrs_map s = go_tls_symaddrs_map s0"

definition go_room :: "bpf_state \<Rightarrow> nat \<Rightarrow> bpf_state \<Rightarrow> bool" where
  "go_room s0 n s \<longleftrightarrow> tls_room n s \<and> same_symbols s0 s"

section \<open>The contract of a TLS library\<close>

lemma in_direction_Cons: "in_direction dir d (c # cs) (ev # evs) =
    (if dir c = d then [ev] else []) @ in_direction dir d cs evs"
  by (simp add: in_direction_def)

lemma streams_covered_Cons:
  assumes "tls_event (dir c) k ci (plain c) (cipher c) (fst ev)" and "tls_advanced (dir c) ci (plain c) (cipher c) ci'"
    and "streams_covered k dir plain cipher cs ci' evs ci''"
  shows "streams_covered k dir plain cipher (c # cs) ci (ev # evs) ci''"
proof -
  have "consecutive (ssl_seq_of d ci) (map plain_span (in_direction dir d (c # cs) (ev # evs))) (ssl_seq_of d ci'') \<and>
      consecutive (syscall_seq_of d ci) (map cipher_span (in_direction dir d (c # cs) (ev # evs))) (syscall_seq_of d ci'')" for d
  proof -
    have "ssl_seq_of d ci' = ssl_seq_of d ci + (if d = dir c then plain c else 0)"
      "syscall_seq_of d ci' = syscall_seq_of d ci + (if d = dir c then cipher c else 0)"
      using assms(2) by (simp_all add: tls_advanced_def)
    moreover have "consecutive (ssl_seq_of d ci') (map plain_span (in_direction dir d cs evs)) (ssl_seq_of d ci'')"
      "consecutive (syscall_seq_of d ci') (map cipher_span (in_direction dir d cs evs)) (syscall_seq_of d ci'')"
      using assms(3) by (simp_all add: streams_covered_def)
    ultimately show ?thesis
      using assms(1) by (cases "d = dir c") (simp_all add: in_direction_Cons tls_event_def plain_span_def cipher_span_def)
  qed
  then show ?thesis
    using assms(1,3) by (simp add: streams_covered_def tls_event_def tls_evt_conn_def plain_span_def cipher_span_def)
qed

locale tls_library =
  fixes k :: u64
    and call :: "'c \<Rightarrow> bpf_state \<Rightarrow> bpf_state" and ok :: "'c \<Rightarrow> bool" and room :: "nat \<Rightarrow> bpf_state \<Rightarrow> bool"
    and dir :: "'c \<Rightarrow> traffic_direction_t" and plain :: "'c \<Rightarrow> u32" and cipher :: "'c \<Rightarrow> u32"
  assumes one_event: "tls_conn k ci s \<Longrightarrow> ok c \<Longrightarrow> room (Suc j) s \<Longrightarrow>
    \<exists>ev n ci'. ssl_rb (call c s) = ssl_rb s @ [(ev, n)] \<and> tls_event (dir c) k ci (plain c) (cipher c) ev \<and>
      tls_conn k ci' (call c s) \<and> tls_advanced (dir c) ci (plain c) (cipher c) ci' \<and> room j (call c s)"
begin

lemma calls_cover_streams:
  assumes "tls_conn k ci s" and "list_all ok cs" and "room (length cs) s"
  shows "\<exists>evs ci'. ssl_rb (fold call cs s) = ssl_rb s @ evs \<and> streams_covered k dir plain cipher cs ci evs ci' \<and>
    tls_conn k ci' (fold call cs s)"
  using assms
proof (induction cs arbitrary: s ci)
  case Nil
  then show ?case
    by (intro exI [of _ "[]"] exI [of _ ci]) (simp add: streams_covered_def in_direction_def)
next
  case (Cons c cs)
  obtain ev n c1 where e: "ssl_rb (call c s) = ssl_rb s @ [(ev, n)]" "tls_event (dir c) k ci (plain c) (cipher c) ev"
    "tls_conn k c1 (call c s)" "tls_advanced (dir c) ci (plain c) (cipher c) c1" "room (length cs) (call c s)"
    using one_event [OF Cons.prems(1), of c "length cs"] Cons.prems(2,3) by auto
  obtain evs ci' where r: "ssl_rb (fold call cs (call c s)) = ssl_rb (call c s) @ evs"
    "streams_covered k dir plain cipher cs c1 evs ci'" "tls_conn k ci' (fold call cs (call c s))"
    using Cons.IH [OF e(3) _ e(5)] Cons.prems(2) by auto
  have "streams_covered k dir plain cipher (c # cs) ci ((ev, n) # evs) ci'"
    by (rule streams_covered_Cons [OF _ e(4) r(2)]) (use e(2) in simp)
  then show ?case
    using e(1) r(1,3) by (intro exI [of _ "(ev, n) # evs"] exI [of _ ci']) simp
qed

end

interpretation openssl: tls_library "gen_tgid_fd tgid fd" "openssl_run off" "openssl_ok off tgid fd" tls_room fst
    "\<lambda>(d, c). sc_count c" "\<lambda>(d, c). nested_bytes (sc_nested c)" for off tgid fd
proof
  fix ci s j and c :: "ssl_call directed"
  assume conn: "tls_conn (gen_tgid_fd tgid fd) ci s" and ok: "openssl_ok off tgid fd c" and room: "tls_room (Suc j) s"
  obtain d c0 where c: "c = (d, c0)"
    by force
  have "ssl_call_ok off (pid_tgid (sc_entry c0)) fd c0" "fd \<noteq> kInvalidFD"
    "gen_tgid_fd tgid fd = gen_tgid_fd (ucast (drop_bit 32 (pid_tgid (sc_entry c0)))) fd"
    using ok by (simp_all add: openssl_ok_def c current_tgid_def [symmetric])
  from ssl_call_event [OF conn this(1) room this(3,2), of d]
  show "\<exists>ev n ci'. ssl_rb (openssl_run off c s) = ssl_rb s @ [(ev, n)] \<and>
      tls_event (fst c) (gen_tgid_fd tgid fd) ci (case c of (d, c) \<Rightarrow> sc_count c)
        (case c of (d, c) \<Rightarrow> nested_bytes (sc_nested c)) ev \<and>
      tls_conn (gen_tgid_fd tgid fd) ci' (openssl_run off c s) \<and>
      tls_advanced (fst c) ci (case c of (d, c) \<Rightarrow> sc_count c) (case c of (d, c) \<Rightarrow> nested_bytes (sc_nested c)) ci' \<and>
      tls_room j (openssl_run off c s)"
    by (simp add: openssl_run_def c)
qed

lemma same_symbols_ok: "same_symbols s0 s \<Longrightarrow> go_call_ok d g syms common fd c s = go_call_ok d g syms common fd c s0"
proof -
  assume "same_symbols s0 s"
  then have eq: "go_common_symaddrs_map s = go_common_symaddrs_map s0" "go_tls_symaddrs_map s = go_tls_symaddrs_map s0"
    by (simp_all add: same_symbols_def)
  have "in_goroutine g s = in_goroutine g s0"
    using in_goroutine_cong [OF eq(1)] by blast
  then show ?thesis
    using eq by (simp add: go_call_ok_def go_nested_ok_def)
qed

lemma same_symbols_eff: "eff p s s' \<Longrightarrow> same_symbols s0 s \<Longrightarrow> same_symbols s0 s'"
  using config.effs by (fastforce simp: same_symbols_def config_kept_def)

lemma nested_calls_symbols: "same_symbols s0 s \<Longrightarrow> same_symbols s0 (nested_calls direct calls s)"
proof (induction calls arbitrary: s)
  case (Cons c calls)
  then show ?case
    by (cases c) (auto intro: same_symbols_eff [OF finish_data_eff [OF refl]])
qed simp

lemma go_run_symbols: "same_symbols s0 s \<Longrightarrow> same_symbols s0 (go_call_run d c s)"
proof -
  have "eff (pid_tgid e) s (go_entry d e ctx s)" "eff (pid_tgid e) s (go_return d e ctx s)" for e ctx s
    using go_probe_eff [OF refl] by (simp_all add: go_entry_def go_return_def)
  then show "same_symbols s0 s \<Longrightarrow> same_symbols s0 (go_call_run d c s)"
    using same_symbols_eff nested_calls_symbols unfolding go_call_run_def by metis
qed

interpretation go: tls_library "gen_tgid_fd tgid fd" go_run "go_ok s0 syms common tgid fd" "go_room s0" fst
    "\<lambda>(d, g, c). gc_count c" "\<lambda>(d, g, c). nested_bytes (gc_nested c)" for s0 syms common tgid fd
proof
  fix ci s j and c :: "(tgid_goid_t \<times> go_call) directed"
  assume conn: "tls_conn (gen_tgid_fd tgid fd) ci s" and ok: "go_ok s0 syms common tgid fd c" and room: "go_room s0 (Suc j) s"
  obtain d g c0 where c: "c = (d, g, c0)"
    by (metis prod_cases3)
  have "go_call_ok d g syms common fd c0 s" "fd \<noteq> kInvalidFD" "gen_tgid_fd tgid fd = gen_tgid_fd (tg_tgid g) fd" "tls_room (Suc j) s"
    using ok room same_symbols_ok by (auto simp: go_ok_def go_room_def c)
  from go_call_event [OF conn this(1,4,3,2)]
  show "\<exists>ev n ci'. ssl_rb (go_run c s) = ssl_rb s @ [(ev, n)] \<and>
      tls_event (fst c) (gen_tgid_fd tgid fd) ci (case c of (d, g, c) \<Rightarrow> gc_count c)
        (case c of (d, g, c) \<Rightarrow> nested_bytes (gc_nested c)) ev \<and>
      tls_conn (gen_tgid_fd tgid fd) ci' (go_run c s) \<and>
      tls_advanced (fst c) ci (case c of (d, g, c) \<Rightarrow> gc_count c) (case c of (d, g, c) \<Rightarrow> nested_bytes (gc_nested c)) ci' \<and>
      go_room s0 j (go_run c s)"
    using room go_run_symbols by (simp add: go_run_def c go_room_def) blast
qed

section \<open>Properties\<close>

text \<open>
  Property C9. The events of successive OpenSSL calls on a connection, reads and writes in any
  order and in any threads of the process, are one per call and cover both streams: in each direction
  the plaintext ranges follow each other without gap or overlap, and so do the ranges of the
  encrypted stream, from the counters of the connection before the calls to the counters after.
  The maps have room for as many calls.
\<close>

theorem openssl_calls_cover_streams:
  assumes "tls_conn (gen_tgid_fd tgid fd) ci s" and "list_all (openssl_ok off tgid fd) cs" and "tls_room (length cs) s"
  shows "\<exists>evs ci'. ssl_rb (fold (openssl_run off) cs s) = ssl_rb s @ evs \<and>
    streams_covered (gen_tgid_fd tgid fd) fst (\<lambda>(d, c). sc_count c) (\<lambda>(d, c). nested_bytes (sc_nested c)) cs ci evs ci' \<and>
    tls_conn (gen_tgid_fd tgid fd) ci' (fold (openssl_run off) cs s)"
  by (rule openssl.calls_cover_streams [OF assms])

theorem openssl_calls_cover_streams_witness:
  "\<exists>e1 e2 e3. ssl_rb (fold (openssl_run sample_offsets)
       [(kIngress, sample_ssl_call), (kEgress, sample_ssl_call), (kIngress, sample_ssl_call)] tls_state) = [e1, e2, e3] \<and>
     map cipher_span [e1, e2, e3] = [(1, 129), (1, 129), (130, 129)] \<and>
     map plain_span [e1, e2, e3] = [(1, 100), (1, 100), (101, 100)]"
proof -
  let ?ci = "conn_info_zero\<lparr>protocol := kProtocolHTTP\<rparr>"
  let ?cs = "[(kIngress, sample_ssl_call), (kEgress, sample_ssl_call), (kIngress, sample_ssl_call)]"
  have "tls_room (length ?cs) tls_state"
    by (rule tls_room_mono [OF tls_state_room]) simp
  moreover have "list_all (openssl_ok sample_offsets 0 5) ?cs"
    using sample_ssl_call_ok sample_key(2) by (simp add: openssl_ok_def sample_ssl_call_def env_of_def current_tgid_def)
  ultimately obtain evs ci' where evs: "ssl_rb (fold (openssl_run sample_offsets) ?cs tls_state) = ssl_rb tls_state @ evs"
    "streams_covered (gen_tgid_fd 0 5) fst (\<lambda>(d, c). sc_count c) (\<lambda>(d, c). nested_bytes (sc_nested c)) ?cs ?ci evs ci'"
    using openssl_calls_cover_streams [OF tls_state_conn] by blast
  have counts: "sc_count sample_ssl_call = 100" "nested_bytes (sc_nested sample_ssl_call) = 129"
    by (simp_all add: sample_ssl_call_def nested_bytes_def)
  have seqs: "ssl_seq_of d ?ci = 1" "syscall_seq_of d ?ci = 1" for d
    by (simp_all add: ssl_seq_of_def syscall_seq_of_def conn_info_zero_def)
  have len: "map (snd \<circ> plain_span) evs = [100, 100, 100]" "map (snd \<circ> cipher_span) evs = [129, 129, 129]"
    using evs(2) by (simp_all add: streams_covered_def counts)
  then obtain e1 e2 e3 where e: "evs = [e1, e2, e3]"
    by (auto simp: map_eq_Cons_conv)
  have "consecutive 1 (map plain_span (in_direction fst d ?cs evs)) (ssl_seq_of d ci') \<and>
      consecutive 1 (map cipher_span (in_direction fst d ?cs evs)) (syscall_seq_of d ci')" for d
    using evs(2) seqs by (simp add: streams_covered_def)
  from this [of kIngress] this [of kEgress] len show ?thesis
    using evs(1) by (intro exI [of _ e1] exI [of _ e2] exI [of _ e3])
      (simp add: e in_direction_def tls_state_def init_state_def, cases "plain_span e1"; cases "plain_span e2"; cases "plain_span e3";
        cases "cipher_span e1"; cases "cipher_span e2"; cases "cipher_span e3"; simp)
qed

text \<open>
  Property C10. The same for Go: the events of successive calls of \<open>Read\<close> and \<open>Write\<close> on a connection, by
  any goroutines of the process, cover the plaintext stream and the encrypted stream of each direction.
\<close>

theorem go_calls_cover_streams:
  assumes "tls_conn (gen_tgid_fd tgid fd) ci s" and "list_all (go_ok s syms common tgid fd) cs" and "tls_room (length cs) s"
  shows "\<exists>evs ci'. ssl_rb (fold go_run cs s) = ssl_rb s @ evs \<and>
    streams_covered (gen_tgid_fd tgid fd) fst (\<lambda>(d, g, c). gc_count c) (\<lambda>(d, g, c). nested_bytes (gc_nested c)) cs ci evs ci' \<and>
    tls_conn (gen_tgid_fd tgid fd) ci' (fold go_run cs s)"
  using go.calls_cover_streams [OF assms(1,2)] assms(3) by (simp add: go_room_def same_symbols_def)

theorem go_calls_cover_streams_witness:
  "\<exists>e1 e2. ssl_rb (fold go_run [(kIngress, \<lparr>tg_tgid = 0, tg_goid = 0x0101010101010101\<rparr>, sample_go_call),
       (kIngress, \<lparr>tg_tgid = 0, tg_goid = 0x0101010101010101\<rparr>, sample_go_call)] go_call_state) = [e1, e2] \<and>
     map cipher_span [e1, e2] = [(1, 129), (130, 129)] \<and> map plain_span [e1, e2] = [(1, 100), (101, 100)]"
proof -
  let ?g = "\<lparr>tg_tgid = 0 :: u32, tg_goid = 0x0101010101010101 :: u64\<rparr>"
  let ?cs = "[(kIngress, ?g, sample_go_call), (kIngress, ?g, sample_go_call)]"
  have "tls_room (length ?cs) go_call_state"
    by (rule tls_room_mono [OF go_call_state_room]) simp
  moreover have "list_all (go_ok go_call_state go_call_syms go_call_common 0 0x01010101) ?cs"
    using sample_go_call_ok sample_go_key(2) by (simp add: go_ok_def)
  ultimately obtain evs ci' where evs: "ssl_rb (fold go_run ?cs go_call_state) = ssl_rb go_call_state @ evs"
    "streams_covered (gen_tgid_fd 0 0x01010101) fst (\<lambda>(d, g, c). gc_count c) (\<lambda>(d, g, c). nested_bytes (gc_nested c))
       ?cs go_call_conn evs ci'"
    using go_calls_cover_streams [OF go_call_state_conn] by blast
  have counts: "gc_count sample_go_call = 100" "nested_bytes (gc_nested sample_go_call) = 129"
    by (simp_all add: sample_go_call_def nested_bytes_def)
  have seqs: "ssl_seq_of d go_call_conn = 1" "syscall_seq_of d go_call_conn = 1" for d
    by (simp_all add: ssl_seq_of_def syscall_seq_of_def go_call_conn_def conn_info_zero_def)
  have len: "map (snd \<circ> plain_span) evs = [100, 100]" "map (snd \<circ> cipher_span) evs = [129, 129]"
    using evs(2) by (simp_all add: streams_covered_def counts)
  then obtain e1 e2 where e: "evs = [e1, e2]"
    by (auto simp: map_eq_Cons_conv)
  have "consecutive 1 (map plain_span (in_direction fst kIngress ?cs evs)) (ssl_seq_of kIngress ci') \<and>
      consecutive 1 (map cipher_span (in_direction fst kIngress ?cs evs)) (syscall_seq_of kIngress ci')"
    using evs(2) seqs by (simp add: streams_covered_def)
  then show ?thesis
    using evs(1) len by (intro exI [of _ e1] exI [of _ e2])
      (simp add: e in_direction_def go_call_state_def init_state_def, cases "plain_span e1"; cases "plain_span e2";
        cases "cipher_span e1"; cases "cipher_span e2"; simp)
qed

end
