(* ===== verification/Call_Bounds.thy ===== *)
theory Call_Bounds
  imports Agent_Effects
begin

text \<open>
  The work of one program run: how many data events a call can put into the ring, whatever the
  vector in user memory claims. The loops of the reports and of the inference end because of
  their fixed limits.
\<close>

section \<open>Counting events\<close>

text \<open>At most \<open>n\<close> data events were submitted between two states.\<close>

definition submits :: "nat \<Rightarrow> bpf_state \<Rightarrow> bpf_state \<Rightarrow> bool" where
  "submits n s s' \<longleftrightarrow> length (syscall_rb s') \<le> length (syscall_rb s) + n"

text \<open>The number of rounds of the report loop that are left at index \<open>i\<close>.\<close>

definition rounds_left :: "data_args \<Rightarrow> nat \<Rightarrow> nat" where
  "rounds_left args i = min LOOP_LIMIT (unat (da_iovlen args)) - i"

lemma submits_same: "syscall_rb s' = syscall_rb s \<Longrightarrow> submits n s s'"
  by (simp add: submits_def)

lemma submits_trans: "submits m s s' \<Longrightarrow> submits n s' s'' \<Longrightarrow> submits (m + n) s s''"
  by (simp add: submits_def)

lemma submits_mono: "submits m s s' \<Longrightarrow> m \<le> n \<Longrightarrow> submits n s s'"
  by (simp add: submits_def)

lemma submits_Suc:
  "submits 1 s s' \<Longrightarrow> submits m s' s'' \<Longrightarrow> submits (Suc m) s s''"
  "submits m s s' \<Longrightarrow> submits 1 s' s'' \<Longrightarrow> submits (Suc m) s s''"
  by (simp_all add: submits_def)

lemma report_submits:
  "submits 1 s (report_syscall_buf e seq cid len step ts d buf f ph lh s)"
  "submits 1 s (report_syscall_buf_without_data e seq cid len step ts d f s)"
  by (simp_all add: submits_def report_syscall_buf_def report_syscall_buf_without_data_def Let_def
      split: option.split prod.split)

section \<open>The report loop\<close>

lemma evt_vecs_loop_submits:
  "submits (rounds_left args i) s
     (snd (snd (evt_vecs_loop e cid total_size step args lh i ph seq bytes_sent s)))"
proof (induction e cid total_size step args lh i ph seq bytes_sent s rule: evt_vecs_loop.induct)
  case (1 e cid total_size step args lh i ph seq bytes_sent s)
  show ?case
  proof (cases "i < LOOP_LIMIT \<and> of_nat i < da_iovlen args \<and> bytes_sent < total_size")
    case False
    then show ?thesis
      by (subst evt_vecs_loop.simps) (auto intro: submits_same)
  next
    case True
    obtain base len where iov: "read_iovec e (da_iov args) i = (base, len)"
      by force
    have "i < 2 ^ 64"
      using True by (simp add: LOOP_LIMIT_def)
    then have "i < unat (da_iovlen args)"
      using True by (simp add: word_less_nat_alt unat_of_nat)
    then have left: "rounds_left args i = Suc (rounds_left args (i + 1))"
      using True by (auto simp: rounds_left_def)
    show ?thesis
      unfolding left
      using submits_Suc(1) [OF report_submits(1) "1.IH" [OF True iov [symmetric] refl refl refl refl]]
      by (subst evt_vecs_loop.simps) (simp only: True iov Let_def split simp_thms if_True)
  qed
qed

lemma report_syscall_evt_vecs_submits:
  "submits (rounds_left args 0 + 1) s (report_syscall_evt_vecs e seq cid total_size step args ph lh s)"
proof -
  obtain q b s' where l: "evt_vecs_loop e cid total_size step args lh 0 ph seq 0 s = (q, b, s')"
    by (metis prod_cases3)
  then have "submits (rounds_left args 0) s s'"
    using evt_vecs_loop_submits [of args 0 s e cid total_size step lh ph seq 0] by simp
  then show ?thesis
    by (auto simp: report_syscall_evt_vecs_def l intro: submits_Suc(2) report_submits elim: submits_mono)
qed

section \<open>Data calls\<close>

lemma infer_and_report_rb: "syscall_rb (snd (snd (infer_and_report e b n m d ci s))) = syscall_rb s"
  by (simp add: infer_and_report_def Let_def split: prod.split)

lemma infer_vecs_rb: "syscall_rb (snd (infer_vecs e args d n i ci s)) = syscall_rb s"
proof (induction e args d n i ci s rule: infer_vecs.induct)
  case (1 e args d n i ci s)
  then show ?case
    by (subst infer_vecs.simps) (auto simp: Let_def infer_and_report_rb split: prod.split)
qed

lemma create_conn_info_rb: "syscall_rb (snd (create_conn_info e ci k key ts s)) = syscall_rb s"
  by (simp add: create_conn_info_def Let_def)

lemma find_or_create_conn_rb: "syscall_rb (snd (find_or_create_conn e args k d n s)) = syscall_rb s"
proof -
  have "syscall_rb (snd (snd (create_conn_info_in_data_syscall e sk k d n ci ts s))) = syscall_rb s" for sk ci ts
    using create_conn_info_rb [of e _ k _ ts s]
    by (simp add: create_conn_info_in_data_syscall_def Let_def split_beta)
  then show ?thesis
    by (simp add: find_or_create_conn_def Let_def split_beta split: option.split)
qed

lemma report_vecs_submits:
  "submits (rounds_left args 0 + 1) s (snd (report_vecs_with_conn_info e args k d n ci s))"
proof (cases "ssl ci")
  case True
  then show ?thesis
    by (simp add: report_vecs_with_conn_info_def Let_def submits_mono [OF report_submits(2)])
next
  case False
  obtain ci' s' where i: "(if protocol ci = kProtocolUnset \<or> protocol ci = kProtocolUnknown
      then infer_vecs e args d n 0 ci s else (ci, s)) = (ci', s')"
    by force
  then have rb: "syscall_rb s' = syscall_rb s"
    using infer_vecs_rb [of e args d n 0 ci s] by (auto split: if_splits)
  show ?thesis
    unfolding report_vecs_with_conn_info_def i Let_def
    using False rb report_syscall_evt_vecs_submits [of args s']
    by (simp add: submits_def)
qed

lemma process_with_conn_submits:
  "submits 1 s (snd (process_syscall_data_with_conn_info e args k d n sl is_ssl wd ci s))"
proof -
  obtain b ci' s' where i: "(if (protocol ci = kProtocolUnset \<or> protocol ci = kProtocolUnknown) \<and> wd
      then infer_and_report e (da_buf args) n n d ci s else (False, ci, s)) = (b, ci', s')"
    by (metis prod_cases3)
  then have rb: "syscall_rb s' = syscall_rb s"
    using infer_and_report_rb [of e "da_buf args" n n d ci s] by (auto split: if_splits)
  show ?thesis
    unfolding process_syscall_data_with_conn_info_def i Let_def
    using rb report_submits [of s']
    by (simp add: submits_def report_syscall_evt_def report_ssl_evt_def)
qed

text \<open>
  Property C22. A data call does bounded work: a plain call submits at most one data event, and a
  vectored call at most one for each of the first three buffers of its vector and one for the
  rest, whatever vector and byte count user space passed.
\<close>

theorem data_calls_bounded:
  "length (new_syscall_evts s (process_syscall_data e args pt direct n b s)) \<le> 1 \<and>
   length (new_syscall_evts s (process_syscall_data_vecs e args pt direct n b s)) \<le>
     min LOOP_LIMIT (unat (da_iovlen args)) + 1"
proof (intro conjI)
  have found: "syscall_rb s1 = syscall_rb s0" if "find_or_create_conn e args k direct n s0 = (x, s1)" for x k s0 s1
    using find_or_create_conn_rb [of e args k direct n s0] that by simp
  have "submits 1 s (process_syscall_data e args pt direct n b s)"
  proof -
    obtain m s0 where m: "match_trace_tgid e (ucast (drop_bit 32 pt)) s = (m, s0)" by force
    obtain x s1 where x: "find_or_create_conn e args (gen_tgid_fd (ucast (drop_bit 32 pt)) (da_fd args))
        direct n s0 = (x, s1)" by force
    have rb: "syscall_rb s0 = syscall_rb s"
      using match_trace_tgid_frame(4) [of e "ucast (drop_bit 32 pt)" s] unfolding m by simp
    then show ?thesis
      using found [OF x] process_with_conn_submits [of s1 e args]
      by (auto simp: process_syscall_data_def m x Let_def store_conn_info_def submits_def split_beta
          split: option.split)
  qed
  then show "length (new_syscall_evts s (process_syscall_data e args pt direct n b s)) \<le> 1"
    by (simp add: submits_def new_syscall_evts_def)
  have "submits (rounds_left args 0 + 1) s (process_syscall_data_vecs e args pt direct n b s)"
  proof -
    obtain x s1 where x: "find_or_create_conn e args (gen_tgid_fd (ucast (drop_bit 32 pt)) (da_fd args))
        direct n s = (x, s1)" by force
    then show ?thesis
      using found [OF x] report_vecs_submits [of args s1]
      by (auto simp: process_syscall_data_vecs_def x Let_def store_conn_info_def submits_def split_beta
          split: option.split)
  qed
  then show "length (new_syscall_evts s (process_syscall_data_vecs e args pt direct n b s)) \<le>
     min LOOP_LIMIT (unat (da_iovlen args)) + 1"
    by (simp add: submits_def new_syscall_evts_def rounds_left_def)
qed

end
