(* ===== verification/Spec2Isabelle.thy ===== *)
theory Spec2Isabelle
  imports Kafka_Split Openssl_Offsets Syscall_Calls Conn_Spec Conn_Log Packet_Path Tls_Stream
    Call_Bounds
begin

text \<open>
  \<^bold>\<open>kyanos: the BPF programs of the agent.\<close>

  kyanos observes the network traffic of the processes of a machine. Its kernel side is a set of
  BPF programs in C under \<open>src/bpf\<close>: programs at the entry and exit of system calls see the
  bytes a process reads and writes, programs on the packet path see the packets that carry
  them, programs on OpenSSL and on Go's \<open>crypto/tls\<close> see the plaintext of encrypted
  connections. They share hash maps (the table of connections, the arguments a call stashes
  between entry and exit, NAT translations, filters) and report events through perf rings to the
  Go user space, which correlates them. This development models those C programs and the C
  programs under \<open>src/utils\<close> that print OpenSSL structure offsets.

  \<^bold>\<open>Theories and sources.\<close>
  \<^item> \<open>Bpf_Prelude\<close>: fixed-width integers, little-endian encodings, byte swaps, and BPF hash maps
    as association lists with a capacity (\<open>bpf_map_update_elem\<close> fails on a full map,
    \<open>bpf_map_store\<close> is the write through a pointer that a lookup returned).
  \<^item> \<open>Kern_Types\<close>: enums, structs, constants and struct layouts of \<open>pktlatency.h\<close>,
    \<open>data_common.h\<close>, \<open>go_common.h\<close> and \<open>gotls.bpf.c\<close>. \<open>Bpf_Env\<close>: what a run sees of the world
    outside \<open>src/bpf\<close> (clock, thread, user and kernel memory, kernel structures), a parameter of
    the definitions. \<open>Bpf_State\<close>: every map, per-CPU buffer and ring as one record, and the
    state after loading.
  \<^item> \<open>Protocol_Inference\<close>, \<open>Protocol_Wire\<close>: \<open>protocol_inference.h\<close>, and what its classifiers
    say about messages in the wire formats. \<open>Wire_Messages\<close>: messages of all seven protocols through
    the whole chain of classifiers. \<open>Kafka_Split\<close>: a Kafka request sent with two system calls.
  \<^item> \<open>Data_Common\<close>: \<open>data_common.h\<close>, the functions that build and submit events.
  \<^item> \<open>Sock_Key\<close>: socket keys and NAT of \<open>pktlatency.bpf.c\<close>. \<open>Conn_Tracking\<close>, \<open>Conn_Lifecycle\<close>:
    filters, creation of connections, data calls, sendfile and close, and the hand-over of
    descriptors to the TLS programs. \<open>Syscall_Probes\<close>: every handler, tracepoint, fentry and
    fexit program on system calls, the socket hooks and the scheduler tracepoints.
    \<open>Skb_Path\<close>: the packet path and the destruction of sockets.
  \<^item> \<open>Openssl\<close>: \<open>openssl.h\<close>. \<open>Go_Tls\<close>: \<open>gotls.bpf.c\<close> and \<open>go_common.h\<close>. \<open>Openssl_Offsets\<close>:
    the offset tables \<open>openssl_<version>.bpf.c\<close>, the printers and the scripts under \<open>src/utils\<close>.
  \<^item> \<open>Agent_Effects\<close>, \<open>Agent_Machine\<close>, \<open>Agent_Invariants\<close>: the agent as a whole. Each program is
    a sequence of elementary effects on the shared state; a step is a run of one of the 97
    programs in some thread or an action of user space; invariants and two-state guarantees are
    locales whose obligations are one effect and one action of user space. \<open>Conn_Log\<close>: the
    connection events as a log that a small automaton reads, how table entries evolve, and
    destroyed sockets.
  \<^item> \<open>Call_Counters\<close>: what a data call does to the counters of its connection.
    \<open>Packet_Stream\<close>, \<open>Packet_Path\<close>: packets and calls number the same stream. A connection is
    \<open>aligned\<close> when the recorded initial sequence number and the byte counter describe the same
    stream; every way of creating a connection establishes this, every data call keeps it, and
    it makes all programs of the receive and send path report a packet with the position that the
    calls give to its bytes.
  \<^item> \<open>Syscall_Calls\<close>, \<open>Conn_Spec\<close>, \<open>Call_Bounds\<close>: how the components work together. Whole
    system calls with other threads in between, the refinement of an abstract table of
    connections, and the number of events a call can cause.
  \<^item> \<open>Tls_Calls\<close>, \<open>Tls_Nested\<close>, \<open>Go_Nested\<close>, \<open>Tls_Stream\<close>: TLS calls. One call of OpenSSL and
    one of Go with the system calls it makes, for OpenSSL with programs of other threads in between
    (\<open>nested_run\<close>), for Go in whatever threads of the process; successive calls on a connection,
    as a contract (the locale \<open>tls_library\<close>) that both libraries fulfil.

  \<^bold>\<open>Style of the model.\<close> A program is a function from the environment of the run, its context
  and the state to the state. An early return is a branch that returns the state so far; a lookup
  that fails is \<open>None\<close>. Integers keep their width and their conversions are written out, so
  that counters and sequence numbers wrap as in C. Probe reads go through \<open>probe_mem\<close> of the
  environment and zero-fill what cannot be read. Stack memory that the source leaves
  uninitialised is a field of the environment. The per-CPU buffers keep their content from run
  to run, as in the source. Several \<open>static\<close> helpers of the source that only differ in constants
  are one definition with these constants as arguments.

  \<^bold>\<open>Bounds and termination.\<close> All definitions are total. The loops of the source are bounded:
  \<open>LOOP_LIMIT\<close> buffers of a vector are reported, \<open>PROTOCOL_VEC_LIMIT\<close> are inspected, a
  transmitted chain of packets is followed twice, at most \<open>MAX_MSG_SIZE\<close> bytes of a payload
  are copied. The functions for the loops recurse on the distance to these limits, which is the
  whole behaviour and no artificial fuel. Hash maps have the capacities the source declares
  (\<open>MAX_ENTRIES\<close>, 10 for the filters).

  \<^bold>\<open>Concurrency.\<close> Programs run to completion before the next one starts; runs of different
  threads and actions of user space interleave in any order. Races inside one run are not
  modelled. User space may write the configuration maps freely, rewrite the mutable part of an
  existing connection entry (the \<open>no_trace\<close> update of \<open>conntrack.go\<close>) and remove socket keys and
  initial sequence numbers. The update of \<open>conntrack.go\<close> is a lookup followed by a write; a write that
  comes after the descriptor was closed and opened again is excluded.

  \<^bold>\<open>What is shown.\<close> Every event user space sees names a connection it was told about; table entries
  are filed under their own key; the connection events are a well-formed log (no connection is closed
  twice or classified after it was closed) and the table is what the log has open; protocol, role
  and TLS mark of a connection do not change once set; events fit their buffers; maps stay within
  capacity; rings only grow; configuration, other threads' stashes and other processes' Go
  calls are kept. The events of the data calls of a connection cover its byte stream without gap or overlap, and the events of every
  program on the packet path use the same positions, behind NAT as well. The event of a
  TLS call of either library names the plaintext and the bytes of the encrypted stream that carried
  it, and the events of successive calls cover both streams without gap. The send path is
  characterised for initial numbers other than zero: the code takes zero for unknown and then
  goes by the packet headers. Calls, connects, accepts and closes refine the abstract table.
  Tracepoint and fentry programs agree. A system call leaves none of its stashed arguments behind. The
  messages of the seven protocols that the classifiers know are recognised although other classifiers
  see them first, a Kafka request also when it is sent in two pieces. The classifiers, NAT, filters and offset tables are characterised. Where the code does not do
  what it means to (binary RocketMQ headers, time stamps of implicit connections, IPv6 ports, dual-stack sockets, the marker port, stale OpenSSL
  arguments, sizes of TLS events), a theorem states what it does.

  \<^bold>\<open>Not modelled.\<close> The Go user space (\<open>src/agent\<close>, \<open>src/cmd\<close>, \<open>src/common\<close>,
  \<open>src/bpf/loader\<close>): it reads the rings and appears only through the map updates above. The
  kernel type headers under \<open>src/vmlinux\<close> and the generated bindings: the fields the programs
  read are part of the environment. The debug output of \<open>bpf_printk\<close>, the BPF verifier and the
  lost samples of a full perf ring, which the C code does not handle.
\<close>

section \<open>A sample run\<close>

text \<open>
  A client connects a socket and sends 100 bytes of a file over it: the states after the
  connect call, after the sendfile call and after a close call instead, from the state after
  loading.
\<close>

definition sample_env :: bpf_env where
  "sample_env = sock_env v4_sock"

definition sample_regs :: pt_regs where
  "sample_regs = \<lparr>parm1 = 5, parm2 = 6, parm3 = 0, parm4 = 100, parm5 = 0, pt_rc = 0, pt_sp = 0,
     pt_go_regs = []\<rparr>"

definition connected_state :: bpf_state where
  "connected_state = fexit__sys_connect sample_env 0 (fentry__sys_connect sample_env 5 0 init_state)"

definition sent_state :: bpf_state where
  "sent_state = fexit__sys_sendfile64 sample_env 100
     (fentry__sys_sendfile64 sample_env sample_regs connected_state)"

definition closed_state :: bpf_state where
  "closed_state = fexit__sys_close sample_env 0 (fentry__sys_close sample_env sample_regs connected_state)"

definition sample_conn :: conn_info_t where
  "sample_conn = submit_conn_info sample_env 0 5 0 0 kRoleClient"

lemma sample_env_simps [simp]:
  "pid_tgid sample_env = 0" "cur_cpu sample_env = 0"
  by (simp_all add: sample_env_def sock_env_def env_of_def)

lemma sample_programs:
  "prog_step 0 s (fentry__sys_connect sample_env fd a s)"
  "prog_step 0 s (fexit__sys_connect sample_env r s)"
  "prog_step 0 s (fentry__sys_sendfile64 sample_env regs s)"
  "prog_step 0 s (fexit__sys_sendfile64 sample_env n s)"
  "prog_step 0 s (fentry__sys_close sample_env regs s)"
  "prog_step 0 s (fexit__sys_close sample_env n s)"
  by (auto intro!: prog_step.intros)

lemmas sample_steps = sample_programs [THEN step_prog]

lemma connected_reachable: "reachable connected_state"
  unfolding connected_state_def by (intro reach_step [OF _ sample_steps(2)] reach_step [OF _ sample_steps(1)] reach_init)

lemma sent_reachable: "reachable sent_state"
  unfolding sent_state_def
  by (intro reach_step [OF _ sample_steps(4)] reach_step [OF _ sample_steps(3)] connected_reachable)

lemma closed_reachable: "reachable closed_state"
  unfolding closed_state_def
  by (intro reach_step [OF _ sample_steps(6)] reach_step [OF _ sample_steps(5)] connected_reachable)

lemma sample_stash:
  "fentry__sys_connect sample_env 5 0 init_state = init_state\<lparr>connect_args_map :=
     bpf_map_update_elem (connect_args_map init_state) 0
       \<lparr>co_addr = 0, co_fd = 5, co_start_ts = 1000\<rparr> BPF_ANY\<rparr>"
  by (simp add: fentry__sys_connect_def handle_syscall_enter_connect_def stash_connect_def)
    (simp add: sample_env_def sock_env_def env_of_def)

lemma sample_admitted: "admits sample_conn (init_state\<lparr>connect_args_map := m\<rparr>)"
  by (simp add: sample_conn_def sample_env_def admits_def submit_conn_info_def Let_def submit_sk_def conn_addr_from_args_def
      conn_addr_from_key_def init_conn_info_def conn_info_zero_def should_trace_conn_def
      filter_conn_info_def socket_key_simps v4_sock_def set_addr32_0_def enum_order_defs control_value_def)
    (simp add: init_state_def)

lemma init_lookups [simp]:
  "bpf_map_lookup_elem (connect_args_map init_state) q = None"
  "bpf_map_lookup_elem (active_sendfile_args_map init_state) q = None"
  "bpf_map_lookup_elem (close_args_map init_state) q = None" "\<not> bpf_map_full (close_args_map init_state)"
  "\<not> bpf_map_full (connect_args_map init_state)" "\<not> bpf_map_full (active_sendfile_args_map init_state)"
  by (simp_all add: init_state_def bpf_map_full_def bpf_map_create_def bpf_map_lookup_elem_def
      MAX_ENTRIES_def)

lemma create_conn_info_frame:
  "syscall_rb (snd (create_conn_info e ci k key ts s)) = syscall_rb s"
  "syscall_data_map (snd (create_conn_info e ci k key ts s)) = syscall_data_map s"
  "control_values (snd (create_conn_info e ci k key ts s)) = control_values s"
  "active_sendfile_args_map (snd (create_conn_info e ci k key ts s)) = active_sendfile_args_map s"
  "close_args_map (snd (create_conn_info e ci k key ts s)) = close_args_map s"
  by (simp_all add: create_conn_info_def report_conn_evt_def Let_def split: option.split)

lemma submit_new_conn_frame [simp]:
  "syscall_rb (submit_new_conn e tgid fd addr socket r ts s) = syscall_rb s"
  "syscall_data_map (submit_new_conn e tgid fd addr socket r ts s) = syscall_data_map s"
  "control_values (submit_new_conn e tgid fd addr socket r ts s) = control_values s"
  "active_sendfile_args_map (submit_new_conn e tgid fd addr socket r ts s) = active_sendfile_args_map s"
  "close_args_map (submit_new_conn e tgid fd addr socket r ts s) = close_args_map s"
  by (simp_all only: submit_new_conn_def Let_def split_beta create_conn_info_frame)
    (simp_all add: create_conn_info_frame)

lemma connected_eq:
  "connected_state = unstash_connect 0 (submit_new_conn sample_env 0 5 0 0 kRoleClient 1000
     (init_state\<lparr>connect_args_map := bpf_map_update_elem (connect_args_map init_state) 0
       \<lparr>co_addr = 0, co_fd = 5, co_start_ts = 1000\<rparr> BPF_ANY\<rparr>))"
proof -
  let ?s = "init_state\<lparr>connect_args_map := bpf_map_update_elem (connect_args_map init_state) 0
       \<lparr>co_addr = 0, co_fd = 5, co_start_ts = 1000\<rparr> BPF_ANY\<rparr>"
  have cv: "control_value ?s kEnableFilterByPid = None"
    by (simp add: control_value_def init_state_def)
  have look: "bpf_map_lookup_elem (connect_args_map ?s) 0 = Some \<lparr>co_addr = 0, co_fd = 5, co_start_ts = 1000\<rparr>"
    by (simp add: bpf_lookup)
  show ?thesis
    unfolding connected_state_def sample_stash fexit__sys_connect_def handle_syscall_exit_connect_def
      sample_env_simps look option.case
    by (simp add: process_syscall_connect_def match_trace_tgid_all [OF cv])
qed

lemma connected_fields:
  "bpf_map_lookup_elem (conn_info_map connected_state) (gen_tgid_fd 0 5) = Some sample_conn"
  "syscall_rb connected_state = []"
  "syscall_data_map connected_state = (\<lambda>_. Some kern_evt_data_zero)"
  "control_value connected_state v = None"
  "active_sendfile_args_map connected_state = active_sendfile_args_map init_state"
  "close_args_map connected_state = close_args_map init_state"
proof -
  show "bpf_map_lookup_elem (conn_info_map connected_state) (gen_tgid_fd 0 5) = Some sample_conn"
    by (simp add: connected_eq unstash_connect_def submit_new_conn_maps create_conn_info_maps sample_admitted
        sample_conn_def [symmetric] bpf_lookup)
qed (simp_all add: connected_eq unstash_connect_def control_value_def, simp_all add: init_state_def)

text \<open>The two events of a connection that is opened and closed.\<close>

lemma connected_log:
  "conn_evt_rb connected_state = [\<lparr>ce_conn_info = sample_conn, ce_conn_type = kConnect, ce_ts = 1000\<rparr>]"
proof -
  have "conn_evt_map (init_state\<lparr>connect_args_map := m\<rparr>) (cur_cpu sample_env) \<noteq> None" for m
    by (simp add: init_state_def)
  from create_conn_info_evt [OF this] show ?thesis
    by (simp add: connected_eq unstash_connect_def submit_new_conn_maps sample_admitted
        sample_conn_def [symmetric]) (simp add: init_state_def)
qed

lemma closed_log:
  "conn_evt_rb closed_state = conn_evt_rb connected_state @
     [\<lparr>ce_conn_info = sample_conn, ce_conn_type = kClose,
       ce_ts = ktime sample_env KT_report_conn_evt\<rparr>]"
  "bpf_map_lookup_elem (conn_info_map closed_state) (gen_tgid_fd 0 5) = None"
proof -
  let ?args = "\<lparr>cl_fd = 5\<rparr>"
  let ?s = "connected_state\<lparr>close_args_map := bpf_map_update_elem (close_args_map connected_state) 0 ?args BPF_ANY\<rparr>"
  have entry: "fentry__sys_close sample_env sample_regs connected_state = ?s"
    by (simp add: fentry__sys_close_def handle_syscall_enter_close_def sample_regs_def)
  have buf: "conn_evt_map ?s (cur_cpu sample_env) \<noteq> None"
    using buffers.reachable [OF connected_reachable] by (simp add: buffers_ok_def)
  have look: "bpf_map_lookup_elem (close_args_map ?s) 0 = Some ?args"
    by (simp add: connected_fields bpf_lookup)
  show "conn_evt_rb closed_state = conn_evt_rb connected_state @
     [\<lparr>ce_conn_info = sample_conn, ce_conn_type = kClose, ce_ts = ktime sample_env KT_report_conn_evt\<rparr>]"
    and "bpf_map_lookup_elem (conn_info_map closed_state) (gen_tgid_fd 0 5) = None"
    unfolding closed_state_def entry fexit__sys_close_def handle_syscall_exit_close_def
      sample_env_simps look option.case
    using report_conn_evt_rb [OF buf]
    by (simp_all add: process_syscall_close_eq connected_fields bpf_lookup Let_def)
qed

lemma sample_conn_traced: "protocol sample_conn \<noteq> kProtocolUnknown \<and> no_trace sample_conn \<le> traceable"
  using sample_admitted [of "connect_args_map init_state"] by (simp add: admits_def should_trace_conn_def)

lemma sent_events:
  "map (\<lambda>(d, n). (cs_tgid_fd (ke_conn_id_s (kd_ke d)), ke_len (kd_ke d), n)) (syscall_rb sent_state) =
     [(gen_tgid_fd 0 5, 100, 76)]"
proof -
  let ?args = "\<lparr>sf_out_fd = 5, sf_in_fd = 6, sf_count = 100, sf_start_ts = 1000, sf_end_ts = 0\<rparr>"
  let ?s = "connected_state\<lparr>active_sendfile_args_map :=
      bpf_map_update_elem (active_sendfile_args_map init_state) 0 ?args BPF_ANY\<rparr>"
  have stash: "fentry__sys_sendfile64 sample_env sample_regs connected_state = ?s"
    by (simp add: fentry__sys_sendfile64_def handle_syscall_enter_sendfile_def sample_regs_def
        connected_fields)
      (simp add: sample_env_def sock_env_def env_of_def)
  have cv: "control_value (s\<lparr>active_sendfile_args_map := m\<rparr>) v = control_value s v" for s m v
    by (simp add: control_value_def)
  have look: "bpf_map_lookup_elem (active_sendfile_args_map ?s) 0 = Some ?args"
    by (simp add: bpf_lookup)
  show ?thesis
    unfolding sent_state_def stash fexit__sys_sendfile64_def handle_syscall_exit_sendfile64_def
      sample_env_simps look option.case
    by (simp add: process_syscall_sendfile_def match_trace_tgid_all cv connected_fields
        process_sendfile_with_conn_info_def sample_conn_traced store_conn_info_def
        report_syscall_buf_without_data_def MAX_MSG_SIZE_def fill_ts_def fill_func_name_def
        fill_kern_evt_def local_conn_id_s_def sizeof_kern_evt_eq Let_def)
qed

section \<open>Every reachable state\<close>

text \<open>
  Property C2. In every reachable state each entry of the connection table is filed under the
  process and descriptor it belongs to, has a local port, and was announced to user space by
  a connect event with the same identity.
\<close>

theorem reachable_table_coherent:
  assumes "reachable s" and "bpf_map_lookup_elem (conn_info_map s) k = Some ci"
  shows "k = gen_tgid_fd (ci_tgid (conn_id ci)) (ci_fd (conn_id ci)) \<and> sin6_port (laddr ci) \<noteq> 0 \<and>
    announced s (conn_id ci)"
  using tab.both.reachable [OF assms(1)] assms(2) by (auto simp: table_ok_def conn_key_def)

theorem reachable_table_coherent_witness:
  "reachable connected_state \<and>
   gen_tgid_fd 0 5 = gen_tgid_fd (ci_tgid (conn_id sample_conn)) (ci_fd (conn_id sample_conn)) \<and>
   announced connected_state (conn_id sample_conn)"
  using reachable_table_coherent [OF connected_reachable connected_fields(1)] connected_reachable by simp

text \<open>
  Property C1. No event names a connection user space was not told about: in every reachable
  state, the connection of every connection event was announced by a connect event, and every
  event of the data, TLS and packet rings names a process and descriptor of an announced
  connection.
\<close>

theorem reachable_events_announced:
  assumes "reachable s"
  shows "(\<forall>ev \<in> set (conn_evt_rb s). announced s (conn_id (ce_conn_info ev))) \<and>
    (\<forall>(d, n) \<in> set (syscall_rb s). announced_key s (cs_tgid_fd (ke_conn_id_s (kd_ke d)))) \<and>
    (\<forall>(d, n) \<in> set (ssl_rb s). announced_key s (cs_tgid_fd (ke_conn_id_s (ks_ke d)))) \<and>
    (\<forall>(d, n) \<in> set (rb s). announced_key s (cs_tgid_fd (ke_conn_id_s d)))"
  using told.both.reachable [OF assms] by (simp add: events_announced_def)

theorem reachable_events_announced_witness:
  "length (syscall_rb sent_state) = 1 \<and> announced_key sent_state (gen_tgid_fd 0 5)"
proof -
  obtain d n where rb: "syscall_rb sent_state = [(d, n)]" and "cs_tgid_fd (ke_conn_id_s (kd_ke d)) = gen_tgid_fd 0 5"
    using sent_events by (cases "syscall_rb sent_state") auto
  then show ?thesis
    using reachable_events_announced [OF sent_reachable] by simp
qed

text \<open>
  Property C3. The connection events form a well-formed log: in every reachable state each
  event that classifies or closes a connection comes after the connect event of that
  connection with no close event of it in between (so no connection is closed twice or
  classified after it was closed), and each entry of the connection table is a connection that the
  log has open. (User space writes an entry back only while its connection is still in the table.)
\<close>

theorem connection_log_wellformed:
  assumes "reachable s"
  shows "(conn_evt_rb s = xs @ ev # ys \<longrightarrow> ce_conn_type ev \<noteq> kConnect \<longrightarrow> opened_in xs (evt_conn ev)) \<and>
    (bpf_map_lookup_elem (conn_info_map s) k = Some ci \<longrightarrow> opened_in (conn_evt_rb s) (conn_id ci))"
  using conn_log.both.reachable [OF assms] by (auto intro: log_ok_events log_ok_table)

theorem connection_log_wellformed_witness:
  "reachable closed_state \<and> map ce_conn_type (conn_evt_rb closed_state) = [kConnect, kClose] \<and>
   opened_in [hd (conn_evt_rb closed_state)] (evt_conn (last (conn_evt_rb closed_state)))"
  using connection_log_wellformed [OF closed_reachable, of "[hd (conn_evt_rb closed_state)]"
      "last (conn_evt_rb closed_state)" "[]"] closed_reachable
  by (simp add: closed_log connected_log)

text \<open>
  Property C16. What a program may change in the connection table: an entry it leaves is either
  announced by a connect event of this very run, or it is the entry of that key before with the
  same identity and addresses, with the same protocol once it was classified, the same role
  once it was known, still marked as encrypted if it was, and with the trace state that user
  space chose; an entry that disappears was closed by a close event of this run.
\<close>

theorem entries_evolve:
  assumes "reachable s" and "prog_step p s s'"
  shows "\<exists>evs. conn_evt_rb s' = conn_evt_rb s @ evs \<and>
    (bpf_map_lookup_elem (conn_info_map s') k = Some ci' \<longrightarrow>
       evts_have kConnect (conn_id ci') evs \<or>
       (\<exists>ci. bpf_map_lookup_elem (conn_info_map s) k = Some ci \<and> conn_evolves ci ci')) \<and>
    (bpf_map_lookup_elem (conn_info_map s) k \<noteq> None \<longrightarrow> bpf_map_lookup_elem (conn_info_map s') k = None \<longrightarrow>
       (\<exists>cid. evts_have kClose cid evs \<and> gen_tgid_fd (ci_tgid cid) (ci_fd cid) = k))"
  using evolve.program_under [OF assms] unfolding table_evolves_def by blast

theorem entries_evolve_witness:
  "\<exists>evs. conn_evt_rb closed_state =
     conn_evt_rb (fentry__sys_close sample_env sample_regs connected_state) @ evs \<and>
   (\<exists>cid. evts_have kClose cid evs \<and> gen_tgid_fd (ci_tgid cid) (ci_fd cid) = gen_tgid_fd 0 5)"
proof -
  let ?s = "fentry__sys_close sample_env sample_regs connected_state"
  have "reachable ?s" and "prog_step 0 ?s closed_state"
    using reach_step [OF connected_reachable sample_steps(5)] sample_programs(6)
    by (simp_all add: closed_state_def)
  moreover have "bpf_map_lookup_elem (conn_info_map ?s) (gen_tgid_fd 0 5) \<noteq> None"
    by (simp add: fentry__sys_close_def handle_syscall_enter_close_def connected_fields)
  ultimately show ?thesis
    using entries_evolve [of ?s 0 closed_state "gen_tgid_fd 0 5"] closed_log(2) by blast
qed

text \<open>
  Property C17. Every data event in the rings of a reachable state has a full message buffer, a
  payload that fits it, and a submitted size that stays inside the struct it was built in.
\<close>

theorem reachable_events_fit:
  assumes "reachable s"
  shows "(\<forall>(d, n) \<in> set (syscall_rb s). length (kd_msg d) = MAX_MSG_SIZE \<and>
      unat (kd_buf_size d) \<le> MAX_MSG_SIZE \<and> n = sizeof_kern_evt + 4 + unat (kd_buf_size d) \<and>
      n \<le> sizeof_struct kern_evt_data_layout) \<and>
    (\<forall>(d, n) \<in> set (ssl_rb s). length (ks_msg d) = MAX_MSG_SIZE \<and>
      unat (ks_buf_size d) \<le> MAX_MSG_SIZE \<and> n = sizeof_kern_evt + 16 + unat (ks_buf_size d) \<and>
      n \<le> sizeof_struct kern_evt_ssl_data_layout)"
proof -
  have "n + 4 \<le> sizeof_struct kern_evt_data_layout + 4" if "n \<le> sizeof_kern_evt + 4 + MAX_MSG_SIZE" for n
    using that by (simp add: sizeof_kern_evt_data_eq sizeof_kern_evt_eq MAX_MSG_SIZE_def)
  moreover have "n \<le> sizeof_struct kern_evt_ssl_data_layout" if "n \<le> sizeof_kern_evt + 16 + MAX_MSG_SIZE" for n
    using that by (simp add: sizeof_kern_evt_ssl_data_eq sizeof_kern_evt_eq MAX_MSG_SIZE_def)
  ultimately show ?thesis
    using fit.both.reachable [OF assms] unfolding events_fit_def by fastforce
qed

theorem reachable_events_fit_witness:
  "length (kd_msg (fst (hd (syscall_rb sent_state)))) = MAX_MSG_SIZE \<and>
   76 \<le> sizeof_struct kern_evt_data_layout"
proof -
  obtain d where rb: "syscall_rb sent_state = [(d, 76)]"
    using sent_events by (cases "syscall_rb sent_state") auto
  then show ?thesis
    using reachable_events_fit [OF sent_reachable] by simp
qed

text \<open>
  In every reachable state every hash map has distinct keys and at most as many entries as it was
  declared for.
\<close>

theorem reachable_maps_bounded:
  assumes "reachable s"
  shows "maps_bounded s \<and> length (entries (conn_info_map s)) \<le> 65535 \<and>
    length (entries (nat_flow_map s)) \<le> 65535 \<and> length (entries (filter_pid_map s)) \<le> 10"
  using bounded.reachable [OF assms]
  by (simp_all add: maps_bounded_def map_ok_def wf_bpf_map_def MAX_ENTRIES_def)

theorem reachable_maps_bounded_witness:
  "maps_bounded sent_state \<and> length (entries (conn_info_map sent_state)) \<le> 65535"
  using reachable_maps_bounded [OF sent_reachable] by simp

text \<open>
  A program only appends to the rings: no event that was submitted is dropped,
  changed or reordered by a later program.
\<close>

theorem programs_only_append:
  assumes "prog_step p s s'"
  shows "prefix (rb s) (rb s') \<and> prefix (syscall_rb s) (syscall_rb s') \<and> prefix (ssl_rb s) (ssl_rb s') \<and>
    prefix (first_packet_rb s) (first_packet_rb s') \<and> prefix (conn_evt_rb s) (conn_evt_rb s') \<and>
    prefix (proc_exec_events s) (proc_exec_events s') \<and> prefix (proc_exit_events s) (proc_exit_events s')"
  using grow.program [OF assms] by (simp add: rings_grow_def)

theorem programs_only_append_witness:
  "length (syscall_rb sent_state) = 1 \<and>
   prefix (syscall_rb (fentry__sys_sendfile64 sample_env sample_regs connected_state)) (syscall_rb sent_state)"
  using programs_only_append [OF sample_programs(4)] arg_cong [OF sent_events, of length]
  by (simp add: sent_state_def)

text \<open>
  Property C30. No program writes a switch, a filter or a symbol table; the table of selected
  processes only gains processes.
\<close>

theorem programs_keep_configuration:
  assumes "prog_step p s s'"
  shows "control_values s' = control_values s \<and> filter_mntns_map s' = filter_mntns_map s \<and>
    filter_pidns_map s' = filter_pidns_map s \<and> filter_netns_map s' = filter_netns_map s \<and>
    enabled_remote_port_map s' = enabled_remote_port_map s \<and>
    enabled_local_port_map s' = enabled_local_port_map s \<and>
    enabled_remote_ip_map s' = enabled_remote_ip_map s \<and>
    enabled_local_ipv4_map s' = enabled_local_ipv4_map s \<and>
    go_common_symaddrs_map s' = go_common_symaddrs_map s \<and>
    go_tls_symaddrs_map s' = go_tls_symaddrs_map s \<and>
    bpf_map_lookup_elem (filter_pid_map s) \<subseteq>\<^sub>m bpf_map_lookup_elem (filter_pid_map s')"
  using config.program [OF assms] by (simp add: config_kept_def)

theorem programs_keep_configuration_witness:
  "control_values sent_state = control_values (fentry__sys_sendfile64 sample_env sample_regs connected_state)"
  using programs_keep_configuration [OF sample_programs(4)] by (simp add: sent_state_def)

text \<open>
  Property C31. A program that runs in one thread leaves the arguments that the system calls and
  library calls of every other thread have stashed as they are, and what the Go TLS calls of every
  other process have recorded.
\<close>

theorem programs_keep_other_threads:
  assumes "prog_step p s s'" and "q \<noteq> p" and "tg_tgid g \<noteq> ucast (drop_bit 32 p)"
  shows "stashes q s' = stashes q s \<and> go_stashes g s' = go_stashes g s"
  using others.program [OF assms(1)] assms(2,3) by (simp add: others_kept_def goroutines_def)

theorem programs_keep_other_threads_witness:
  "stashes 1 sent_state = stashes 1 (fentry__sys_sendfile64 sample_env sample_regs connected_state) \<and>
   go_stashes \<lparr>tg_tgid = 7, tg_goid = 1\<rparr> sent_state =
     go_stashes \<lparr>tg_tgid = 7, tg_goid = 1\<rparr> (fentry__sys_sendfile64 sample_env sample_regs connected_state)"
  using programs_keep_other_threads [OF sample_programs(4), of 1 "\<lparr>tg_tgid = 7, tg_goid = 1\<rparr>"]
  by (simp add: sent_state_def)

end
